(* ===== verification/Prelude.thy ===== *)
theory Prelude
  imports Main "HOL-Library.Finite_Map" "HOL-Library.Word" "HOL-Library.State_Monad"
begin

text \<open>
  What every component of the development shares: Go's errors and panics as values, Go's
  maps (where \<open>nil\<close> and empty differ), the slice idioms of the repository (find by name,
  replace or append by name, delete the first by name), the pieces of \<open>strings\<close> and
  \<open>strconv\<close> the source uses, and the lemmas about them.

  Strings are byte strings, as in Go: a \<open>char\<close> is one byte of the UTF-8 text.
\<close>

named_theorems go_consts \<open>constants of the source, unfolded only where their text matters\<close>
named_theorems slice_simps \<open>what the slice idioms keep and change\<close>

section \<open>Errors\<close>

text \<open>
  The error values the handlers return. \<open>ApiErr\<close> is an error of the API server, of which the
  code inspects only the reason (\<open>apierrs.IsNotFound\<close>, \<open>IsConflict\<close>, ...);
  \<open>Errorf\<close> a message built by \<open>fmt.Errorf\<close> or \<open>errors.New\<close>; \<open>Wrap\<close> one built
  with \<open>%w\<close>; \<open>Join\<close> is \<open>errors.Join\<close>; \<open>Sentinel\<close> a package-level error value
  compared with \<open>errors.Is\<close>; \<open>Panic\<close> a run-time panic, which ends the handler.
\<close>

datatype reason =
    NotFound | Conflict | AlreadyExists | NoMatch | NotRegistered
  | ServiceUnavailable | Timeout | ServerTimeout | TooManyRequests | DeadlineExceeded
  | OtherReason string

datatype goerr =
    ApiErr reason
  | Errorf string
  | Wrap string goerr
  | Join "goerr list"
  | Sentinel string
  | Panic string

text \<open>\<open>apierrs.IsNotFound\<close> and its kin look through \<open>%w\<close> wrapping and joined errors,
  the first status found (\<open>errors.As\<close>).\<close>

fun err_reason :: "goerr \<Rightarrow> reason option" where
  "err_reason (ApiErr r) = Some r"
| "err_reason (Wrap _ e) = err_reason e"
| "err_reason (Join es) = foldr (\<lambda>e r. case err_reason e of Some x \<Rightarrow> Some x | None \<Rightarrow> r) es None"
| "err_reason _ = None"

definition IsNotFound :: "goerr \<Rightarrow> bool" where
  "IsNotFound e \<longleftrightarrow> err_reason e = Some NotFound"

definition IsConflict :: "goerr \<Rightarrow> bool" where
  "IsConflict e \<longleftrightarrow> err_reason e = Some Conflict"

definition IsAlreadyExists :: "goerr \<Rightarrow> bool" where
  "IsAlreadyExists e \<longleftrightarrow> err_reason e = Some AlreadyExists"

definition IsNoMatchError :: "goerr \<Rightarrow> bool" where
  "IsNoMatchError e \<longleftrightarrow> err_reason e = Some NoMatch"

text \<open>\<open>errors.Is\<close> against a sentinel: through wrapping and through joined errors.\<close>

fun errors_Is :: "goerr \<Rightarrow> string \<Rightarrow> bool" where
  "errors_Is (Sentinel s) t = (s = t)"
| "errors_Is (Wrap _ e) t = errors_Is e t"
| "errors_Is (Join es) t = list_ex (\<lambda>e. errors_Is e t) es"
| "errors_Is _ t = False"

text \<open>\<open>errors.Join\<close> of the non-nil errors; \<open>None\<close> when there is none.\<close>

definition errors_Join :: "goerr list \<Rightarrow> goerr option" where
  "errors_Join es = (if es = [] then None else Some (Join es))"

fun is_panic :: "goerr \<Rightarrow> bool" where
  "is_panic (Panic _) = True"
| "is_panic _ = False"

section \<open>Maps\<close>

text \<open>
  \<open>map[string]string\<close>: \<open>None\<close> is the nil map. Reading a nil map gives the zero value,
  deleting from it does nothing, writing to it panics. \<open>reflect.DeepEqual\<close> tells nil and
  empty apart, which is equality here.
\<close>

type_synonym smap = "(string, string) fmap option"

definition mlookup :: "smap \<Rightarrow> string \<Rightarrow> string option" where
  "mlookup m k = (case m of None \<Rightarrow> None | Some f \<Rightarrow> fmlookup f k)"

definition mget :: "smap \<Rightarrow> string \<Rightarrow> string" where
  "mget m k = (case mlookup m k of None \<Rightarrow> [] | Some v \<Rightarrow> v)"

definition mset :: "string \<Rightarrow> string \<Rightarrow> smap \<Rightarrow> goerr + smap" where
  "mset k v m = (case m of None \<Rightarrow> Inl (Panic ''assignment to entry in nil map'')
                         | Some f \<Rightarrow> Inr (Some (fmupd k v f)))"

definition mdelete :: "string \<Rightarrow> smap \<Rightarrow> smap" where
  "mdelete k m = map_option (fmdrop k) m"

definition mempty :: "smap \<Rightarrow> bool" where
  "mempty m \<longleftrightarrow> (case m of None \<Rightarrow> True | Some f \<Rightarrow> fmdom f = {||})"

definition mlit :: "(string \<times> string) list \<Rightarrow> smap" where
  "mlit kvs = Some (fmap_of_list kvs)"

text \<open>The entries of a map, for \<open>for k, v := range m\<close> where the order does not matter.\<close>

definition mall :: "(string \<Rightarrow> string \<Rightarrow> bool) \<Rightarrow> smap \<Rightarrow> bool" where
  "mall P m \<longleftrightarrow> (case m of None \<Rightarrow> True | Some f \<Rightarrow> fmpred P f)"

text \<open>\<open>for k, v := range src { dst[k] = v }\<close>: writing to a nil \<open>dst\<close> panics, if there is an entry.\<close>

definition mrange_set :: "smap \<Rightarrow> smap \<Rightarrow> goerr + smap" where
  "mrange_set src dst = (case src of
     None \<Rightarrow> Inr dst
   | Some s \<Rightarrow> if fmdom s = {||} then Inr dst else (case dst of
       None \<Rightarrow> Inl (Panic ''assignment to entry in nil map'')
     | Some d \<Rightarrow> Inr (Some (d ++\<^sub>f s))))"

text \<open>The entries whose key satisfies a condition, as a guard inside such a loop keeps them.\<close>

definition mfilter_keys :: "(string \<Rightarrow> bool) \<Rightarrow> smap \<Rightarrow> smap" where
  "mfilter_keys P m = map_option (fmfilter P) m"

lemma mlookup_None [simp]: "mlookup None k = None"
  by (simp add: mlookup_def)

lemma mlookup_Some [simp]: "mlookup (Some f) k = fmlookup f k"
  by (simp add: mlookup_def)

lemma mget_None [simp]: "mget None k = []"
  by (simp add: mget_def)

lemma mget_lookup: "mlookup m k = Some v \<Longrightarrow> mget m k = v"
  by (simp add: mget_def)

lemma mget_missing: "mlookup m k = None \<Longrightarrow> mget m k = []"
  by (simp add: mget_def)

lemma mset_nil [simp]: "mset k v None = Inl (Panic ''assignment to entry in nil map'')"
  by (simp add: mset_def)

lemma mset_some [simp]: "mset k v (Some f) = Inr (Some (fmupd k v f))"
  by (simp add: mset_def)

lemma mdelete_None [simp]: "mdelete k None = None"
  by (simp add: mdelete_def)

lemma mdelete_Some [simp]: "mdelete k (Some f) = Some (fmdrop k f)"
  by (simp add: mdelete_def)

lemma mlookup_mset:
  "mset k v m = Inr m' \<Longrightarrow> mlookup m' k' = (if k = k' then Some v else mlookup m k')"
  by (cases m) auto

lemma mset_ok_iff: "(\<exists>m'. mset k v m = Inr m') \<longleftrightarrow> m \<noteq> None"
  by (cases m) auto

lemma mlookup_mdelete: "mlookup (mdelete k m) k' = (if k = k' then None else mlookup m k')"
  by (cases m) auto

lemma mall_iff: "mall P m \<longleftrightarrow> (\<forall>k v. mlookup m k = Some v \<longrightarrow> P k v)"
  by (cases m) (auto simp: mall_def fmpred_iff)

lemma mempty_iff: "mempty m \<longleftrightarrow> (\<forall>k. mlookup m k = None)"
proof (cases m)
  case (Some f)
  have "fmdom f = {||} \<longleftrightarrow> (\<forall>k. fmlookup f k = None)"
    by (metis fmdom_notD fmdom_notI fset_eqI fempty_iff)
  with Some show ?thesis by (simp add: mempty_def)
qed (simp add: mempty_def)

lemma mlookup_mfilter_keys [simp]:
  "mlookup (mfilter_keys P m) k = (if P k then mlookup m k else None)"
  by (cases m) (auto simp: mfilter_keys_def)

lemma fmdom_empty: "fmdom s = {||} \<Longrightarrow> s = fmempty"
  by (metis fmrestrict_fset_dom fmrestrict_fset_null)

lemma mrange_set_Some:
  "mrange_set src (Some d) = Inr (Some (case src of None \<Rightarrow> d | Some s \<Rightarrow> d ++\<^sub>f s))"
  by (auto simp: mrange_set_def dest!: fmdom_empty split: option.splits)

lemma mrange_set_lookup:
  "mrange_set src (Some d) = Inr m \<Longrightarrow>
    mlookup m k = (case mlookup src k of None \<Rightarrow> fmlookup d k | Some v \<Rightarrow> Some v)"
  by (cases src) (auto simp: mrange_set_Some fmlookup_dom_iff split: option.splits)

lemma mrange_set_nil: "mrange_set src None = (if mempty src then Inr None
    else Inl (Panic ''assignment to entry in nil map''))"
  by (cases src) (auto simp: mrange_set_def mempty_def)

lemma fmap_eqI: "(\<And>k. fmlookup f k = fmlookup g k) \<Longrightarrow> f = g"
  by (rule fmap_ext) simp

section \<open>Slices\<close>

text \<open>
  The repository edits lists of named things (containers, volumes, mounts, environment
  variables) with three loops: replace the first element of a name in place and break, else
  append; delete the first element of a name and break; test whether a name occurs. Each is
  written once here, over the selector of the name.
\<close>

fun replace_first :: "('a \<Rightarrow> bool) \<Rightarrow> 'a \<Rightarrow> 'a list \<Rightarrow> 'a list" where
  "replace_first p y [] = []"
| "replace_first p y (x # xs) = (if p x then y # xs else x # replace_first p y xs)"

fun update_first :: "('a \<Rightarrow> bool) \<Rightarrow> ('a \<Rightarrow> 'a) \<Rightarrow> 'a list \<Rightarrow> 'a list" where
  "update_first p f [] = []"
| "update_first p f (x # xs) = (if p x then f x # xs else x # update_first p f xs)"

fun delete_first :: "('a \<Rightarrow> bool) \<Rightarrow> 'a list \<Rightarrow> 'a list" where
  "delete_first p [] = []"
| "delete_first p (x # xs) = (if p x then xs else x # delete_first p xs)"

definition put_first :: "('a \<Rightarrow> bool) \<Rightarrow> 'a \<Rightarrow> 'a list \<Rightarrow> 'a list" where
  "put_first p y xs = (if list_ex p xs then replace_first p y xs else xs @ [y])"

lemma replace_first_as_update: "replace_first p y xs = update_first p (\<lambda>_. y) xs"
  by (induction xs) auto

lemma update_first_none [slice_simps]: "\<not> list_ex p xs \<Longrightarrow> update_first p f xs = xs"
  by (induction xs) auto

lemma length_update_first [simp]: "length (update_first p f xs) = length xs"
  by (induction xs) auto

lemma map_update_first [slice_simps]:
  "(\<And>x. p x \<Longrightarrow> g (f x) = g x) \<Longrightarrow> map g (update_first p f xs) = map g xs"
  by (induction xs) auto

lemma list_ex_update_first [slice_simps]:
  "(\<And>x. p x \<Longrightarrow> q (f x) = q x) \<Longrightarrow> list_ex q (update_first p f xs) = list_ex q xs"
  by (induction xs) auto

lemma update_first_twice:
  "(\<And>x. p x \<Longrightarrow> p (f x)) \<Longrightarrow>
    update_first p g (update_first p f xs) = update_first p (\<lambda>x. g (f x)) xs"
  by (induction xs) auto

lemma update_first_idem:
  "(\<And>x. p x \<Longrightarrow> p (f x)) \<Longrightarrow> (\<And>x. f (f x) = f x) \<Longrightarrow>
    update_first p f (update_first p f xs) = update_first p f xs"
  by (induction xs) auto

lemma update_first_cong [fundef_cong]:
  "xs = ys \<Longrightarrow> (\<And>x. x \<in> set ys \<Longrightarrow> p x = q x) \<Longrightarrow> (\<And>x. x \<in> set ys \<Longrightarrow> q x \<Longrightarrow> f x = g x) \<Longrightarrow>
    update_first p f xs = update_first q g ys"
proof (induction ys arbitrary: xs)
  case (Cons y ys)
  then show ?case by (cases xs) auto
qed simp

lemma list_ex_delete_first:
  "list_ex q (delete_first p xs) \<Longrightarrow> list_ex q xs"
  by (induction xs) (auto split: if_splits)

lemma delete_first_none [slice_simps]: "\<not> list_ex p xs \<Longrightarrow> delete_first p xs = xs"
  by (induction xs) auto

lemma delete_first_filter_other:
  "(\<And>x. q x \<Longrightarrow> \<not> p x) \<Longrightarrow> filter q (delete_first p xs) = filter q xs"
  by (induction xs) auto

lemma delete_first_distinct:
  "distinct (map g xs) \<Longrightarrow> delete_first (\<lambda>x. g x = k) xs = filter (\<lambda>x. g x \<noteq> k) xs"
proof (induction xs)
  case (Cons x xs)
  show ?case
  proof (cases "g x = k")
    case True
    with Cons.prems have "filter (\<lambda>x. g x \<noteq> k) xs = xs"
      by (auto simp: filter_id_conv) (metis imageI)
    with True show ?thesis by simp
  next
    case False
    with Cons show ?thesis by simp
  qed
qed simp

lemma put_first_has [slice_simps]: "p y \<Longrightarrow> list_ex p (put_first p y xs)"
  by (auto simp: put_first_def) (induction xs, auto)

lemma replace_first_twice [slice_simps]:
  "p y \<Longrightarrow> replace_first p z (replace_first p y xs) = replace_first p z xs"
  by (induction xs) auto

lemma replace_first_append [slice_simps]:
  "\<not> list_ex p xs \<Longrightarrow> p y \<Longrightarrow> replace_first p z (xs @ [y]) = xs @ [z]"
  by (induction xs) auto

lemma put_first_twice [slice_simps]:
  assumes "p y"
  shows "put_first p z (put_first p y xs) = put_first p z xs"
proof (cases "list_ex p xs")
  case True
  have "list_ex p (replace_first p y xs)" using True assms by (induction xs) auto
  with True assms show ?thesis by (simp add: put_first_def replace_first_twice)
next
  case False
  with assms show ?thesis by (simp add: put_first_def replace_first_append)
qed

lemma put_first_filter_other [slice_simps]:
  "\<not> q y \<Longrightarrow> (\<And>x. p x \<Longrightarrow> \<not> q x) \<Longrightarrow> filter q (put_first p y xs) = filter q xs"
  by (auto simp: put_first_def) (induction xs, auto)

lemma put_first_mem: "x \<in> set (put_first p y xs) \<Longrightarrow> x = y \<or> x \<in> set xs"
proof -
  have "x \<in> set (replace_first p y xs) \<Longrightarrow> x = y \<or> x \<in> set xs"
    by (induction xs) (auto split: if_splits)
  then show "x \<in> set (put_first p y xs) \<Longrightarrow> x = y \<or> x \<in> set xs"
    by (auto simp: put_first_def split: if_splits)
qed

lemma put_first_find: "p y \<Longrightarrow> find p (put_first p y xs) = Some y"
proof (cases "list_ex p xs")
  case True
  then show "p y \<Longrightarrow> find p (put_first p y xs) = Some y"
    by (simp add: put_first_def) (induction xs, auto)
next
  case False
  then show "p y \<Longrightarrow> find p (put_first p y xs) = Some y"
    by (simp add: put_first_def) (induction xs, auto)
qed

lemma put_first_find_other:
  "\<not> q y \<Longrightarrow> (\<And>x. p x \<Longrightarrow> \<not> q x) \<Longrightarrow> find q (put_first p y xs) = find q xs"
proof -
  assume q: "\<not> q y" and pq: "\<And>x. p x \<Longrightarrow> \<not> q x"
  have "find q (replace_first p y xs) = find q xs"
    using q pq by (induction xs) auto
  moreover have "find q (xs @ [y]) = find q xs"
    using q by (induction xs) auto
  ultimately show ?thesis by (simp add: put_first_def)
qed

end
