(* ===== verification/GoStrings.thy ===== *)
theory GoStrings
  imports Prelude
begin

text \<open>
  The parts of Go's \<open>strings\<close> and \<open>strconv\<close> packages the controllers use, on byte strings:
  prefix, containment, splitting, trimming of (Unicode) white space, lower case,
  \<open>ParseBool\<close>, \<open>ParseInt\<close> in base 10 and \<open>Itoa\<close>.
\<close>

definition HasPrefix :: "string \<Rightarrow> string \<Rightarrow> bool" where
  "HasPrefix s p \<longleftrightarrow> take (length p) s = p"

fun Contains :: "string \<Rightarrow> string \<Rightarrow> bool" where
  "Contains [] sub = (sub = [])"
| "Contains (c # s) sub = (HasPrefix (c # s) sub \<or> Contains s sub)"

text \<open>\<open>strings.Split(s, sep)\<close> for a separator of one byte: at least one piece.\<close>

fun split_at_byte :: "char \<Rightarrow> string \<Rightarrow> string list" where
  "split_at_byte c [] = [[]]"
| "split_at_byte c (x # xs) =
     (if x = c then [] # split_at_byte c xs
      else (case split_at_byte c xs of p # ps \<Rightarrow> (x # p) # ps | [] \<Rightarrow> [[x]]))"

fun string_join :: "string \<Rightarrow> string list \<Rightarrow> string" where
  "string_join sep [] = []"
| "string_join sep [x] = x"
| "string_join sep (x # y # ys) = x @ sep @ string_join sep (y # ys)"

text \<open>
  A string in single quotes, and \<open>%q\<close> of a string of printable characters without quotes and
  backslashes.
\<close>

definition quoted :: "string \<Rightarrow> string" where
  "quoted s = CHR 0x27 # s @ [CHR 0x27]"

definition dquoted :: "string \<Rightarrow> string" where
  "dquoted s = CHR 0x22 # s @ [CHR 0x22]"

subsection \<open>White space and case\<close>

text \<open>The UTF-8 encodings of the runes \<open>unicode.IsSpace\<close> accepts.\<close>

definition space_encodings :: "string list" where
  "space_encodings =
     [[CHR 0x09], [CHR 0x0A], [CHR 0x0B], [CHR 0x0C], [CHR 0x0D], [CHR 0x20],
      [CHR 0xC2, CHR 0x85], [CHR 0xC2, CHR 0xA0],
      [CHR 0xE1, CHR 0x9A, CHR 0x80],
      [CHR 0xE2, CHR 0x80, CHR 0x80], [CHR 0xE2, CHR 0x80, CHR 0x81], [CHR 0xE2, CHR 0x80, CHR 0x82],
      [CHR 0xE2, CHR 0x80, CHR 0x83], [CHR 0xE2, CHR 0x80, CHR 0x84], [CHR 0xE2, CHR 0x80, CHR 0x85],
      [CHR 0xE2, CHR 0x80, CHR 0x86], [CHR 0xE2, CHR 0x80, CHR 0x87], [CHR 0xE2, CHR 0x80, CHR 0x88],
      [CHR 0xE2, CHR 0x80, CHR 0x89], [CHR 0xE2, CHR 0x80, CHR 0x8A], [CHR 0xE2, CHR 0x80, CHR 0xA8],
      [CHR 0xE2, CHR 0x80, CHR 0xA9], [CHR 0xE2, CHR 0x80, CHR 0xAF], [CHR 0xE2, CHR 0x81, CHR 0x9F],
      [CHR 0xE3, CHR 0x80, CHR 0x80]]"

lemma space_encodings_nonempty: "e \<in> set space_encodings \<Longrightarrow> e \<noteq> []"
  by (auto simp: space_encodings_def)

text \<open>Strips any of the given non-empty prefixes for as long as one applies.\<close>

function strip_prefixes :: "string list \<Rightarrow> string \<Rightarrow> string" where
  "strip_prefixes ps s =
     (case find (\<lambda>p. p \<noteq> [] \<and> HasPrefix s p) ps of
        None \<Rightarrow> s
      | Some p \<Rightarrow> strip_prefixes ps (drop (length p) s))"
  by pat_completeness auto
termination
proof (relation "measure (\<lambda>(ps, s). length s)", simp)
  fix ps s p
  assume "find (\<lambda>p. p \<noteq> [] \<and> HasPrefix s p) ps = Some p"
  then have "p \<noteq> []" and "HasPrefix s p" by (auto simp: find_Some_iff)
  then have "s \<noteq> []" by (auto simp: HasPrefix_def)
  with \<open>p \<noteq> []\<close> show "((ps, drop (length p) s), ps, s) \<in> measure (\<lambda>(ps, s). length s)"
    by simp
qed

declare strip_prefixes.simps [simp del]

definition TrimSpace :: "string \<Rightarrow> string" where
  "TrimSpace s =
     rev (strip_prefixes (map rev space_encodings) (rev (strip_prefixes space_encodings s)))"

lemma TrimSpace_Nil [simp]: "TrimSpace [] = []"
proof -
  have "strip_prefixes ps [] = []" for ps
    by (subst strip_prefixes.simps) (auto simp: HasPrefix_def find_Some_iff split: option.splits)
  then show ?thesis by (simp add: TrimSpace_def)
qed

definition lower_char :: "char \<Rightarrow> char" where
  "lower_char c = (if 65 \<le> (of_char c :: nat) \<and> (of_char c :: nat) \<le> 90
                   then char_of ((of_char c :: nat) + 32) else c)"

text \<open>
  \<open>strings.ToLower\<close>: the ASCII letters, and the two other runes whose lower case is an ASCII
  letter (U+0130 and U+212A). The case of all other runes is left, which no caller looks at.
\<close>

fun ToLower :: "string \<Rightarrow> string" where
  "ToLower [] = []"
| "ToLower (c # s) =
     (if c = CHR 0xC4 \<and> take 1 s = [CHR 0xB0] then CHR ''i'' # ToLower (drop 1 s)
      else if c = CHR 0xE2 \<and> take 2 s = [CHR 0x84, CHR 0xAA] then CHR ''k'' # ToLower (drop 2 s)
      else lower_char c # ToLower s)"

subsection \<open>Booleans and integers\<close>

definition ParseBool :: "string \<Rightarrow> bool option" where
  "ParseBool s =
     (if s \<in> set [''1'', ''t'', ''T'', ''TRUE'', ''true'', ''True''] then Some True
      else if s \<in> set [''0'', ''f'', ''F'', ''FALSE'', ''false'', ''False''] then Some False
      else None)"

definition is_digit :: "char \<Rightarrow> bool" where
  "is_digit c \<longleftrightarrow> 48 \<le> (of_char c :: nat) \<and> (of_char c :: nat) \<le> 57"

definition digit_val :: "char \<Rightarrow> int" where
  "digit_val c = int (of_char c) - 48"

definition digit_char :: "int \<Rightarrow> char" where
  "digit_char n = char_of (nat (n mod 10) + 48)"

definition digits_val :: "string \<Rightarrow> int" where
  "digits_val s = foldl (\<lambda>a c. 10 * a + digit_val c) 0 s"

definition parse_digits :: "string \<Rightarrow> int option" where
  "parse_digits s = (if s \<noteq> [] \<and> list_all is_digit s then Some (digits_val s) else None)"

text \<open>
  \<open>strconv.ParseInt(s, 10, bits)\<close> (and \<open>Atoi\<close>, with 64 bits): an optional sign, digits,
  and an error when the value does not fit the width.
\<close>

definition ParseInt :: "nat \<Rightarrow> string \<Rightarrow> int option" where
  "ParseInt bits s =
     (let (neg, body) = (case s of [] \<Rightarrow> (False, [])
                          | c # r \<Rightarrow> if c = CHR ''-'' then (True, r)
                                    else if c = CHR ''+'' then (False, r) else (False, s))
      in case parse_digits body of
           None \<Rightarrow> None
         | Some n \<Rightarrow> let v = (if neg then - n else n)
                     in if - (2 ^ (bits - 1)) \<le> v \<and> v < 2 ^ (bits - 1) then Some v else None)"

abbreviation Atoi :: "string \<Rightarrow> int option" where
  "Atoi \<equiv> ParseInt 64"

lemma ParseInt_bounds:
  "ParseInt bits s = Some v \<Longrightarrow> - (2 ^ (bits - 1)) \<le> v \<and> v < 2 ^ (bits - 1)"
  by (auto simp: ParseInt_def Let_def split: option.splits if_splits prod.splits)

fun Itoa_nat :: "nat \<Rightarrow> string" where
  "Itoa_nat n = (if n < 10 then [digit_char (int n)]
                 else Itoa_nat (n div 10) @ [digit_char (int (n mod 10))])"

declare Itoa_nat.simps [simp del]

definition Itoa :: "int \<Rightarrow> string" where
  "Itoa i = (if i < 0 then CHR ''-'' # Itoa_nat (nat (- i)) else Itoa_nat (nat i))"

lemma of_char_digit_char: "(of_char (digit_char n) :: nat) = nat (n mod 10) + 48"
proof -
  have "nat (n mod 10) < 10" by (simp add: nat_less_iff)
  then have "nat (n mod 10) + 48 < 256" by linarith
  then show ?thesis by (simp add: digit_char_def)
qed

lemma is_digit_digit_char [simp]: "is_digit (digit_char n)"
proof -
  have "nat (n mod 10) < 10" by (simp add: nat_less_iff)
  then show ?thesis by (simp add: is_digit_def of_char_digit_char)
qed

lemma digit_val_digit_char [simp]: "digit_val (digit_char n) = n mod 10"
  by (simp add: digit_val_def of_char_digit_char)

lemma digit_char_bounds: "is_digit c \<Longrightarrow> 0 \<le> digit_val c \<and> digit_val c \<le> 9"
  by (auto simp: is_digit_def digit_val_def)

lemma digit_char_not_sign: "is_digit c \<Longrightarrow> c \<noteq> CHR ''-'' \<and> c \<noteq> CHR ''+''"
  by (auto simp: is_digit_def)

lemma digits_val_append: "digits_val (s @ [c]) = 10 * digits_val s + digit_val c"
  by (simp add: digits_val_def)

lemma Itoa_nat_digits: "list_all is_digit (Itoa_nat n) \<and> Itoa_nat n \<noteq> []"
proof (induction n rule: Itoa_nat.induct)
  case (1 n)
  show ?case
    by (subst (1 2) Itoa_nat.simps) (use 1 in auto)
qed

lemma digits_val_Itoa_nat: "digits_val (Itoa_nat n) = int n"
proof (induction n rule: Itoa_nat.induct)
  case (1 n)
  show ?case
  proof (cases "n < 10")
    case True
    then show ?thesis by (subst Itoa_nat.simps) (simp add: digits_val_def)
  next
    case False
    with 1 have "digits_val (Itoa_nat (n div 10)) = int (n div 10)" by simp
    with False show ?thesis
      by (subst Itoa_nat.simps) (simp add: digits_val_append, presburger)
  qed
qed

text \<open>Parsing what \<open>Itoa\<close> prints gives the number back, when it fits.\<close>

lemma ParseInt_Itoa:
  assumes "- (2 ^ (bits - 1)) \<le> v" and "v < 2 ^ (bits - 1)"
  shows "ParseInt bits (Itoa v) = Some v"
proof -
  define u where "u = nat (if v < 0 then - v else v)"
  obtain c r where cr: "Itoa_nat u = c # r" "is_digit c"
    using Itoa_nat_digits [of u] by (cases "Itoa_nat u") auto
  have pd: "parse_digits (Itoa_nat u) = Some (int u)"
    using Itoa_nat_digits [of u] by (simp add: parse_digits_def digits_val_Itoa_nat)
  show ?thesis
  proof (cases "v < 0")
    case True
    then have "Itoa v = CHR ''-'' # Itoa_nat u" by (simp add: Itoa_def u_def)
    with True pd assms show ?thesis by (simp add: ParseInt_def Let_def u_def)
  next
    case False
    then have "Itoa v = c # r" using cr by (simp add: Itoa_def u_def)
    with False pd cr assms digit_char_not_sign [OF cr(2)] show ?thesis
      by (simp add: ParseInt_def Let_def u_def)
  qed
qed

end
