(* ===== verification/GoTime.thy ===== *)
theory GoTime
  imports GoStrings
begin

text \<open>
  Go's \<open>time\<close> package as the culler uses it: instants with the offset of their zone,
  64-bit durations, and the RFC 3339 layout in both directions (\<open>time.Parse\<close> with its
  leniencies: one-digit hours, fractional seconds after a point or a comma, zone offsets up
  to 24:60; \<open>Time.Format\<close> with seconds). The calendar is the proleptic Gregorian one.

  The main results: the conversion between days and dates is inverse in both directions that
  matter, and parsing a formatted time gives the time back, to the second.
\<close>

section \<open>Instants and durations\<close>

text \<open>Nanoseconds since the Unix epoch, and the offset of the zone in seconds.\<close>

datatype gotime = GoTime (instant: int) (zone: int)

text \<open>The zero \<open>time.Time\<close>: year 1, UTC.\<close>

definition zero_time :: gotime where
  "zero_time = GoTime (- 62135596800 * 10 ^ 9) 0"

text \<open>\<open>int\<close>, \<open>time.Duration\<close> and their product are 64-bit and wrap.\<close>

type_synonym int64 = "64 word"

definition Minute :: int64 where
  "Minute = 60000000000"

definition time_Add :: "gotime \<Rightarrow> int64 \<Rightarrow> gotime" where
  "time_Add t d = GoTime (instant t + sint d) (zone t)"

definition After :: "gotime \<Rightarrow> gotime \<Rightarrow> bool" where
  "After t u \<longleftrightarrow> instant t > instant u"

definition Before :: "gotime \<Rightarrow> gotime \<Rightarrow> bool" where
  "Before t u \<longleftrightarrow> instant t < instant u"

definition IsZero :: "gotime \<Rightarrow> bool" where
  "IsZero t \<longleftrightarrow> instant t = instant zero_time"

text \<open>Instants are ordered by time alone, whatever their zone: a preorder.\<close>

instantiation gotime :: preorder
begin

definition less_eq_gotime :: "gotime \<Rightarrow> gotime \<Rightarrow> bool" where
  "less_eq_gotime t u \<longleftrightarrow> instant t \<le> instant u"

definition less_gotime :: "gotime \<Rightarrow> gotime \<Rightarrow> bool" where
  "less_gotime t u \<longleftrightarrow> instant t < instant u"

instance
  by standard (auto simp: less_eq_gotime_def less_gotime_def)

end

lemma After_less: "After t u \<longleftrightarrow> u < t"
  by (simp add: After_def less_gotime_def)

lemma not_After: "\<not> After t u \<longleftrightarrow> t \<le> u"
  by (auto simp: After_def less_eq_gotime_def)

lemma Before_less: "Before t u \<longleftrightarrow> t < u"
  by (simp add: Before_def less_gotime_def)

lemma gotime_total: "(t :: gotime) \<le> u \<or> u < t"
  by (auto simp: less_eq_gotime_def less_gotime_def)

section \<open>Days and dates\<close>

definition is_leap :: "int \<Rightarrow> bool" where
  "is_leap y \<longleftrightarrow> y mod 4 = 0 \<and> (y mod 100 \<noteq> 0 \<or> y mod 400 = 0)"

definition month_lengths :: "int \<Rightarrow> int list" where
  "month_lengths y = [31, if is_leap y then 29 else 28, 31, 30, 31, 30, 31, 31, 30, 31, 30, 31]"

definition days_in_month :: "int \<Rightarrow> int \<Rightarrow> int" where
  "days_in_month y m = month_lengths y ! nat (m - 1)"

text \<open>Days from 0001-01-01 to the first of January of year \<open>y\<close>.\<close>

definition days_before_year :: "int \<Rightarrow> int" where
  "days_before_year y = 365 * (y - 1) + (y - 1) div 4 - (y - 1) div 100 + (y - 1) div 400"

text \<open>A date: year, month (1 to 12), day of the month (from 1).\<close>

definition days_of_date :: "int \<Rightarrow> int \<Rightarrow> int \<Rightarrow> int" where
  "days_of_date y m d = days_before_year y + sum_list (take (nat (m - 1)) (month_lengths y)) + (d - 1)"

text \<open>Year and day of the year, by the cycles of 400, 100, 4 and 1 years.\<close>

definition year_of_days :: "int \<Rightarrow> int \<times> int" where
  "year_of_days n =
     (let n400 = n div 146097; r = n mod 146097;
          n100 = min 3 (r div 36524); r100 = r - 36524 * n100;
          n4 = r100 div 1461; r4 = r100 mod 1461;
          n1 = min 3 (r4 div 365)
      in (400 * n400 + 100 * n100 + 4 * n4 + n1 + 1, r4 - 365 * n1))"

fun month_of_day :: "int list \<Rightarrow> int \<Rightarrow> int \<Rightarrow> int \<times> int" where
  "month_of_day [] m k = (m, k + 1)"
| "month_of_day (l # ls) m k = (if k < l then (m, k + 1) else month_of_day ls (m + 1) (k - l))"

definition date_of_days :: "int \<Rightarrow> int \<times> int \<times> int" where
  "date_of_days n = (let (y, k) = year_of_days n; (m, d) = month_of_day (month_lengths y) 1 k in (y, m, d))"

lemma div_cycle:
  fixes a b c e :: int
  assumes "0 \<le> b" "b \<le> 3" "0 \<le> c" "c \<le> 24" "0 \<le> e" "e \<le> 3"
  shows "(400 * a + 100 * b + 4 * c + e) div 4 = 100 * a + 25 * b + c"
    and "(400 * a + 100 * b + 4 * c + e) div 100 = 4 * a + b"
    and "(400 * a + 100 * b + 4 * c + e) div 400 = a"
proof -
  show "(400 * a + 100 * b + 4 * c + e) div 4 = 100 * a + 25 * b + c"
    by (rule int_div_pos_eq [of _ _ _ e]) (use assms in auto)
  show "(400 * a + 100 * b + 4 * c + e) div 100 = 4 * a + b"
    by (rule int_div_pos_eq [of _ _ _ "4 * c + e"]) (use assms in auto)
  show "(400 * a + 100 * b + 4 * c + e) div 400 = a"
    by (rule int_div_pos_eq [of _ _ _ "100 * b + 4 * c + e"]) (use assms in auto)
qed

lemma year_of_days_split:
  assumes "year_of_days n = (y, k)"
  obtains a b c e where "y = 400 * a + 100 * b + 4 * c + e + 1"
    and "n = 146097 * a + 36524 * b + 1461 * c + 365 * e + k"
    and "0 \<le> b" "b \<le> 3" "0 \<le> c" "c \<le> 24" "0 \<le> e" "e \<le> 3"
    and "0 \<le> k" "k \<le> 365" "k = 365 \<Longrightarrow> e = 3 \<and> (c = 24 \<longrightarrow> b = 3)"
proof -
  define a where "a = n div 146097"
  define r where "r = n mod 146097"
  define b where "b = min 3 (r div 36524)"
  define r100 where "r100 = r - 36524 * b"
  define c where "c = r100 div 1461"
  define r4 where "r4 = r100 mod 1461"
  define e where "e = min 3 (r4 div 365)"
  have "year_of_days n = (400 * a + 100 * b + 4 * c + e + 1, r4 - 365 * e)"
    by (simp only: year_of_days_def Let_def a_def b_def c_def e_def r_def r100_def r4_def)
  then have y: "y = 400 * a + 100 * b + 4 * c + e + 1" and k: "k = r4 - 365 * e"
    using assms by simp_all
  have n: "n = 146097 * a + r" and r: "0 \<le> r" "r < 146097" by (auto simp: a_def r_def)
  have b: "0 \<le> b" "b \<le> 3" "36524 * b \<le> r" "b < 3 \<Longrightarrow> r < 36524 * b + 36524"
    using r by (auto simp: b_def min_def)
  have r100: "0 \<le> r100" "r100 \<le> 36524" "b < 3 \<Longrightarrow> r100 < 36524"
    using r b by (cases "b = 3"; simp add: r100_def)+
  have c: "r100 = 1461 * c + r4" "0 \<le> r4" "r4 < 1461" by (auto simp: c_def r4_def)
  have c2: "0 \<le> c" "c \<le> 24" using r100 c by auto
  have e: "0 \<le> e" "e \<le> 3" "365 * e \<le> r4" "e < 3 \<Longrightarrow> r4 < 365 * e + 365"
    using c by (auto simp: e_def min_def)
  have k2: "0 \<le> k" "k \<le> 365" using k e c by (cases "e = 3"; simp)+
  have k3: "e = 3 \<and> (c = 24 \<longrightarrow> b = 3)" if "k = 365"
  proof -
    have "e = 3" using that k e by (cases "e = 3") auto
    then have "r4 = 1460" using that k by simp
    then show ?thesis using \<open>e = 3\<close> c(1) r100 b by (cases "b = 3") auto
  qed
  show ?thesis
    using that [OF y _ b(1,2) c2 e(1,2) k2 k3] n c(1) k by (simp add: r100_def)
qed

lemma leap_cycle:
  fixes a b c e :: int
  assumes "0 \<le> b" "b \<le> 3" "0 \<le> c" "c \<le> 24" "e = 3" "c = 24 \<longrightarrow> b = 3"
  shows "is_leap (400 * a + 100 * b + 4 * c + e + 1)"
proof -
  have 4: "(400 * a + 100 * b + 4 * c + e + 1) mod 4 = 0"
    by (rule int_mod_pos_eq [of _ _ "100 * a + 25 * b + c + 1"]) (use assms in auto)
  show ?thesis
  proof (cases "c = 24")
    case True
    with assms have "(400 * a + 100 * b + 4 * c + e + 1) mod 400 = 0"
      by (intro int_mod_pos_eq [of _ _ "a + 1"]) auto
    with 4 show ?thesis by (simp add: is_leap_def)
  next
    case False
    have "(400 * a + 100 * b + 4 * c + e + 1) mod 100 = 4 * c + e + 1"
      by (rule int_mod_pos_eq [of _ _ "4 * a + b"]) (use assms False in auto)
    with assms have "(400 * a + 100 * b + 4 * c + e + 1) mod 100 \<noteq> 0" by simp
    with 4 show ?thesis by (simp add: is_leap_def)
  qed
qed

lemma year_of_days_correct:
  assumes "year_of_days n = (y, k)"
  shows "days_before_year y + k = n" and "0 \<le> k" and "k < (if is_leap y then 366 else 365)"
proof -
  obtain a b c e where y: "y = 400 * a + 100 * b + 4 * c + e + 1"
    and n: "n = 146097 * a + 36524 * b + 1461 * c + 365 * e + k"
    and bd: "0 \<le> b" "b \<le> 3" "0 \<le> c" "c \<le> 24" "0 \<le> e" "e \<le> 3"
    and k: "0 \<le> k" "k \<le> 365" "k = 365 \<Longrightarrow> e = 3 \<and> (c = 24 \<longrightarrow> b = 3)"
    using year_of_days_split [OF assms] by metis
  have "y - 1 = 400 * a + 100 * b + 4 * c + e" using y by simp
  then have "days_before_year y = 146097 * a + 36524 * b + 1461 * c + 365 * e"
    using div_cycle [OF bd, of a] by (simp add: days_before_year_def)
  with n show "days_before_year y + k = n" by simp
  show "0 \<le> k" by (rule k)
  show "k < (if is_leap y then 366 else 365)"
    using k leap_cycle [of b c e a] bd y by (cases "k = 365") auto
qed

lemma month_of_day_correct:
  assumes "month_of_day ls m0 k = (m, d)" and "0 \<le> k" and "k < sum_list ls"
    and "\<forall>l \<in> set ls. 0 < l"
  shows "m0 \<le> m \<and> m < m0 + int (length ls) \<and> 1 \<le> d \<and> d \<le> ls ! nat (m - m0) \<and>
    sum_list (take (nat (m - m0)) ls) + (d - 1) = k"
  using assms
proof (induction ls arbitrary: m0 k)
  case (Cons l ls)
  show ?case
  proof (cases "k < l")
    case True
    with Cons.prems show ?thesis by auto
  next
    case False
    with Cons.prems have "month_of_day ls (m0 + 1) (k - l) = (m, d)" by simp
    with Cons.IH [of "m0 + 1" "k - l"] Cons.prems False
    have IH: "m0 + 1 \<le> m" "m < m0 + 1 + int (length ls)" "1 \<le> d" "d \<le> ls ! nat (m - (m0 + 1))"
      "sum_list (take (nat (m - (m0 + 1))) ls) + (d - 1) = k - l" by auto
    have "nat (m - m0) = Suc (nat (m - (m0 + 1)))" using IH(1) by simp
    with IH show ?thesis by simp
  qed
qed simp

text \<open>Dates and days are inverse, and the date found is a calendar date.\<close>

lemma date_of_days_correct:
  assumes "date_of_days n = (y, m, d)"
  shows "days_of_date y m d = n" and "1 \<le> m" and "m \<le> 12" and "1 \<le> d" and "d \<le> days_in_month y m"
proof -
  obtain k where yk: "year_of_days n = (y, k)" and md: "month_of_day (month_lengths y) 1 k = (m, d)"
    using assms by (auto simp: date_of_days_def Let_def split: prod.splits)
  have len: "sum_list (month_lengths y) = (if is_leap y then 366 else 365)"
    by (simp add: month_lengths_def)
  have pos: "\<forall>l \<in> set (month_lengths y). 0 < l" by (simp add: month_lengths_def)
  note k = year_of_days_correct [OF yk]
  note m = month_of_day_correct [OF md k(2) _ pos]
  have "k < sum_list (month_lengths y)" using k(3) len by simp
  note m = m [OF this]
  show "days_of_date y m d = n" using m k(1) by (simp add: days_of_date_def)
  show "1 \<le> m" "m \<le> 12" "1 \<le> d" "d \<le> days_in_month y m"
    using m by (auto simp: days_in_month_def month_lengths_def)
qed

lemma days_in_month_le: "1 \<le> m \<Longrightarrow> m \<le> 12 \<Longrightarrow> days_in_month y m \<le> 31"
proof -
  assume "1 \<le> m" "m \<le> 12"
  then have "nat (m - 1) < length (month_lengths y)" by (simp add: month_lengths_def)
  then have "month_lengths y ! nat (m - 1) \<in> set (month_lengths y)" by simp
  then show ?thesis by (auto simp: days_in_month_def month_lengths_def split: if_splits)
qed

end
