(* ===== verification/Rfc3339.thy ===== *)
theory Rfc3339
  imports GoTime
begin

text \<open>
  \<open>time.Parse(time.RFC3339, s)\<close> and \<open>t.Format(time.RFC3339)\<close>, and the round trip:
  a formatted instant parses to the same second in the same zone.
\<close>

section \<open>Formatting\<close>

definition appendInt :: "nat \<Rightarrow> int \<Rightarrow> string" where
  "appendInt width x =
     (let u = \<bar>x\<bar> in
      (if x < 0 then ''-'' else []) @
      (if width = 2 \<and> u < 100 then [digit_char (u div 10), digit_char u]
       else if width = 4 \<and> u < 10000
         then [digit_char (u div 1000), digit_char (u div 100), digit_char (u div 10), digit_char u]
       else replicate (width - length (Itoa_nat (nat u))) (CHR ''0'') @ Itoa_nat (nat u)))"

definition unix_day :: int where
  "unix_day = 719162"

definition time_Unix :: "gotime \<Rightarrow> int" where
  "time_Unix t = instant t div 10 ^ 9"

definition format_zone :: "int \<Rightarrow> string" where
  "format_zone off =
     (if off = 0 then ''Z''
      else let z = (if off < 0 then - ((- off) div 60) else off div 60)
           in (if z < 0 then ''-'' else ''+'') @ appendInt 2 (\<bar>z\<bar> div 60) @ '':'' @ appendInt 2 (\<bar>z\<bar> mod 60))"

definition time_Format :: "gotime \<Rightarrow> string" where
  "time_Format t =
     (let secs = time_Unix t + zone t;
          (y, m, d) = date_of_days (secs div 86400 + unix_day);
          sod = secs mod 86400
      in appendInt 4 y @ ''-'' @ appendInt 2 m @ ''-'' @ appendInt 2 d @ ''T'' @
         appendInt 2 (sod div 3600) @ '':'' @ appendInt 2 (sod mod 3600 div 60) @ '':'' @
         appendInt 2 (sod mod 60) @ format_zone (zone t))"

section \<open>Parsing\<close>

definition require :: "bool \<Rightarrow> unit option" where
  "require b = (if b then Some () else None)"

fun expect :: "char \<Rightarrow> string \<Rightarrow> string option" where
  "expect c (x # xs) = (if x = c then Some xs else None)"
| "expect c [] = None"

text \<open>\<open>getnum(s, fixed)\<close>: two digits, or one where the layout does not fix two.\<close>

fun getnum :: "bool \<Rightarrow> string \<Rightarrow> (int \<times> string) option" where
  "getnum fixed (a # b # r) =
     (if \<not> is_digit a then None
      else if is_digit b then Some (10 * digit_val a + digit_val b, r)
      else if fixed then None else Some (digit_val a, b # r))"
| "getnum fixed [a] = (if is_digit a \<and> \<not> fixed then Some (digit_val a, []) else None)"
| "getnum fixed [] = None"

fun get_year :: "string \<Rightarrow> (int \<times> string) option" where
  "get_year (a # b # c # d # r) =
     (if list_all is_digit [a, b, c, d] then Some (digits_val [a, b, c, d], r) else None)"
| "get_year _ = None"

text \<open>The optional fraction: only the first nine digits count.\<close>

fun get_fraction :: "string \<Rightarrow> int \<times> string" where
  "get_fraction (p # x # r) =
     (if (p = CHR ''.'' \<or> p = CHR '','') \<and> is_digit x
      then let ds = takeWhile is_digit (x # r); n = take 9 ds
           in (digits_val n * 10 ^ (9 - length n), dropWhile is_digit (x # r))
      else (0, p # x # r))"
| "get_fraction s = (0, s)"

definition get_zone :: "string \<Rightarrow> (int \<times> string) option" where
  "get_zone s =
     (case s of
        [] \<Rightarrow> None
      | c # r \<Rightarrow>
          if c = CHR ''Z'' then Some (0, r)
          else do {
            (hr, r1) \<leftarrow> getnum True r;
            r2 \<leftarrow> expect (CHR '':'') r1;
            (mm, r3) \<leftarrow> getnum True r2;
            require (hr \<le> 24 \<and> mm \<le> 60);
            (if c = CHR ''+'' then Some ((hr * 60 + mm) * 60, r3)
             else if c = CHR ''-'' then Some (- ((hr * 60 + mm) * 60), r3)
             else None)
          })"

definition time_Parse :: "string \<Rightarrow> gotime option" where
  "time_Parse s = do {
     (y, s) \<leftarrow> get_year s;
     s \<leftarrow> expect (CHR ''-'') s;
     (m, s) \<leftarrow> getnum True s;
     require (1 \<le> m \<and> m \<le> 12);
     s \<leftarrow> expect (CHR ''-'') s;
     (d, s) \<leftarrow> getnum True s;
     s \<leftarrow> expect (CHR ''T'') s;
     (h, s) \<leftarrow> getnum False s;
     require (h < 24);
     s \<leftarrow> expect (CHR '':'') s;
     (mi, s) \<leftarrow> getnum True s;
     require (mi < 60);
     s \<leftarrow> expect (CHR '':'') s;
     (sec, s) \<leftarrow> getnum True s;
     require (sec < 60);
     let (nsec, s) = get_fraction s;
     (off, s) \<leftarrow> get_zone s;
     require (s = []);
     require (1 \<le> d \<and> d \<le> days_in_month y m);
     Some (GoTime (((days_of_date y m d - unix_day) * 86400 + h * 3600 + mi * 60 + sec - off) * 10 ^ 9 + nsec) off)
   }"

section \<open>The round trip\<close>

lemma require_simps [simp]: "require True = Some ()" "require False = None"
  by (simp_all add: require_def)

lemma appendInt_2: "0 \<le> x \<Longrightarrow> x < 100 \<Longrightarrow> appendInt 2 x = [digit_char (x div 10), digit_char x]"
  by (simp add: appendInt_def Let_def)

lemma appendInt_4:
  "0 \<le> x \<Longrightarrow> x < 10000 \<Longrightarrow>
    appendInt 4 x = [digit_char (x div 1000), digit_char (x div 100), digit_char (x div 10), digit_char x]"
  by (simp add: appendInt_def Let_def)

lemma getnum_appendInt:
  "0 \<le> x \<Longrightarrow> x < 100 \<Longrightarrow> getnum fixed (appendInt 2 x @ r) = Some (x, r)"
  by (simp add: appendInt_2)

lemma getnum_appendInt_end:
  "0 \<le> x \<Longrightarrow> x < 100 \<Longrightarrow> getnum fixed (appendInt 2 x) = Some (x, [])"
  using getnum_appendInt [of x fixed "[]"] by simp

lemma get_year_appendInt:
  "0 \<le> x \<Longrightarrow> x < 10000 \<Longrightarrow> get_year (appendInt 4 x @ r) = Some (x, r)"
proof -
  assume x: "0 \<le> x" "x < 10000"
  have "x div 1000 mod 10 = x div 1000" using x by simp
  moreover have "10 * (x div 1000) + x div 100 mod 10 = x div 100"
    using mult_div_mod_eq [of 10 "x div 100"] by (simp add: zdiv_zmult2_eq [symmetric])
  moreover have "10 * (x div 100) + x div 10 mod 10 = x div 10"
    using mult_div_mod_eq [of 10 "x div 10"] by (simp add: zdiv_zmult2_eq [symmetric])
  ultimately have "digits_val [digit_char (x div 1000), digit_char (x div 100), digit_char (x div 10), digit_char x] = x"
    by (simp add: digits_val_def)
  with x show ?thesis by (simp add: appendInt_4)
qed

lemma get_zone_format:
  assumes "zone_off mod 60 = 0" and "\<bar>zone_off\<bar> < 90000"
  shows "get_zone (format_zone zone_off) = Some (zone_off, [])"
proof (cases "zone_off = 0")
  case True
  then show ?thesis by (simp add: format_zone_def get_zone_def)
next
  case False
  define z where "z = (if zone_off < 0 then - ((- zone_off) div 60) else zone_off div 60)"
  have z: "zone_off = 60 * z" "\<bar>z\<bar> < 1500" using assms by (auto simp: z_def)
  define hr where "hr = \<bar>z\<bar> div 60"
  define mm where "mm = \<bar>z\<bar> mod 60"
  have h: "0 \<le> hr" "hr \<le> 24" "mm < 60" "0 \<le> mm" using z(2) by (auto simp: hr_def mm_def)
  have hm: "hr * 60 + mm = \<bar>z\<bar>" by (simp add: hr_def mm_def)
  have f: "format_zone zone_off = (if z < 0 then CHR ''-'' else CHR ''+'') # appendInt 2 hr @ CHR '':'' # appendInt 2 mm"
    using False by (simp add: format_zone_def z_def Let_def hr_def mm_def)
  have "get_zone (format_zone zone_off) =
      Some (if z < 0 then - ((hr * 60 + mm) * 60) else (hr * 60 + mm) * 60, [])"
    unfolding f using h by (simp add: get_zone_def getnum_appendInt getnum_appendInt_end)
  with z(1) show ?thesis unfolding hm by auto
qed

lemma format_zone_head: "get_fraction (format_zone z) = (0, format_zone z)"
proof -
  have "\<exists>c r. format_zone z = c # r \<and> (c = CHR ''Z'' \<or> c = CHR ''+'' \<or> c = CHR ''-'')"
    by (simp add: format_zone_def Let_def)
  then obtain c r where "format_zone z = c # r" and "c = CHR ''Z'' \<or> c = CHR ''+'' \<or> c = CHR ''-''"
    by blast
  then show ?thesis by (cases r) auto
qed

text \<open>The day of a formatted instant, as a year a formatted time can hold.\<close>

definition format_year :: "gotime \<Rightarrow> int" where
  "format_year t = fst (date_of_days ((time_Unix t + zone t) div 86400 + unix_day))"

lemma time_Parse_Format:
  assumes "0 \<le> format_year t" "format_year t < 10000" "zone t mod 60 = 0" "\<bar>zone t\<bar> < 90000"
  shows "time_Parse (time_Format t) = Some (GoTime (time_Unix t * 10 ^ 9) (zone t))"
proof -
  define secs where "secs = time_Unix t + zone t"
  define sod where "sod = secs mod 86400"
  obtain y m d where ymd: "date_of_days (secs div 86400 + unix_day) = (y, m, d)"
    by (metis prod_cases3)
  have y: "0 \<le> y" "y < 10000" using assms ymd by (simp_all add: format_year_def secs_def)
  note c = date_of_days_correct [OF ymd]
  have d31: "d < 100" using c(5) days_in_month_le [OF c(2,3), of y] by simp
  have sod: "0 \<le> sod" "sod < 86400" by (simp_all add: sod_def)
  define hh where "hh = sod div 3600"
  define mi where "mi = sod mod 3600 div 60"
  define ss where "ss = sod mod 60"
  have hms: "0 \<le> hh" "hh < 24" "0 \<le> mi" "mi < 60" "0 \<le> ss" "ss < 60"
    using sod by (auto simp: hh_def mi_def ss_def)
  have f: "time_Format t = appendInt 4 y @ CHR ''-'' # appendInt 2 m @ CHR ''-'' # appendInt 2 d @ CHR ''T'' #
         appendInt 2 hh @ CHR '':'' # appendInt 2 mi @ CHR '':'' # appendInt 2 ss @ format_zone (zone t)"
    using ymd by (simp add: time_Format_def Let_def secs_def sod_def hh_def mi_def ss_def)
  have parsed: "time_Parse (time_Format t) =
      Some (GoTime (((secs div 86400) * 86400 + hh * 3600 + mi * 60 + ss - zone t) * 10 ^ 9) (zone t))"
    unfolding f time_Parse_def
    using y c d31 hms get_zone_format [OF assms(3,4)]
    by (simp add: get_year_appendInt getnum_appendInt format_zone_head)
  have "sod mod 60 = sod mod 3600 mod 60" by (simp add: mod_mod_cancel)
  then have "hh * 3600 + mi * 60 + ss = sod"
    by (simp add: hh_def mi_def ss_def add.assoc)
  moreover have "(secs div 86400) * 86400 + sod = secs" by (simp add: sod_def)
  ultimately have "(secs div 86400) * 86400 + hh * 3600 + mi * 60 + ss - zone t = time_Unix t"
    by (simp add: secs_def)
  with parsed show ?thesis by simp
qed

end
