(* ===== verification/KubeTypes.thy ===== *)
theory KubeTypes
  imports Rfc3339
begin

text \<open>
  The Kubernetes objects the two controllers read and write, with the fields the source
  uses. Fields the code only copies or compares are kept together as one opaque text per
  object (\<open>..._rest\<close>), so that whole-object equality still sees them. Pointers to scalars
  and sub-objects are options; a slice whose nil-ness the code tests is an option of a list.
\<close>

type_synonym int32 = "32 word"

text \<open>Namespace and name (\<open>types.NamespacedName\<close>).\<close>

type_synonym nsname = "string \<times> string"

text \<open>
  A pointer whose address the code compares: the address and the value behind it
  (\<open>==\<close> on Go structs of pointers compares addresses).
\<close>

type_synonym 'a ptr = "(nat \<times> 'a) option"

definition ptr_eq :: "'a ptr \<Rightarrow> 'a ptr \<Rightarrow> bool" where
  "ptr_eq p q \<longleftrightarrow> map_option fst p = map_option fst q"

section \<open>Metadata\<close>

record ownerref =
  or_apiVersion :: string
  or_kind :: string
  or_name :: string
  or_uid :: string
  or_controller :: "bool option"
  or_blockOwnerDeletion :: "bool option"

record objmeta =
  m_name :: string
  m_generateName :: string
  m_namespace :: string
  m_uid :: string
  m_resourceVersion :: string
  m_labels :: smap
  m_annotations :: smap
  m_finalizers :: "string list"
  m_ownerRefs :: "ownerref list"
  m_deletionTimestamp :: "gotime option"

definition empty_meta :: objmeta where
  "empty_meta = \<lparr>m_name = [], m_generateName = [], m_namespace = [], m_uid = [], m_resourceVersion = [],
     m_labels = None, m_annotations = None, m_finalizers = [], m_ownerRefs = [], m_deletionTimestamp = None\<rparr>"

definition meta_key :: "objmeta \<Rightarrow> nsname" where
  "meta_key m = (m_namespace m, m_name m)"

text \<open>
  Accessors of \<open>metav1\<close> and \<open>controllerutil\<close>, as documented: \<open>HasAnnotation\<close> tests
  the key, \<open>GetControllerOf\<close> is the first owner reference with the controller flag,
  \<open>IsControlledBy\<close> compares its UID, and the finalizer helpers test, append if missing and
  remove.
\<close>

definition HasAnnotation :: "objmeta \<Rightarrow> string \<Rightarrow> bool" where
  "HasAnnotation m k \<longleftrightarrow> mlookup (m_annotations m) k \<noteq> None"

definition GetControllerOf :: "objmeta \<Rightarrow> ownerref option" where
  "GetControllerOf m = find (\<lambda>r. or_controller r = Some True) (m_ownerRefs m)"

definition IsControlledBy :: "objmeta \<Rightarrow> objmeta \<Rightarrow> bool" where
  "IsControlledBy m owner \<longleftrightarrow>
     (case GetControllerOf m of None \<Rightarrow> False | Some r \<Rightarrow> or_uid r = m_uid owner)"

text \<open>\<open>!DeletionTimestamp.IsZero()\<close>: the object is being deleted.\<close>

definition IsDeleting :: "objmeta \<Rightarrow> bool" where
  "IsDeleting m \<longleftrightarrow> (case m_deletionTimestamp m of None \<Rightarrow> False | Some t \<Rightarrow> \<not> IsZero t)"

definition ContainsFinalizer :: "objmeta \<Rightarrow> string \<Rightarrow> bool" where
  "ContainsFinalizer m f \<longleftrightarrow> List.member (m_finalizers m) f"

definition AddFinalizer :: "string \<Rightarrow> objmeta \<Rightarrow> objmeta" where
  "AddFinalizer f m = (if ContainsFinalizer m f then m else m\<lparr>m_finalizers := m_finalizers m @ [f]\<rparr>)"

definition RemoveFinalizer :: "string \<Rightarrow> objmeta \<Rightarrow> objmeta" where
  "RemoveFinalizer f m = m\<lparr>m_finalizers := filter (\<lambda>g. g \<noteq> f) (m_finalizers m)\<rparr>"

section \<open>Pods\<close>

record envvar =
  ev_name :: string
  ev_value :: string
  ev_rest :: string

record volmount =
  vm_name :: string
  vm_mountPath :: string
  vm_readOnly :: bool
  vm_rest :: string

record containerport =
  cp_name :: string
  cp_containerPort :: int32
  cp_protocol :: string

record probe =
  pr_path :: string
  pr_port :: int32
  pr_scheme :: string
  pr_initialDelay :: int32
  pr_timeout :: int32
  pr_period :: int32
  pr_success :: int32
  pr_failure :: int32
  pr_rest :: string

text \<open>\<open>resource.Quantity\<close>: its value in units of 1/10\<open>^\<close>9 and the text it prints as.\<close>

record quantity =
  q_nanos :: int
  q_text :: string

record resources =
  rs_requests :: "(string \<times> quantity) list"
  rs_limits :: "(string \<times> quantity) list"

record securitycontext =
  sc_privileged :: "bool option"
  sc_rest :: string

record container =
  c_name :: string
  c_image :: string
  c_pullPolicy :: string
  c_args :: "string list"
  c_workingDir :: string
  c_ports :: "containerport list option"
  c_env :: "envvar list"
  c_resources :: resources
  c_volumeMounts :: "volmount list"
  c_liveness :: "probe option"
  c_readiness :: "probe option"
  c_securityContext :: "securitycontext option"
  c_rest :: string

record cmsource =
  cs_cmName :: string
  cs_optional :: "bool option"
  cs_defaultMode :: "int32 option"
  cs_cmRest :: string

record secretsource =
  ss_secretName :: string
  ss_optional :: "bool option"
  ss_defaultMode :: "int32 option"

record volume =
  v_name :: string
  v_configMap :: "cmsource option"
  v_secret :: "secretsource option"
  v_hostPath :: "string option"
  v_rest :: string

record podsecurity =
  psc_fsGroup :: "int64 option"
  psc_rest :: string

record podspec =
  ps_containers :: "container list"
  ps_initContainers :: "container list"
  ps_ephemeralContainers :: "container list"
  ps_volumes :: "volume list"
  ps_serviceAccountName :: string
  ps_hostNetwork :: bool
  ps_hostPID :: bool
  ps_hostIPC :: bool
  ps_securityContext :: "podsecurity option"
  ps_rest :: string

record containerstate =
  cst_waiting :: "string ptr"
  cst_running :: "string ptr"
  cst_terminated :: "string ptr"

definition empty_containerstate :: containerstate where
  "empty_containerstate = \<lparr>cst_waiting = None, cst_running = None, cst_terminated = None\<rparr>"

definition containerstate_eq :: "containerstate \<Rightarrow> containerstate \<Rightarrow> bool" where
  "containerstate_eq a b \<longleftrightarrow> ptr_eq (cst_waiting a) (cst_waiting b) \<and>
     ptr_eq (cst_running a) (cst_running b) \<and> ptr_eq (cst_terminated a) (cst_terminated b)"

record containerstatus =
  cst_name :: string
  cst_state :: containerstate
  cst_rest :: string

record podcondition =
  pc_type :: string
  pc_status :: string
  pc_lastProbeTime :: gotime
  pc_lastTransitionTime :: gotime
  pc_reason :: string
  pc_message :: string

record podstatus =
  pst_conditions :: "podcondition list"
  pst_containerStatuses :: "containerstatus list"
  pst_rest :: string

definition empty_podstatus :: podstatus where
  "empty_podstatus = \<lparr>pst_conditions = [], pst_containerStatuses = [], pst_rest = []\<rparr>"

record pod =
  pod_meta :: objmeta
  pod_status :: podstatus

definition empty_pod :: pod where
  "empty_pod = \<lparr>pod_meta = empty_meta, pod_status = empty_podstatus\<rparr>"

section \<open>Notebooks\<close>

text \<open>
  \<open>api/v1\<close>, \<open>v1alpha1\<close> and \<open>v1beta1\<close> declare the same fields; this record is the Notebook the
  controllers work on. \<open>Conversion\<close> has records of its own for the versions, \<open>DeepCopy\<close> for the heap.
\<close>

record nbcondition =
  nc_type :: string
  nc_status :: string
  nc_lastProbeTime :: gotime
  nc_lastTransitionTime :: gotime
  nc_reason :: string
  nc_message :: string

record nbstatus =
  st_conditions :: "nbcondition list"
  st_readyReplicas :: int32
  st_containerState :: containerstate

record notebook =
  nb_meta :: objmeta
  nb_podspec :: podspec
  nb_status :: nbstatus

abbreviation nb_name :: "notebook \<Rightarrow> string" where
  "nb_name n \<equiv> m_name (nb_meta n)"

abbreviation nb_ns :: "notebook \<Rightarrow> string" where
  "nb_ns n \<equiv> m_namespace (nb_meta n)"

abbreviation nb_annotations :: "notebook \<Rightarrow> smap" where
  "nb_annotations n \<equiv> m_annotations (nb_meta n)"

abbreviation nb_key :: "notebook \<Rightarrow> nsname" where
  "nb_key n \<equiv> meta_key (nb_meta n)"

definition map_meta :: "(objmeta \<Rightarrow> objmeta) \<Rightarrow> notebook \<Rightarrow> notebook" where
  "map_meta f n = n\<lparr>nb_meta := f (nb_meta n)\<rparr>"

definition with_annotations :: "smap \<Rightarrow> objmeta \<Rightarrow> objmeta" where
  "with_annotations a m = m\<lparr>m_annotations := a\<rparr>"

lemma with_annotations_simps [simp]:
  "m_annotations (with_annotations a m) = a"
  "m_name (with_annotations a m) = m_name m"
  "m_namespace (with_annotations a m) = m_namespace m"
  "m_labels (with_annotations a m) = m_labels m"
  "m_finalizers (with_annotations a m) = m_finalizers m"
  "m_uid (with_annotations a m) = m_uid m"
  "m_deletionTimestamp (with_annotations a m) = m_deletionTimestamp m"
  "with_annotations a (with_annotations b m) = with_annotations a m"
  by (simp_all add: with_annotations_def)

lemma with_annotations_same [simp]: "with_annotations (m_annotations m) m = m"
  by (simp add: with_annotations_def)

section \<open>Other objects\<close>

record statefulset =
  sts_meta :: objmeta
  sts_replicas :: "int32 option"
  sts_selector :: smap
  sts_tmplLabels :: smap
  sts_tmplAnnotations :: smap
  sts_podspec :: podspec
  sts_readyReplicas :: int32

record deployment =
  dp_meta :: objmeta
  dp_replicas :: "int32 ptr"
  dp_podspec :: podspec

datatype intorstring = IntVal int32 | StrVal string

record serviceport =
  sp_name :: string
  sp_port :: int32
  sp_targetPort :: intorstring
  sp_protocol :: string

record service =
  svc_meta :: objmeta
  svc_type :: string
  svc_selector :: smap
  svc_ports :: "serviceport list"
  svc_rest :: string

record configmap =
  cm_meta :: objmeta
  cm_data :: smap
  cm_rest :: string

record secret =
  sec_meta :: objmeta
  sec_type :: string
  sec_data :: smap

record serviceaccount =
  sa_meta :: objmeta
  sa_imagePullSecrets :: "string list"

record subject =
  sj_kind :: string
  sj_name :: string
  sj_namespace :: string

record roleref =
  rr_apiGroup :: string
  rr_kind :: string
  rr_name :: string

record rolebinding =
  rb_meta :: objmeta
  rb_roleRef :: roleref
  rb_subjects :: "subject list"

text \<open>
  Network policies, HTTP routes and reference grants are compared with \<open>reflect.DeepEqual\<close>,
  which tells a nil slice from an empty one: their slices are options of lists, \<open>elems\<close> reads one.
\<close>

definition elems :: "'a list option \<Rightarrow> 'a list" where
  "elems xs = (case xs of None \<Rightarrow> [] | Some ys \<Rightarrow> ys)"

lemma elems_simps [simp]: "elems None = []" "elems (Some xs) = xs"
  by (simp_all add: elems_def)

record netport =
  np_protocol :: "string option"
  np_port :: "intorstring option"
  np_rest :: string

text \<open>A peer of a network policy: the labels its namespace selector matches, if it has one.\<close>

record netpeer =
  peer_namespaceLabels :: "smap option"
  peer_rest :: string

record netingress =
  ni_ports :: "netport list option"
  ni_from :: "netpeer list option"

record netegress =
  ne_ports :: "netport list option"
  ne_to :: "netpeer list option"

record netpolicyspec =
  nps_podSelector :: smap
  nps_ingress :: "netingress list option"
  nps_egress :: "netegress list option"
  nps_types :: "string list option"
  nps_rest :: string

record netpolicy =
  npol_meta :: objmeta
  npol_spec :: netpolicyspec

record parentref =
  pref_name :: string
  pref_namespace :: "string option"
  pref_rest :: string

record backendref =
  br_name :: string
  br_namespace :: "string option"
  br_port :: "int32 option"
  br_rest :: string

record routematch =
  rm_pathType :: "string option"
  rm_pathValue :: "string option"
  rm_rest :: string

record routerule =
  ru_matches :: "routematch list option"
  ru_backendRefs :: "backendref list option"
  ru_rest :: string

record httproutespec =
  rt_parentRefs :: "parentref list option"
  rt_rules :: "routerule list option"
  rt_rest :: string

record httproute =
  hr_meta :: objmeta
  hr_spec :: httproutespec

record grantfrom =
  gf_group :: string
  gf_kind :: string
  gf_namespace :: string

record grantto =
  gt_group :: string
  gt_kind :: string
  gt_name :: "string option"

record refgrant =
  rg_meta :: objmeta
  rg_from :: "grantfrom list option"
  rg_to :: "grantto list option"

record kevent =
  ke_meta :: objmeta
  ke_kind :: string
  ke_objName :: string
  ke_objNamespace :: string
  ke_type :: string
  ke_reason :: string
  ke_message :: string

text \<open>The trees of an \<open>unstructured.Unstructured\<close> object: scalars, lists and maps.\<close>

datatype jvalue =
    JStr string
  | JInt int
  | JBool bool
  | JNull
  | JList "jvalue list"
  | JMap "(string, jvalue) fmap"

record virtualservice =
  vs_apiVersion :: string
  vs_kind :: string
  vs_meta :: objmeta
  vs_spec :: "jvalue option"

text \<open>
  Objects of OpenShift and of the pipelines operator, with the fields the code reads: image
  streams (spec tags, and status tags with their items), the cluster proxy, gateways (the
  hostnames of their listeners), routes, and pipelines applications (nested pointers).
\<close>

record spectag =
  stag_name :: string
  stag_annotations :: smap
  stag_from :: "string option"

record tagitem =
  ti_created :: gotime
  ti_reference :: string

record imagestream =
  is_meta :: objmeta
  is_specTags :: "spectag list"
  is_statusTags :: "(string \<times> tagitem list) list option"

record clusterproxy =
  px_meta :: objmeta
  px_http :: string
  px_https :: string
  px_noProxy :: string

record gateway =
  gw_meta :: objmeta
  gw_listeners :: "string option list"

record osroute =
  osr_meta :: objmeta
  osr_host :: string

record s3credential =
  s3_secretName :: string
  s3_accessKey :: string
  s3_secretKey :: string

record externalstorage =
  xs_host :: string
  xs_scheme :: string
  xs_bucket :: string
  xs_s3 :: "s3credential option"

record dspa =
  dspa_meta :: objmeta
  dspa_apiUrl :: string
  dspa_objectStorage :: "externalstorage option option"

text \<open>The TLS security profile of the OpenShift API server, and the adherence it asks for.\<close>

datatype tlsgroup = SecP256r1 | SecP384r1 | SecP521r1 | X25519 | X25519MLKEM768 | OtherGroup string

record tlsprofilespec =
  tps_ciphers :: "string list"
  tps_groups :: "tlsgroup list"
  tps_minVersion :: string

record tlsprofile =
  tlp_type :: string
  tlp_custom :: "tlsprofilespec option"

record apiserver =
  as_meta :: objmeta
  as_profile :: "tlsprofile option"
  as_adherence :: string

section \<open>The universe of objects\<close>

datatype kind =
    KNotebook | KStatefulSet | KService | KPod | KConfigMap | KSecret | KServiceAccount
  | KRoleBinding | KClusterRoleBinding | KRole | KClusterRole | KNetworkPolicy | KHTTPRoute
  | KReferenceGrant | KEvent | KVirtualService | KOAuthClient | KDeployment
  | KImageStream | KProxy | KGateway | KRoute | KDSPA | KAPIServer

datatype kobj =
    ONotebook notebook
  | OStatefulSet statefulset
  | OService service
  | OPod pod
  | OConfigMap configmap
  | OSecret secret
  | OServiceAccount serviceaccount
  | ORoleBinding rolebinding
  | OClusterRoleBinding rolebinding
  | ORole objmeta
  | OClusterRole objmeta
  | ONetworkPolicy netpolicy
  | OHTTPRoute httproute
  | OReferenceGrant refgrant
  | OEvent kevent
  | OVirtualService virtualservice
  | OOAuthClient objmeta
  | ODeployment deployment
  | OImageStream imagestream
  | OProxy clusterproxy
  | OGateway gateway
  | ORoute osroute
  | ODSPA dspa
  | OAPIServer apiserver

fun obj_kind :: "kobj \<Rightarrow> kind" where
  "obj_kind (ONotebook _) = KNotebook"
| "obj_kind (OStatefulSet _) = KStatefulSet"
| "obj_kind (OService _) = KService"
| "obj_kind (OPod _) = KPod"
| "obj_kind (OConfigMap _) = KConfigMap"
| "obj_kind (OSecret _) = KSecret"
| "obj_kind (OServiceAccount _) = KServiceAccount"
| "obj_kind (ORoleBinding _) = KRoleBinding"
| "obj_kind (OClusterRoleBinding _) = KClusterRoleBinding"
| "obj_kind (ORole _) = KRole"
| "obj_kind (OClusterRole _) = KClusterRole"
| "obj_kind (ONetworkPolicy _) = KNetworkPolicy"
| "obj_kind (OHTTPRoute _) = KHTTPRoute"
| "obj_kind (OReferenceGrant _) = KReferenceGrant"
| "obj_kind (OEvent _) = KEvent"
| "obj_kind (OVirtualService _) = KVirtualService"
| "obj_kind (OOAuthClient _) = KOAuthClient"
| "obj_kind (ODeployment _) = KDeployment"
| "obj_kind (OImageStream _) = KImageStream"
| "obj_kind (OProxy _) = KProxy"
| "obj_kind (OGateway _) = KGateway"
| "obj_kind (ORoute _) = KRoute"
| "obj_kind (ODSPA _) = KDSPA"
| "obj_kind (OAPIServer _) = KAPIServer"

fun obj_meta :: "kobj \<Rightarrow> objmeta" where
  "obj_meta (ONotebook n) = nb_meta n"
| "obj_meta (OStatefulSet s) = sts_meta s"
| "obj_meta (OService s) = svc_meta s"
| "obj_meta (OPod p) = pod_meta p"
| "obj_meta (OConfigMap c) = cm_meta c"
| "obj_meta (OSecret s) = sec_meta s"
| "obj_meta (OServiceAccount s) = sa_meta s"
| "obj_meta (ORoleBinding r) = rb_meta r"
| "obj_meta (OClusterRoleBinding r) = rb_meta r"
| "obj_meta (ORole m) = m"
| "obj_meta (OClusterRole m) = m"
| "obj_meta (ONetworkPolicy p) = npol_meta p"
| "obj_meta (OHTTPRoute r) = hr_meta r"
| "obj_meta (OReferenceGrant g) = rg_meta g"
| "obj_meta (OEvent e) = ke_meta e"
| "obj_meta (OVirtualService v) = vs_meta v"
| "obj_meta (OOAuthClient m) = m"
| "obj_meta (ODeployment d) = dp_meta d"
| "obj_meta (OImageStream i) = is_meta i"
| "obj_meta (OProxy p) = px_meta p"
| "obj_meta (OGateway g) = gw_meta g"
| "obj_meta (ORoute r) = osr_meta r"
| "obj_meta (ODSPA d) = dspa_meta d"
| "obj_meta (OAPIServer a) = as_meta a"

definition obj_key :: "kobj \<Rightarrow> nsname" where
  "obj_key x = meta_key (obj_meta x)"

end
