(* ===== verification/Kube.thy ===== *)
theory Kube
  imports KubeTypes
begin

text \<open>
  The API server as the handlers see it. A handler is a state transformer over a
  \<open>world\<close>: the server's own state, of any type, and the trace of what the handler did to it.
  The server is a parameter (\<open>env_api\<close>), so a property about what a handler writes holds
  for every server, and for every interleaving of other clients' writes, since the server may
  change its state as it likes between two calls. \<open>does\<close> and \<open>emits\<close> are the calculus for
  such properties.
\<close>

named_theorems wp_rules \<open>decomposition rules of \<open>does\<close>\<close>
named_theorems emit_rules \<open>decomposition rules of \<open>emits\<close>\<close>

section \<open>Requests, responses, effects\<close>

datatype request =
    RGet kind nsname
  | RList kind "string option" smap
  | RCreate kobj
  | RUpdate kobj
  | RUpdateStatus kobj
  | RDelete kind nsname
  | RPatchRaw kind nsname string
  | RPatchMerge kobj kobj

datatype response =
    RespErr goerr
  | RespObj kobj
  | RespList "kobj list"
  | RespOk

text \<open>
  What a handler does to the outside: a call with its response, an event it records on an
  object, a metric it moves, a URL it gets.
\<close>

datatype effect =
    Call request response
  | Emitted nsname string string string
  | Metric string "string list"
  | Http string

fun is_write :: "request \<Rightarrow> bool" where
  "is_write (RGet _ _) = False"
| "is_write (RList _ _ _) = False"
| "is_write _ = True"

record 's world =
  server :: 's
  trace :: "effect list"

text \<open>
  The surroundings of a handler: the API server, the clock, the process environment
  (\<open>os.LookupEnv\<close>), \<open>ctrl.SetControllerReference\<close> (owner, object), the number of
  attempts of each \<open>retry\<close> backoff, \<open>json.Unmarshal\<close> into a \<open>map[string]string\<close> and into a tree, \<open>json.Marshal\<close> of a
  tree, and an HTTP GET (status and body, or an error).
\<close>

record 's env =
  env_api :: "request \<Rightarrow> 's \<Rightarrow> response \<times> 's"
  env_clock :: "'s \<Rightarrow> gotime \<times> 's"
  env_var :: "string \<Rightarrow> string option"
  env_setref :: "objmeta \<Rightarrow> objmeta \<Rightarrow> goerr + objmeta"
  env_steps :: "string \<Rightarrow> nat"
  env_json_map :: "string \<Rightarrow> (string, string) fmap option"
  env_unmarshal :: "string \<Rightarrow> jvalue option"
  env_marshal :: "jvalue \<Rightarrow> string"
  env_http :: "string \<Rightarrow> 's \<Rightarrow> (int \<times> string) option \<times> 's"

definition Getenv :: "'s env \<Rightarrow> string \<Rightarrow> string" where
  "Getenv E k = (case env_var E k of None \<Rightarrow> [] | Some v \<Rightarrow> v)"

section \<open>Effects as a monad\<close>

type_synonym ('s, 'a) handler = "('s world, 'a) state"
type_synonym ('s, 'a) ehandler = "('s world, goerr + 'a) state"

abbreviation return_h :: "'a \<Rightarrow> ('s, 'a) handler" where
  "return_h \<equiv> State_Monad.return"

abbreviation ok :: "'a \<Rightarrow> ('s, 'a) ehandler" where
  "ok x \<equiv> State_Monad.return (Inr x)"

abbreviation fail :: "goerr \<Rightarrow> ('s, 'a) ehandler" where
  "fail e \<equiv> State_Monad.return (Inl e)"

definition call :: "'s env \<Rightarrow> request \<Rightarrow> ('s, response) handler" where
  "call E r = State (\<lambda>w. case env_api E r (server w) of
     (resp, s) \<Rightarrow> (resp, w\<lparr>server := s, trace := trace w @ [Call r resp]\<rparr>))"

definition emit :: "effect \<Rightarrow> ('s, unit) handler" where
  "emit e = State (\<lambda>w. ((), w\<lparr>trace := trace w @ [e]\<rparr>))"

definition http_get :: "'s env \<Rightarrow> string \<Rightarrow> ('s, (int \<times> string) option) handler" where
  "http_get E url = State (\<lambda>w. case env_http E url (server w) of
     (r, s) \<Rightarrow> (r, w\<lparr>server := s, trace := trace w @ [Http url]\<rparr>))"

definition Now :: "'s env \<Rightarrow> ('s, gotime) handler" where
  "Now E = State (\<lambda>w. case env_clock E (server w) of (t, s) \<Rightarrow> (t, w\<lparr>server := s\<rparr>))"

text \<open>\<open>x, err := m; if err != nil { return err }; f\<close>.\<close>

definition check :: "('s, 'a) ehandler \<Rightarrow> ('a \<Rightarrow> ('s, 'b) ehandler) \<Rightarrow> ('s, 'b) ehandler" where
  "check m f = State_Monad.bind m (\<lambda>r. case r of Inl e \<Rightarrow> fail e | Inr x \<Rightarrow> f x)"

definition lift :: "goerr + 'a \<Rightarrow> ('s, 'a) ehandler" where
  "lift r = State_Monad.return r"

text \<open>
  \<open>retry.OnError(backoff, retriable, body)\<close>: run the body until it succeeds, fails with an
  error that is not retriable, or the attempts are used up; the last error is returned.
\<close>

fun retry_on :: "nat \<Rightarrow> (goerr \<Rightarrow> bool) \<Rightarrow> ('s, 'a) ehandler \<Rightarrow> ('s, 'a) ehandler" where
  "retry_on 0 p m = m"
| "retry_on (Suc n) p m = State_Monad.bind m (\<lambda>r. case r of
     Inl e \<Rightarrow> if p e then retry_on n p m else fail e
   | Inr x \<Rightarrow> ok x)"

text \<open>\<open>steps\<close> attempts are one first attempt and \<open>steps - 1\<close> retries.\<close>

definition RetryOnError :: "'s env \<Rightarrow> string \<Rightarrow> (goerr \<Rightarrow> bool) \<Rightarrow> ('s, 'a) ehandler \<Rightarrow> ('s, 'a) ehandler" where
  "RetryOnError E backoff p m = retry_on (env_steps E backoff - 1) p m"

definition RetryOnConflict :: "'s env \<Rightarrow> string \<Rightarrow> ('s, 'a) ehandler \<Rightarrow> ('s, 'a) ehandler" where
  "RetryOnConflict E backoff m = RetryOnError E backoff IsConflict m"

section \<open>The client\<close>

text \<open>
  \<open>client.Client\<close>: each call returns the error of the server, or the object the server sent
  back, which Go decodes into the caller's variable. An object of another kind does not decode.
\<close>

definition decode_err :: goerr where
  "decode_err = Errorf ''unable to decode''"

lemma decode_err_simps [simp]:
  "\<not> IsNotFound decode_err" "\<not> IsConflict decode_err" "\<not> IsAlreadyExists decode_err"
  "\<not> IsNoMatchError decode_err" "\<not> is_panic decode_err"
  by (simp_all add: decode_err_def IsNotFound_def IsConflict_def IsAlreadyExists_def IsNoMatchError_def)

definition as_obj :: "(kobj \<Rightarrow> 'a option) \<Rightarrow> response \<Rightarrow> goerr + 'a" where
  "as_obj p r = (case r of
     RespErr e \<Rightarrow> Inl e
   | RespObj x \<Rightarrow> (case p x of None \<Rightarrow> Inl decode_err | Some y \<Rightarrow> Inr y)
   | _ \<Rightarrow> Inl decode_err)"

definition as_list :: "(kobj \<Rightarrow> 'a option) \<Rightarrow> response \<Rightarrow> goerr + 'a list" where
  "as_list p r = (case r of
     RespErr e \<Rightarrow> Inl e
   | RespList xs \<Rightarrow> (case those (map p xs) of None \<Rightarrow> Inl decode_err | Some ys \<Rightarrow> Inr ys)
   | _ \<Rightarrow> Inl decode_err)"

definition as_unit :: "response \<Rightarrow> goerr + unit" where
  "as_unit r = (case r of RespErr e \<Rightarrow> Inl e | _ \<Rightarrow> Inr ())"

definition call_as :: "'s env \<Rightarrow> (response \<Rightarrow> 'a) \<Rightarrow> request \<Rightarrow> ('s, 'a) handler" where
  "call_as E p r = State_Monad.bind (call E r) (\<lambda>resp. State_Monad.return (p resp))"

fun to_notebook :: "kobj \<Rightarrow> notebook option" where
  "to_notebook (ONotebook x) = Some x" | "to_notebook _ = None"
fun to_statefulset :: "kobj \<Rightarrow> statefulset option" where
  "to_statefulset (OStatefulSet x) = Some x" | "to_statefulset _ = None"
fun to_service :: "kobj \<Rightarrow> service option" where
  "to_service (OService x) = Some x" | "to_service _ = None"
fun to_pod :: "kobj \<Rightarrow> pod option" where
  "to_pod (OPod x) = Some x" | "to_pod _ = None"
fun to_configmap :: "kobj \<Rightarrow> configmap option" where
  "to_configmap (OConfigMap x) = Some x" | "to_configmap _ = None"
fun to_secret :: "kobj \<Rightarrow> secret option" where
  "to_secret (OSecret x) = Some x" | "to_secret _ = None"
fun to_serviceaccount :: "kobj \<Rightarrow> serviceaccount option" where
  "to_serviceaccount (OServiceAccount x) = Some x" | "to_serviceaccount _ = None"
fun to_rolebinding :: "kobj \<Rightarrow> rolebinding option" where
  "to_rolebinding (ORoleBinding x) = Some x" | "to_rolebinding _ = None"
fun to_clusterrolebinding :: "kobj \<Rightarrow> rolebinding option" where
  "to_clusterrolebinding (OClusterRoleBinding x) = Some x" | "to_clusterrolebinding _ = None"
fun to_netpolicy :: "kobj \<Rightarrow> netpolicy option" where
  "to_netpolicy (ONetworkPolicy x) = Some x" | "to_netpolicy _ = None"
fun to_httproute :: "kobj \<Rightarrow> httproute option" where
  "to_httproute (OHTTPRoute x) = Some x" | "to_httproute _ = None"
fun to_refgrant :: "kobj \<Rightarrow> refgrant option" where
  "to_refgrant (OReferenceGrant x) = Some x" | "to_refgrant _ = None"
fun to_event :: "kobj \<Rightarrow> kevent option" where
  "to_event (OEvent x) = Some x" | "to_event _ = None"
fun to_virtualservice :: "kobj \<Rightarrow> virtualservice option" where
  "to_virtualservice (OVirtualService x) = Some x" | "to_virtualservice _ = None"
fun to_deployment :: "kobj \<Rightarrow> deployment option" where
  "to_deployment (ODeployment x) = Some x" | "to_deployment _ = None"
fun to_imagestream :: "kobj \<Rightarrow> imagestream option" where
  "to_imagestream (OImageStream x) = Some x" | "to_imagestream _ = None"
fun to_proxy :: "kobj \<Rightarrow> clusterproxy option" where
  "to_proxy (OProxy x) = Some x" | "to_proxy _ = None"
fun to_gateway :: "kobj \<Rightarrow> gateway option" where
  "to_gateway (OGateway x) = Some x" | "to_gateway _ = None"
fun to_route :: "kobj \<Rightarrow> osroute option" where
  "to_route (ORoute x) = Some x" | "to_route _ = None"
fun to_dspa :: "kobj \<Rightarrow> dspa option" where
  "to_dspa (ODSPA x) = Some x" | "to_dspa _ = None"
fun to_apiserver :: "kobj \<Rightarrow> apiserver option" where
  "to_apiserver (OAPIServer x) = Some x" | "to_apiserver _ = None"
fun to_any :: "kobj \<Rightarrow> kobj option" where
  "to_any x = Some x"

text \<open>\<open>Get\<close>, \<open>List\<close>, \<open>Create\<close>, \<open>Update\<close>, \<open>Status().Update\<close>, \<open>Delete\<close>, \<open>Patch\<close>.\<close>

definition Get :: "'s env \<Rightarrow> kind \<Rightarrow> (kobj \<Rightarrow> 'a option) \<Rightarrow> nsname \<Rightarrow> ('s, 'a) ehandler" where
  "Get E k p key = call_as E (as_obj p) (RGet k key)"

definition ListIn :: "'s env \<Rightarrow> kind \<Rightarrow> (kobj \<Rightarrow> 'a option) \<Rightarrow> string option \<Rightarrow> smap \<Rightarrow> ('s, 'a list) ehandler" where
  "ListIn E k p ns labels = call_as E (as_list p) (RList k ns labels)"

definition Create :: "'s env \<Rightarrow> (kobj \<Rightarrow> 'a option) \<Rightarrow> kobj \<Rightarrow> ('s, 'a) ehandler" where
  "Create E p x = call_as E (as_obj p) (RCreate x)"

definition Update :: "'s env \<Rightarrow> (kobj \<Rightarrow> 'a option) \<Rightarrow> kobj \<Rightarrow> ('s, 'a) ehandler" where
  "Update E p x = call_as E (as_obj p) (RUpdate x)"

definition StatusUpdate :: "'s env \<Rightarrow> (kobj \<Rightarrow> 'a option) \<Rightarrow> kobj \<Rightarrow> ('s, 'a) ehandler" where
  "StatusUpdate E p x = call_as E (as_obj p) (RUpdateStatus x)"

definition Delete :: "'s env \<Rightarrow> kind \<Rightarrow> nsname \<Rightarrow> ('s, unit) ehandler" where
  "Delete E k key = call_as E as_unit (RDelete k key)"

definition PatchRaw :: "'s env \<Rightarrow> kind \<Rightarrow> (kobj \<Rightarrow> 'a option) \<Rightarrow> nsname \<Rightarrow> string \<Rightarrow> ('s, 'a) ehandler" where
  "PatchRaw E k p key body = call_as E (as_obj p) (RPatchRaw k key body)"

definition PatchMerge :: "'s env \<Rightarrow> (kobj \<Rightarrow> 'a option) \<Rightarrow> kobj \<Rightarrow> kobj \<Rightarrow> ('s, 'a) ehandler" where
  "PatchMerge E p old new = call_as E (as_obj p) (RPatchMerge old new)"

lemmas client_defs = Get_def ListIn_def Create_def Update_def StatusUpdate_def Delete_def
  PatchRaw_def PatchMerge_def

text \<open>\<open>ctrl.SetControllerReference(owner, obj, scheme)\<close>: sets the owner reference or fails.\<close>

definition SetControllerReference :: "'s env \<Rightarrow> objmeta \<Rightarrow> objmeta \<Rightarrow> goerr + objmeta" where
  "SetControllerReference E owner m = env_setref E owner m"

text \<open>What the code relies on: the call touches only the owner references.\<close>

definition setref_keeps :: "'s env \<Rightarrow> bool" where
  "setref_keeps E \<longleftrightarrow> (\<forall>owner m m'. env_setref E owner m = Inr m' \<longrightarrow>
     m' = m\<lparr>m_ownerRefs := m_ownerRefs m'\<rparr>)"

section \<open>A server that keeps what it is given\<close>

text \<open>
  An instance of \<open>env_api\<close> for the witnesses: the state is the list of stored objects, kept
  as written. \<open>mem_env\<close> has a fixed clock, no environment variables, an owner reference
  that is only recorded, and one attempt per retry.
\<close>

definition same_obj :: "kind \<Rightarrow> nsname \<Rightarrow> kobj \<Rightarrow> bool" where
  "same_obj k key x \<longleftrightarrow> obj_kind x = k \<and> obj_key x = key"

fun mem_api :: "request \<Rightarrow> kobj list \<Rightarrow> response \<times> kobj list" where
  "mem_api (RGet k key) s = ((case find (same_obj k key) s of
     None \<Rightarrow> RespErr (ApiErr NotFound) | Some x \<Rightarrow> RespObj x), s)"
| "mem_api (RList k ns labels) s = (RespList (filter (\<lambda>x. obj_kind x = k \<and>
     (case ns of None \<Rightarrow> True | Some n \<Rightarrow> m_namespace (obj_meta x) = n) \<and>
     mall (\<lambda>l v. mlookup (m_labels (obj_meta x)) l = Some v) labels) s), s)"
| "mem_api (RCreate x) s = (if list_ex (same_obj (obj_kind x) (obj_key x)) s
     then (RespErr (ApiErr AlreadyExists), s) else (RespObj x, x # s))"
| "mem_api (RUpdate x) s = (if list_ex (same_obj (obj_kind x) (obj_key x)) s
     then (RespObj x, replace_first (same_obj (obj_kind x) (obj_key x)) x s)
     else (RespErr (ApiErr NotFound), s))"
| "mem_api (RUpdateStatus x) s = (if list_ex (same_obj (obj_kind x) (obj_key x)) s
     then (RespObj x, replace_first (same_obj (obj_kind x) (obj_key x)) x s)
     else (RespErr (ApiErr NotFound), s))"
| "mem_api (RDelete k key) s = (if list_ex (same_obj k key) s
     then (RespOk, delete_first (same_obj k key) s) else (RespErr (ApiErr NotFound), s))"
| "mem_api (RPatchRaw k key body) s = ((case find (same_obj k key) s of
     None \<Rightarrow> RespErr (ApiErr NotFound) | Some x \<Rightarrow> RespObj x), s)"
| "mem_api (RPatchMerge old new) s = (if list_ex (same_obj (obj_kind new) (obj_key new)) s
     then (RespObj new, replace_first (same_obj (obj_kind new) (obj_key new)) new s)
     else (RespErr (ApiErr NotFound), s))"

definition mem_setref :: "objmeta \<Rightarrow> objmeta \<Rightarrow> goerr + objmeta" where
  "mem_setref owner m = Inr (m\<lparr>m_ownerRefs :=
     [\<lparr>or_apiVersion = ''kubeflow.org/v1beta1'', or_kind = ''Notebook'', or_name = m_name owner,
       or_uid = m_uid owner, or_controller = Some True, or_blockOwnerDeletion = Some True\<rparr>]\<rparr>)"

definition mem_env :: "(string \<Rightarrow> string option) \<Rightarrow> gotime \<Rightarrow> (kobj list) env" where
  "mem_env vars t = \<lparr>env_api = mem_api, env_clock = (\<lambda>s. (t, s)), env_var = vars,
     env_setref = mem_setref, env_steps = (\<lambda>_. 1), env_json_map = (\<lambda>_. None),
     env_unmarshal = (\<lambda>_. None), env_marshal = (\<lambda>_. ''{}''),
     env_http = (\<lambda>_ s. (None, s))\<rparr>"

lemma mem_env_simps [simp]:
  "env_api (mem_env vars t) = mem_api" "env_clock (mem_env vars t) = (\<lambda>s. (t, s))"
  "env_var (mem_env vars t) = vars" "env_setref (mem_env vars t) = mem_setref"
  "env_steps (mem_env vars t) = (\<lambda>_. 1)" "env_json_map (mem_env vars t) = (\<lambda>_. None)"
  "env_http (mem_env vars t) = (\<lambda>_ s. (None, s))"
  by (simp_all add: mem_env_def)

lemma find_replace_first:
  "list_ex p xs \<Longrightarrow> p y \<Longrightarrow> find p (replace_first p y xs) = Some y"
  by (induction xs) auto

lemma find_same_obj: "find (same_obj k key) s = Some x \<Longrightarrow> obj_kind x = k \<and> obj_key x = key"
  by (auto simp: find_Some_iff same_obj_def)

section \<open>Running\<close>

lemma run_bind [simp]:
  "run_state (State_Monad.bind m f) w = (case run_state m w of (x, w') \<Rightarrow> run_state (f x) w')"
  by (cases m) (simp add: State_Monad.bind_def split: prod.splits)

lemma run_return [simp]: "run_state (State_Monad.return x) w = (x, w)"
  by (simp add: State_Monad.return_def)

lemma run_call [simp]:
  "run_state (call E r) w = (case env_api E r (server w) of
     (resp, s) \<Rightarrow> (resp, w\<lparr>server := s, trace := trace w @ [Call r resp]\<rparr>))"
  by (simp add: call_def)

lemma run_emit [simp]: "run_state (emit e) w = ((), w\<lparr>trace := trace w @ [e]\<rparr>)"
  by (simp add: emit_def)

lemma run_http_get [simp]:
  "run_state (http_get E url) w = (case env_http E url (server w) of
     (r, s) \<Rightarrow> (r, w\<lparr>server := s, trace := trace w @ [Http url]\<rparr>))"
  by (simp add: http_get_def)

lemma run_Now [simp]:
  "run_state (Now E) w = (case env_clock E (server w) of (t, s) \<Rightarrow> (t, w\<lparr>server := s\<rparr>))"
  by (simp add: Now_def)

lemma run_call_as [simp]:
  "run_state (call_as E p r) w = (case env_api E r (server w) of
     (resp, s) \<Rightarrow> (p resp, w\<lparr>server := s, trace := trace w @ [Call r resp]\<rparr>))"
  by (simp add: call_as_def split: prod.splits)

lemma run_lift [simp]: "run_state (lift r) w = (r, w)"
  by (simp add: lift_def)

lemma run_check [simp]:
  "run_state (check m f) w = (case run_state m w of
     (Inl e, w') \<Rightarrow> (Inl e, w') | (Inr x, w') \<Rightarrow> run_state (f x) w')"
  by (auto simp: check_def split: prod.splits sum.splits)

lemma check_ok [simp]: "check (ok x) f = f x"
  by (simp add: check_def State_Monad.bind_def State_Monad.return_def)

lemma check_assoc: "check (check m f) g = check m (\<lambda>x. check (f x) g)"
  by (rule state.expand, rule ext) (auto split: prod.splits sum.splits)

lemma check_bind: "check (State_Monad.bind m f) g = State_Monad.bind m (\<lambda>x. check (f x) g)"
  by (rule state.expand, rule ext) (auto split: prod.splits sum.splits)

lemma check_prod: "check (case x of (a, b) \<Rightarrow> f a b) g = (case x of (a, b) \<Rightarrow> check (f a b) g)"
  by (cases x) simp

lemma as_obj_simps [simp]:
  "as_obj p (RespErr e) = Inl e"
  "as_obj p (RespObj x) = (case p x of None \<Rightarrow> Inl decode_err | Some y \<Rightarrow> Inr y)"
  "as_obj p (RespList xs) = Inl decode_err"
  "as_obj p RespOk = Inl decode_err"
  by (simp_all add: as_obj_def)

lemma as_unit_simps [simp]:
  "as_unit (RespErr e) = Inl e" "as_unit (RespObj x) = Inr ()"
  "as_unit (RespList xs) = Inr ()" "as_unit RespOk = Inr ()"
  by (simp_all add: as_unit_def)

lemma as_list_simps [simp]:
  "as_list p (RespErr e) = Inl e" "as_list p (RespObj x) = Inl decode_err" "as_list p RespOk = Inl decode_err"
  "as_list p (RespList xs) = (case those (map p xs) of None \<Rightarrow> Inl decode_err | Some ys \<Rightarrow> Inr ys)"
  by (simp_all add: as_list_def)

lemma as_obj_Inr: "as_obj p r = Inr y \<longleftrightarrow> (\<exists>x. r = RespObj x \<and> p x = Some y)"
  by (cases r) (auto split: option.splits)

lemma those_map_Some: "those (map Some ys) = Some ys"
  by (induction ys) auto

lemma those_Some_map: "those xs = Some ys \<longleftrightarrow> xs = map Some ys"
proof
  show "those xs = Some ys \<Longrightarrow> xs = map Some ys"
    by (induction xs arbitrary: ys) (auto split: option.splits)
qed (simp add: those_map_Some)

section \<open>What a handler does\<close>

text \<open>
  \<open>does m Q\<close>: from any world, \<open>m\<close> only appends to the trace, and its result with what it
  appended satisfies \<open>Q\<close>. \<open>emits P m\<close>: everything appended satisfies \<open>P\<close>.
\<close>

definition does :: "('s, 'a) handler \<Rightarrow> ('a \<Rightarrow> effect list \<Rightarrow> bool) \<Rightarrow> bool" where
  "does m Q \<longleftrightarrow> (\<forall>w. \<exists>es. trace (snd (run_state m w)) = trace w @ es \<and> Q (fst (run_state m w)) es)"

definition emits :: "(effect \<Rightarrow> bool) \<Rightarrow> ('s, 'a) handler \<Rightarrow> bool" where
  "emits P m \<longleftrightarrow> does m (\<lambda>_ es. list_all P es)"

lemma does_run: "does m Q \<Longrightarrow> run_state m w = (r, w') \<Longrightarrow> \<exists>es. trace w' = trace w @ es \<and> Q r es"
  unfolding does_def by (metis fst_conv snd_conv)

lemma does_mono: "does m Q \<Longrightarrow> (\<And>r es. Q r es \<Longrightarrow> R r es) \<Longrightarrow> does m R"
  unfolding does_def by meson

lemma does_conj: "does m Q \<Longrightarrow> does m R \<Longrightarrow> does m (\<lambda>r es. Q r es \<and> R r es)"
  unfolding does_def by (metis same_append_eq)

lemma does_return [wp_rules]: "Q x [] \<Longrightarrow> does (State_Monad.return x) Q"
  by (simp add: does_def)

lemma does_bind [wp_rules]:
  assumes "does m (\<lambda>x es. does (f x) (\<lambda>y es'. Q y (es @ es')))"
  shows "does (State_Monad.bind m f) Q"
  unfolding does_def
proof
  fix w
  obtain x w1 where m: "run_state m w = (x, w1)" by (cases "run_state m w")
  with assms obtain es where es: "trace w1 = trace w @ es" "does (f x) (\<lambda>y es'. Q y (es @ es'))"
    by (meson does_run)
  obtain y w2 where f: "run_state (f x) w1 = (y, w2)" by (cases "run_state (f x) w1")
  with es(2) obtain es' where "trace w2 = trace w1 @ es'" "Q y (es @ es')"
    by (meson does_run)
  with m f es show "\<exists>es. trace (snd (run_state (State_Monad.bind m f) w)) = trace w @ es \<and>
      Q (fst (run_state (State_Monad.bind m f) w)) es"
    by (intro exI[of _ "es @ es'"]) simp
qed

lemma does_call [wp_rules]: "(\<And>resp. Q resp [Call r resp]) \<Longrightarrow> does (call E r) Q"
  by (auto simp: does_def split: prod.splits)

lemma does_call_as [wp_rules]: "(\<And>resp. Q (p resp) [Call r resp]) \<Longrightarrow> does (call_as E p r) Q"
  by (auto simp: does_def split: prod.splits)

lemma Get_does [wp_rules]: "(\<And>resp. Q (as_obj p resp) [Call (RGet k key) resp]) \<Longrightarrow> does (Get E k p key) Q"
  unfolding Get_def by (rule does_call_as)

lemma does_emit [wp_rules]: "Q () [e] \<Longrightarrow> does (emit e) Q"
  by (simp add: does_def)

lemma does_http_get [wp_rules]: "(\<And>r. Q r [Http url]) \<Longrightarrow> does (http_get E url) Q"
  by (auto simp: does_def split: prod.splits)

lemma does_Now [wp_rules]: "(\<And>t. Q t []) \<Longrightarrow> does (Now E) Q"
  by (auto simp: does_def split: prod.splits)

lemma does_lift [wp_rules]: "Q r [] \<Longrightarrow> does (lift r) Q"
  by (simp add: does_def)

lemma does_check_lift [wp_rules]:
  "(\<And>e. r = Inl e \<Longrightarrow> Q (Inl e) []) \<Longrightarrow> (\<And>x. r = Inr x \<Longrightarrow> does (f x) Q) \<Longrightarrow> does (check (lift r) f) Q"
  by (cases r) (auto simp: check_def lift_def intro!: does_bind does_return)

lemma does_check [wp_rules]:
  assumes "does m (\<lambda>r es. case r of Inl e \<Rightarrow> Q (Inl e) es | Inr x \<Rightarrow> does (f x) (\<lambda>y es'. Q y (es @ es')))"
  shows "does (check m f) Q"
  unfolding check_def
  by (rule does_bind, rule does_mono[OF assms]) (auto intro: wp_rules split: sum.splits)

lemma does_if [wp_rules]: "(b \<Longrightarrow> does m Q) \<Longrightarrow> (\<not> b \<Longrightarrow> does n Q) \<Longrightarrow> does (if b then m else n) Q"
  by simp

lemma does_sum [wp_rules]:
  "(\<And>e. x = Inl e \<Longrightarrow> does (f e) Q) \<Longrightarrow> (\<And>y. x = Inr y \<Longrightarrow> does (g y) Q) \<Longrightarrow>
    does (case x of Inl e \<Rightarrow> f e | Inr y \<Rightarrow> g y) Q"
  by (cases x) auto

lemma does_option [wp_rules]:
  "(x = None \<Longrightarrow> does f Q) \<Longrightarrow> (\<And>y. x = Some y \<Longrightarrow> does (g y) Q) \<Longrightarrow>
    does (case x of None \<Rightarrow> f | Some y \<Rightarrow> g y) Q"
  by (cases x) auto

lemma does_prod [wp_rules]:
  "(\<And>a b. x = (a, b) \<Longrightarrow> does (f a b) Q) \<Longrightarrow> does (case x of (a, b) \<Rightarrow> f a b) Q"
  by (cases x) auto

lemma does_let [wp_rules]: "(\<And>y. y = x \<Longrightarrow> does (f y) Q) \<Longrightarrow> does (let y = x in f y) Q"
  by simp

lemma emits_mono: "emits P m \<Longrightarrow> (\<And>e. P e \<Longrightarrow> Q e) \<Longrightarrow> emits Q m"
  unfolding emits_def by (erule does_mono) (auto elim: list.pred_mono_strong)

lemma emits_conj: "emits P m \<Longrightarrow> emits Q m \<Longrightarrow> emits (\<lambda>e. P e \<and> Q e) m"
  unfolding emits_def
  by (drule (1) does_conj) (erule does_mono, auto simp: list.pred_set)

lemma emits_return [emit_rules]: "emits P (State_Monad.return x)"
  by (simp add: emits_def does_def)

lemma emits_bind [emit_rules]:
  assumes "emits P m" "\<And>x. emits P (f x)"
  shows "emits P (State_Monad.bind m f)"
  unfolding emits_def
  by (rule does_bind, rule does_mono[OF assms(1)[unfolded emits_def]],
      rule does_mono[OF assms(2)[unfolded emits_def]]) simp

lemma emits_check_lift [emit_rules]:
  "(\<And>x. r = Inr x \<Longrightarrow> emits P (f x)) \<Longrightarrow> emits P (check (lift r) f)"
  unfolding check_def lift_def by (cases r) (auto intro: emits_bind emits_return simp: emits_def does_def)

lemma emits_check [emit_rules]:
  "emits P m \<Longrightarrow> (\<And>x. emits P (f x)) \<Longrightarrow> emits P (check m f)"
  unfolding check_def by (rule emits_bind) (auto intro: emits_return split: sum.splits)

lemma emits_call [emit_rules]: "(\<And>resp. P (Call r resp)) \<Longrightarrow> emits P (call E r)"
  by (simp add: emits_def does_call)

lemma emits_call_as [emit_rules]: "(\<And>resp. P (Call r resp)) \<Longrightarrow> emits P (call_as E p r)"
  by (simp add: emits_def does_call_as)

lemma emits_client [emit_rules]:
  "(\<And>resp. P (Call (RGet k key) resp)) \<Longrightarrow> emits P (Get E k p key)"
  "(\<And>resp. P (Call (RList k ns ls) resp)) \<Longrightarrow> emits P (ListIn E k q ns ls)"
  "(\<And>resp. P (Call (RCreate x) resp)) \<Longrightarrow> emits P (Create E p x)"
  "(\<And>resp. P (Call (RUpdate x) resp)) \<Longrightarrow> emits P (Update E p x)"
  "(\<And>resp. P (Call (RUpdateStatus x) resp)) \<Longrightarrow> emits P (StatusUpdate E p x)"
  "(\<And>resp. P (Call (RDelete k key) resp)) \<Longrightarrow> emits P (Delete E k key)"
  "(\<And>resp. P (Call (RPatchRaw k key s) resp)) \<Longrightarrow> emits P (PatchRaw E k p key s)"
  "(\<And>resp. P (Call (RPatchMerge x y) resp)) \<Longrightarrow> emits P (PatchMerge E p x y)"
  unfolding client_defs by (rule emits_call_as, assumption)+

lemma emits_emit [emit_rules]: "P e \<Longrightarrow> emits P (emit e)"
  by (simp add: emits_def does_emit)

lemma emits_http_get [emit_rules]: "P (Http url) \<Longrightarrow> emits P (http_get E url)"
  by (simp add: emits_def does_http_get)

lemma emits_Now [emit_rules]: "emits P (Now E)"
  by (simp add: emits_def does_Now)

lemma emits_lift [emit_rules]: "emits P (lift r)"
  by (simp add: emits_def does_lift)

lemma emits_if [emit_rules]: "(b \<Longrightarrow> emits P m) \<Longrightarrow> (\<not> b \<Longrightarrow> emits P n) \<Longrightarrow> emits P (if b then m else n)"
  by simp

lemma emits_sum [emit_rules]:
  "(\<And>e. x = Inl e \<Longrightarrow> emits P (f e)) \<Longrightarrow> (\<And>y. x = Inr y \<Longrightarrow> emits P (g y)) \<Longrightarrow>
    emits P (case x of Inl e \<Rightarrow> f e | Inr y \<Rightarrow> g y)"
  by (cases x) auto

lemma emits_option [emit_rules]:
  "(x = None \<Longrightarrow> emits P f) \<Longrightarrow> (\<And>y. x = Some y \<Longrightarrow> emits P (g y)) \<Longrightarrow>
    emits P (case x of None \<Rightarrow> f | Some y \<Rightarrow> g y)"
  by (cases x) auto

lemma emits_prod [emit_rules]:
  "(\<And>a b. x = (a, b) \<Longrightarrow> emits P (f a b)) \<Longrightarrow> emits P (case x of (a, b) \<Rightarrow> f a b)"
  by (cases x) auto

lemma emits_let [emit_rules]: "(\<And>y. y = x \<Longrightarrow> emits P (f y)) \<Longrightarrow> emits P (let y = x in f y)"
  by simp

lemma emits_retry [emit_rules]: "emits P m \<Longrightarrow> emits P (retry_on n p m)"
  by (induction n) (auto intro!: emit_rules)

lemma emits_RetryOnError [emit_rules]:
  "emits P m \<Longrightarrow> emits P (RetryOnError E b p m)" "emits P m \<Longrightarrow> emits P (RetryOnConflict E b m)"
  by (simp_all add: RetryOnError_def RetryOnConflict_def emits_retry)

text \<open>Handlers whose writes satisfy a condition: \<open>emits (wr P) m\<close>.\<close>

fun wr :: "(request \<Rightarrow> bool) \<Rightarrow> effect \<Rightarrow> bool" where
  "wr P (Call q _) \<longleftrightarrow> (is_write q \<longrightarrow> P q)"
| "wr P (Emitted _ _ _ _) \<longleftrightarrow> True"
| "wr P (Metric _ _) \<longleftrightarrow> True"
| "wr P (Http _) \<longleftrightarrow> True"

lemma wr_mono: "wr P e \<Longrightarrow> (\<And>q. P q \<Longrightarrow> R q) \<Longrightarrow> wr R e"
  by (cases e) auto

lemma writes_mono: "emits (wr P) m \<Longrightarrow> (\<And>q. P q \<Longrightarrow> R q) \<Longrightarrow> emits (wr R) m"
  by (erule emits_mono) (erule wr_mono)

lemma emits_trace:
  assumes "emits P m" "run_state m w = (r, w')"
  shows "\<exists>es. trace w' = trace w @ es \<and> list_all P es"
  using assms does_run unfolding emits_def by fast

lemma writes_trace:
  assumes "emits (wr P) m" "run_state m w = (r, w')" "trace w' = trace w @ es" "Call q resp \<in> set es" "is_write q"
  shows "P q"
  using emits_trace[OF assms(1,2)] assms(3-5) by (auto simp: list_all_iff)

lemma writes_does:
  "emits (wr P) m \<Longrightarrow> does m (\<lambda>_ es. \<forall>q resp. Call q resp \<in> set es \<longrightarrow> is_write q \<longrightarrow> P q)"
  unfolding emits_def by (erule does_mono) (auto simp: list_all_iff)

text \<open>Retrying a body: its result satisfies what every single run of the body guarantees.\<close>

lemma does_retry:
  assumes "does m (\<lambda>r es. Q r es)" and "\<And>r es e es'. Q (Inl e) es \<Longrightarrow> Q r es' \<Longrightarrow> Q r (es @ es')"
  shows "does (retry_on n p m) Q"
proof (induction n)
  case (Suc n)
  show ?case
    unfolding retry_on.simps
  proof (rule does_bind, rule does_mono[OF assms(1)])
    fix r es assume Q: "Q r es"
    have "does (retry_on n p m) (\<lambda>y es'. Q y (es @ es'))" if "r = Inl e" for e
      using Suc.IH Q that assms(2) by (auto elim!: does_mono)
    with Q show "does (case r of Inl e \<Rightarrow> if p e then retry_on n p m else fail e | Inr x \<Rightarrow> ok x)
        (\<lambda>y es'. Q y (es @ es'))"
      by (auto intro!: wp_rules split: sum.splits)
  qed
qed (simp add: assms(1))

text \<open>Only the attempts differ: a retried body whose error is never retriable runs once.\<close>

lemma retry_once:
  assumes "\<And>w e w'. run_state m w = (Inl e, w') \<Longrightarrow> \<not> p e"
  shows "run_state (retry_on n p m) w = run_state m w"
proof (cases n)
  case (Suc k)
  then show ?thesis
    using assms[of w] by (cases "run_state m w") (auto split: sum.splits)
qed simp

end
