(* ===== verification/Samples.thy ===== *)
theory Samples
  imports Kube
begin

text \<open>
  The small objects the witnesses of the properties share: a container, a pod, a Notebook, and
  the environment of a server that keeps what it is given.
\<close>

definition sample_container :: container where
  "sample_container = \<lparr>c_name = ''nb'', c_image = ''img'', c_pullPolicy = [], c_args = [], c_workingDir = [],
     c_ports = None, c_env = [], c_resources = \<lparr>rs_requests = [], rs_limits = []\<rparr>, c_volumeMounts = [],
     c_liveness = None, c_readiness = None, c_securityContext = None, c_rest = []\<rparr>"

definition sample_podspec :: podspec where
  "sample_podspec = \<lparr>ps_containers = [], ps_initContainers = [], ps_ephemeralContainers = [], ps_volumes = [],
     ps_serviceAccountName = [], ps_hostNetwork = False, ps_hostPID = False, ps_hostIPC = False,
     ps_securityContext = None, ps_rest = []\<rparr>"

definition sample_notebook :: notebook where
  "sample_notebook = \<lparr>nb_meta = empty_meta\<lparr>m_name := ''nb'', m_namespace := ''ns'', m_uid := ''u''\<rparr>,
     nb_podspec = sample_podspec\<lparr>ps_containers := [sample_container]\<rparr>,
     nb_status = \<lparr>st_conditions = [], st_readyReplicas = 0, st_containerState = empty_containerstate\<rparr>\<rparr>"

lemmas sample_defs = sample_container_def sample_notebook_def sample_podspec_def empty_meta_def

abbreviation sample_env :: "(kobj list) env" where
  "sample_env \<equiv> mem_env (\<lambda>_. None) zero_time"

abbreviation sample_world :: "kobj list \<Rightarrow> kobj list world" where
  "sample_world objs \<equiv> \<lparr>server = objs, trace = []\<rparr>"

end
