(* ===== verification/ReconcileHelper.thy ===== *)
theory ReconcileHelper
  imports Samples
begin

text \<open>
  \<open>components/common/reconcilehelper/util.go\<close>: the functions that bring a stored
  Deployment, Service, StatefulSet or VirtualService to the fields a controller owns. A copier
  takes the desired object and the stored one and returns whether an update is needed, with
  the stored object after the copy. The contract of a copier is the locale \<open>field_copier\<close>.
\<close>

section \<open>Copying the owned fields\<close>

text \<open>\<open>for k, v := range to { if from[k] != v { requireUpdate = true } }\<close>.\<close>

definition range_differs :: "smap \<Rightarrow> smap \<Rightarrow> bool" where
  "range_differs from to \<longleftrightarrow> \<not> mall (\<lambda>k v. mget from k = v) to"

text \<open>A nil replica count on either side is a nil dereference.\<close>

definition CopyStatefulSetFields :: "statefulset \<Rightarrow> statefulset \<Rightarrow> goerr + bool \<times> statefulset" where
  "CopyStatefulSetFields from to = (
     let u1 = range_differs (m_labels (sts_meta from)) (m_labels (sts_meta to));
         to1 = to\<lparr>sts_meta := (sts_meta to)\<lparr>m_labels := m_labels (sts_meta from)\<rparr>\<rparr>;
         u2 = range_differs (m_annotations (sts_meta from)) (m_annotations (sts_meta to1));
         to2 = to1\<lparr>sts_meta := (sts_meta to1)\<lparr>m_annotations := m_annotations (sts_meta from)\<rparr>\<rparr>
     in case (sts_replicas from, sts_replicas to2) of
          (Some rf, Some rt) \<Rightarrow>
            (let u3 = (rf \<noteq> rt);
                 to3 = (if rf \<noteq> rt then to2\<lparr>sts_replicas := Some rf\<rparr> else to2);
                 u4 = (sts_podspec to3 \<noteq> sts_podspec from)
             in Inr (u1 \<or> u2 \<or> u3 \<or> u4, to3\<lparr>sts_podspec := sts_podspec from\<rparr>))
        | _ \<Rightarrow> Inl (Panic ''nil pointer dereference''))"

text \<open>\<open>CopyDeploymentSetFields\<close> compares the replica pointers, not the counts.\<close>

definition CopyDeploymentSetFields :: "deployment \<Rightarrow> deployment \<Rightarrow> bool \<times> deployment" where
  "CopyDeploymentSetFields from to = (
     let u1 = range_differs (m_labels (dp_meta from)) (m_labels (dp_meta to));
         to1 = to\<lparr>dp_meta := (dp_meta to)\<lparr>m_labels := m_labels (dp_meta from)\<rparr>\<rparr>;
         u2 = range_differs (m_annotations (dp_meta from)) (m_annotations (dp_meta to1));
         to2 = to1\<lparr>dp_meta := (dp_meta to1)\<lparr>m_annotations := m_annotations (dp_meta from)\<rparr>\<rparr>;
         u3 = (\<not> ptr_eq (dp_replicas from) (dp_replicas to2));
         to3 = (if u3 then to2\<lparr>dp_replicas := dp_replicas from\<rparr> else to2);
         u4 = (dp_podspec to3 \<noteq> dp_podspec from)
     in (u1 \<or> u2 \<or> u3 \<or> u4, to3\<lparr>dp_podspec := dp_podspec from\<rparr>))"

text \<open>The rest of the Service spec, its \<open>clusterIP\<close> included, is left as stored.\<close>

definition CopyServiceFields :: "service \<Rightarrow> service \<Rightarrow> bool \<times> service" where
  "CopyServiceFields from to = (
     let u1 = range_differs (m_labels (svc_meta from)) (m_labels (svc_meta to));
         to1 = to\<lparr>svc_meta := (svc_meta to)\<lparr>m_labels := m_labels (svc_meta from)\<rparr>\<rparr>;
         u2 = range_differs (m_annotations (svc_meta from)) (m_annotations (svc_meta to1));
         to2 = to1\<lparr>svc_meta := (svc_meta to1)\<lparr>m_annotations := m_annotations (svc_meta from)\<rparr>\<rparr>;
         u3 = (svc_selector to2 \<noteq> svc_selector from);
         to3 = to2\<lparr>svc_selector := svc_selector from\<rparr>;
         u4 = (svc_ports to3 \<noteq> svc_ports from)
     in (u1 \<or> u2 \<or> u3 \<or> u4, to3\<lparr>svc_ports := svc_ports from\<rparr>))"

text \<open>
  \<open>unstructured.NestedMap(obj, "spec")\<close> finds the spec when it is a map; a missing spec and
  one of another type are both not found.
\<close>

definition NestedSpec :: "virtualservice \<Rightarrow> (string, jvalue) fmap option" where
  "NestedSpec v = (case vs_spec v of Some (JMap m) \<Rightarrow> Some m | _ \<Rightarrow> None)"

definition CopyVirtualService :: "virtualservice \<Rightarrow> virtualservice \<Rightarrow> bool \<times> virtualservice" where
  "CopyVirtualService from to = (case NestedSpec from of
     None \<Rightarrow> (False, to)
   | Some fromSpec \<Rightarrow> (case NestedSpec to of
       None \<Rightarrow> (True, to\<lparr>vs_spec := Some (JMap fromSpec)\<rparr>)
     | Some toSpec \<Rightarrow>
         let requiresUpdate = (fromSpec \<noteq> toSpec)
         in (requiresUpdate, if requiresUpdate then to\<lparr>vs_spec := Some (JMap fromSpec)\<rparr> else to)))"

section \<open>Get, create or update\<close>

text \<open>
  The bodies of \<open>Deployment\<close>, \<open>Service\<close> and \<open>VirtualService\<close>: get the object; create it
  when it is not found; otherwise copy the fields and update when the copier asks for it.
\<close>

definition reconcile_object ::
  "'s env \<Rightarrow> kind \<Rightarrow> (kobj \<Rightarrow> 'o option) \<Rightarrow> ('o \<Rightarrow> kobj) \<Rightarrow> ('o \<Rightarrow> 'o \<Rightarrow> bool \<times> 'o) \<Rightarrow> nsname \<Rightarrow> 'o
    \<Rightarrow> ('s, unit) ehandler" where
  "reconcile_object E k p mk copy key x = do {
     r \<leftarrow> Get E k p key;
     case r of
       Inl e \<Rightarrow> if IsNotFound e then check (Create E p (mk x)) (\<lambda>_. ok ()) else fail e
     | Inr found \<Rightarrow> (case copy x found of (upd, found') \<Rightarrow>
         if upd then check (Update E p (mk found')) (\<lambda>_. ok ()) else ok ())
   }"

definition Deployment :: "'s env \<Rightarrow> deployment \<Rightarrow> ('s, unit) ehandler" where
  "Deployment E d = reconcile_object E KDeployment to_deployment ODeployment CopyDeploymentSetFields
     (m_namespace (dp_meta d), m_name (dp_meta d)) d"

definition Service :: "'s env \<Rightarrow> service \<Rightarrow> ('s, unit) ehandler" where
  "Service E svc = reconcile_object E KService to_service OService CopyServiceFields
     (m_namespace (svc_meta svc), m_name (svc_meta svc)) svc"

definition VirtualService :: "'s env \<Rightarrow> string \<Rightarrow> string \<Rightarrow> virtualservice \<Rightarrow> ('s, unit) ehandler" where
  "VirtualService E name namespace v = reconcile_object E KVirtualService to_virtualservice
     OVirtualService CopyVirtualService (namespace, name) v"

section \<open>The contract of a copier\<close>

text \<open>
  \<open>settled x y\<close>: copying \<open>x\<close> onto \<open>y\<close> asks for no update. A copier settles: after the
  copy there is nothing left to update, and an object is settled with itself. From this the
  three functions write at most once, and write nothing when run again on a server that keeps
  what it was given.
\<close>

definition storing :: "'s env \<Rightarrow> kind \<Rightarrow> bool" where
  "storing E k \<longleftrightarrow>
     (\<forall>x s y s'. obj_kind x = k \<longrightarrow> env_api E (RCreate x) s = (RespObj y, s') \<longrightarrow>
        y = x \<and> env_api E (RGet k (obj_key x)) s' = (RespObj x, s')) \<and>
     (\<forall>x s y s'. obj_kind x = k \<longrightarrow> env_api E (RUpdate x) s = (RespObj y, s') \<longrightarrow>
        y = x \<and> env_api E (RGet k (obj_key x)) s' = (RespObj x, s')) \<and>
     (\<forall>key s r s'. env_api E (RGet k key) s = (r, s') \<longrightarrow> s' = s \<and>
        (\<forall>x. r = RespObj x \<longrightarrow> obj_kind x = k \<and> obj_key x = key))"

locale field_copier =
  fixes copy :: "'o \<Rightarrow> 'o \<Rightarrow> bool \<times> 'o"
    and proj :: "kobj \<Rightarrow> 'o option"
    and mk :: "'o \<Rightarrow> kobj"
    and k :: kind
  assumes proj_mk: "proj (mk x) = Some x"
    and mk_proj: "proj z = Some x \<Longrightarrow> z = mk x"
    and kind_mk: "obj_kind (mk x) = k"
    and copy_settles: "copy x y = (u, y') \<Longrightarrow> \<not> fst (copy x y')"
    and copy_key: "copy x y = (u, y') \<Longrightarrow> obj_key (mk y') = obj_key (mk y)"
    and self_settled: "\<not> fst (copy x x)"
begin

definition settled :: "'o \<Rightarrow> 'o \<Rightarrow> bool" where
  "settled x y \<longleftrightarrow> \<not> fst (copy x y)"

lemma settled_noop:
  assumes "env_api E (RGet k key) (server w) = (RespObj (mk y), s')" "settled x y"
  shows "run_state (reconcile_object E k proj mk copy key x) w =
    (Inr (), w\<lparr>server := s', trace := trace w @ [Call (RGet k key) (RespObj (mk y))]\<rparr>)"
  using assms by (cases "copy x y") (simp add: reconcile_object_def Get_def proj_mk settled_def)

lemma writes_shape:
  "does (reconcile_object E k proj mk copy key x) (\<lambda>r es.
     \<exists>g. es = [Call (RGet k key) g] \<or>
       (\<exists>e c. g = RespErr e \<and> IsNotFound e \<and> es = [Call (RGet k key) g, Call (RCreate (mk x)) c]) \<or>
       (\<exists>y u. g = RespObj (mk y) \<and> \<not> settled x y \<and>
          es = [Call (RGet k key) g, Call (RUpdate (mk (snd (copy x y)))) u]))"
  unfolding reconcile_object_def client_defs
  apply (intro wp_rules)
    apply (auto simp: as_obj_def settled_def dest!: mk_proj split: response.splits option.splits sum.splits
      intro!: wp_rules)
      apply ((rule exI, rule conjI[rotated], rule conjI, rule refl); simp)+
  done

lemma run_after_run:
  assumes st: "storing E k" and key: "obj_key (mk x) = key"
    and first: "run_state (reconcile_object E k proj mk copy key x) w = (Inr (), w')"
  shows "\<exists>y. env_api E (RGet k key) (server w') = (RespObj (mk y), server w') \<and> settled x y"
proof -
  obtain g s1 where g: "env_api E (RGet k key) (server w) = (g, s1)"
    by (cases "env_api E (RGet k key) (server w)")
  with st have s1: "s1 = server w" and gk: "\<And>z. g = RespObj z \<Longrightarrow> obj_kind z = k \<and> obj_key z = key"
    unfolding storing_def by blast+
  show ?thesis
  proof (cases "as_obj proj g")
    case (Inl e)
    with first g obtain c s2 where nf: "IsNotFound e" and c: "env_api E (RCreate (mk x)) s1 = (RespObj c, s2)"
      and w': "server w' = s2"
      by (auto simp: reconcile_object_def client_defs as_obj_Inr split: if_splits prod.splits sum.splits)
    with st key kind_mk have "env_api E (RGet k key) s2 = (RespObj (mk x), s2)"
      unfolding storing_def by blast
    with w' self_settled show ?thesis unfolding settled_def by blast
  next
    case (Inr found)
    then have gi: "g = RespObj (mk found)" by (auto simp: as_obj_Inr dest: mk_proj)
    with gk have fk: "obj_key (mk found) = key" by blast
    obtain upd found' where cp: "copy x found = (upd, found')" by (cases "copy x found")
    show ?thesis
    proof (cases upd)
      case True
      with first g Inr cp obtain c s2 where c: "env_api E (RUpdate (mk found')) s1 = (RespObj c, s2)"
        and w': "server w' = s2"
        by (auto simp: reconcile_object_def client_defs as_obj_Inr split: if_splits prod.splits sum.splits)
      from cp fk have "obj_key (mk found') = key" by (simp add: copy_key)
      with st c kind_mk have "env_api E (RGet k key) s2 = (RespObj (mk found'), s2)"
        unfolding storing_def by blast
      with w' copy_settles[OF cp] show ?thesis unfolding settled_def by blast
    next
      case False
      with first g Inr cp gi s1 have "server w' = s1" "settled x found"
        by (auto simp: reconcile_object_def client_defs settled_def)
      with g gi s1 show ?thesis by auto
    qed
  qed
qed

lemma second_run_noop:
  assumes "storing E k" "obj_key (mk x) = key"
    "run_state (reconcile_object E k proj mk copy key x) w = (Inr (), w')"
  shows "\<exists>g. run_state (reconcile_object E k proj mk copy key x) w' =
    (Inr (), w'\<lparr>trace := trace w' @ [Call (RGet k key) g]\<rparr>)"
proof -
  from run_after_run[OF assms] obtain y where
    y: "env_api E (RGet k key) (server w') = (RespObj (mk y), server w')" and "settled x y" by blast
  from settled_noop[OF this] show ?thesis by auto
qed

end

lemma range_differs_self [simp]: "\<not> range_differs m m"
  by (auto simp: range_differs_def mall_iff mget_def)

lemma range_differs_iff:
  "range_differs from to \<longleftrightarrow> (\<exists>k v. mlookup to k = Some v \<and> mget from k \<noteq> v)"
  by (auto simp: range_differs_def mall_iff)

lemmas copier_defs = CopyDeploymentSetFields_def CopyServiceFields_def CopyStatefulSetFields_def
  CopyVirtualService_def NestedSpec_def

fun_cases to_service_cases: "to_service y = Some x"
fun_cases to_deployment_cases: "to_deployment y = Some x"
fun_cases to_virtualservice_cases: "to_virtualservice y = Some x"

interpretation svc: field_copier CopyServiceFields to_service OService KService
  by unfold_locales
     (auto simp: copier_defs Let_def obj_key_def meta_key_def elim: to_service_cases)

interpretation dep: field_copier CopyDeploymentSetFields to_deployment ODeployment KDeployment
  by unfold_locales
     (auto simp: copier_defs Let_def obj_key_def meta_key_def ptr_eq_def elim: to_deployment_cases)

interpretation vs: field_copier CopyVirtualService to_virtualservice OVirtualService KVirtualService
  by unfold_locales
     (auto simp: copier_defs Let_def obj_key_def meta_key_def elim: to_virtualservice_cases
       split: option.splits jvalue.splits if_splits)

section \<open>Properties\<close>

lemma mem_storing: "storing (mem_env vars t) k"
  by (auto simp: storing_def same_obj_def find_replace_first find_same_obj split: if_splits option.splits)


definition sample_service :: service where
  "sample_service = \<lparr>svc_meta = empty_meta\<lparr>m_name := ''nb'', m_namespace := ''ns''\<rparr>, svc_type = ''ClusterIP'',
     svc_selector = mlit [(''statefulset'', ''nb'')], svc_ports = [], svc_rest = []\<rparr>"


lemma unsettled_vs:
  "\<not> vs.settled v y \<Longrightarrow> \<exists>spec. NestedSpec v = Some spec \<and> NestedSpec y \<noteq> Some spec \<and>
     snd (CopyVirtualService v y) = y\<lparr>vs_spec := Some (JMap spec)\<rparr>"
  by (auto simp: vs.settled_def CopyVirtualService_def Let_def split: option.splits)

text \<open>
  \<open>VirtualService\<close> makes at most one write, on any server: a Create of the desired
  object, only after the Get said NotFound, or an Update of the stored object with the desired
  spec, only when the two specs differ.
\<close>

theorem VirtualService_writes:
  assumes "run_state (VirtualService E name ns v) w = (r, w')" "trace w' = trace w @ es"
    "Call q resp \<in> set es" "is_write q"
  shows "(\<exists>e. es = [Call (RGet KVirtualService (ns, name)) (RespErr e), Call q resp] \<and> IsNotFound e \<and>
      q = RCreate (OVirtualService v)) \<or>
    (\<exists>y spec. es = [Call (RGet KVirtualService (ns, name)) (RespObj (OVirtualService y)), Call q resp] \<and>
      NestedSpec v = Some spec \<and> NestedSpec y \<noteq> Some spec \<and>
      q = RUpdate (OVirtualService (y\<lparr>vs_spec := Some (JMap spec)\<rparr>)))"
proof -
  let ?get = "Call (RGet KVirtualService (ns, name))"
  from does_run[OF vs.writes_shape assms(1)[unfolded VirtualService_def]] assms(2)
  have "\<exists>g. es = [?get g] \<or>
       (\<exists>e c. g = RespErr e \<and> IsNotFound e \<and> es = [?get g, Call (RCreate (OVirtualService v)) c]) \<or>
       (\<exists>y u. g = RespObj (OVirtualService y) \<and> \<not> vs.settled v y \<and>
          es = [?get g, Call (RUpdate (OVirtualService (snd (CopyVirtualService v y)))) u])"
    by (metis same_append_eq)
  with assms(3,4) show ?thesis
    by (auto dest!: unsettled_vs)
qed

definition sample_vs :: "jvalue \<Rightarrow> virtualservice" where
  "sample_vs h = \<lparr>vs_apiVersion = ''networking.istio.io/v1alpha3'', vs_kind = ''VirtualService'',
     vs_meta = empty_meta\<lparr>m_name := ''v'', m_namespace := ''ns''\<rparr>,
     vs_spec = Some (JMap (fmap_of_list [(''hosts'', h)]))\<rparr>"

theorem VirtualService_writes_witness:
  "(\<exists>e. [Call (RGet KVirtualService (''ns'', ''v'')) (RespObj (OVirtualService (sample_vs (JStr ''a'')))),
       Call (RUpdate (OVirtualService (sample_vs (JStr ''b'')))) (RespObj (OVirtualService (sample_vs (JStr ''b''))))] =
      [Call (RGet KVirtualService (''ns'', ''v'')) (RespErr e),
       Call (RUpdate (OVirtualService (sample_vs (JStr ''b'')))) (RespObj (OVirtualService (sample_vs (JStr ''b''))))] \<and>
      IsNotFound e \<and> RUpdate (OVirtualService (sample_vs (JStr ''b''))) = RCreate (OVirtualService (sample_vs (JStr ''b'')))) \<or>
    (\<exists>y spec. [Call (RGet KVirtualService (''ns'', ''v'')) (RespObj (OVirtualService (sample_vs (JStr ''a'')))),
       Call (RUpdate (OVirtualService (sample_vs (JStr ''b'')))) (RespObj (OVirtualService (sample_vs (JStr ''b''))))] =
      [Call (RGet KVirtualService (''ns'', ''v'')) (RespObj (OVirtualService y)),
       Call (RUpdate (OVirtualService (sample_vs (JStr ''b'')))) (RespObj (OVirtualService (sample_vs (JStr ''b''))))] \<and>
      NestedSpec (sample_vs (JStr ''b'')) = Some spec \<and> NestedSpec y \<noteq> Some spec \<and>
      RUpdate (OVirtualService (sample_vs (JStr ''b''))) = RUpdate (OVirtualService (y\<lparr>vs_spec := Some (JMap spec)\<rparr>)))"
proof -
  let ?a = "OVirtualService (sample_vs (JStr ''a''))" and ?b = "OVirtualService (sample_vs (JStr ''b''))"
  have ne: "fmap_of_list [(''hosts'', JStr ''b'')] \<noteq> fmap_of_list [(''hosts'', JStr ''a'')]"
    by (auto dest!: arg_cong[of _ _ "\<lambda>m. fmlookup m ''hosts''"] simp: fmlookup_of_list)
  have "run_state (VirtualService (mem_env (\<lambda>_. None) zero_time) ''v'' ''ns'' (sample_vs (JStr ''b'')))
      \<lparr>server = [?a], trace = []\<rparr> =
    (Inr (), \<lparr>server = [?b], trace = [Call (RGet KVirtualService (''ns'', ''v'')) (RespObj ?a),
       Call (RUpdate ?b) (RespObj ?b)]\<rparr>)"
    using ne by (simp add: VirtualService_def reconcile_object_def client_defs sample_vs_def empty_meta_def
      same_obj_def obj_key_def meta_key_def CopyVirtualService_def NestedSpec_def)
  from VirtualService_writes[OF this, of "[Call (RGet KVirtualService (''ns'', ''v'')) (RespObj ?a),
       Call (RUpdate ?b) (RespObj ?b)]" "RUpdate ?b" "RespObj ?b"]
  show ?thesis by simp
qed

text \<open>
  \<open>CopyStatefulSetFields\<close> owns labels, annotations, the replica count and the pod spec,
  keeps everything else of the stored object (its pod template labels and annotations
  included), asks for no second update, and asks for an update of the API exactly unless the
  stored replica count and pod spec were already the desired ones and no stored label or
  annotation is stale. It
  fails exactly when a replica count is nil.
\<close>

theorem CopyStatefulSetFields_owns:
  "(case CopyStatefulSetFields from to of
     Inl e \<Rightarrow> is_panic e \<and> (sts_replicas from = None \<or> sts_replicas to = None)
   | Inr (u, to') \<Rightarrow>
       to' = to\<lparr>sts_meta := (sts_meta to)\<lparr>m_labels := m_labels (sts_meta from),
                                         m_annotations := m_annotations (sts_meta from)\<rparr>,
                sts_replicas := sts_replicas from, sts_podspec := sts_podspec from\<rparr> \<and>
       CopyStatefulSetFields from to' = Inr (False, to') \<and>
       (\<not> u) = (sts_replicas to = sts_replicas from \<and> sts_podspec to = sts_podspec from \<and>
          (\<nexists>k v. mlookup (m_labels (sts_meta to)) k = Some v \<and> mget (m_labels (sts_meta from)) k \<noteq> v) \<and>
          (\<nexists>k v. mlookup (m_annotations (sts_meta to)) k = Some v \<and> mget (m_annotations (sts_meta from)) k \<noteq> v)))"
proof (cases "sts_replicas from = None \<or> sts_replicas to = None")
  case True
  then show ?thesis by (auto simp: CopyStatefulSetFields_def Let_def split: option.splits)
next
  case False
  then obtain rf rt where r: "sts_replicas from = Some rf" "sts_replicas to = Some rt" by auto
  show ?thesis by (simp add: CopyStatefulSetFields_def Let_def r flip: range_differs_iff) blast
qed

text \<open>
  A label the stored StatefulSet lacks does not ask for an update: the copier compares
  only the labels the stored object already has, so a StatefulSet that has lost every label
  is taken to match.
\<close>

theorem CopyStatefulSetFields_misses_new_labels:
  assumes "sts_replicas s = Some n"
  shows "CopyStatefulSetFields s (s\<lparr>sts_meta := (sts_meta s)\<lparr>m_labels := None\<rparr>\<rparr>) = Inr (False, s)"
  using assms by (auto simp: CopyStatefulSetFields_def range_differs_iff mget_def)

definition sample_sts :: statefulset where
  "sample_sts = \<lparr>sts_meta = empty_meta\<lparr>m_labels := mlit [(''app'', ''nb'')]\<rparr>, sts_replicas = Some 1,
     sts_selector = None, sts_tmplLabels = None, sts_tmplAnnotations = None, sts_podspec = sample_podspec,
     sts_readyReplicas = 0\<rparr>"

theorem CopyStatefulSetFields_misses_new_labels_witness:
  "CopyStatefulSetFields sample_sts (sample_sts\<lparr>sts_meta := (sts_meta sample_sts)\<lparr>m_labels := None\<rparr>\<rparr>) =
     Inr (False, sample_sts) \<and> mlookup (m_labels (sts_meta sample_sts)) ''app'' = Some ''nb''"
proof -
  have r: "sts_replicas sample_sts = Some 1" by (simp add: sample_sts_def)
  show ?thesis
    using CopyStatefulSetFields_misses_new_labels[OF r] by (simp add: sample_sts_def mlit_def)
qed

end
