(* ===== verification/NotebookCore.thy ===== *)
theory NotebookCore
  imports ReconcileHelper
begin

text \<open>
  \<open>notebook-controller/controllers/notebook_controller.go\<close>: the reconciler that turns a
  Notebook into a StatefulSet, a Service and, with Istio, a VirtualService, mirrors the pod's
  status into the Notebook, restarts the pod on request and re-emits events. First the objects it
  generates, then \<open>Reconcile\<close> with its early returns, then the watch predicates; after
  the definitions, what \<open>Reconcile\<close> may write (for any server), and its properties.
\<close>

section \<open>Constants\<close>

definition DefaultContainerPort :: int32 where
  "DefaultContainerPort = 8888"
definition DefaultServingPort :: int32 where
  "DefaultServingPort = 80"
definition AnnotationRewriteURI :: string where [go_consts]:
  "AnnotationRewriteURI = ''notebooks.kubeflow.org/http-rewrite-uri''"
definition AnnotationHeadersRequestSet :: string where [go_consts]:
  "AnnotationHeadersRequestSet = ''notebooks.kubeflow.org/http-headers-request-set''"
definition AnnotationNotebookRestart :: string where [go_consts]:
  "AnnotationNotebookRestart = ''notebooks.opendatahub.io/notebook-restart''"
definition WorkbenchLabel :: string where [go_consts]:
  "WorkbenchLabel = ''opendatahub.io/workbenches''"
definition PrefixEnvVar :: string where [go_consts]:
  "PrefixEnvVar = ''NB_PREFIX''"
definition MaxStatefulsetNameLength :: nat where
  "MaxStatefulsetNameLength = 52"
definition DefaultFSGroup :: int64 where
  "DefaultFSGroup = 100"
definition trueString :: string where [go_consts]:
  "trueString = ''true''"
definition StoppedAnnotation :: string where [go_consts]:
  "StoppedAnnotation = ''kubeflow-resource-stopped''"

text \<open>\<open>ignoreNotFound\<close>: a NotFound error becomes success.\<close>

definition ignoreNotFound :: "goerr \<Rightarrow> goerr + unit" where
  "ignoreNotFound e = (if IsNotFound e then Inr () else Inl e)"

section \<open>The generated objects\<close>

definition notebook_prefix :: "notebook \<Rightarrow> string" where
  "notebook_prefix nb = ''/notebook/'' @ nb_ns nb @ ''/'' @ nb_name nb"

text \<open>
  \<open>setPrefixEnvVar\<close>: the loop variable is a copy of the slice element, so the assignment in
  the loop changes nothing; a container that has the variable is returned as it was.
\<close>

definition setPrefixEnvVar :: "notebook \<Rightarrow> container \<Rightarrow> container" where
  "setPrefixEnvVar nb c =
     (if list_ex (\<lambda>e. ev_name e = PrefixEnvVar) (c_env c) then c
      else c\<lparr>c_env := c_env c @ [\<lparr>ev_name = PrefixEnvVar, ev_value = notebook_prefix nb, ev_rest = []\<rparr>]\<rparr>)"

definition default_working_dir :: "container \<Rightarrow> container" where
  "default_working_dir c = (if c_workingDir c = [] then c\<lparr>c_workingDir := ''/home/jovyan''\<rparr> else c)"

definition default_ports :: "container \<Rightarrow> container" where
  "default_ports c = (case c_ports c of
     None \<Rightarrow> c\<lparr>c_ports := Some [\<lparr>cp_name = ''notebook-port'', cp_containerPort = DefaultContainerPort,
                                 cp_protocol = ''TCP''\<rparr>]\<rparr>
   | Some _ \<Rightarrow> c)"

text \<open>The first container, with the defaults of \<open>generateStatefulSet\<close> applied in its order.\<close>

definition default_container :: "notebook \<Rightarrow> container \<Rightarrow> container" where
  "default_container nb c = setPrefixEnvVar nb (default_ports (default_working_dir c))"

definition add_fsgroup :: "'s env \<Rightarrow> podspec \<Rightarrow> podspec" where
  "add_fsgroup E ps = (case env_var E ''ADD_FSGROUP'' of
     None \<Rightarrow> (if ps_securityContext ps = None
       then ps\<lparr>ps_securityContext := Some \<lparr>psc_fsGroup = Some DefaultFSGroup, psc_rest = []\<rparr>\<rparr> else ps)
   | Some v \<Rightarrow> (if v = trueString \<and> ps_securityContext ps = None
       then ps\<lparr>ps_securityContext := Some \<lparr>psc_fsGroup = Some DefaultFSGroup, psc_rest = []\<rparr>\<rparr> else ps))"

text \<open>The annotations \<open>generateStatefulSet\<close> copies to the pod template.\<close>

definition copied_annotation :: "string \<Rightarrow> bool" where
  "copied_annotation k \<longleftrightarrow> \<not> Contains k ''kubectl'' \<and> \<not> Contains k ''notebook''"

definition sts_meta_for :: "notebook \<Rightarrow> bool \<Rightarrow> objmeta" where
  "sts_meta_for nb isGenerateName =
     (if isGenerateName
      then empty_meta\<lparr>m_generateName := ''nb-'', m_namespace := nb_ns nb\<rparr>
      else empty_meta\<lparr>m_name := nb_name nb, m_namespace := nb_ns nb, m_labels := mlit []\<rparr>)"

text \<open>
  \<open>generateStatefulSet\<close>: with a generated name the metadata has no label map, so copying a
  label into it panics, and so does a pod without containers.
\<close>

definition generateStatefulSet :: "'s env \<Rightarrow> notebook \<Rightarrow> bool \<Rightarrow> goerr + statefulset" where
  "generateStatefulSet E nb isGenerateName = (
     let replicas = (if HasAnnotation (nb_meta nb) StoppedAnnotation then 0 else 1);
         meta = sts_meta_for nb isGenerateName
     in case mrange_set (m_labels (nb_meta nb)) (m_labels meta) of Inl e \<Rightarrow> Inl e | Inr sl \<Rightarrow>
        case mrange_set (m_labels (nb_meta nb))
               (mlit [(''statefulset'', nb_name nb), (''notebook-name'', nb_name nb), (WorkbenchLabel, ''true'')])
        of Inl e \<Rightarrow> Inl e | Inr l \<Rightarrow>
        case mrange_set (mfilter_keys copied_annotation (nb_annotations nb)) (mlit []) of Inl e \<Rightarrow> Inl e | Inr a \<Rightarrow>
        case ps_containers (nb_podspec nb) of
          [] \<Rightarrow> Inl (Panic ''index out of range'')
        | c # cs \<Rightarrow> Inr \<lparr>sts_meta = meta\<lparr>m_labels := sl\<rparr>, sts_replicas = Some replicas,
             sts_selector = mlit [(''statefulset'', nb_name nb)], sts_tmplLabels = l, sts_tmplAnnotations = a,
             sts_podspec = add_fsgroup E ((nb_podspec nb)\<lparr>ps_containers := default_container nb c # cs\<rparr>),
             sts_readyReplicas = 0\<rparr>)"

definition generateService :: "notebook \<Rightarrow> goerr + service" where
  "generateService nb = (case ps_containers (nb_podspec nb) of
     [] \<Rightarrow> Inl (Panic ''index out of range'')
   | c # _ \<Rightarrow> (case (case c_ports c of None \<Rightarrow> Inr DefaultContainerPort
                   | Some [] \<Rightarrow> Inl (Panic ''index out of range'')
                   | Some (p # _) \<Rightarrow> Inr (cp_containerPort p)) of
       Inl e \<Rightarrow> Inl e
     | Inr port \<Rightarrow> Inr \<lparr>svc_meta = empty_meta\<lparr>m_name := nb_name nb, m_namespace := nb_ns nb\<rparr>,
         svc_type = ''ClusterIP'', svc_selector = mlit [(''statefulset'', nb_name nb)],
         svc_ports = [\<lparr>sp_name = ''http-notebook'', sp_port = DefaultServingPort, sp_targetPort = IntVal port,
                        sp_protocol = ''TCP''\<rparr>], svc_rest = []\<rparr>))"

definition virtualServiceName :: "string \<Rightarrow> string \<Rightarrow> string" where
  "virtualServiceName kfName namespace = ''notebook-'' @ namespace @ ''-'' @ kfName"

definition jmap :: "(string \<times> jvalue) list \<Rightarrow> jvalue" where
  "jmap kvs = JMap (fmap_of_list kvs)"

definition nonempty_or :: "string \<Rightarrow> string \<Rightarrow> string" where
  "nonempty_or s d = (if s = [] then d else s)"

text \<open>
  \<open>generateVirtualService\<close>. Setting the nested fields of a fresh object cannot fail, and
  headers that do not decode as a map of strings count as none.
\<close>

definition request_headers :: "'s env \<Rightarrow> smap \<Rightarrow> (string, string) fmap" where
  "request_headers E annotations = (
     let h = mget annotations AnnotationHeadersRequestSet
     in if h = [] then fmempty
        else case env_json_map E h of None \<Rightarrow> fmempty | Some m \<Rightarrow> m)"

definition generateVirtualService :: "'s env \<Rightarrow> notebook \<Rightarrow> virtualservice" where
  "generateVirtualService E nb = (
     let name = nb_name nb; namespace = nb_ns nb; annotations = nb_annotations nb;
         prefix = ''/notebook/'' @ namespace @ ''/'' @ name @ ''/'';
         rewrite = nonempty_or (mget annotations AnnotationRewriteURI) prefix;
         clusterDomain = (case env_var E ''CLUSTER_DOMAIN'' of None \<Rightarrow> ''cluster.local'' | Some d \<Rightarrow> d);
         service = name @ ''.'' @ namespace @ ''.svc.'' @ clusterDomain;
         istioHost = nonempty_or (Getenv E ''ISTIO_HOST'') ''*'';
         istioGateway = nonempty_or (Getenv E ''ISTIO_GATEWAY'') ''kubeflow/kubeflow-gateway'';
         http = [jmap
           [(''headers'', jmap [(''request'', jmap [(''set'', JMap (fmmap JStr (request_headers E annotations)))])]),
            (''match'', JList [jmap [(''uri'', jmap [(''prefix'', JStr prefix)])]]),
            (''rewrite'', jmap [(''uri'', JStr rewrite)]),
            (''route'', JList [jmap [(''destination'', jmap [(''host'', JStr service),
               (''port'', jmap [(''number'', JInt (uint DefaultServingPort))])])]])]]
     in \<lparr>vs_apiVersion = ''networking.istio.io/v1alpha3'', vs_kind = ''VirtualService'',
         vs_meta = empty_meta\<lparr>m_name := virtualServiceName name namespace, m_namespace := namespace\<rparr>,
         vs_spec = Some (jmap [(''hosts'', JList [JStr istioHost]), (''gateways'', JList [JStr istioGateway]),
                               (''http'', JList http)])\<rparr>)"

section \<open>Status\<close>

text \<open>\<open>PodCondToNotebookCond\<close>: a zero time becomes \<open>metav1.Now()\<close>.\<close>

definition or_now :: "'s env \<Rightarrow> gotime \<Rightarrow> ('s, gotime) handler" where
  "or_now E t = (if IsZero t then Now E else return_h t)"

definition PodCondToNotebookCond :: "'s env \<Rightarrow> podcondition \<Rightarrow> ('s, nbcondition) handler" where
  "PodCondToNotebookCond E c = do {
     probe \<leftarrow> or_now E (pc_lastProbeTime c);
     transition \<leftarrow> or_now E (pc_lastTransitionTime c);
     return_h \<lparr>nc_type = pc_type c, nc_status = pc_status c, nc_lastProbeTime = probe,
       nc_lastTransitionTime = transition, nc_reason = pc_reason c, nc_message = pc_message c\<rparr>
   }"

fun mirror_conditions :: "'s env \<Rightarrow> podcondition list \<Rightarrow> ('s, nbcondition list) handler" where
  "mirror_conditions E [] = return_h []"
| "mirror_conditions E (c # cs) = do {
     x \<leftarrow> PodCondToNotebookCond E c;
     xs \<leftarrow> mirror_conditions E cs;
     return_h (x # xs)
   }"

text \<open>
  The container state of the Notebook: of the first container that has its name and whose state
  differs (as a struct of pointers) from the one the Notebook has.
\<close>

definition notebook_container_state :: "notebook \<Rightarrow> containerstatus list \<Rightarrow> containerstate" where
  "notebook_container_state nb css =
     (case find (\<lambda>s. cst_name s = nb_name nb \<and>
                    \<not> containerstate_eq (cst_state s) (st_containerState (nb_status nb))) css of
        None \<Rightarrow> empty_containerstate | Some s \<Rightarrow> cst_state s)"

definition createNotebookStatus :: "'s env \<Rightarrow> notebook \<Rightarrow> statefulset \<Rightarrow> pod \<Rightarrow> ('s, nbstatus) handler" where
  "createNotebookStatus E nb sts p = (
     if pod_status p = empty_podstatus
     then return_h \<lparr>st_conditions = [], st_readyReplicas = sts_readyReplicas sts,
                   st_containerState = empty_containerstate\<rparr>
     else do {
       conditions \<leftarrow> mirror_conditions E (pst_conditions (pod_status p));
       return_h \<lparr>st_conditions = conditions, st_readyReplicas = sts_readyReplicas sts,
         st_containerState = notebook_container_state nb (pst_containerStatuses (pod_status p))\<rparr>
     })"

definition updateNotebookStatus :: "'s env \<Rightarrow> notebook \<Rightarrow> statefulset \<Rightarrow> pod \<Rightarrow> ('s, notebook) ehandler" where
  "updateNotebookStatus E nb sts p = do {
     status \<leftarrow> createNotebookStatus E nb sts p;
     StatusUpdate E to_notebook (ONotebook (nb\<lparr>nb_status := status\<rparr>))
   }"

section \<open>Reconcile\<close>

definition empty_sts :: statefulset where
  "empty_sts = \<lparr>sts_meta = empty_meta, sts_replicas = None, sts_selector = None, sts_tmplLabels = None,
     sts_tmplAnnotations = None,
     sts_podspec = \<lparr>ps_containers = [], ps_initContainers = [], ps_ephemeralContainers = [], ps_volumes = [],
       ps_serviceAccountName = [], ps_hostNetwork = False, ps_hostPID = False, ps_hostIPC = False,
       ps_securityContext = None, ps_rest = []\<rparr>,
     sts_readyReplicas = 0\<rparr>"

definition reconcileVirtualService :: "'s env \<Rightarrow> notebook \<Rightarrow> ('s, unit) ehandler" where
  "reconcileVirtualService E nb = (
     let vs = generateVirtualService E nb in
     check (lift (SetControllerReference E (nb_meta nb) (vs_meta vs))) (\<lambda>meta.
     let vs = vs\<lparr>vs_meta := meta\<rparr> in do {
       r \<leftarrow> Get E KVirtualService to_virtualservice (nb_ns nb, virtualServiceName (nb_name nb) (nb_ns nb));
       case r of
         Inl e \<Rightarrow> if IsNotFound e
           then check (Create E to_virtualservice (OVirtualService vs)) (\<lambda>_. ok ()) else fail e
       | Inr found \<Rightarrow> (case CopyVirtualService vs found of (upd, found') \<Rightarrow>
           if upd then check (Update E to_virtualservice (OVirtualService found')) (\<lambda>_. ok ()) else ok ())
     }))"

text \<open>
  The StatefulSet part of \<open>Reconcile\<close>: find the one the Notebook controls, create it or
  bring it up to date. It returns the desired StatefulSet (with the name the server gave it when it was
  created) and the one found (empty when it was just created).
\<close>

definition copy_template_labels :: "statefulset \<Rightarrow> statefulset \<Rightarrow> statefulset" where
  "copy_template_labels ss found = (case (sts_replicas ss, sts_replicas found) of
     (Some a, Some b) \<Rightarrow>
       if a \<noteq> b \<and> sts_tmplLabels found \<noteq> sts_tmplLabels ss then found\<lparr>sts_tmplLabels := sts_tmplLabels ss\<rparr>
       else found
   | _ \<Rightarrow> found)"

definition reconcileStatefulSet :: "'s env \<Rightarrow> notebook \<Rightarrow> bool \<Rightarrow> ('s, statefulset \<times> statefulset) ehandler" where
  "reconcileStatefulSet E nb isGenerateName =
     check (lift (generateStatefulSet E nb isGenerateName)) (\<lambda>ss0.
     check (lift (SetControllerReference E (nb_meta nb) (sts_meta ss0))) (\<lambda>meta.
     let ss = ss0\<lparr>sts_meta := meta\<rparr> in
     check (ListIn E KStatefulSet to_statefulset (Some (m_namespace (sts_meta ss))) None) (\<lambda>items.
     let found0 = (case find (\<lambda>s. IsControlledBy (sts_meta s) (nb_meta nb)) items of
                     None \<Rightarrow> empty_sts | Some s \<Rightarrow> s)
     in if m_name (sts_meta found0) = [] \<and> m_namespace (sts_meta found0) = [] then do {
          emit (Metric ''notebook_create_total'' [m_namespace (sts_meta ss)]);
          r \<leftarrow> Create E to_statefulset (OStatefulSet ss);
          case r of
            Inl e \<Rightarrow> do { emit (Metric ''notebook_create_failed_total'' [m_namespace (sts_meta ss)]); fail e }
          | Inr ss' \<Rightarrow> ok (ss', copy_template_labels ss' found0)
        } else
          let found1 = copy_template_labels ss found0 in
          check (lift (CopyStatefulSetFields ss found1)) (\<lambda>(upd, found2).
          if upd then check (Update E to_statefulset (OStatefulSet found2)) (\<lambda>found3. ok (ss, found3))
          else ok (ss, found2)))))"

definition reconcileService :: "'s env \<Rightarrow> notebook \<Rightarrow> ('s, unit) ehandler" where
  "reconcileService E nb =
     check (lift (generateService nb)) (\<lambda>svc0.
     check (lift (SetControllerReference E (nb_meta nb) (svc_meta svc0))) (\<lambda>meta.
     let svc = svc0\<lparr>svc_meta := meta\<rparr> in do {
       r \<leftarrow> Get E KService to_service (m_namespace (svc_meta svc), m_name (svc_meta svc));
       case r of
         Inl e \<Rightarrow> if IsNotFound e then check (Create E to_service (OService svc)) (\<lambda>_. ok ()) else fail e
       | Inr found \<Rightarrow> (case CopyServiceFields svc found of (upd, found') \<Rightarrow>
           if upd then check (Update E to_service (OService found')) (\<lambda>_. ok ()) else ok ())
     }))"

text \<open>
  The restart part: with the restart annotation, the pod \<open><name>-0\<close> is fetched (a missing
  pod leaves an empty object), deleted, and the annotation removed from the Notebook.
\<close>

definition restart_pod :: "'s env \<Rightarrow> notebook \<Rightarrow> ('s, unit) ehandler" where
  "restart_pod E nb = (
     if mlookup (nb_annotations nb) AnnotationNotebookRestart = Some trueString then do {
       r \<leftarrow> Get E KPod to_pod (nb_ns nb, nb_name nb @ ''-0'');
       check (lift (case r of Inl e \<Rightarrow> if IsNotFound e then Inr empty_pod else Inl e | Inr p \<Rightarrow> Inr p)) (\<lambda>p.
       check (Delete E KPod (meta_key (pod_meta p))) (\<lambda>_.
       check (Update E to_notebook (ONotebook (map_meta
         (with_annotations (mdelete AnnotationNotebookRestart (nb_annotations nb))) nb))) (\<lambda>_. ok ())))
     } else ok ())"

text \<open>An event of a pod or StatefulSet names its Notebook.\<close>

definition nbNameFromInvolvedObject :: "'s env \<Rightarrow> kevent \<Rightarrow> ('s, string) ehandler" where
  "nbNameFromInvolvedObject E ev = (
     if ke_kind ev = ''StatefulSet'' then ok (ke_objName ev)
     else if ke_kind ev = ''Pod'' then
       check (Get E KPod to_pod (ke_objNamespace ev, ke_objName ev)) (\<lambda>p.
         case mlookup (m_labels (pod_meta p)) ''notebook-name'' of
           Some nbName \<Rightarrow> ok nbName
         | None \<Rightarrow> fail (Errorf ''object isn't related to a Notebook''))
     else fail (Errorf ''object isn't related to a Notebook''))"

definition reemit_event :: "'s env \<Rightarrow> nsname \<Rightarrow> kevent \<Rightarrow> ('s, unit) ehandler" where
  "reemit_event E req ev =
     check (nbNameFromInvolvedObject E ev) (\<lambda>nbName. do {
       r \<leftarrow> Get E KNotebook to_notebook (fst req, nbName);
       case r of
         Inl e \<Rightarrow> lift (ignoreNotFound e)
       | Inr nb \<Rightarrow> do {
           emit (Emitted (nb_key nb) (ke_type ev) (ke_reason ev)
             (''Reissued from '' @ ToLower (ke_kind ev) @ ''/'' @ ke_objName ev @ '': '' @ ke_message ev));
           ok ()
         }
     })"

definition reconcile_notebook :: "'s env \<Rightarrow> notebook \<Rightarrow> ('s, unit) ehandler" where
  "reconcile_notebook E nb =
     check (reconcileStatefulSet E nb (length (nb_name nb) > MaxStatefulsetNameLength)) (\<lambda>(ss, found).
     check (reconcileService E nb) (\<lambda>_.
     check (if Getenv E ''USE_ISTIO'' = trueString then reconcileVirtualService E nb else ok ()) (\<lambda>_. do {
       r \<leftarrow> Get E KPod to_pod (m_namespace (sts_meta ss), m_name (sts_meta ss) @ ''-0'');
       check (lift (case r of Inl e \<Rightarrow> if IsNotFound e then Inr empty_pod else Inl e | Inr p \<Rightarrow> Inr p)) (\<lambda>p.
       check (updateNotebookStatus E nb found p) (\<lambda>nb'. restart_pod E nb'))
     })))"

definition Reconcile :: "'s env \<Rightarrow> nsname \<Rightarrow> ('s, unit) ehandler" where
  "Reconcile E req = do {
     ev \<leftarrow> Get E KEvent to_event req;
     case ev of
       Inr event \<Rightarrow> reemit_event E req event
     | Inl e \<Rightarrow> if \<not> IsNotFound e then fail e else do {
         r \<leftarrow> Get E KNotebook to_notebook req;
         case r of
           Inl e \<Rightarrow> lift (ignoreNotFound e)
         | Inr instance \<Rightarrow>
             if IsDeleting (nb_meta instance) then ok () else reconcile_notebook E instance
       }
   }"

section \<open>Watches\<close>

definition isStsOrPodEvent :: "kevent \<Rightarrow> bool" where
  "isStsOrPodEvent ev \<longleftrightarrow> ke_kind ev = ''Pod'' \<or> ke_kind ev = ''StatefulSet''"

definition nbNameExists :: "'s env \<Rightarrow> string \<Rightarrow> string \<Rightarrow> ('s, bool) handler" where
  "nbNameExists E nbName namespace = do {
     r \<leftarrow> Get E KNotebook to_notebook (namespace, nbName);
     return_h (case r of Inl e \<Rightarrow> \<not> IsNotFound e | Inr _ \<Rightarrow> True)
   }"

definition predNBPodIsLabeled :: "kobj \<Rightarrow> bool" where
  "predNBPodIsLabeled x \<longleftrightarrow> mlookup (m_labels (obj_meta x)) ''notebook-name'' \<noteq> None"

datatype watch_event = WCreate | WUpdate | WDelete | WGeneric

definition predNBEvents :: "'s env \<Rightarrow> watch_event \<Rightarrow> kevent \<Rightarrow> ('s, bool) handler" where
  "predNBEvents E kd ev = (
     if kd = WDelete then return_h False
     else do {
       r \<leftarrow> nbNameFromInvolvedObject E ev;
       case r of
         Inl _ \<Rightarrow> return_h False
       | Inr nbName \<Rightarrow> if isStsOrPodEvent ev then nbNameExists E nbName (m_namespace (ke_meta ev))
                      else return_h False
     })"

definition mapPodToRequest :: "kobj \<Rightarrow> nsname list" where
  "mapPodToRequest x = [(m_namespace (obj_meta x), mget (m_labels (obj_meta x)) ''notebook-name'')]"

definition mapEventToRequest :: "kobj \<Rightarrow> nsname list" where
  "mapEventToRequest x = [(m_namespace (obj_meta x), m_name (obj_meta x))]"

section \<open>What the reconciler may write\<close>

definition is_long :: "notebook \<Rightarrow> bool" where
  "is_long nb \<longleftrightarrow> length (nb_name nb) > MaxStatefulsetNameLength"

text \<open>
  The desired StatefulSet and Service: generated from the Notebook, with the owner reference.
\<close>

definition desired_sts :: "'s env \<Rightarrow> notebook \<Rightarrow> statefulset \<Rightarrow> bool" where
  "desired_sts E nb ss \<longleftrightarrow> (\<exists>ss0 m. generateStatefulSet E nb (is_long nb) = Inr ss0 \<and>
     SetControllerReference E (nb_meta nb) (sts_meta ss0) = Inr m \<and> ss = ss0\<lparr>sts_meta := m\<rparr>)"

definition desired_svc :: "'s env \<Rightarrow> notebook \<Rightarrow> service \<Rightarrow> bool" where
  "desired_svc E nb svc \<longleftrightarrow> (\<exists>svc0 m. generateService nb = Inr svc0 \<and>
     SetControllerReference E (nb_meta nb) (svc_meta svc0) = Inr m \<and> svc = svc0\<lparr>svc_meta := m\<rparr>)"

text \<open>
  The write requests of one reconciliation of \<open>nb\<close>: a StatefulSet or Service is created as
  desired or updated to the desired fields because the stored one was stale; a StatefulSet is
  only updated if the Notebook controls it; the Notebook itself is only updated in its status, or to
  drop the restart annotation; the only deletion is of a pod.
\<close>

fun nb_write :: "'s env \<Rightarrow> notebook \<Rightarrow> request \<Rightarrow> bool" where
  "nb_write E nb (RCreate (OStatefulSet s)) \<longleftrightarrow> desired_sts E nb s"
| "nb_write E nb (RUpdate (OStatefulSet s)) \<longleftrightarrow> (\<exists>ss found. desired_sts E nb ss \<and>
     IsControlledBy (sts_meta found) (nb_meta nb) \<and>
     CopyStatefulSetFields ss (copy_template_labels ss found) = Inr (True, s))"
| "nb_write E nb (RCreate (OService s)) \<longleftrightarrow> desired_svc E nb s"
| "nb_write E nb (RUpdate (OService s)) \<longleftrightarrow>
     (\<exists>svc found. desired_svc E nb svc \<and> CopyServiceFields svc found = (True, s))"
| "nb_write E nb (RCreate (OVirtualService v)) \<longleftrightarrow> Getenv E ''USE_ISTIO'' = trueString \<and>
     (\<exists>m. v = (generateVirtualService E nb)\<lparr>vs_meta := m\<rparr>)"
| "nb_write E nb (RUpdate (OVirtualService v)) \<longleftrightarrow> Getenv E ''USE_ISTIO'' = trueString \<and>
     vs_spec v = vs_spec (generateVirtualService E nb)"
| "nb_write E nb (RUpdateStatus (ONotebook n)) \<longleftrightarrow> n = nb\<lparr>nb_status := nb_status n\<rparr>"
| "nb_write E nb (RUpdate (ONotebook n)) \<longleftrightarrow> mlookup (nb_annotations n) AnnotationNotebookRestart = None"
| "nb_write E nb (RDelete KPod _) \<longleftrightarrow> True"
| "nb_write E nb _ \<longleftrightarrow> False"

lemma find_controlled:
  "find (\<lambda>s. IsControlledBy (sts_meta s) m) items = Some s \<Longrightarrow> IsControlledBy (sts_meta s) m"
  by (auto simp: find_Some_iff)

lemma empty_sts_key [simp]: "m_name (sts_meta empty_sts) = []" "m_namespace (sts_meta empty_sts) = []"
  by (simp_all add: empty_sts_def empty_meta_def)

lemma reconcileStatefulSet_writes:
  "emits (wr (nb_write E nb)) (reconcileStatefulSet E nb (is_long nb))"
  unfolding reconcileStatefulSet_def
  by (intro emit_rules) (auto simp: desired_sts_def split: option.splits dest: find_controlled)

lemma reconcileService_writes:
  "emits (wr (nb_write E nb)) (reconcileService E nb)"
  unfolding reconcileService_def by (intro emit_rules) (auto simp: desired_svc_def)

lemma generated_spec: "NestedSpec ((generateVirtualService E nb)\<lparr>vs_meta := m\<rparr>) =
  (case vs_spec (generateVirtualService E nb) of Some (JMap m) \<Rightarrow> Some m | _ \<Rightarrow> None)"
  by (simp add: NestedSpec_def)

lemma generated_spec_map: "\<exists>m. vs_spec (generateVirtualService E nb) = Some (JMap m)"
  by (simp add: generateVirtualService_def Let_def jmap_def)

lemma CopyVirtualService_spec:
  "CopyVirtualService v found = (True, found') \<Longrightarrow> vs_spec found' = vs_spec v"
  by (auto simp: CopyVirtualService_def NestedSpec_def Let_def split: option.splits jvalue.splits if_splits)

lemma reconcileVirtualService_writes:
  "Getenv E ''USE_ISTIO'' = trueString \<Longrightarrow> emits (wr (nb_write E nb)) (reconcileVirtualService E nb)"
  unfolding reconcileVirtualService_def by (intro emit_rules) (auto dest: CopyVirtualService_spec)

lemma mirror_conditions_writes [emit_rules]: "emits (wr P) (mirror_conditions E cs)"
  by (induction cs) (auto simp: PodCondToNotebookCond_def or_now_def intro!: emit_rules)

lemma updateNotebookStatus_writes:
  "emits (wr (nb_write E nb)) (updateNotebookStatus E nb sts p)"
  unfolding updateNotebookStatus_def createNotebookStatus_def by (intro emit_rules) auto

lemma restart_pod_writes:
  "emits (wr (nb_write E nb)) (restart_pod E nb')"
  unfolding restart_pod_def
  by (intro emit_rules) (auto simp: map_meta_def mlookup_mdelete)

lemmas nb_writes = reconcileStatefulSet_writes reconcileService_writes reconcileVirtualService_writes
  updateNotebookStatus_writes restart_pod_writes

lemma reconcile_notebook_writes:
  "emits (wr (nb_write E nb)) (reconcile_notebook E nb)"
  unfolding reconcile_notebook_def is_long_def[symmetric]
  by (intro emit_rules nb_writes) auto

lemma nbNameFromInvolvedObject_writes [emit_rules]: "emits (wr P) (nbNameFromInvolvedObject E ev)"
  unfolding nbNameFromInvolvedObject_def by (intro emit_rules) auto

lemma reemit_event_writes: "emits (wr P) (reemit_event E req ev)"
  unfolding reemit_event_def by (intro emit_rules) auto

fun_cases to_notebook_cases: "to_notebook y = Some x"

lemma Reconcile_does:
  "does (Reconcile E req) (\<lambda>_ es. \<forall>q resp. Call q resp \<in> set es \<longrightarrow> is_write q \<longrightarrow>
     (\<exists>nb. Call (RGet KNotebook req) (RespObj (ONotebook nb)) \<in> set es \<and>
        \<not> IsDeleting (nb_meta nb) \<and> nb_write E nb q))"
  unfolding Reconcile_def
  apply (intro wp_rules; simp)
  subgoal by (rule does_mono[OF writes_does[OF reconcile_notebook_writes]])
      (fastforce simp: as_obj_Inr elim!: to_notebook_cases)
  subgoal by (rule does_mono[OF writes_does[OF reemit_event_writes[where P = "\<lambda>_. False"]]]) auto
  done

end
