(* ===== verification/NotebookProps.thy ===== *)
theory NotebookProps
  imports NotebookCore
begin

text \<open>
  The properties of the Notebook reconciler: what it writes, when it does nothing, what it
  generates and when generating fails, the status it mirrors, restarts, generated names and the event
  filter. The sample objects of the witnesses are here too.
\<close>


lemmas core_defs = Reconcile_def reconcile_notebook_def reconcileStatefulSet_def generateStatefulSet_def
  MaxStatefulsetNameLength_def sts_meta_for_def HasAnnotation_def SetControllerReference_def mem_setref_def
  add_fsgroup_def mrange_set_def mfilter_keys_def mlit_def default_container_def default_working_dir_def
  default_ports_def setPrefixEnvVar_def notebook_prefix_def GetControllerOf_def IsControlledBy_def
  reconcileService_def generateService_def Getenv_def copy_template_labels_def empty_sts_def
  updateNotebookStatus_def createNotebookStatus_def empty_pod_def restart_pod_def mall_def is_long_def
  empty_podstatus_def DefaultContainerPort_def DefaultServingPort_def client_defs obj_key_def meta_key_def
  same_obj_def IsNotFound_def IsDeleting_def Let_def

definition sample_owner :: "ownerref list" where
  "sample_owner = [\<lparr>or_apiVersion = ''kubeflow.org/v1beta1'', or_kind = ''Notebook'', or_name = ''nb'',
     or_uid = ''u'', or_controller = Some True, or_blockOwnerDeletion = Some True\<rparr>]"

definition sample_service_of :: service where
  "sample_service_of = \<lparr>svc_meta = empty_meta\<lparr>m_name := ''nb'', m_namespace := ''ns'', m_ownerRefs := sample_owner\<rparr>,
     svc_type = ''ClusterIP'', svc_selector = mlit [(''statefulset'', ''nb'')],
     svc_ports = [\<lparr>sp_name = ''http-notebook'', sp_port = 80, sp_targetPort = IntVal 8888, sp_protocol = ''TCP''\<rparr>],
     svc_rest = []\<rparr>"

lemma sample_run:
  defines "out \<equiv> run_state (Reconcile sample_env (''ns'', ''nb'')) \<lparr>server = [ONotebook sample_notebook], trace = []\<rparr>"
  shows "fst out = Inr ()"
    and "Call (RCreate (OService sample_service_of)) (RespObj (OService sample_service_of)) \<in> set (trace (snd out))"
  unfolding out_def
  by (simp_all add: core_defs sample_defs go_consts sample_service_of_def sample_owner_def)


text \<open>
  \<open>Reconcile\<close> does nothing for a Notebook that is gone or being deleted: after the two
  lookups it returns, with success, so the objects that the API server is tearing down are
  not recreated. Any other error of the lookup is returned.
\<close>

theorem Reconcile_skips:
  assumes "env_api E (RGet KEvent req) (server w) = (RespErr e0, s1)" "IsNotFound e0"
    and "env_api E (RGet KNotebook req) s1 = (resp, s2)"
    and "resp = RespErr e \<or> (\<exists>nb. resp = RespObj (ONotebook nb) \<and> IsDeleting (nb_meta nb) \<and> e = ApiErr NotFound)"
  shows "run_state (Reconcile E req) w = (if IsNotFound e then Inr () else Inl e,
    \<lparr>server = s2, trace = trace w @ [Call (RGet KEvent req) (RespErr e0), Call (RGet KNotebook req) resp]\<rparr>)"
  using assms by (auto simp: Reconcile_def client_defs ignoreNotFound_def IsNotFound_def)

theorem Reconcile_skips_witness:
  "run_state (Reconcile sample_env (''ns'', ''nb''))
     \<lparr>server = [ONotebook (sample_notebook\<lparr>nb_meta := (nb_meta sample_notebook)\<lparr>m_deletionTimestamp := Some (GoTime 0 0)\<rparr>\<rparr>)],
      trace = []\<rparr> = (Inr (),
   \<lparr>server = [ONotebook (sample_notebook\<lparr>nb_meta := (nb_meta sample_notebook)\<lparr>m_deletionTimestamp := Some (GoTime 0 0)\<rparr>\<rparr>)],
    trace = [Call (RGet KEvent (''ns'', ''nb'')) (RespErr (ApiErr NotFound)),
      Call (RGet KNotebook (''ns'', ''nb'')) (RespObj (ONotebook
        (sample_notebook\<lparr>nb_meta := (nb_meta sample_notebook)\<lparr>m_deletionTimestamp := Some (GoTime 0 0)\<rparr>\<rparr>)))]\<rparr>)"
proof -
  let ?nb = "sample_notebook\<lparr>nb_meta := (nb_meta sample_notebook)\<lparr>m_deletionTimestamp := Some (GoTime 0 0)\<rparr>\<rparr>"
  let ?w = "\<lparr>server = [ONotebook ?nb], trace = []\<rparr>"
  have "env_api sample_env (RGet KEvent (''ns'', ''nb'')) (server ?w) = (RespErr (ApiErr NotFound), [ONotebook ?nb])"
    "env_api sample_env (RGet KNotebook (''ns'', ''nb'')) [ONotebook ?nb] = (RespObj (ONotebook ?nb), [ONotebook ?nb])"
    "IsDeleting (nb_meta ?nb)"
    by (simp_all add: core_defs sample_defs IsZero_def zero_time_def)
  from Reconcile_skips[OF this(1) _ this(2), of "ApiErr NotFound"] this(3)
  show ?thesis by (auto simp: IsNotFound_def)
qed

lemma add_fsgroup_containers [simp]: "ps_containers (add_fsgroup E ps) = ps_containers ps"
  by (simp add: add_fsgroup_def split: option.splits)

lemma generated:
  assumes "generateStatefulSet E nb g = Inr ss"
  obtains c cs sl l a where "ps_containers (nb_podspec nb) = c # cs"
    "mrange_set (m_labels (nb_meta nb)) (m_labels (sts_meta_for nb g)) = Inr sl"
    "mrange_set (m_labels (nb_meta nb)) (mlit [(''statefulset'', nb_name nb), (''notebook-name'', nb_name nb),
        (WorkbenchLabel, ''true'')]) = Inr l"
    "mrange_set (mfilter_keys copied_annotation (nb_annotations nb)) (mlit []) = Inr a"
    "sts_replicas ss = Some (if HasAnnotation (nb_meta nb) StoppedAnnotation then 0 else 1)"
    "sts_selector ss = mlit [(''statefulset'', nb_name nb)]" "m_labels (sts_meta ss) = sl"
    "sts_tmplLabels ss = l" "sts_tmplAnnotations ss = a"
    "ps_containers (sts_podspec ss) = default_container nb c # cs"
  using assms by (auto simp: generateStatefulSet_def Let_def split: sum.splits list.splits)

lemma default_container_keeps:
  "c_image (default_container nb c) = c_image c" "c_args (default_container nb c) = c_args c"
  "c_volumeMounts (default_container nb c) = c_volumeMounts c"
  "\<exists>added. c_env (default_container nb c) = c_env c @ added"
  "list_ex (\<lambda>e. ev_name e = PrefixEnvVar) (c_env (default_container nb c))"
  "c_ports (default_container nb c) \<noteq> None" "c_workingDir (default_container nb c) \<noteq> []"
  by (simp_all add: default_container_def setPrefixEnvVar_def default_ports_def default_working_dir_def
      split: option.splits)

lemma generated_facts:
  assumes "generateStatefulSet E nb g = Inr ss"
  shows "sts_replicas ss = Some (if mlookup (nb_annotations nb) StoppedAnnotation = None then 1 else 0)"
    and "sts_selector ss = mlit [(''statefulset'', nb_name nb)]"
    and "\<not> g \<Longrightarrow> mlookup (m_labels (sts_meta ss)) k = mlookup (m_labels (nb_meta nb)) k"
    and "mlookup (sts_tmplLabels ss) k = (case mlookup (m_labels (nb_meta nb)) k of Some v \<Rightarrow> Some v
      | None \<Rightarrow> if k = ''statefulset'' \<or> k = ''notebook-name'' then Some (nb_name nb)
               else if k = WorkbenchLabel then Some ''true'' else None)"
    and "mlookup (sts_tmplAnnotations ss) k = (if copied_annotation k then mlookup (nb_annotations nb) k else None)"
    and "\<exists>c cs c'. ps_containers (nb_podspec nb) = c # cs \<and> ps_containers (sts_podspec ss) = c' # cs \<and>
      c_image c' = c_image c \<and> c_args c' = c_args c \<and> c_volumeMounts c' = c_volumeMounts c \<and>
      (\<exists>added. c_env c' = c_env c @ added) \<and> list_ex (\<lambda>e. ev_name e = PrefixEnvVar) (c_env c') \<and>
      c_ports c' \<noteq> None \<and> c_workingDir c' \<noteq> []"
proof -
  from assms obtain c cs sl l a where c: "ps_containers (nb_podspec nb) = c # cs"
    and sl: "mrange_set (m_labels (nb_meta nb)) (m_labels (sts_meta_for nb g)) = Inr sl"
    and l: "mrange_set (m_labels (nb_meta nb)) (mlit [(''statefulset'', nb_name nb), (''notebook-name'', nb_name nb),
        (WorkbenchLabel, ''true'')]) = Inr l"
    and a: "mrange_set (mfilter_keys copied_annotation (nb_annotations nb)) (mlit []) = Inr a"
    and ss: "sts_replicas ss = Some (if HasAnnotation (nb_meta nb) StoppedAnnotation then 0 else 1)"
      "sts_selector ss = mlit [(''statefulset'', nb_name nb)]" "m_labels (sts_meta ss) = sl"
      "sts_tmplLabels ss = l" "sts_tmplAnnotations ss = a"
      "ps_containers (sts_podspec ss) = default_container nb c # cs"
    by (rule generated)
  show "sts_replicas ss = Some (if mlookup (nb_annotations nb) StoppedAnnotation = None then 1 else 0)"
    "sts_selector ss = mlit [(''statefulset'', nb_name nb)]"
    by (simp_all add: ss HasAnnotation_def)
  show "\<not> g \<Longrightarrow> mlookup (m_labels (sts_meta ss)) k = mlookup (m_labels (nb_meta nb)) k"
    using mrange_set_lookup[of "m_labels (nb_meta nb)" fmempty sl k] sl
    by (simp add: sts_meta_for_def mlit_def ss split: option.splits)
  show "mlookup (sts_tmplLabels ss) k = (case mlookup (m_labels (nb_meta nb)) k of Some v \<Rightarrow> Some v
      | None \<Rightarrow> if k = ''statefulset'' \<or> k = ''notebook-name'' then Some (nb_name nb)
               else if k = WorkbenchLabel then Some ''true'' else None)"
    using mrange_set_lookup[OF l[unfolded mlit_def], of k]
    by (simp add: ss WorkbenchLabel_def split: option.splits)
  show "mlookup (sts_tmplAnnotations ss) k = (if copied_annotation k then mlookup (nb_annotations nb) k else None)"
    using mrange_set_lookup[OF a[unfolded mlit_def], of k] by (simp add: ss split: option.splits)
  show "\<exists>c cs c'. ps_containers (nb_podspec nb) = c # cs \<and> ps_containers (sts_podspec ss) = c' # cs \<and>
      c_image c' = c_image c \<and> c_args c' = c_args c \<and> c_volumeMounts c' = c_volumeMounts c \<and>
      (\<exists>added. c_env c' = c_env c @ added) \<and> list_ex (\<lambda>e. ev_name e = PrefixEnvVar) (c_env c') \<and>
      c_ports c' \<noteq> None \<and> c_workingDir c' \<noteq> []"
    using c ss(6) default_container_keeps[of nb c] by blast
qed


definition stopped_notebook :: notebook where
  "stopped_notebook = map_meta (with_annotations (mlit [(StoppedAnnotation, ''2024-01-01T00:00:00Z'')])) sample_notebook"

lemma stopped_generates:
  "\<exists>ss. generateStatefulSet sample_env stopped_notebook False = Inr ss"
  by (simp add: core_defs sample_defs stopped_notebook_def map_meta_def with_annotations_def)


text \<open>
  Generating the StatefulSet panics exactly when the pod has no container, or the name is
  over 52 characters (so that a generated name is used) and the Notebook has a label: the
  metadata built for the generated name has no label map. \<open>Reconcile\<close> of such a Notebook fails
  before its first request, every time.
\<close>

theorem generateStatefulSet_panics:
  "(\<exists>e. generateStatefulSet E nb g = Inl e) \<longleftrightarrow>
     ps_containers (nb_podspec nb) = [] \<or> (g \<and> \<not> mempty (m_labels (nb_meta nb)))"
proof -
  have l: "\<exists>m. mrange_set x (mlit ys) = Inr m" for x ys by (simp add: mlit_def mrange_set_Some)
  obtain t where t: "mrange_set (m_labels (nb_meta nb)) (mlit [(''statefulset'', nb_name nb),
      (''notebook-name'', nb_name nb), (WorkbenchLabel, ''true'')]) = Inr t" using l by blast
  obtain a where a: "mrange_set (mfilter_keys copied_annotation (nb_annotations nb)) (mlit []) = Inr a"
    using l by blast
  obtain n where n: "mrange_set (m_labels (nb_meta nb)) (mlit []) = Inr n" using l by blast
  show ?thesis
    by (cases g) (auto simp: generateStatefulSet_def t a n sts_meta_for_def mrange_set_nil empty_meta_def Let_def
        split: list.splits)
qed

text \<open>
  A labelled Notebook with a name over 52 characters never gets its objects: the reconciliation
  panics without a single effect, whatever the server would answer.
\<close>

theorem long_labelled_notebook_stuck:
  assumes "length (nb_name nb) > 52" "mlookup (m_labels (nb_meta nb)) k = Some v"
  shows "\<exists>e. run_state (reconcile_notebook E nb) w = (Inl e, w) \<and> is_panic e"
proof -
  have "\<not> mempty (m_labels (nb_meta nb))" using assms(2) by (auto simp: mempty_iff)
  then have "\<exists>msg. generateStatefulSet E nb True = Inl (Panic msg)"
    by (simp add: generateStatefulSet_def sts_meta_for_def empty_meta_def mrange_set_nil Let_def)
  with assms(1) show ?thesis
    by (auto simp: reconcile_notebook_def reconcileStatefulSet_def MaxStatefulsetNameLength_def)
qed

definition long_notebook :: notebook where
  "long_notebook = map_meta (\<lambda>m. m\<lparr>m_name := replicate 53 CHR ''a'', m_labels := mlit [(''app'', ''x'')]\<rparr>) sample_notebook"

theorem long_labelled_notebook_stuck_witness:
  "\<exists>e. run_state (reconcile_notebook sample_env long_notebook) \<lparr>server = [], trace = []\<rparr> =
     (Inl e, \<lparr>server = [], trace = []\<rparr>) \<and> is_panic e"
  by (rule long_labelled_notebook_stuck[where k = "''app''" and v = "''x''"])
     (simp_all add: long_notebook_def map_meta_def mlit_def)

text \<open>
  A stale prefix stays: when the first container already has an \<open>NB_PREFIX\<close> variable,
  the StatefulSet gets the container's variables exactly as they are, whatever the value, because
  \<open>setPrefixEnvVar\<close> assigns to the copy its loop makes.
\<close>

theorem stale_prefix_kept:
  assumes "generateStatefulSet E nb g = Inr ss" "ps_containers (nb_podspec nb) = c # cs"
    and "x \<in> set (c_env c)" "ev_name x = PrefixEnvVar"
  shows "c_env (hd (ps_containers (sts_podspec ss))) = c_env c"
  using assms
  by (elim generated)
     (auto simp: default_container_def setPrefixEnvVar_def default_ports_def default_working_dir_def list_ex_iff
       split: option.splits)

definition stale_container :: container where
  "stale_container = sample_container\<lparr>c_env := [\<lparr>ev_name = PrefixEnvVar, ev_value = ''/old'', ev_rest = []\<rparr>]\<rparr>"

theorem stale_prefix_kept_witness:
  "\<exists>ss. generateStatefulSet sample_env (sample_notebook\<lparr>nb_podspec := sample_podspec\<lparr>ps_containers := [stale_container]\<rparr>\<rparr>) False
      = Inr ss \<and> c_env (hd (ps_containers (sts_podspec ss))) =
      [\<lparr>ev_name = PrefixEnvVar, ev_value = ''/old'', ev_rest = []\<rparr>]"
proof -
  let ?nb = "sample_notebook\<lparr>nb_podspec := sample_podspec\<lparr>ps_containers := [stale_container]\<rparr>\<rparr>"
  have "\<exists>ss. generateStatefulSet sample_env ?nb False = Inr ss"
    by (simp add: core_defs sample_defs)
  then obtain ss where ss: "generateStatefulSet sample_env ?nb False = Inr ss" by blast
  from stale_prefix_kept[OF ss, of stale_container "[]"] ss show ?thesis
    by (auto simp: stale_container_def)
qed

text \<open>A Notebook condition mirrors a pod condition: all fields, except that zero times are set.\<close>

definition mirrors :: "nbcondition \<Rightarrow> podcondition \<Rightarrow> bool" where
  "mirrors c d \<longleftrightarrow> nc_type c = pc_type d \<and> nc_status c = pc_status d \<and> nc_reason c = pc_reason d \<and>
     nc_message c = pc_message d \<and> (IsZero (pc_lastProbeTime d) \<or> nc_lastProbeTime c = pc_lastProbeTime d) \<and>
     (IsZero (pc_lastTransitionTime d) \<or> nc_lastTransitionTime c = pc_lastTransitionTime d)"

lemma or_now_does: "does (or_now E t) (\<lambda>u es. es = [] \<and> (IsZero t \<or> u = t))"
  unfolding or_now_def by (intro wp_rules) auto

lemma PodCondToNotebookCond_does: "does (PodCondToNotebookCond E d) (\<lambda>c es. es = [] \<and> mirrors c d)"
  unfolding PodCondToNotebookCond_def
  by (intro wp_rules, rule does_mono[OF or_now_does], intro wp_rules, rule does_mono[OF or_now_does], intro wp_rules)
     (auto simp: mirrors_def)

lemma mirror_conditions_does: "does (mirror_conditions E ds) (\<lambda>cs es. es = [] \<and> list_all2 mirrors cs ds)"
proof (induction ds)
  case (Cons d ds)
  show ?case unfolding mirror_conditions.simps
    by (intro wp_rules, rule does_mono[OF PodCondToNotebookCond_does], intro wp_rules,
        rule does_mono[OF Cons.IH], intro wp_rules) auto
qed (auto intro: wp_rules)

lemma container_state_from:
  "notebook_container_state nb css = empty_containerstate \<or>
    (\<exists>s \<in> set css. cst_name s = nb_name nb \<and> notebook_container_state nb css = cst_state s)"
  by (auto simp: notebook_container_state_def find_Some_iff split: option.splits)


definition sample_pod :: pod where
  "sample_pod = \<lparr>pod_meta = empty_meta\<lparr>m_name := ''nb-0'', m_namespace := ''ns''\<rparr>,
     pod_status = \<lparr>pst_conditions = [\<lparr>pc_type = ''Ready'', pc_status = ''True'', pc_lastProbeTime = zero_time,
         pc_lastTransitionTime = GoTime 5 0, pc_reason = [], pc_message = []\<rparr>],
       pst_containerStatuses = [], pst_rest = []\<rparr>\<rparr>"


text \<open>
  A restart: when the annotation asks for one and the pod exists, exactly that pod is
  deleted, and then the Notebook is updated without the annotation and otherwise unchanged.
\<close>

theorem restart_pod_restarts:
  assumes "mlookup (nb_annotations nb) AnnotationNotebookRestart = Some trueString"
    and "env_api E (RGet KPod (nb_ns nb, nb_name nb @ ''-0'')) (server w) = (RespObj (OPod p), s1)"
    and "env_api E (RDelete KPod (meta_key (pod_meta p))) s1 = (RespOk, s2)"
    and "env_api E (RUpdate (ONotebook (map_meta (with_annotations
           (mdelete AnnotationNotebookRestart (nb_annotations nb))) nb))) s2 = (RespObj (ONotebook y), s3)"
  shows "run_state (restart_pod E nb) w = (Inr (), \<lparr>server = s3, trace = trace w @
    [Call (RGet KPod (nb_ns nb, nb_name nb @ ''-0'')) (RespObj (OPod p)),
     Call (RDelete KPod (meta_key (pod_meta p))) RespOk,
     Call (RUpdate (ONotebook (map_meta (with_annotations
       (mdelete AnnotationNotebookRestart (nb_annotations nb))) nb))) (RespObj (ONotebook y))]\<rparr>)"
  using assms by (simp add: restart_pod_def client_defs)

definition restart_notebook :: notebook where
  "restart_notebook = map_meta (with_annotations (mlit [(AnnotationNotebookRestart, trueString)])) sample_notebook"

definition restarted_notebook :: notebook where
  "restarted_notebook = map_meta (with_annotations (mdelete AnnotationNotebookRestart
     (nb_annotations restart_notebook))) restart_notebook"

theorem restart_pod_restarts_witness:
  "run_state (restart_pod sample_env restart_notebook)
      \<lparr>server = [ONotebook restart_notebook, OPod sample_pod], trace = []\<rparr> =
    (Inr (), \<lparr>server = [ONotebook restarted_notebook], trace =
      [Call (RGet KPod (''ns'', ''nb-0'')) (RespObj (OPod sample_pod)),
       Call (RDelete KPod (''ns'', ''nb-0'')) RespOk,
       Call (RUpdate (ONotebook restarted_notebook)) (RespObj (ONotebook restarted_notebook))]\<rparr>)"
proof -
  have k: "nb_ns restart_notebook = ''ns''" "nb_name restart_notebook = ''nb''"
    "meta_key (pod_meta sample_pod) = (''ns'', ''nb-0'')" "obj_key (ONotebook restarted_notebook) = (''ns'', ''nb'')"
    "obj_key (ONotebook restart_notebook) = (''ns'', ''nb'')"
    by (simp_all add: restart_notebook_def restarted_notebook_def sample_pod_def map_meta_def sample_defs
        meta_key_def obj_key_def)
  show ?thesis
    using restart_pod_restarts[of restart_notebook sample_env
        "\<lparr>server = [ONotebook restart_notebook, OPod sample_pod], trace = []\<rparr>" sample_pod
        "[ONotebook restart_notebook, OPod sample_pod]" "[ONotebook restart_notebook]" restarted_notebook
        "[ONotebook restarted_notebook]"]
    unfolding restarted_notebook_def[symmetric] k
    by (simp add: same_obj_def k obj_key_def[of "OPod sample_pod"])
       (simp add: restart_notebook_def map_meta_def mlit_def sample_pod_def meta_key_def sample_defs)
qed

text \<open>
  A restart asked for while no pod runs gets stuck: the missing pod leaves an empty
  object, so the reconciler asks to delete a pod without name or namespace; when the server refuses
  that, its error is returned and the annotation is never removed.
\<close>

theorem restart_without_pod_stuck:
  assumes "mlookup (nb_annotations nb) AnnotationNotebookRestart = Some trueString"
    and "env_api E (RGet KPod (nb_ns nb, nb_name nb @ ''-0'')) (server w) = (RespErr (ApiErr NotFound), s1)"
    and "env_api E (RDelete KPod ([], [])) s1 = (RespErr e, s2)"
  shows "run_state (restart_pod E nb) w = (Inl e, \<lparr>server = s2, trace = trace w @
    [Call (RGet KPod (nb_ns nb, nb_name nb @ ''-0'')) (RespErr (ApiErr NotFound)),
     Call (RDelete KPod ([], [])) (RespErr e)]\<rparr>)"
  using assms by (simp add: restart_pod_def client_defs IsNotFound_def empty_pod_def empty_meta_def meta_key_def)

theorem restart_without_pod_stuck_witness:
  "run_state (restart_pod sample_env restart_notebook) \<lparr>server = [ONotebook restart_notebook], trace = []\<rparr> =
    (Inl (ApiErr NotFound), \<lparr>server = [ONotebook restart_notebook], trace =
      [Call (RGet KPod (''ns'', ''nb-0'')) (RespErr (ApiErr NotFound)),
       Call (RDelete KPod ([], [])) (RespErr (ApiErr NotFound))]\<rparr>)"
  using restart_without_pod_stuck[of restart_notebook sample_env
      "\<lparr>server = [ONotebook restart_notebook], trace = []\<rparr>" "[ONotebook restart_notebook]" "ApiErr NotFound"
      "[ONotebook restart_notebook]"]
  by (simp add: same_obj_def restart_notebook_def map_meta_def mlit_def meta_key_def sample_defs)

text \<open>
  With a generated name, only the reconciliation that creates the StatefulSet knows its
  name: in every later one the desired StatefulSet has no name, so the pod the
  reconciler looks up is \<open>-0\<close>, which is not the Notebook's pod.
\<close>

theorem generated_name_unknown:
  assumes "setref_keeps E" "run_state (reconcileStatefulSet E nb True) w = (Inr (ss, found), w')"
    and "trace w' = trace w @ es" "\<forall>x resp. Call (RCreate x) resp \<notin> set es"
  shows "m_name (sts_meta ss) = [] \<and> m_generateName (sts_meta ss) = ''nb-''"
proof -
  have gen: "m_name (sts_meta s) = [] \<and> m_generateName (sts_meta s) = ''nb-''"
    if "generateStatefulSet E nb True = Inr s" for s
    using that by (auto simp: generateStatefulSet_def sts_meta_for_def empty_meta_def Let_def
        split: sum.splits list.splits)
  have keep: "m_name m' = m_name m \<and> m_generateName m' = m_generateName m"
    if "SetControllerReference E o' m = Inr m'" for o' m m'
    using that assms(1) unfolding setref_keeps_def SetControllerReference_def
    by (cases m'; cases m) force
  have "does (reconcileStatefulSet E nb True) (\<lambda>r es. \<forall>ss found. r = Inr (ss, found) \<longrightarrow>
      (\<forall>x resp. Call (RCreate x) resp \<notin> set es) \<longrightarrow> m_name (sts_meta ss) = [] \<and> m_generateName (sts_meta ss) = ''nb-'')"
    unfolding reconcileStatefulSet_def client_defs
    by (intro wp_rules) (auto dest!: gen keep intro!: wp_rules split: sum.splits)
  from does_run[OF this assms(2)] assms(3,4) show ?thesis by auto
qed

definition long_plain :: notebook where
  "long_plain = map_meta (\<lambda>m. m\<lparr>m_name := replicate 53 CHR ''a''\<rparr>) sample_notebook"

definition long_sts :: statefulset where
  "long_sts = \<lparr>sts_meta = empty_meta\<lparr>m_name := ''nb-x7k2p'', m_namespace := ''ns'', m_ownerRefs := sample_owner\<rparr>,
     sts_replicas = Some 1, sts_selector = None, sts_tmplLabels = None, sts_tmplAnnotations = None,
     sts_podspec = sample_podspec, sts_readyReplicas = 1\<rparr>"

lemma mem_setref_keeps: "setref_keeps (mem_env vars t)"
  by (simp add: setref_keeps_def mem_setref_def)

lemma long_run:
  defines "out \<equiv> run_state (reconcileStatefulSet sample_env long_plain True) \<lparr>server = [OStatefulSet long_sts], trace = []\<rparr>"
  shows "\<exists>ss found. fst out = Inr (ss, found)" "\<forall>x resp. Call (RCreate x) resp \<notin> set (trace (snd out))"
  unfolding out_def
  by (simp_all add: core_defs sample_defs long_plain_def long_sts_def map_meta_def sample_owner_def
      CopyStatefulSetFields_def go_consts)

theorem generated_name_unknown_witness:
  "\<exists>ss found. fst (run_state (reconcileStatefulSet sample_env long_plain True)
      \<lparr>server = [OStatefulSet long_sts], trace = []\<rparr>) = Inr (ss, found) \<and> m_name (sts_meta ss) = []"
proof -
  let ?w = "\<lparr>server = [OStatefulSet long_sts], trace = []\<rparr>"
  obtain ss found where r: "fst (run_state (reconcileStatefulSet sample_env long_plain True) ?w) = Inr (ss, found)"
    using long_run(1) by blast
  then have "run_state (reconcileStatefulSet sample_env long_plain True) ?w =
      (Inr (ss, found), snd (run_state (reconcileStatefulSet sample_env long_plain True) ?w))"
    by (simp add: prod_eq_iff)
  from generated_name_unknown[OF mem_setref_keeps this _ long_run(2)] r show ?thesis by simp
qed

text \<open>The Notebook an event names, as the lookups in a trace show it.\<close>

definition event_names :: "kevent \<Rightarrow> string \<Rightarrow> effect list \<Rightarrow> bool" where
  "event_names ev name es \<longleftrightarrow> (ke_kind ev = ''StatefulSet'' \<and> name = ke_objName ev) \<or>
     (\<exists>p. Call (RGet KPod (ke_objNamespace ev, ke_objName ev)) (RespObj (OPod p)) \<in> set es \<and>
        mlookup (m_labels (pod_meta p)) ''notebook-name'' = Some name)"

lemma event_names_append: "event_names ev name es \<Longrightarrow> event_names ev name (es @ es')"
  by (auto simp: event_names_def)

lemma nbNameExists_does:
  "does (nbNameExists E name ns) (\<lambda>b es. \<exists>resp. es = [Call (RGet KNotebook (ns, name)) resp] \<and>
     (b \<longrightarrow> (\<forall>e. resp = RespErr e \<longrightarrow> \<not> IsNotFound e)))"
  unfolding nbNameExists_def by (intro wp_rules) (auto split: sum.splits)

lemma nbName_does:
  "does (nbNameFromInvolvedObject E ev) (\<lambda>r es. (\<forall>q resp. Call q resp \<in> set es \<longrightarrow> \<not> is_write q) \<and>
     (\<forall>name. r = Inr name \<longrightarrow> event_names ev name es))"
  unfolding nbNameFromInvolvedObject_def event_names_def
  by (intro wp_rules) (auto simp: as_obj_Inr elim!: to_pod.elims intro!: wp_rules split: sum.splits option.splits)

text \<open>
  An event reaches the reconciler only if it is not a deletion, concerns a pod or a
  StatefulSet, and the Notebook lookup it leads to (by the StatefulSet's name, or by the
  pod's \<open>notebook-name\<close> label, in the event's namespace) did not say NotFound; deciding
  this writes nothing.
\<close>

theorem predNBEvents_passes:
  assumes "run_state (predNBEvents E kd ev) w = (True, w')" "trace w' = trace w @ es"
  shows "kd \<noteq> WDelete \<and> isStsOrPodEvent ev \<and> (\<forall>q resp. Call q resp \<in> set es \<longrightarrow> \<not> is_write q) \<and>
    (\<exists>name resp. Call (RGet KNotebook (m_namespace (ke_meta ev), name)) resp \<in> set es \<and>
       (\<forall>e. resp = RespErr e \<longrightarrow> \<not> IsNotFound e) \<and> event_names ev name es)"
proof -
  have "does (predNBEvents E kd ev) (\<lambda>b es. b \<longrightarrow> kd \<noteq> WDelete \<and> isStsOrPodEvent ev \<and>
      (\<forall>q resp. Call q resp \<in> set es \<longrightarrow> \<not> is_write q) \<and>
      (\<exists>name resp. Call (RGet KNotebook (m_namespace (ke_meta ev), name)) resp \<in> set es \<and>
       (\<forall>e. resp = RespErr e \<longrightarrow> \<not> IsNotFound e) \<and> event_names ev name es))"
    unfolding predNBEvents_def
    apply (intro does_if does_bind)
     apply (rule does_return, simp)
    apply (rule does_mono[OF nbName_does])
    apply (intro wp_rules does_mono[OF nbNameExists_does])
    by (auto intro!: exI event_names_append)
  from does_run[OF this assms(1)] assms(2) show ?thesis by auto
qed

definition sample_event :: kevent where
  "sample_event = \<lparr>ke_meta = empty_meta\<lparr>m_name := ''e'', m_namespace := ''ns''\<rparr>, ke_kind = ''StatefulSet'',
     ke_objName = ''nb'', ke_objNamespace = ''ns'', ke_type = ''Normal'', ke_reason = ''Created'', ke_message = []\<rparr>"

theorem predNBEvents_passes_witness:
  "isStsOrPodEvent sample_event \<and> fst (run_state (predNBEvents sample_env WCreate sample_event)
     \<lparr>server = [ONotebook sample_notebook], trace = []\<rparr>)"
proof -
  have "run_state (predNBEvents sample_env WCreate sample_event) \<lparr>server = [ONotebook sample_notebook], trace = []\<rparr> =
      (True, \<lparr>server = [ONotebook sample_notebook],
         trace = [Call (RGet KNotebook (''ns'', ''nb'')) (RespObj (ONotebook sample_notebook))]\<rparr>)"
    by (simp add: predNBEvents_def nbNameFromInvolvedObject_def nbNameExists_def isStsOrPodEvent_def sample_event_def
        client_defs same_obj_def obj_key_def meta_key_def sample_defs)
  with predNBEvents_passes[OF this] show ?thesis by simp
qed

end
