(* ===== verification/Culling.thy ===== *)
theory Culling
  imports Kube
begin

text \<open>
  \<open>notebook-controller/controllers/culling_controller.go\<close>: the controller that stops idle
  Notebooks. It keeps two annotations, the last activity and the last check, refreshes them from
  the kernels and terminals of the running server, and sets the stop annotation when the
  last activity is too old. JSON decoding of the two Jupyter answers is a parameter.
\<close>

section \<open>Constants, configuration\<close>

definition DEFAULT_CULL_IDLE_TIME :: string where [go_consts]: "DEFAULT_CULL_IDLE_TIME = ''1440''"
definition DEFAULT_IDLENESS_CHECK_PERIOD :: string where [go_consts]: "DEFAULT_IDLENESS_CHECK_PERIOD = ''1''"
definition DEFAULT_ENABLE_CULLING :: string where [go_consts]: "DEFAULT_ENABLE_CULLING = ''false''"
definition DEFAULT_CLUSTER_DOMAIN :: string where [go_consts]: "DEFAULT_CLUSTER_DOMAIN = ''cluster.local''"
definition DEFAULT_DEV :: string where [go_consts]: "DEFAULT_DEV = ''false''"

definition STOP_ANNOTATION :: string where [go_consts]:
  "STOP_ANNOTATION = ''kubeflow-resource-stopped''"
definition LAST_ACTIVITY_ANNOTATION :: string where [go_consts]:
  "LAST_ACTIVITY_ANNOTATION = ''notebooks.kubeflow.org/last-activity''"
definition LAST_ACTIVITY_CHECK_TIMESTAMP_ANNOTATION :: string where [go_consts]:
  "LAST_ACTIVITY_CHECK_TIMESTAMP_ANNOTATION = ''notebooks.kubeflow.org/last_activity_check_timestamp''"
definition KERNEL_EXECUTION_STATE_IDLE :: string where [go_consts]:
  "KERNEL_EXECUTION_STATE_IDLE = ''idle''"

record KernelStatus =
  ks_id :: string
  ks_name :: string
  ks_lastActivity :: string
  ks_executionState :: string
  ks_connections :: int64

record TerminalStatus =
  ts_name :: string
  ts_lastActivity :: string

text \<open>
  The package variables the controller reads (\<open>CULL_IDLE_TIME\<close>,
  \<open>IDLENESS_CHECK_PERIOD\<close>, ...) and its decoders; \<open>cull_metrics\<close> says whether it has metrics.
\<close>

record culler =
  CULL_IDLE_TIME :: int64
  IDLENESS_CHECK_PERIOD :: int64
  ENABLE_CULLING :: bool
  CLUSTER_DOMAIN :: string
  DEV :: bool
  cull_metrics :: bool
  decode_kernels :: "string \<Rightarrow> KernelStatus list option"
  decode_terminals :: "string \<Rightarrow> TerminalStatus list option"

definition GetEnvDefault :: "'s env \<Rightarrow> string \<Rightarrow> string \<Rightarrow> string" where
  "GetEnvDefault E variable defaultVal =
     (let envVar = Getenv E variable in if envVar = [] then defaultVal else envVar)"

text \<open>\<open>initGlobalVars\<close>: a bad idle time falls back to the default, a bad period is an error.\<close>

definition initGlobalVars :: "'s env \<Rightarrow> culler \<Rightarrow> goerr + culler" where
  "initGlobalVars E C = (
     let C1 = (if GetEnvDefault E ''DEV'' DEFAULT_DEV = ''true'' then C\<lparr>DEV := True\<rparr> else C);
         realIdleTime = (case Atoi (GetEnvDefault E ''CULL_IDLE_TIME'' DEFAULT_CULL_IDLE_TIME) of
            Some n \<Rightarrow> n
          | None \<Rightarrow> (case Atoi DEFAULT_CULL_IDLE_TIME of Some n \<Rightarrow> n | None \<Rightarrow> 0));
         C2 = C1\<lparr>CULL_IDLE_TIME := word_of_int realIdleTime\<rparr>;
         C3 = (if GetEnvDefault E ''ENABLE_CULLING'' DEFAULT_ENABLE_CULLING = ''true''
               then C2\<lparr>ENABLE_CULLING := True\<rparr> else C2);
         C4 = C3\<lparr>CLUSTER_DOMAIN := GetEnvDefault E ''CLUSTER_DOMAIN'' DEFAULT_CLUSTER_DOMAIN\<rparr>
     in case Atoi (GetEnvDefault E ''IDLENESS_CHECK_PERIOD'' DEFAULT_IDLENESS_CHECK_PERIOD) of
          None \<Rightarrow> Inl (Errorf ''strconv.Atoi'')
        | Some period \<Rightarrow> Inr (C4\<lparr>IDLENESS_CHECK_PERIOD := word_of_int period\<rparr>))"

definition getRequeueTime :: "culler \<Rightarrow> int64" where
  "getRequeueTime C = IDLENESS_CHECK_PERIOD C * Minute"

definition createTimestamp :: "'s env \<Rightarrow> ('s, string) handler" where
  "createTimestamp E = do { now \<leftarrow> Now E; return_h (time_Format now) }"

section \<open>Annotations\<close>

definition StopAnnotationIsSet :: "objmeta \<Rightarrow> bool" where
  "StopAnnotationIsSet m \<longleftrightarrow> (if m_annotations m = None then False else HasAnnotation m STOP_ANNOTATION)"

definition annotationsExist :: "notebook \<Rightarrow> bool" where
  "annotationsExist nb \<longleftrightarrow> HasAnnotation (nb_meta nb) LAST_ACTIVITY_ANNOTATION \<and>
     HasAnnotation (nb_meta nb) LAST_ACTIVITY_CHECK_TIMESTAMP_ANNOTATION"

definition nonempty_map :: "smap \<Rightarrow> smap" where
  "nonempty_map m = (if mempty m then mlit [] else m)"

definition set_annotation :: "string \<Rightarrow> string \<Rightarrow> objmeta \<Rightarrow> goerr + objmeta" where
  "set_annotation k v m = map_sum id (\<lambda>a. with_annotations a m) (mset k v (m_annotations m))"

definition initializeAnnotations :: "'s env \<Rightarrow> objmeta \<Rightarrow> ('s, objmeta) ehandler" where
  "initializeAnnotations E m = (
     let m1 = with_annotations (nonempty_map (m_annotations m)) m in do {
       t \<leftarrow> createTimestamp E;
       check (lift (set_annotation LAST_ACTIVITY_ANNOTATION t m1)) (\<lambda>m2.
       lift (set_annotation LAST_ACTIVITY_CHECK_TIMESTAMP_ANNOTATION t m2))
     })"

definition removeAnnotations :: "objmeta \<Rightarrow> objmeta" where
  "removeAnnotations m = (
     let m1 = (if HasAnnotation m LAST_ACTIVITY_ANNOTATION
               then with_annotations (mdelete LAST_ACTIVITY_ANNOTATION (m_annotations m)) m else m)
     in if HasAnnotation m1 LAST_ACTIVITY_CHECK_TIMESTAMP_ANNOTATION
        then with_annotations (mdelete LAST_ACTIVITY_CHECK_TIMESTAMP_ANNOTATION (m_annotations m1)) m1 else m1)"

definition setStopAnnotation :: "'s env \<Rightarrow> culler \<Rightarrow> objmeta \<Rightarrow> ('s, objmeta) ehandler" where
  "setStopAnnotation E C m = do {
     t \<leftarrow> Now E;
     check (lift (set_annotation STOP_ANNOTATION (time_Format t)
       (with_annotations (nonempty_map (m_annotations m)) m))) (\<lambda>m'.
       if cull_metrics C then do {
         emit (Metric ''notebook_culling_total'' [m_namespace m, m_name m]);
         emit (Metric ''last_notebook_culling_timestamp_seconds'' [m_namespace m, m_name m]);
         ok m'
       } else ok m')
   }"

definition updateLastCullingCheckTimestampAnnotation :: "'s env \<Rightarrow> objmeta \<Rightarrow> ('s, objmeta) ehandler" where
  "updateLastCullingCheckTimestampAnnotation E m = do {
     t \<leftarrow> createTimestamp E;
     lift (set_annotation LAST_ACTIVITY_CHECK_TIMESTAMP_ANNOTATION t m)
   }"

section \<open>Times\<close>

text \<open>A timestamp that does not parse leaves \<open>storedTimestamp\<close> the zero time.\<close>

definition cullingCheckPeriodHasPassed :: "'s env \<Rightarrow> culler \<Rightarrow> objmeta \<Rightarrow> ('s, bool) handler" where
  "cullingCheckPeriodHasPassed E C m = (
     if \<not> HasAnnotation m LAST_ACTIVITY_CHECK_TIMESTAMP_ANNOTATION then return_h False
     else
       let stored = (case time_Parse (mget (m_annotations m) LAST_ACTIVITY_CHECK_TIMESTAMP_ANNOTATION) of
                       None \<Rightarrow> zero_time | Some t \<Rightarrow> t);
           nextCullingCheck = time_Add stored (getRequeueTime C)
       in do { now \<leftarrow> Now E; return_h (Before nextCullingCheck now) })"

definition notebookIsIdle :: "'s env \<Rightarrow> culler \<Rightarrow> objmeta \<Rightarrow> ('s, bool) handler" where
  "notebookIsIdle E C m = (
     if m_annotations m = None then return_h False
     else if StopAnnotationIsSet m then return_h False
     else case time_Parse (mget (m_annotations m) LAST_ACTIVITY_ANNOTATION) of
       None \<Rightarrow> return_h False
     | Some lastActivity \<Rightarrow> do {
         now \<leftarrow> Now E;
         return_h (After now (time_Add lastActivity (CULL_IDLE_TIME C * Minute)))
       })"

definition allKernelsAreIdle :: "KernelStatus list \<Rightarrow> bool" where
  "allKernelsAreIdle ks \<longleftrightarrow> list_all (\<lambda>k. ks_executionState k = KERNEL_EXECUTION_STATE_IDLE) ks"

text \<open>The loop of \<open>getNotebookRecentTime\<close>: the latest of the remaining times, \<open>None\<close> at one that does not parse.\<close>

fun recent_loop :: "gotime \<Rightarrow> string list \<Rightarrow> gotime option" where
  "recent_loop recent [] = Some recent"
| "recent_loop recent (x # xs) = (case time_Parse x of
     None \<Rightarrow> None
   | Some t \<Rightarrow> recent_loop (if After t recent then t else recent) xs)"

fun getNotebookRecentTime :: "string list \<Rightarrow> goerr + string" where
  "getNotebookRecentTime [] = Inl (Panic ''index out of range'')"
| "getNotebookRecentTime (x # xs) = (case time_Parse x of
     None \<Rightarrow> Inr []
   | Some t \<Rightarrow> Inr (case recent_loop t xs of None \<Rightarrow> [] | Some r \<Rightarrow> time_Format r))"

definition compareAnnotationTimeToResource :: "objmeta \<Rightarrow> string \<Rightarrow> bool" where
  "compareAnnotationTimeToResource m resourceTime \<longleftrightarrow>
     (case time_Parse (mget (m_annotations m) LAST_ACTIVITY_ANNOTATION) of
        None \<Rightarrow> False
      | Some annotationTime \<Rightarrow> (case time_Parse resourceTime of
          None \<Rightarrow> False
        | Some t \<Rightarrow> \<not> After annotationTime t))"

text \<open>The common tail of the two update functions: the most recent time, if it is not older than the annotation.\<close>

definition update_from_times :: "string list \<Rightarrow> objmeta \<Rightarrow> goerr + bool \<times> objmeta" where
  "update_from_times arr m = (case getNotebookRecentTime arr of
     Inl e \<Rightarrow> Inl e
   | Inr t \<Rightarrow>
       if t = [] \<or> \<not> compareAnnotationTimeToResource m t then Inr (False, m)
       else map_sum id (\<lambda>m'. (True, m')) (set_annotation LAST_ACTIVITY_ANNOTATION t m))"

definition updateTimestampFromKernelsActivity ::
  "'s env \<Rightarrow> KernelStatus list \<Rightarrow> objmeta \<Rightarrow> ('s, bool \<times> objmeta) ehandler" where
  "updateTimestampFromKernelsActivity E kernels m = (
     if kernels = [] then ok (False, m)
     else if \<not> allKernelsAreIdle kernels then do {
       t \<leftarrow> createTimestamp E;
       check (lift (set_annotation LAST_ACTIVITY_ANNOTATION t m)) (\<lambda>m'. ok (False, m'))
     } else lift (update_from_times (map ks_lastActivity kernels) m))"

definition updateTimestampFromTerminalsActivity ::
  "TerminalStatus list \<Rightarrow> objmeta \<Rightarrow> goerr + bool \<times> objmeta" where
  "updateTimestampFromTerminalsActivity terminals m = (
     if terminals = [] then Inr (False, m)
     else update_from_times (map ts_lastActivity terminals) m)"

section \<open>The Jupyter API\<close>

definition resource_url :: "'s env \<Rightarrow> string \<Rightarrow> string \<Rightarrow> string \<Rightarrow> string" where
  "resource_url E nm ns resource = (
     let domain = GetEnvDefault E ''CLUSTER_DOMAIN'' DEFAULT_CLUSTER_DOMAIN in
     if GetEnvDefault E ''DEV'' DEFAULT_DEV \<noteq> ''false''
     then ''http://localhost:8001/api/v1/namespaces/'' @ ns @ ''/services/'' @ nm @ '':http-'' @ nm @
          ''/proxy/notebook/'' @ ns @ ''/'' @ nm @ ''/api/'' @ resource
     else ''http://'' @ nm @ ''.'' @ ns @ ''.svc.'' @ domain @ ''/notebook/'' @ ns @ ''/'' @ nm @
          ''/api/'' @ resource)"

definition getNotebookResourceResponse ::
  "'s env \<Rightarrow> string \<Rightarrow> string \<Rightarrow> string \<Rightarrow> ('s, string option) handler" where
  "getNotebookResourceResponse E nm ns resource = do {
     resp \<leftarrow> http_get E (resource_url E nm ns resource);
     return_h (case resp of None \<Rightarrow> None | Some (status, body) \<Rightarrow> if status \<noteq> 200 then None else Some body)
   }"

text \<open>The body is read up to 1 MiB.\<close>

definition getNotebookApiKernels :: "'s env \<Rightarrow> culler \<Rightarrow> string \<Rightarrow> string \<Rightarrow> ('s, KernelStatus list) handler" where
  "getNotebookApiKernels E C nm ns = do {
     resp \<leftarrow> getNotebookResourceResponse E nm ns ''kernels'';
     return_h (case resp of None \<Rightarrow> []
       | Some body \<Rightarrow> (case decode_kernels C (take (2 ^ 20) body) of None \<Rightarrow> [] | Some ks \<Rightarrow> ks))
   }"

definition getNotebookApiTerminals :: "'s env \<Rightarrow> culler \<Rightarrow> string \<Rightarrow> string \<Rightarrow> ('s, TerminalStatus list) handler" where
  "getNotebookApiTerminals E C nm ns = do {
     resp \<leftarrow> getNotebookResourceResponse E nm ns ''terminals'';
     return_h (case resp of None \<Rightarrow> []
       | Some body \<Rightarrow> (case decode_terminals C (take (2 ^ 20) body) of None \<Rightarrow> [] | Some ts \<Rightarrow> ts))
   }"

section \<open>Reconcile\<close>

text \<open>
  The three retried bodies: fetch the Notebook again, change its annotations, update it. Each
  returns the Notebook as the server sent it back.
\<close>

definition set_meta :: "objmeta \<Rightarrow> notebook \<Rightarrow> notebook" where
  "set_meta m nb = nb\<lparr>nb_meta := m\<rparr>"

definition remove_body :: "'s env \<Rightarrow> nsname \<Rightarrow> ('s, notebook) ehandler" where
  "remove_body E req = check (Get E KNotebook to_notebook req) (\<lambda>nb.
     Update E to_notebook (ONotebook (set_meta (removeAnnotations (nb_meta nb)) nb)))"

definition init_body :: "'s env \<Rightarrow> nsname \<Rightarrow> ('s, notebook) ehandler" where
  "init_body E req = check (Get E KNotebook to_notebook req) (\<lambda>nb.
     check (initializeAnnotations E (nb_meta nb)) (\<lambda>m.
     Update E to_notebook (ONotebook (set_meta m nb))))"

definition refresh_body ::
  "'s env \<Rightarrow> culler \<Rightarrow> nsname \<Rightarrow> KernelStatus list \<Rightarrow> TerminalStatus list \<Rightarrow> ('s, notebook) ehandler" where
  "refresh_body E C req kernels terminals = check (Get E KNotebook to_notebook req) (\<lambda>nb.
     check (updateTimestampFromKernelsActivity E kernels (nb_meta nb)) (\<lambda>(_, m1).
     check (lift (updateTimestampFromTerminalsActivity terminals m1)) (\<lambda>(_, m2).
     check (updateLastCullingCheckTimestampAnnotation E m2) (\<lambda>m3. do {
       idle \<leftarrow> notebookIsIdle E C m3;
       check (if idle then setStopAnnotation E C m3 else ok m3) (\<lambda>m4.
         Update E to_notebook (ONotebook (set_meta m4 nb)))
     }))))"

text \<open>The result is \<open>RequeueAfter\<close>, 0 for an empty \<open>ctrl.Result\<close>.\<close>

definition after_init ::
  "'s env \<Rightarrow> culler \<Rightarrow> nsname \<Rightarrow> notebook \<Rightarrow> ('s, int64) ehandler" where
  "after_init E C req nb = do {
     passed \<leftarrow> cullingCheckPeriodHasPassed E C (nb_meta nb);
     if \<not> passed then ok (getRequeueTime C)
     else do {
       kernels \<leftarrow> getNotebookApiKernels E C (nb_name nb) (nb_ns nb);
       terminals \<leftarrow> getNotebookApiTerminals E C (nb_name nb) (nb_ns nb);
       check (RetryOnConflict E ''DefaultRetry'' (refresh_body E C req kernels terminals))
         (\<lambda>_. ok (getRequeueTime C))
     }
   }"

definition CullingReconcile :: "'s env \<Rightarrow> culler \<Rightarrow> nsname \<Rightarrow> ('s, int64) ehandler" where
  "CullingReconcile E C req = do {
     r \<leftarrow> Get E KNotebook to_notebook req;
     case r of
       Inl e \<Rightarrow> if IsNotFound e then ok 0 else fail e
     | Inr nb \<Rightarrow>
         if StopAnnotationIsSet (nb_meta nb) then
           check (RetryOnConflict E ''DefaultRetry'' (remove_body E req)) (\<lambda>_. ok 0)
         else do {
           p \<leftarrow> Get E KPod to_pod (nb_ns nb, nb_name nb @ ''-0'');
           case p of
             Inl e \<Rightarrow> if IsNotFound e
               then check (RetryOnConflict E ''DefaultRetry'' (remove_body E req)) (\<lambda>_. ok 0)
               else fail e
           | Inr _ \<Rightarrow>
               check (if \<not> annotationsExist nb
                      then RetryOnConflict E ''DefaultRetry'' (init_body E req) else ok nb)
                 (\<lambda>nb'. after_init E C req nb')
         }
   }"

section \<open>The steps of the annotations\<close>

text \<open>
  What one update may do to the annotations of a Notebook, as a state machine. The last
  activity is set to the current time, or moves forward; the last check is set; the stop
  annotation is added only when it is absent and the last activity just written is older
  than the idle time.
\<close>

inductive activity_step :: "(string, string) fmap \<Rightarrow> (string, string) fmap \<Rightarrow> bool" where
  busy: "activity_step f (fmupd LAST_ACTIVITY_ANNOTATION (time_Format now) f)"
| forward: "fmlookup f LAST_ACTIVITY_ANNOTATION = Some v \<Longrightarrow> time_Parse v = Some old \<Longrightarrow>
    time_Parse u = Some new \<Longrightarrow> old \<le> new \<Longrightarrow> activity_step f (fmupd LAST_ACTIVITY_ANNOTATION u f)"

inductive cull_step :: "culler \<Rightarrow> smap \<Rightarrow> smap \<Rightarrow> bool" for C where
  removed: "cull_step C m (mdelete LAST_ACTIVITY_CHECK_TIMESTAMP_ANNOTATION (mdelete LAST_ACTIVITY_ANNOTATION m))"
| initialized: "nonempty_map m = Some f \<Longrightarrow>
    cull_step C m (Some (fmupd LAST_ACTIVITY_CHECK_TIMESTAMP_ANNOTATION t (fmupd LAST_ACTIVITY_ANNOTATION t f)))"
| refreshed: "activity_step\<^sup>*\<^sup>* f g \<Longrightarrow>
    cull_step C (Some f) (Some (fmupd LAST_ACTIVITY_CHECK_TIMESTAMP_ANNOTATION t g))"
| stopped: "activity_step\<^sup>*\<^sup>* f g \<Longrightarrow> fmlookup g STOP_ANNOTATION = None \<Longrightarrow>
    fmlookup g LAST_ACTIVITY_ANNOTATION = Some v \<Longrightarrow> time_Parse v = Some seen \<Longrightarrow>
    After now (time_Add seen (CULL_IDLE_TIME C * Minute)) \<Longrightarrow>
    cull_step C (Some f) (Some (fmupd STOP_ANNOTATION (time_Format stop)
      (fmupd LAST_ACTIVITY_CHECK_TIMESTAMP_ANNOTATION t g)))"

inductive_cases cull_step_cases: "cull_step C m m'"
inductive_cases activity_step_cases: "activity_step f g"

lemma key_neqs [simp]:
  "STOP_ANNOTATION \<noteq> LAST_ACTIVITY_ANNOTATION" "LAST_ACTIVITY_ANNOTATION \<noteq> STOP_ANNOTATION"
  "STOP_ANNOTATION \<noteq> LAST_ACTIVITY_CHECK_TIMESTAMP_ANNOTATION"
  "LAST_ACTIVITY_CHECK_TIMESTAMP_ANNOTATION \<noteq> STOP_ANNOTATION"
  "LAST_ACTIVITY_ANNOTATION \<noteq> LAST_ACTIVITY_CHECK_TIMESTAMP_ANNOTATION"
  "LAST_ACTIVITY_CHECK_TIMESTAMP_ANNOTATION \<noteq> LAST_ACTIVITY_ANNOTATION"
  by (simp_all add: go_consts)

section \<open>The update functions as steps\<close>

lemma set_annotation_Some:
  "m_annotations m = Some f \<Longrightarrow> set_annotation k v m = Inr (with_annotations (Some (fmupd k v f)) m)"
  by (simp add: set_annotation_def)

lemma set_annotation_ok:
  "set_annotation k v m = Inr m' \<Longrightarrow> \<exists>f. m_annotations m = Some f \<and> m' = with_annotations (Some (fmupd k v f)) m"
  by (cases "m_annotations m") (auto simp: set_annotation_def)

text \<open>A metadata change that is a change of the annotations by \<open>activity_step\<close>s.\<close>

definition activity :: "objmeta \<Rightarrow> objmeta \<Rightarrow> bool" where
  "activity m m' \<longleftrightarrow> m' = m \<or> (\<exists>f g. m_annotations m = Some f \<and> activity_step f g \<and> m' = with_annotations (Some g) m)"

lemma activity_refl [simp]: "activity m m"
  by (simp add: activity_def)

lemma compare_forward:
  assumes "compareAnnotationTimeToResource m t" "m_annotations m = Some f"
  shows "\<exists>v old new. fmlookup f LAST_ACTIVITY_ANNOTATION = Some v \<and> time_Parse v = Some old \<and>
    time_Parse t = Some new \<and> old \<le> new"
proof -
  have "time_Parse [] = None" by (simp add: time_Parse_def)
  with assms show ?thesis
    by (auto simp: compareAnnotationTimeToResource_def mget_def After_def less_eq_gotime_def
        split: option.splits)
qed

lemma update_from_times_cases:
  assumes "update_from_times arr m = Inr (b, m')"
  shows "m' = m \<or> (\<exists>t. compareAnnotationTimeToResource m t \<and> set_annotation LAST_ACTIVITY_ANNOTATION t m = Inr m')"
proof -
  obtain t where t: "getNotebookRecentTime arr = Inr t"
    using assms by (auto simp: update_from_times_def split: sum.splits)
  with assms show ?thesis
    by (cases "set_annotation LAST_ACTIVITY_ANNOTATION t m") (auto simp: update_from_times_def split: if_splits)
qed

lemma update_from_times_activity:
  assumes "update_from_times arr m = Inr (b, m')"
  shows "activity m m'"
  using update_from_times_cases[OF assms]
proof (elim disjE exE conjE)
  fix t assume c: "compareAnnotationTimeToResource m t" and s: "set_annotation LAST_ACTIVITY_ANNOTATION t m = Inr m'"
  obtain f where f: "m_annotations m = Some f" "m' = with_annotations (Some (fmupd LAST_ACTIVITY_ANNOTATION t f)) m"
    using set_annotation_ok[OF s] by blast
  with compare_forward[OF c f(1)] show ?thesis
    unfolding activity_def by (blast intro: activity_step.forward)
qed simp

lemma createTimestamp_does: "does (createTimestamp E) (\<lambda>t es. es = [] \<and> (\<exists>now. t = time_Format now))"
  unfolding createTimestamp_def by (intro wp_rules) auto

lemma kernels_does:
  "does (updateTimestampFromKernelsActivity E ks m) (\<lambda>r es. es = [] \<and> (\<forall>b m'. r = Inr (b, m') \<longrightarrow> activity m m'))"
  unfolding updateTimestampFromKernelsActivity_def
  apply (intro wp_rules)
    apply (simp add: activity_def)
   apply (rule does_mono[OF createTimestamp_does])
   apply (intro wp_rules)
    apply (auto simp: activity_def dest!: set_annotation_ok intro: activity_step.busy)[2]
  by (simp add: update_from_times_activity)

lemma terminals_activity:
  "updateTimestampFromTerminalsActivity ts m = Inr (b, m') \<Longrightarrow> activity m m'"
  by (auto simp: updateTimestampFromTerminalsActivity_def split: if_splits
      dest: update_from_times_activity)

lemma check_timestamp_does:
  "does (updateLastCullingCheckTimestampAnnotation E m) (\<lambda>r es. es = [] \<and> (\<forall>m'. r = Inr m' \<longrightarrow>
     (\<exists>f t. m_annotations m = Some f \<and>
        m' = with_annotations (Some (fmupd LAST_ACTIVITY_CHECK_TIMESTAMP_ANNOTATION t f)) m)))"
  unfolding updateLastCullingCheckTimestampAnnotation_def
  by (intro wp_rules, rule does_mono[OF createTimestamp_does], intro wp_rules) (force dest: set_annotation_ok)+

lemma idle_does:
  "does (notebookIsIdle E C m) (\<lambda>b es. es = [] \<and> (b \<longrightarrow> (\<exists>f v seen now. m_annotations m = Some f \<and>
     fmlookup f STOP_ANNOTATION = None \<and> fmlookup f LAST_ACTIVITY_ANNOTATION = Some v \<and>
     time_Parse v = Some seen \<and> After now (time_Add seen (CULL_IDLE_TIME C * Minute)))))"
proof -
  have [simp]: "time_Parse [] = None" by (simp add: time_Parse_def)
  show ?thesis
    unfolding notebookIsIdle_def
    by (intro wp_rules) (auto simp: StopAnnotationIsSet_def HasAnnotation_def mget_def split: option.splits if_splits)
qed

lemma stop_does:
  "does (setStopAnnotation E C m) (\<lambda>r es. (\<forall>q resp. Call q resp \<notin> set es) \<and> (\<forall>m'. r = Inr m' \<longrightarrow>
     (\<forall>f. m_annotations m = Some f \<longrightarrow> f \<noteq> fmempty \<longrightarrow>
       (\<exists>s. m' = with_annotations (Some (fmupd STOP_ANNOTATION (time_Format s) f)) m))))"
proof -
  have ne: "nonempty_map (Some f) = Some f" if "f \<noteq> fmempty" for f
    using that by (auto simp: nonempty_map_def mempty_def dest: fmdom_empty)
  show ?thesis
    unfolding setStopAnnotation_def
    by (intro wp_rules) (auto simp: ne dest!: set_annotation_ok)
qed

lemma init_does:
  "does (initializeAnnotations E m) (\<lambda>r es. es = [] \<and> (\<forall>m'. r = Inr m' \<longrightarrow>
     (\<exists>a. cull_step C (m_annotations m) a \<and> m' = with_annotations a m)))"
  unfolding initializeAnnotations_def
  apply (intro wp_rules)
  apply (rule does_mono[OF createTimestamp_does])
  apply (intro wp_rules)
  by (auto dest!: set_annotation_ok) (blast intro: cull_step.initialized)

lemma removeAnnotations_eq: "removeAnnotations m = with_annotations
    (mdelete LAST_ACTIVITY_CHECK_TIMESTAMP_ANNOTATION (mdelete LAST_ACTIVITY_ANNOTATION (m_annotations m))) m"
proof -
  have del: "mdelete k x = x" if "mlookup x k = None" for k x
    using that by (cases x) (auto intro!: fmap_eqI)
  show ?thesis by (auto simp: removeAnnotations_def HasAnnotation_def Let_def del)
qed

lemma remove_step:
  "\<exists>a. cull_step C (m_annotations m) a \<and> removeAnnotations m = with_annotations a m"
  unfolding removeAnnotations_eq by (blast intro: cull_step.removed)

section \<open>What a culling run writes\<close>

text \<open>
  Every write of a trace is an update of a Notebook fetched under the requested name in the
  same run, changed only in its annotations, by a step.
\<close>

definition cull_write :: "culler \<Rightarrow> nsname \<Rightarrow> effect list \<Rightarrow> request \<Rightarrow> bool" where
  "cull_write C req es q \<longleftrightarrow> (\<exists>nb a. Call (RGet KNotebook req) (RespObj (ONotebook nb)) \<in> set es \<and>
     q = RUpdate (ONotebook (set_meta (with_annotations a (nb_meta nb)) nb)) \<and>
     cull_step C (nb_annotations nb) a)"

definition cull_trace :: "culler \<Rightarrow> nsname \<Rightarrow> effect list \<Rightarrow> bool" where
  "cull_trace C req es \<longleftrightarrow> (\<forall>q resp. Call q resp \<in> set es \<longrightarrow> is_write q \<longrightarrow> cull_write C req es q)"

lemma cull_trace_Nil [simp]: "cull_trace C req []"
  by (simp add: cull_trace_def)

lemma cull_trace_Http [simp]: "cull_trace C req (Http u # es) = cull_trace C req es"
  by (simp add: cull_trace_def cull_write_def)

lemma cull_trace_append: "cull_trace C req es \<Longrightarrow> cull_trace C req es' \<Longrightarrow> cull_trace C req (es @ es')"
  unfolding cull_trace_def cull_write_def by fastforce

lemma cull_trace_reads: "(\<And>q resp. Call q resp \<in> set es \<Longrightarrow> \<not> is_write q) \<Longrightarrow> cull_trace C req es"
  unfolding cull_trace_def by blast

lemma get_notebook:
  "as_obj to_notebook resp = Inr nb \<Longrightarrow> resp = RespObj (ONotebook nb)"
  by (auto simp: as_obj_Inr elim: to_notebook.elims)

text \<open>The shape of the retried bodies: fetch, compute new metadata from what was fetched, update.\<close>

lemma fetch_update:
  assumes f: "\<And>nb. does (f nb) (\<lambda>r es. (\<forall>q resp. Call q resp \<notin> set es) \<and> (\<forall>m. r = Inr m \<longrightarrow> P nb m))"
  shows "does (check (Get E KNotebook to_notebook req) (\<lambda>nb. check (f nb)
     (\<lambda>m. Update E to_notebook (ONotebook (set_meta m nb))))) (\<lambda>_ es. \<forall>q resp. Call q resp \<in> set es \<longrightarrow> is_write q \<longrightarrow>
       (\<exists>nb m. Call (RGet KNotebook req) (RespObj (ONotebook nb)) \<in> set es \<and> P nb m \<and>
          q = RUpdate (ONotebook (set_meta m nb))))"
  (is "does _ (\<lambda>_ es. ?T es)")
proof (rule does_check, rule Get_does)
  fix resp
  let ?get = "Call (RGet KNotebook req) resp"
  have body: "does (check (f nb) (\<lambda>m. Update E to_notebook (ONotebook (set_meta m nb)))) (\<lambda>y es'. ?T ([?get] @ es'))"
    if nb: "resp = RespObj (ONotebook nb)" for nb
  proof (rule does_check, rule does_mono[OF f[of nb]])
    fix r and es :: "effect list"
    assume r: "(\<forall>q resp. Call q resp \<notin> set es) \<and> (\<forall>m. r = Inr m \<longrightarrow> P nb m)"
    show "case r of Inl e \<Rightarrow> ?T ([?get] @ es)
      | Inr m \<Rightarrow> does (Update E to_notebook (ONotebook (set_meta m nb))) (\<lambda>y es'. ?T ([?get] @ es @ es'))"
    proof (cases r)
      case (Inr m)
      have "?T ([?get] @ es @ [Call (RUpdate (ONotebook (set_meta m nb))) u])" for u
        using r Inr nb by auto
      with Inr show ?thesis by (simp add: Update_def does_call_as)
    qed (use r in auto)
  qed
  show "case as_obj to_notebook resp of Inl e \<Rightarrow> ?T [?get]
    | Inr nb \<Rightarrow> does (check (f nb) (\<lambda>m. Update E to_notebook (ONotebook (set_meta m nb)))) (\<lambda>y es'. ?T ([?get] @ es'))"
  proof (cases "as_obj to_notebook resp")
    case (Inr nb)
    with body[OF get_notebook[OF Inr]] show ?thesis by (simp only: sum.case)
  qed simp
qed

lemma fetch_update_trace:
  assumes f: "\<And>nb. does (f nb) (\<lambda>r es. (\<forall>q resp. Call q resp \<notin> set es) \<and>
    (\<forall>m. r = Inr m \<longrightarrow> (\<exists>a. cull_step C (nb_annotations nb) a \<and> m = with_annotations a (nb_meta nb))))"
  shows "does (check (Get E KNotebook to_notebook req) (\<lambda>nb. check (f nb)
     (\<lambda>m. Update E to_notebook (ONotebook (set_meta m nb))))) (\<lambda>_ es. cull_trace C req es)"
  by (rule does_mono[OF fetch_update[OF f]]) (unfold cull_trace_def cull_write_def, blast)

lemma remove_body_trace: "does (remove_body E req) (\<lambda>_ es. cull_trace C req es)"
proof -
  have "does (ok (removeAnnotations (nb_meta nb))) (\<lambda>r es. (\<forall>q resp. Call q resp \<notin> set es) \<and>
    (\<forall>m. r = Inr m \<longrightarrow> (\<exists>a. cull_step C (nb_annotations nb) a \<and> m = with_annotations a (nb_meta nb))))" for nb
    by (rule does_return) (simp add: remove_step)
  from fetch_update_trace[OF this] show ?thesis by (simp add: remove_body_def)
qed

lemma init_body_trace: "does (init_body E req) (\<lambda>_ es. cull_trace C req es)"
  unfolding init_body_def by (rule fetch_update_trace, rule does_mono[OF init_does]) auto

definition refresh_meta ::
  "'s env \<Rightarrow> culler \<Rightarrow> KernelStatus list \<Rightarrow> TerminalStatus list \<Rightarrow> objmeta \<Rightarrow> ('s, objmeta) ehandler" where
  "refresh_meta E C kernels terminals m =
     check (updateTimestampFromKernelsActivity E kernels m) (\<lambda>(_, m1).
     check (lift (updateTimestampFromTerminalsActivity terminals m1)) (\<lambda>(_, m2).
     check (updateLastCullingCheckTimestampAnnotation E m2) (\<lambda>m3. do {
       idle \<leftarrow> notebookIsIdle E C m3;
       if idle then setStopAnnotation E C m3 else ok m3
     })))"

lemma refresh_body_eq: "refresh_body E C req ks ts = check (Get E KNotebook to_notebook req) (\<lambda>nb.
    check (refresh_meta E C ks ts (nb_meta nb)) (\<lambda>m. Update E to_notebook (ONotebook (set_meta m nb))))"
  unfolding refresh_body_def refresh_meta_def by (simp add: check_assoc check_bind check_prod)

lemma activity_star:
  assumes "activity m m'" "m_annotations m = Some f"
  shows "\<exists>g. activity_step\<^sup>*\<^sup>* f g \<and> m' = with_annotations (Some g) m"
proof (cases "m' = m")
  case True
  have "m = with_annotations (Some f) m" using assms(2) by (metis with_annotations_same)
  with True show ?thesis by blast
next
  case False
  with assms show ?thesis by (auto simp: activity_def)
qed

lemma idle_tail:
  assumes "activity_step\<^sup>*\<^sup>* f g"
    and m3: "m3 = with_annotations (Some (fmupd LAST_ACTIVITY_CHECK_TIMESTAMP_ANNOTATION t g)) m"
  shows "does (do { idle \<leftarrow> notebookIsIdle E C m3; if idle then setStopAnnotation E C m3 else ok m3 })
    (\<lambda>r es. (\<forall>q resp. Call q resp \<notin> set es) \<and>
      (\<forall>m'. r = Inr m' \<longrightarrow> (\<exists>a. cull_step C (Some f) a \<and> m' = with_annotations a m)))"
proof (rule does_bind, rule does_mono[OF idle_does])
  fix idle and es :: "effect list"
  let ?g = "fmupd LAST_ACTIVITY_CHECK_TIMESTAMP_ANNOTATION t g"
  assume i: "es = [] \<and> (idle \<longrightarrow> (\<exists>f v seen now. m_annotations m3 = Some f \<and>
     fmlookup f STOP_ANNOTATION = None \<and> fmlookup f LAST_ACTIVITY_ANNOTATION = Some v \<and>
     time_Parse v = Some seen \<and> After now (time_Add seen (CULL_IDLE_TIME C * Minute))))"
  show "does (if idle then setStopAnnotation E C m3 else ok m3) (\<lambda>r es'. (\<forall>q resp. Call q resp \<notin> set (es @ es')) \<and>
      (\<forall>m'. r = Inr m' \<longrightarrow> (\<exists>a. cull_step C (Some f) a \<and> m' = with_annotations a m)))"
  proof (cases idle)
    case True
    with i m3 obtain v seen now where "fmlookup g STOP_ANNOTATION = None" "fmlookup g LAST_ACTIVITY_ANNOTATION = Some v"
      "time_Parse v = Some seen" "After now (time_Add seen (CULL_IDLE_TIME C * Minute))" by auto
    with assms(1) have st: "cull_step C (Some f) (Some (fmupd STOP_ANNOTATION (time_Format s) ?g))" for s
      by (rule cull_step.stopped)
    have ne: "?g \<noteq> fmempty" by (metis fmempty_lookup fmupd_lookup option.distinct(1))
    show ?thesis
      using True i by (simp, intro does_mono[OF stop_does]) (use st ne m3 in fastforce)
  next
    case False
    with i m3 assms(1) show ?thesis by (auto intro!: does_return intro: cull_step.refreshed)
  qed
qed

lemma refresh_meta_does:
  "does (refresh_meta E C ks ts m) (\<lambda>r es. (\<forall>q resp. Call q resp \<notin> set es) \<and>
    (\<forall>m'. r = Inr m' \<longrightarrow> (\<exists>a. cull_step C (m_annotations m) a \<and> m' = with_annotations a m)))"
  (is "does _ ?Q")
  unfolding refresh_meta_def
proof (rule does_check, rule does_mono[OF kernels_does])
  fix r :: "goerr + bool \<times> objmeta" and es :: "effect list"
  assume k: "es = [] \<and> (\<forall>b m'. r = Inr (b, m') \<longrightarrow> activity m m')"
  have "does (check (lift (updateTimestampFromTerminalsActivity ts m1)) (\<lambda>(_, m2).
     check (updateLastCullingCheckTimestampAnnotation E m2) (\<lambda>m3. do {
       idle \<leftarrow> notebookIsIdle E C m3;
       if idle then setStopAnnotation E C m3 else ok m3
     }))) ?Q" if a1: "activity m m1" for m1
  proof (rule does_check_lift, simp, clarify)
    fix b m2 assume "updateTimestampFromTerminalsActivity ts m1 = Inr (b, m2)"
    then have a2: "activity m1 m2" by (rule terminals_activity)
    show "does (check (updateLastCullingCheckTimestampAnnotation E m2) (\<lambda>m3. do {
       idle \<leftarrow> notebookIsIdle E C m3;
       if idle then setStopAnnotation E C m3 else ok m3 })) ?Q"
    proof (rule does_check, rule does_mono[OF check_timestamp_does])
      fix r :: "goerr + objmeta" and es :: "effect list"
      assume c: "es = [] \<and> (\<forall>m'. r = Inr m' \<longrightarrow> (\<exists>f t. m_annotations m2 = Some f \<and>
        m' = with_annotations (Some (fmupd LAST_ACTIVITY_CHECK_TIMESTAMP_ANNOTATION t f)) m2))"
      show "case r of Inl e \<Rightarrow> ?Q (Inl e) es | Inr m3 \<Rightarrow> does (do {
          idle \<leftarrow> notebookIsIdle E C m3; if idle then setStopAnnotation E C m3 else ok m3 })
          (\<lambda>y es'. ?Q y (es @ es'))"
      proof (cases r)
        case (Inr m3)
        with c obtain g t where g: "m_annotations m2 = Some g"
          "m3 = with_annotations (Some (fmupd LAST_ACTIVITY_CHECK_TIMESTAMP_ANNOTATION t g)) m2" by blast
        obtain f where f: "m_annotations m = Some f"
          using a1 a2 g by (auto simp: activity_def split: if_splits)
        obtain g1 where g1: "activity_step\<^sup>*\<^sup>* f g1" "m1 = with_annotations (Some g1) m"
          using activity_star[OF a1 f] by blast
        obtain g2 where g2: "activity_step\<^sup>*\<^sup>* g1 g2" "m2 = with_annotations (Some g2) m1"
          using activity_star[OF a2, of g1] g1(2) by auto
        with g have "g2 = g" by simp
        with g1 g2 g have "activity_step\<^sup>*\<^sup>* f g"
          "m3 = with_annotations (Some (fmupd LAST_ACTIVITY_CHECK_TIMESTAMP_ANNOTATION t g)) m" by auto
        from idle_tail[OF this] c Inr f show ?thesis by simp
      qed (use c in simp)
    qed
  qed
  with k show "case r of Inl e \<Rightarrow> ?Q (Inl e) es | Inr x \<Rightarrow> does (case x of (_, m1) \<Rightarrow>
     check (lift (updateTimestampFromTerminalsActivity ts m1)) (\<lambda>(_, m2).
     check (updateLastCullingCheckTimestampAnnotation E m2) (\<lambda>m3. do {
       idle \<leftarrow> notebookIsIdle E C m3;
       if idle then setStopAnnotation E C m3 else ok m3
     }))) (\<lambda>y es'. ?Q y (es @ es'))"
    by (auto split: sum.splits)
qed

lemma refresh_body_trace: "does (refresh_body E C req ks ts) (\<lambda>_ es. cull_trace C req es)"
  unfolding refresh_body_eq by (rule fetch_update_trace, rule does_mono[OF refresh_meta_does]) auto

lemma retried_trace:
  "does m (\<lambda>_ es. cull_trace C req es) \<Longrightarrow> does (RetryOnConflict E b m) (\<lambda>_ es. cull_trace C req es)"
  unfolding RetryOnConflict_def RetryOnError_def
  by (rule does_retry) (auto intro: cull_trace_append)

lemma after_init_trace: "does (after_init E C req nb) (\<lambda>_ es. cull_trace C req es)"
  unfolding after_init_def cullingCheckPeriodHasPassed_def getNotebookApiKernels_def
    getNotebookApiTerminals_def getNotebookResourceResponse_def
  by (intro wp_rules does_mono[OF retried_trace[OF refresh_body_trace]])
     (auto split: sum.splits intro!: wp_rules)

lemma CullingReconcile_trace: "does (CullingReconcile E C req) (\<lambda>_ es. cull_trace C req es)"
  unfolding CullingReconcile_def
proof (rule does_bind, rule Get_does)
  fix resp
  let ?get = "Call (RGet KNotebook req) resp"
  have rd: "cull_trace C req [?get]" "cull_trace C req [?get, Call (RGet KPod k) p]" for k p
    by (auto intro!: cull_trace_reads)
  have body: "does m (\<lambda>_ es'. cull_trace C req (es @ es'))"
    if "does m (\<lambda>_ es. cull_trace C req es)" "cull_trace C req es" for es and m :: "('a, 'b) ehandler"
    using that by (auto elim!: does_mono intro: cull_trace_append)
  have ck: "does (check m f) (\<lambda>_ es. cull_trace C req es)"
    if "does m (\<lambda>_ es. cull_trace C req es)" "\<And>x. does (f x) (\<lambda>_ es. cull_trace C req es)"
    for m :: "('a, 'b) ehandler" and f :: "'b \<Rightarrow> ('a, 'c) ehandler"
    by (intro does_check, rule does_mono[OF that(1)])
       (auto split: sum.splits intro!: does_mono[OF that(2)] intro: cull_trace_append)
  have remove: "does (check (RetryOnConflict E b (remove_body E req)) (\<lambda>_. ok 0)) (\<lambda>_ es. cull_trace C req es)" for b
    by (rule ck[OF retried_trace[OF remove_body_trace]]) (simp add: does_return)
  have init: "does (check (if p then RetryOnConflict E b (init_body E req) else ok nb)
      (\<lambda>nb'. after_init E C req nb')) (\<lambda>_ es. cull_trace C req es)" for b p nb
    by (rule ck) (auto simp: after_init_trace does_return retried_trace[OF init_body_trace])
  show "does (case as_obj to_notebook resp of
      Inl e \<Rightarrow> if IsNotFound e then ok 0 else fail e
    | Inr nb \<Rightarrow>
        if StopAnnotationIsSet (nb_meta nb) then
          check (RetryOnConflict E ''DefaultRetry'' (remove_body E req)) (\<lambda>_. ok 0)
        else do {
          p \<leftarrow> Get E KPod to_pod (nb_ns nb, nb_name nb @ ''-0'');
          case p of
            Inl e \<Rightarrow> if IsNotFound e
              then check (RetryOnConflict E ''DefaultRetry'' (remove_body E req)) (\<lambda>_. ok 0)
              else fail e
          | Inr _ \<Rightarrow>
              check (if \<not> annotationsExist nb
                     then RetryOnConflict E ''DefaultRetry'' (init_body E req) else ok nb)
                (\<lambda>nb'. after_init E C req nb')
        }) (\<lambda>_ es'. cull_trace C req ([?get] @ es'))"
    apply (intro does_sum does_if does_bind Get_does does_return does_mono[OF remove] does_mono[OF init])
    using cull_trace_append[OF rd(1)] cull_trace_append[OF rd(2)] by (simp_all add: rd)
qed

end
