(* ===== verification/CullingProps.thy ===== *)
theory CullingProps
  imports Culling
begin

text \<open>
  The properties of the culling controller, with the sample objects of their witnesses: what a
  run may write, what no number of runs changes, the arithmetic of the idle time and where it
  wraps, and that a busy kernel protects its Notebook.
\<close>

section \<open>Samples\<close>

definition culling_notebook :: notebook where
  "culling_notebook = \<lparr>nb_meta = empty_meta\<lparr>m_name := ''nb'', m_namespace := ''ns'',
       m_annotations := mlit [(LAST_ACTIVITY_ANNOTATION, ''2024-01-01T00:00:00Z''),
         (LAST_ACTIVITY_CHECK_TIMESTAMP_ANNOTATION, ''2024-01-01T00:00:00Z'')]\<rparr>,
     nb_podspec = \<lparr>ps_containers = [], ps_initContainers = [], ps_ephemeralContainers = [], ps_volumes = [],
       ps_serviceAccountName = [], ps_hostNetwork = False, ps_hostPID = False, ps_hostIPC = False,
       ps_securityContext = None, ps_rest = []\<rparr>,
     nb_status = \<lparr>st_conditions = [], st_readyReplicas = 0, st_containerState = empty_containerstate\<rparr>\<rparr>"

definition sample_culler :: culler where
  "sample_culler = \<lparr>CULL_IDLE_TIME = 60, IDLENESS_CHECK_PERIOD = 1, ENABLE_CULLING = True,
     CLUSTER_DOMAIN = ''cluster.local'', DEV = False, cull_metrics = True,
     decode_kernels = (\<lambda>_. None), decode_terminals = (\<lambda>_. None)\<rparr>"

text \<open>2024-03-01T12:00:00Z.\<close>

definition noon :: gotime where
  "noon = GoTime (1709294400 * 10 ^ 9) 0"

abbreviation cull_env :: "(kobj list) env" where
  "cull_env \<equiv> mem_env (\<lambda>_. None) noon"

lemma noon_instant [simp]: "instant noon = 1709294400000000000" "zone noon = 0"
  by (simp_all add: noon_def)

lemma noon_text: "time_Format noon = ''2024-03-01T12:00:00Z''"
  by code_simp

lemma last_parsed: "time_Parse ''2024-01-01T00:00:00Z'' = Some (GoTime (1704067200 * 10 ^ 9) 0)"
  by code_simp

lemmas cull_defs = CullingReconcile_def after_init_def refresh_body_def remove_body_def init_body_def
  StopAnnotationIsSet_def annotationsExist_def HasAnnotation_def cullingCheckPeriodHasPassed_def
  getRequeueTime_def Minute_def time_Add_def Before_def After_def getNotebookApiKernels_def
  getNotebookApiTerminals_def getNotebookResourceResponse_def RetryOnConflict_def RetryOnError_def
  updateTimestampFromKernelsActivity_def updateTimestampFromTerminalsActivity_def
  updateLastCullingCheckTimestampAnnotation_def createTimestamp_def notebookIsIdle_def setStopAnnotation_def
  set_annotation_def nonempty_map_def set_meta_def mempty_def mget_def client_defs obj_key_def meta_key_def
  same_obj_def with_annotations_def

definition culled_notebook :: notebook where
  "culled_notebook = set_meta (with_annotations (Some (fmupd STOP_ANNOTATION ''2024-03-01T12:00:00Z''
     (fmupd LAST_ACTIVITY_CHECK_TIMESTAMP_ANNOTATION ''2024-03-01T12:00:00Z'' (the (nb_annotations culling_notebook)))))
     (nb_meta culling_notebook)) culling_notebook"

lemma cull_run:
  "Call (RUpdate (ONotebook culled_notebook)) (RespObj (ONotebook culled_notebook)) \<in> set (trace (snd
     (run_state (CullingReconcile cull_env sample_culler (''ns'', ''nb''))
       \<lparr>server = [ONotebook culling_notebook, OPod (empty_pod\<lparr>pod_meta := empty_meta\<lparr>m_name := ''nb-0'', m_namespace := ''ns''\<rparr>\<rparr>)],
        trace = []\<rparr>)))"
  by (simp add: cull_defs culling_notebook_def culled_notebook_def empty_meta_def empty_pod_def mlit_def
      last_parsed noon_text sample_culler_def noon_def[symmetric])

section \<open>Properties\<close>

text \<open>
  C14. Whatever the API server and the Notebook server answer, and however often an update is
  retried, each write of a culling reconciliation is an update of the Notebook it fetched under the requested
  name, changed in nothing but its annotations, and there by one step of the annotation machine.
\<close>

theorem CullingReconcile_writes:
  assumes "run_state (CullingReconcile E C req) w = (r, w')" "trace w' = trace w @ es"
    and "Call q resp \<in> set es" "is_write q"
  shows "\<exists>nb a. Call (RGet KNotebook req) (RespObj (ONotebook nb)) \<in> set es \<and>
     q = RUpdate (ONotebook (set_meta (with_annotations a (nb_meta nb)) nb)) \<and>
     cull_step C (nb_annotations nb) a"
  using does_run[OF CullingReconcile_trace assms(1)] assms(2-4)
  by (auto simp: cull_trace_def cull_write_def)

abbreviation cull_world :: "(kobj list) world" where
  "cull_world \<equiv> \<lparr>server = [ONotebook culling_notebook,
     OPod (empty_pod\<lparr>pod_meta := empty_meta\<lparr>m_name := ''nb-0'', m_namespace := ''ns''\<rparr>\<rparr>)], trace = []\<rparr>"

theorem CullingReconcile_writes_witness:
  "\<exists>nb a. Call (RGet KNotebook (''ns'', ''nb'')) (RespObj (ONotebook nb)) \<in> set (trace (snd
       (run_state (CullingReconcile cull_env sample_culler (''ns'', ''nb'')) cull_world))) \<and>
     RUpdate (ONotebook culled_notebook) = RUpdate (ONotebook (set_meta (with_annotations a (nb_meta nb)) nb)) \<and>
     cull_step sample_culler (nb_annotations nb) a"
  by (rule CullingReconcile_writes[where w = cull_world, OF prod.collapse[symmetric] _ cull_run]) simp_all


lemma activity_star_keeps:
  "activity_step\<^sup>*\<^sup>* f g \<Longrightarrow> k \<noteq> LAST_ACTIVITY_ANNOTATION \<Longrightarrow> fmlookup g k = fmlookup f k"
  by (induction rule: rtranclp_induct) (auto elim!: activity_step_cases)

lemma nonempty_map_lookup: "nonempty_map m = Some f \<Longrightarrow> fmlookup f k = mlookup m k"
  by (auto simp: nonempty_map_def mlit_def mempty_iff split: if_splits)

lemma cull_step_keeps:
  assumes "cull_step C m m'"
  shows "k \<notin> {STOP_ANNOTATION, LAST_ACTIVITY_ANNOTATION, LAST_ACTIVITY_CHECK_TIMESTAMP_ANNOTATION} \<Longrightarrow>
      mlookup m' k = mlookup m k"
    and "mlookup m STOP_ANNOTATION = Some v \<Longrightarrow> mlookup m' STOP_ANNOTATION = Some v"
  using assms
  by (auto elim!: cull_step_cases simp: mlookup_mdelete nonempty_map_lookup activity_star_keeps)

text \<open>
  Over any number of culling steps, the annotations of others are untouched, and once
  the stop annotation is there, its value stays.
\<close>

theorem cull_steps_keep:
  assumes "(cull_step C)\<^sup>*\<^sup>* m m'"
  shows "(k \<in> {STOP_ANNOTATION, LAST_ACTIVITY_ANNOTATION, LAST_ACTIVITY_CHECK_TIMESTAMP_ANNOTATION} \<or>
      mlookup m' k = mlookup m k) \<and>
    (mlookup m STOP_ANNOTATION = None \<or> mlookup m' STOP_ANNOTATION = mlookup m STOP_ANNOTATION)"
  using assms
proof (induction rule: rtranclp_induct)
  case (step y z)
  show ?case
    using step.IH cull_step_keeps(1)[OF step.hyps(2), of k] cull_step_keeps(2)[OF step.hyps(2)]
    by (metis not_None_eq)
qed simp

theorem cull_steps_keep_witness:
  "mlookup (mdelete LAST_ACTIVITY_CHECK_TIMESTAMP_ANNOTATION (mdelete LAST_ACTIVITY_ANNOTATION
     (mlit [(''team'', ''a''), (STOP_ANNOTATION, ''now'')]))) ''team'' = Some ''a''"
proof -
  have "(cull_step sample_culler)\<^sup>*\<^sup>* (mlit [(''team'', ''a''), (STOP_ANNOTATION, ''now'')])
      (mdelete LAST_ACTIVITY_CHECK_TIMESTAMP_ANNOTATION (mdelete LAST_ACTIVITY_ANNOTATION
        (mlit [(''team'', ''a''), (STOP_ANNOTATION, ''now'')])))"
    by (rule r_into_rtranclp, rule cull_step.removed)
  from cull_steps_keep[OF this, of "''team''"] show ?thesis
    by (auto simp: mlit_def go_consts)
qed


text \<open>
  \<open>getNotebookRecentTime\<close> of timestamps that all parse is the latest of them, as text; it
  is the empty string when one does not parse, and panics on no timestamp.
\<close>

lemma recent_loop_all:
  "list_all2 (\<lambda>x t. time_Parse x = Some t) xs ts \<Longrightarrow>
    \<exists>r. recent_loop t0 xs = Some r \<and> r \<in> set (t0 # ts) \<and> (\<forall>t \<in> set (t0 # ts). t \<le> r)"
proof (induction xs ts arbitrary: t0 rule: list_all2_induct)
  case (Cons x xs t ts)
  from Cons.IH[of "if After t t0 then t else t0"] Cons.hyps show ?case
    by (auto simp: After_def less_eq_gotime_def split: if_splits)
qed (auto simp: less_eq_gotime_def)

lemma recent_loop_bad: "x \<in> set xs \<Longrightarrow> time_Parse x = None \<Longrightarrow> recent_loop t0 xs = None"
  by (induction xs arbitrary: t0) (auto split: option.splits)

theorem getNotebookRecentTime_latest:
  assumes "arr \<noteq> []"
  shows "case those (map time_Parse arr) of
      None \<Rightarrow> getNotebookRecentTime arr = Inr []
    | Some ts \<Rightarrow> \<exists>r \<in> set ts. (\<forall>t \<in> set ts. t \<le> r) \<and> getNotebookRecentTime arr = Inr (time_Format r)"
proof (cases "those (map time_Parse arr)")
  case None
  have "\<exists>x \<in> set arr. time_Parse x = None"
    using None by (induction arr) (auto split: option.splits)
  with None assms show ?thesis
    by (cases arr) (auto split: option.splits simp: recent_loop_bad)
next
  case (Some ts)
  then have all: "list_all2 (\<lambda>x t. time_Parse x = Some t) arr ts"
    by (auto simp: those_Some_map list_all2_conv_all_nth dest: map_eq_imp_length_eq) (metis length_map nth_map)
  with assms obtain x xs t ts' where eq: "arr = x # xs" "ts = t # ts'" "time_Parse x = Some t"
    "list_all2 (\<lambda>x t. time_Parse x = Some t) xs ts'"
    by (cases arr) (auto simp: list_all2_Cons1)
  with recent_loop_all[OF eq(4), of t] Some show ?thesis by auto
qed

theorem getNotebookRecentTime_latest_witness:
  "\<exists>r. time_Parse ''2024-03-01T12:00:00Z'' = Some r \<and>
     getNotebookRecentTime [''2024-01-01T00:00:00Z'', ''2024-03-01T12:00:00Z''] = Inr (time_Format r)"
proof -
  have p: "time_Parse ''2024-03-01T12:00:00Z'' = Some noon" by code_simp
  show ?thesis
    using getNotebookRecentTime_latest[of "[''2024-01-01T00:00:00Z'', ''2024-03-01T12:00:00Z'']"]
    by (auto simp: last_parsed p less_eq_gotime_def)
qed


lemma minutes_exact:
  assumes "0 \<le> n" "n \<le> 153722867"
  shows "sint (word_of_int n * Minute :: int64) = n * 60000000000"
proof -
  have "word_of_int n * Minute = (word_of_int (n * 60000000000) :: int64)"
    by (simp add: Minute_def)
  then show ?thesis
    by (simp only: sint_sbintrunc') (use assms in \<open>simp add: signed_take_bit_int_eq_self\<close>)
qed

text \<open>
  The idle test measures minutes, as long as the configured idle time is at most
  153722867 of them (292 years), so that the product with a minute does not wrap.
\<close>

theorem idle_after_minutes:
  assumes "CULL_IDLE_TIME C = word_of_int n" "0 \<le> n" "n \<le> 153722867"
    and "m_annotations m = Some f" "fmlookup f STOP_ANNOTATION = None"
    and "fmlookup f LAST_ACTIVITY_ANNOTATION = Some v" "time_Parse v = Some seen"
    and "env_clock E (server w) = (now, s)"
  shows "run_state (notebookIsIdle E C m) w = (instant now > instant seen + n * 60 * 10 ^ 9, w\<lparr>server := s\<rparr>)"
  using assms minutes_exact[of n]
  by (simp add: notebookIsIdle_def StopAnnotationIsSet_def HasAnnotation_def mget_def After_def time_Add_def mult.commute)

theorem idle_after_minutes_witness:
  "run_state (notebookIsIdle cull_env sample_culler (nb_meta culling_notebook)) \<lparr>server = [], trace = []\<rparr> =
     (True, \<lparr>server = [], trace = []\<rparr>)"
proof -
  let ?f = "the (nb_annotations culling_notebook)"
  have f: "nb_annotations culling_notebook = Some ?f" "fmlookup ?f STOP_ANNOTATION = None"
    "fmlookup ?f LAST_ACTIVITY_ANNOTATION = Some ''2024-01-01T00:00:00Z''"
    by (simp_all add: culling_notebook_def mlit_def)
  show ?thesis
    using idle_after_minutes[of sample_culler 60, OF _ _ _ f last_parsed, of cull_env "\<lparr>server = [], trace = []\<rparr>"]
    by (simp add: sample_culler_def)
qed


text \<open>
  One minute more wraps: with an idle time of 153722868 minutes, which the configuration
  accepts, the deadline lies 292 years before the last activity, so a Notebook active at this
  instant is idle.
\<close>

theorem idle_time_wraps:
  assumes "env_var E ''CULL_IDLE_TIME'' = Some ''153722868''" "initGlobalVars E C0 = Inr C"
    and "m_annotations m = Some f" "fmlookup f STOP_ANNOTATION = None"
    and "fmlookup f LAST_ACTIVITY_ANNOTATION = Some v" "time_Parse v = Some seen"
    and "env_clock E (server w) = (now, s)" "instant now \<ge> instant seen"
  shows "run_state (notebookIsIdle E C m) w = (True, w\<lparr>server := s\<rparr>)"
proof -
  have "Atoi ''153722868'' = Some 153722868"
    by code_simp
  with assms(1,2) have c: "CULL_IDLE_TIME C = 153722868"
    by (auto simp: initGlobalVars_def GetEnvDefault_def Getenv_def Let_def split: option.splits)
  have "sint (CULL_IDLE_TIME C * Minute) < 0"
    unfolding c by (simp add: Minute_def)
  with assms(3-8) show ?thesis
    by (simp add: notebookIsIdle_def StopAnnotationIsSet_def HasAnnotation_def mget_def After_def time_Add_def)
qed

theorem idle_time_wraps_witness:
  "\<exists>C. initGlobalVars (mem_env [''CULL_IDLE_TIME'' \<mapsto> ''153722868''] noon) sample_culler = Inr C \<and>
     fst (run_state (notebookIsIdle (mem_env [''CULL_IDLE_TIME'' \<mapsto> ''153722868''] noon) C
       (empty_meta\<lparr>m_annotations := mlit [(LAST_ACTIVITY_ANNOTATION, time_Format noon)]\<rparr>))
       \<lparr>server = ([] :: kobj list), trace = []\<rparr>)"
proof -
  let ?E = "mem_env [''CULL_IDLE_TIME'' \<mapsto> ''153722868''] noon"
  have "Atoi ''1'' = Some 1" by code_simp
  then have "\<exists>C. initGlobalVars ?E sample_culler = Inr C"
    by (simp add: initGlobalVars_def GetEnvDefault_def Getenv_def DEFAULT_IDLENESS_CHECK_PERIOD_def Let_def)
  then obtain C where C: "initGlobalVars ?E sample_culler = Inr C" by blast
  have p: "time_Parse (time_Format noon) = Some noon" by code_simp
  from idle_time_wraps[OF _ C, of "empty_meta\<lparr>m_annotations := mlit [(LAST_ACTIVITY_ANNOTATION, time_Format noon)]\<rparr>",
      OF _ _ _ _ p, of _ "\<lparr>server = [], trace = []\<rparr>" noon "[]"] C
  show ?thesis by (auto simp: mlit_def)
qed

section \<open>A busy kernel keeps its Notebook\<close>

text \<open>Clock readings between two instants, in a zone and a year the timestamp format can hold.\<close>

definition clock_within :: "'s env \<Rightarrow> int \<Rightarrow> int \<Rightarrow> bool" where
  "clock_within E lo hi \<longleftrightarrow> (\<forall>s t s'. env_clock E s = (t, s') \<longrightarrow> lo \<le> instant t \<and> instant t \<le> hi \<and>
     zone t mod 60 = 0 \<and> \<bar>zone t\<bar> < 90000 \<and> 0 \<le> format_year t \<and> format_year t < 10000)"

lemma does_Now_clock: "(\<And>s t s'. env_clock E s = (t, s') \<Longrightarrow> Q t []) \<Longrightarrow> does (Now E) Q"
  by (auto simp: does_def split: prod.splits)

text \<open>The last activity of the metadata is at least \<open>T\<close>, and the stop annotation is that of \<open>m0\<close>.\<close>

definition fresh :: "int \<Rightarrow> objmeta \<Rightarrow> objmeta \<Rightarrow> bool" where
  "fresh T m0 m \<longleftrightarrow> (\<exists>f v seen. m_annotations m = Some f \<and> fmlookup f LAST_ACTIVITY_ANNOTATION = Some v \<and>
     time_Parse v = Some seen \<and> T \<le> instant seen) \<and>
     mlookup (m_annotations m) STOP_ANNOTATION = mlookup (m_annotations m0) STOP_ANNOTATION"

lemma timestamp_recent:
  assumes "clock_within E lo hi" "env_clock E s = (t, s')"
  shows "\<exists>seen. time_Parse (time_Format t) = Some seen \<and> lo - 999999999 \<le> instant seen"
proof -
  have p: "time_Parse (time_Format t) = Some (GoTime (time_Unix t * 10 ^ 9) (zone t))"
    using assms unfolding clock_within_def by (intro time_Parse_Format) blast+
  have "instant t - 999999999 \<le> instant t div 10 ^ 9 * 10 ^ 9"
    using pos_mod_bound[of "10 ^ 9" "instant t"] div_mult_mod_eq[of "instant t" "10 ^ 9"] by simp
  moreover have "lo \<le> instant t" using assms unfolding clock_within_def by blast
  ultimately show ?thesis using p by (simp add: time_Unix_def)
qed

lemma busy_kernels_fresh:
  assumes "clock_within E lo hi" "\<not> allKernelsAreIdle ks"
  shows "does (updateTimestampFromKernelsActivity E ks m)
    (\<lambda>r es. es = [] \<and> (\<forall>b m'. r = Inr (b, m') \<longrightarrow> fresh (lo - 999999999) m m'))"
proof -
  have "ks \<noteq> []" using assms(2) by (auto simp: allKernelsAreIdle_def)
  have fr: "fresh (lo - 999999999) m m'"
    if "env_clock E s = (t, s')" "set_annotation LAST_ACTIVITY_ANNOTATION (time_Format t) m = Inr m'" for s t s' m'
    using timestamp_recent[OF assms(1) that(1)] set_annotation_ok[OF that(2)] by (auto simp: fresh_def)
  show ?thesis
    unfolding updateTimestampFromKernelsActivity_def createTimestamp_def
    using \<open>ks \<noteq> []\<close> assms(2)
    by (simp, intro wp_rules does_Now_clock) (auto dest: fr)
qed

lemma terminals_fresh:
  assumes fr: "fresh T m0 m" and up: "updateTimestampFromTerminalsActivity ts m = Inr (b, m')"
  shows "fresh T m0 m'"
proof -
  from up have "m' = m \<or> (\<exists>t. compareAnnotationTimeToResource m t \<and> set_annotation LAST_ACTIVITY_ANNOTATION t m = Inr m')"
    by (auto simp: updateTimestampFromTerminalsActivity_def split: if_splits dest: update_from_times_cases)
  then show ?thesis
  proof (elim disjE exE conjE)
    fix t assume c: "compareAnnotationTimeToResource m t" and s: "set_annotation LAST_ACTIVITY_ANNOTATION t m = Inr m'"
    obtain f where f: "m_annotations m = Some f" "m' = with_annotations (Some (fmupd LAST_ACTIVITY_ANNOTATION t f)) m"
      using set_annotation_ok[OF s] by blast
    with compare_forward[OF c] fr show ?thesis
      by (auto simp: fresh_def less_eq_gotime_def)
  qed (use fr in simp)
qed

lemma check_fresh:
  "fresh T m0 m \<Longrightarrow> does (updateLastCullingCheckTimestampAnnotation E m)
     (\<lambda>r es. es = [] \<and> (\<forall>m'. r = Inr m' \<longrightarrow> fresh T m0 m'))"
  by (rule does_mono[OF check_timestamp_does]) (fastforce simp: fresh_def)

lemma fresh_not_idle:
  assumes "clock_within E lo hi" "fresh T m0 m" "hi \<le> T + sint (CULL_IDLE_TIME C * Minute)"
  shows "does (notebookIsIdle E C m) (\<lambda>b es. es = [] \<and> \<not> b)"
proof -
  from assms(2) obtain f v seen where f: "m_annotations m = Some f" "fmlookup f LAST_ACTIVITY_ANNOTATION = Some v"
     "time_Parse v = Some seen" "T \<le> instant seen" by (auto simp: fresh_def)
  have "\<not> After t (time_Add seen (CULL_IDLE_TIME C * Minute))" if "env_clock E s = (t, s')" for s t s'
  proof -
    have "instant t \<le> hi" using assms(1) that unfolding clock_within_def by blast
    with assms(3) f(4) show ?thesis by (simp add: After_def time_Add_def)
  qed
  then have now: "does (do { now \<leftarrow> Now E; return_h (After now (time_Add seen (CULL_IDLE_TIME C * Minute))) })
      (\<lambda>b es. es = [] \<and> \<not> b)"
    by (intro does_bind does_Now_clock does_return) auto
  show ?thesis
    unfolding notebookIsIdle_def using f now by (auto simp: mget_def intro: does_return)
qed

lemma refresh_meta_busy:
  assumes "clock_within E lo hi" "\<not> allKernelsAreIdle ks"
    and "hi \<le> lo - 999999999 + sint (CULL_IDLE_TIME C * Minute)"
  shows "does (refresh_meta E C ks ts m) (\<lambda>r es. (\<forall>q resp. Call q resp \<notin> set es) \<and>
    (\<forall>m'. r = Inr m' \<longrightarrow> mlookup (m_annotations m') STOP_ANNOTATION = mlookup (m_annotations m) STOP_ANNOTATION))"
  unfolding refresh_meta_def
proof (rule does_check, rule does_mono[OF busy_kernels_fresh[OF assms(1,2)]], clarify)
  fix r
  assume k: "\<forall>b m'. r = Inr (b, m') \<longrightarrow> fresh (lo - 999999999) m m'"
  let ?Q = "\<lambda>r es. (\<forall>q resp. Call q resp \<notin> set es) \<and>
    (\<forall>m'. r = Inr m' \<longrightarrow> mlookup (m_annotations m') STOP_ANNOTATION = mlookup (m_annotations m) STOP_ANNOTATION)"
  have "does (check (lift (updateTimestampFromTerminalsActivity ts m1)) (\<lambda>(_, m2).
     check (updateLastCullingCheckTimestampAnnotation E m2) (\<lambda>m3. do {
       idle \<leftarrow> notebookIsIdle E C m3;
       if idle then setStopAnnotation E C m3 else ok m3
     }))) ?Q" if m1: "fresh (lo - 999999999) m m1" for m1
  proof (rule does_check_lift, simp, clarify)
    fix b m2 assume "updateTimestampFromTerminalsActivity ts m1 = Inr (b, m2)"
    from terminals_fresh[OF m1 this] have m2: "fresh (lo - 999999999) m m2" .
    show "does (check (updateLastCullingCheckTimestampAnnotation E m2) (\<lambda>m3. do {
       idle \<leftarrow> notebookIsIdle E C m3;
       if idle then setStopAnnotation E C m3 else ok m3 })) ?Q"
    proof (rule does_check, rule does_mono[OF check_fresh[OF m2]], clarify)
      fix r assume c: "\<forall>m'. r = Inr m' \<longrightarrow> fresh (lo - 999999999) m m'"
      have "does (do { idle \<leftarrow> notebookIsIdle E C m3; if idle then setStopAnnotation E C m3 else ok m3 })
          (\<lambda>y es'. ?Q y ([] @ es'))" if "fresh (lo - 999999999) m m3" for m3
        by (rule does_bind, rule does_mono[OF fresh_not_idle[OF assms(1) that assms(3)]])
           (use that in \<open>simp add: does_return fresh_def\<close>)
      with c show "case r of Inl e \<Rightarrow> ?Q (Inl e) [] | Inr m3 \<Rightarrow> does (do {
          idle \<leftarrow> notebookIsIdle E C m3; if idle then setStopAnnotation E C m3 else ok m3 })
          (\<lambda>y es'. ?Q y ([] @ es'))"
        by (cases r) auto
    qed
  qed
  with k show "case r of Inl e \<Rightarrow> ?Q (Inl e) [] | Inr x \<Rightarrow> does (case x of (_, m1) \<Rightarrow>
     check (lift (updateTimestampFromTerminalsActivity ts m1)) (\<lambda>(_, m2).
     check (updateLastCullingCheckTimestampAnnotation E m2) (\<lambda>m3. do {
       idle \<leftarrow> notebookIsIdle E C m3;
       if idle then setStopAnnotation E C m3 else ok m3
     }))) (\<lambda>y es'. ?Q y ([] @ es'))"
    by (auto split: sum.splits)
qed

text \<open>
  C17. A Notebook with a busy kernel is not culled: if every clock reading of the run falls
  in a window shorter than the idle time by a second, the update sent for it carries the stop
  annotation the fetched Notebook had, or none.
\<close>

theorem busy_kernel_not_culled:
  assumes "clock_within E lo hi" "hi - lo + 999999999 \<le> sint (CULL_IDLE_TIME C * Minute)"
    and "\<not> allKernelsAreIdle ks"
    and "run_state (refresh_body E C req ks ts) w = (r, w')" "trace w' = trace w @ es"
    and "Call (RUpdate (ONotebook n)) resp \<in> set es"
  shows "\<exists>nb. Call (RGet KNotebook req) (RespObj (ONotebook nb)) \<in> set es \<and>
    mlookup (nb_annotations n) STOP_ANNOTATION = mlookup (nb_annotations nb) STOP_ANNOTATION"
proof -
  have hi: "hi \<le> lo - 999999999 + sint (CULL_IDLE_TIME C * Minute)" using assms(2) by simp
  have "does (refresh_body E C req ks ts) (\<lambda>_ es. \<forall>q resp. Call q resp \<in> set es \<longrightarrow> is_write q \<longrightarrow>
      (\<exists>nb m. Call (RGet KNotebook req) (RespObj (ONotebook nb)) \<in> set es \<and>
        mlookup (m_annotations m) STOP_ANNOTATION = mlookup (nb_annotations nb) STOP_ANNOTATION \<and>
        q = RUpdate (ONotebook (set_meta m nb))))"
    unfolding refresh_body_eq by (rule fetch_update[OF refresh_meta_busy[OF assms(1,3) hi]])
  from does_run[OF this assms(4)] assms(5) have t: "\<forall>q resp. Call q resp \<in> set es \<longrightarrow> is_write q \<longrightarrow>
      (\<exists>nb m. Call (RGet KNotebook req) (RespObj (ONotebook nb)) \<in> set es \<and>
        mlookup (m_annotations m) STOP_ANNOTATION = mlookup (nb_annotations nb) STOP_ANNOTATION \<and>
        q = RUpdate (ONotebook (set_meta m nb)))" by simp
  have "is_write (RUpdate (ONotebook n))" by simp
  with t assms(6) have "\<exists>nb m. Call (RGet KNotebook req) (RespObj (ONotebook nb)) \<in> set es \<and>
        mlookup (m_annotations m) STOP_ANNOTATION = mlookup (nb_annotations nb) STOP_ANNOTATION \<and>
        RUpdate (ONotebook n) = RUpdate (ONotebook (set_meta m nb))"
    by blast
  then show ?thesis by (auto simp: set_meta_def)
qed

definition busy_kernel :: KernelStatus where
  "busy_kernel = \<lparr>ks_id = ''k'', ks_name = ''python3'', ks_lastActivity = ''2024-01-01T00:00:00Z'',
     ks_executionState = ''busy'', ks_connections = 1\<rparr>"

definition busy_notebook :: notebook where
  "busy_notebook = set_meta (with_annotations (Some
     (fmupd LAST_ACTIVITY_CHECK_TIMESTAMP_ANNOTATION ''2024-03-01T12:00:00Z''
       (fmupd LAST_ACTIVITY_ANNOTATION ''2024-03-01T12:00:00Z'' (the (nb_annotations culling_notebook)))))
     (nb_meta culling_notebook)) culling_notebook"

lemma noon_parsed: "time_Parse ''2024-03-01T12:00:00Z'' = Some noon"
  by code_simp

lemma busy_run:
  "Call (RUpdate (ONotebook busy_notebook)) (RespObj (ONotebook busy_notebook)) \<in> set (trace (snd
     (run_state (refresh_body cull_env sample_culler (''ns'', ''nb'') [busy_kernel] [])
       \<lparr>server = [ONotebook culling_notebook], trace = []\<rparr>)))"
  by (simp add: cull_defs culling_notebook_def busy_notebook_def empty_meta_def mlit_def noon_parsed
      noon_text sample_culler_def allKernelsAreIdle_def busy_kernel_def KERNEL_EXECUTION_STATE_IDLE_def)

lemma noon_year: "format_year noon = 2024"
  by code_simp

theorem busy_kernel_not_culled_witness:
  "mlookup (nb_annotations busy_notebook) STOP_ANNOTATION = None \<and>
   (\<exists>nb. Call (RGet KNotebook (''ns'', ''nb'')) (RespObj (ONotebook nb)) \<in> set (trace (snd
     (run_state (refresh_body cull_env sample_culler (''ns'', ''nb'') [busy_kernel] [])
       \<lparr>server = [ONotebook culling_notebook], trace = []\<rparr>))) \<and>
     mlookup (nb_annotations busy_notebook) STOP_ANNOTATION = mlookup (nb_annotations nb) STOP_ANNOTATION)"
proof -
  have c: "clock_within cull_env 1709294400000000000 1709294400000000000"
    by (simp add: clock_within_def noon_year)
  have i: "(1709294400000000000 :: int) - 1709294400000000000 + 999999999 \<le> sint (CULL_IDLE_TIME sample_culler * Minute)"
    by (simp add: sample_culler_def Minute_def)
  have b: "\<not> allKernelsAreIdle [busy_kernel]"
    by (simp add: allKernelsAreIdle_def busy_kernel_def KERNEL_EXECUTION_STATE_IDLE_def)
  show ?thesis
    using busy_kernel_not_culled[where w = "\<lparr>server = [ONotebook culling_notebook], trace = []\<rparr>",
      OF c i b prod.collapse[symmetric] _ busy_run]
    by (simp add: busy_notebook_def culling_notebook_def set_meta_def mlit_def)
qed

text \<open>
  A stopped Notebook is left alone, except that the two activity annotations are
  dropped: one Get, one Update without them and otherwise unchanged, nothing probed, no
  requeue.
\<close>

theorem stopped_notebook_cleaned:
  assumes "mlookup (nb_annotations nb) STOP_ANNOTATION \<noteq> None"
    and "env_api E (RGet KNotebook req) (server w) = (RespObj (ONotebook nb), s1)"
    and "env_api E (RGet KNotebook req) s1 = (RespObj (ONotebook nb), s2)"
    and "n = set_meta (with_annotations (mdelete LAST_ACTIVITY_CHECK_TIMESTAMP_ANNOTATION
       (mdelete LAST_ACTIVITY_ANNOTATION (nb_annotations nb))) (nb_meta nb)) nb"
    and "env_api E (RUpdate (ONotebook n)) s2 = (RespObj (ONotebook n'), s3)"
  shows "run_state (CullingReconcile E C req) w = (Inr 0, \<lparr>server = s3, trace = trace w @
    [Call (RGet KNotebook req) (RespObj (ONotebook nb)), Call (RGet KNotebook req) (RespObj (ONotebook nb)),
     Call (RUpdate (ONotebook n)) (RespObj (ONotebook n'))]\<rparr>)"
proof -
  have stop: "StopAnnotationIsSet (nb_meta nb)"
    using assms(1) by (cases "nb_annotations nb") (auto simp: StopAnnotationIsSet_def HasAnnotation_def)
  have rem: "set_meta (removeAnnotations (nb_meta nb)) nb = n"
    unfolding assms(4) removeAnnotations_eq ..
  have "run_state (retry_on k IsConflict (remove_body E req)) (w\<lparr>server := s1, trace := t\<rparr>) =
      (Inr n', w\<lparr>server := s3, trace := t @ [Call (RGet KNotebook req) (RespObj (ONotebook nb)),
        Call (RUpdate (ONotebook n)) (RespObj (ONotebook n'))]\<rparr>)" for k t
    using assms(3,5) by (cases k) (simp_all add: remove_body_def client_defs rem)
  with assms(2) stop show ?thesis
    by (simp add: CullingReconcile_def RetryOnConflict_def RetryOnError_def Get_def)
qed

theorem stopped_notebook_cleaned_witness:
  "\<exists>n. fst (run_state (CullingReconcile cull_env sample_culler (''ns'', ''nb''))
      \<lparr>server = [ONotebook culled_notebook], trace = []\<rparr>) = Inr 0 \<and>
     server (snd (run_state (CullingReconcile cull_env sample_culler (''ns'', ''nb''))
      \<lparr>server = [ONotebook culled_notebook], trace = []\<rparr>)) = [ONotebook n] \<and>
     mlookup (nb_annotations n) LAST_ACTIVITY_ANNOTATION = None"
proof -
  let ?n = "set_meta (with_annotations (mdelete LAST_ACTIVITY_CHECK_TIMESTAMP_ANNOTATION
       (mdelete LAST_ACTIVITY_ANNOTATION (nb_annotations culled_notebook))) (nb_meta culled_notebook)) culled_notebook"
  have k: "obj_key (ONotebook culled_notebook) = (''ns'', ''nb'')" "obj_key (ONotebook ?n) = (''ns'', ''nb'')"
    by (simp_all add: obj_key_def meta_key_def culled_notebook_def culling_notebook_def set_meta_def empty_meta_def)
  have "run_state (CullingReconcile cull_env sample_culler (''ns'', ''nb''))
      \<lparr>server = [ONotebook culled_notebook], trace = []\<rparr> = (Inr 0, \<lparr>server = [ONotebook ?n], trace = [] @
    [Call (RGet KNotebook (''ns'', ''nb'')) (RespObj (ONotebook culled_notebook)),
     Call (RGet KNotebook (''ns'', ''nb'')) (RespObj (ONotebook culled_notebook)),
     Call (RUpdate (ONotebook ?n)) (RespObj (ONotebook ?n))]\<rparr>)"
    using stopped_notebook_cleaned[of culled_notebook cull_env "(''ns'', ''nb'')"
        "\<lparr>server = [ONotebook culled_notebook], trace = []\<rparr>" "[ONotebook culled_notebook]"
        "[ONotebook culled_notebook]" ?n ?n "[ONotebook ?n]" sample_culler]
    by (simp add: same_obj_def k) (simp add: culled_notebook_def set_meta_def)
  then show ?thesis by (simp add: set_meta_def mlookup_mdelete)
qed

text \<open>
  The configuration round-trips: a decimal idle time and check period in the environment
  are the ones the controller uses, for every 64-bit value; an idle time that is not a number
  falls back to a day.
\<close>

lemma sint_int64: "- (2 ^ 63) \<le> n \<Longrightarrow> n < 2 ^ 63 \<Longrightarrow> sint (word_of_int n :: int64) = n"
  by (simp only: sint_sbintrunc') (simp add: signed_take_bit_int_eq_self)

theorem initGlobalVars_reads:
  assumes "env_var E ''IDLENESS_CHECK_PERIOD'' = Some (Itoa p)" "- (2 ^ 63) \<le> p" "p < 2 ^ 63"
    and "env_var E ''CULL_IDLE_TIME'' = Some i"
    and "(i = Itoa n \<and> - (2 ^ 63) \<le> n \<and> n < 2 ^ 63) \<or> (Atoi i = None \<and> n = 1440)"
  shows "\<exists>C'. initGlobalVars E C = Inr C' \<and> sint (IDLENESS_CHECK_PERIOD C') = p \<and> sint (CULL_IDLE_TIME C') = n"
proof -
  have d: "Atoi ''1440'' = Some 1440" "Atoi [] = None" by code_simp+
  have rt: "Atoi (Itoa k) = Some k \<and> Itoa k \<noteq> []" if "- (2 ^ 63) \<le> k" "k < 2 ^ 63" for k
    using ParseInt_Itoa[of 64 k] that d(2) by (auto simp del: One_nat_def)
  have w: "sint (1440 :: int64) = 1440" using sint_int64[of 1440] by simp
  from assms(5) show ?thesis
  proof
    assume n: "i = Itoa n \<and> - (2 ^ 63) \<le> n \<and> n < 2 ^ 63"
    then show ?thesis
      using assms(1-4) rt[of p] rt[of n] sint_int64[of p] sint_int64[of n]
      by (simp add: initGlobalVars_def GetEnvDefault_def Getenv_def Let_def)
  next
    assume n: "Atoi i = None \<and> n = 1440"
    then show ?thesis
      using assms(1-4) rt[of p] sint_int64[of p] d w
      by (cases "i = []")
         (simp_all add: initGlobalVars_def GetEnvDefault_def Getenv_def DEFAULT_CULL_IDLE_TIME_def Let_def)
  qed
qed

theorem initGlobalVars_reads_witness:
  "\<exists>C'. initGlobalVars (mem_env [''IDLENESS_CHECK_PERIOD'' \<mapsto> Itoa 5, ''CULL_IDLE_TIME'' \<mapsto> ''a day''] noon) sample_culler = Inr C' \<and>
     sint (IDLENESS_CHECK_PERIOD C') = 5 \<and> sint (CULL_IDLE_TIME C') = 1440"
proof -
  have "Atoi ''a day'' = None" by code_simp
  then show ?thesis
    by (intro initGlobalVars_reads[where i = "''a day''"]) simp_all
qed

end
