(* ===== verification/PodEdit.thy ===== *)
theory PodEdit
  imports Kube
begin

text \<open>
  The edits the webhook makes to the pod of a Notebook, in the idioms its files share: put a
  volume or a mount by name (replace the first, else append), edit the container that has the
  Notebook's name, set a batch of environment variables. Then the contract of such an edit,
  the locale \<open>pod_mutator\<close>, and of two edits that do not disturb each other,
  \<open>compatible_mutators\<close>.
\<close>

section \<open>Containers, volumes, variables\<close>

definition nb_containers :: "notebook \<Rightarrow> container list" where
  "nb_containers nb = ps_containers (nb_podspec nb)"

definition nb_volumes :: "notebook \<Rightarrow> volume list" where
  "nb_volumes nb = ps_volumes (nb_podspec nb)"

definition with_containers :: "container list \<Rightarrow> notebook \<Rightarrow> notebook" where
  "with_containers cs nb = nb\<lparr>nb_podspec := (nb_podspec nb)\<lparr>ps_containers := cs\<rparr>\<rparr>"

definition with_volumes :: "volume list \<Rightarrow> notebook \<Rightarrow> notebook" where
  "with_volumes vs nb = nb\<lparr>nb_podspec := (nb_podspec nb)\<lparr>ps_volumes := vs\<rparr>\<rparr>"

definition with_serviceAccount :: "string \<Rightarrow> notebook \<Rightarrow> notebook" where
  "with_serviceAccount s nb = nb\<lparr>nb_podspec := (nb_podspec nb)\<lparr>ps_serviceAccountName := s\<rparr>\<rparr>"

definition named :: "string \<Rightarrow> container \<Rightarrow> bool" where
  "named n c \<longleftrightarrow> c_name c = n"

definition vol_named :: "string \<Rightarrow> volume \<Rightarrow> bool" where
  "vol_named n v \<longleftrightarrow> v_name v = n"

definition mount_named :: "string \<Rightarrow> volmount \<Rightarrow> bool" where
  "mount_named n m \<longleftrightarrow> vm_name m = n"

definition env_named :: "string \<Rightarrow> envvar \<Rightarrow> bool" where
  "env_named n e \<longleftrightarrow> ev_name e = n"

definition edit_container :: "string \<Rightarrow> (container \<Rightarrow> container) \<Rightarrow> notebook \<Rightarrow> notebook" where
  "edit_container n f nb = with_containers (update_first (named n) f (nb_containers nb)) nb"

definition put_volume :: "volume \<Rightarrow> notebook \<Rightarrow> notebook" where
  "put_volume v nb = with_volumes (put_first (vol_named (v_name v)) v (nb_volumes nb)) nb"

definition put_mount :: "volmount \<Rightarrow> container \<Rightarrow> container" where
  "put_mount m c = c\<lparr>c_volumeMounts := put_first (mount_named (vm_name m)) m (c_volumeMounts c)\<rparr>"

text \<open>A volume that holds a ConfigMap or a Secret, and a plain mount.\<close>

definition configmap_volume :: "string \<Rightarrow> string \<Rightarrow> bool option \<Rightarrow> int32 option \<Rightarrow> volume" where
  "configmap_volume name cm optional mode = \<lparr>v_name = name,
     v_configMap = Some \<lparr>cs_cmName = cm, cs_optional = optional, cs_defaultMode = mode, cs_cmRest = []\<rparr>,
     v_secret = None, v_hostPath = None, v_rest = []\<rparr>"

definition secret_volume :: "string \<Rightarrow> string \<Rightarrow> bool option \<Rightarrow> int32 option \<Rightarrow> volume" where
  "secret_volume name secret optional mode = \<lparr>v_name = name, v_configMap = None,
     v_secret = Some \<lparr>ss_secretName = secret, ss_optional = optional, ss_defaultMode = mode\<rparr>,
     v_hostPath = None, v_rest = []\<rparr>"

definition plain_mount :: "string \<Rightarrow> string \<Rightarrow> bool \<Rightarrow> volmount" where
  "plain_mount name path ro = \<lparr>vm_name = name, vm_mountPath = path, vm_readOnly = ro, vm_rest = []\<rparr>"

text \<open>
  The loop over a map of variables, in the order \<open>kvs\<close> that Go's range takes: every entry of
  that name gets the value; a missing one is appended after all the others.
\<close>

definition set_env :: "string \<Rightarrow> string \<Rightarrow> envvar list \<Rightarrow> envvar list" where
  "set_env k v env = map (\<lambda>e. if ev_name e = k then e\<lparr>ev_value := v\<rparr> else e) env"

definition new_env :: "string \<Rightarrow> string \<Rightarrow> envvar" where
  "new_env k v = \<lparr>ev_name = k, ev_value = v, ev_rest = []\<rparr>"

fun env_loop :: "(string \<times> string) list \<Rightarrow> envvar list \<Rightarrow> envvar list \<Rightarrow> envvar list" where
  "env_loop [] env new = env @ new"
| "env_loop ((k, v) # kvs) env new =
     env_loop kvs (set_env k v env) (if list_ex (env_named k) env then new else new @ [new_env k v])"

text \<open>Go ranges over a map in an order of its own; \<open>range_order ord\<close> says that \<open>ord\<close> only reorders.\<close>

definition range_order :: "('a list \<Rightarrow> 'a list) \<Rightarrow> bool" where
  "range_order ord \<longleftrightarrow> (\<forall>xs. distinct xs \<longrightarrow> distinct (ord xs) \<and> set (ord xs) = set xs)"

section \<open>What the edits keep\<close>

lemmas pod_defs = nb_containers_def nb_volumes_def with_containers_def with_volumes_def
  with_serviceAccount_def

lemma pod_simps [simp]:
  "nb_meta (with_containers cs nb) = nb_meta nb" "nb_meta (with_volumes vs nb) = nb_meta nb"
  "nb_meta (with_serviceAccount s nb) = nb_meta nb"
  "nb_containers (with_containers cs nb) = cs" "nb_containers (with_volumes vs nb) = nb_containers nb"
  "nb_containers (with_serviceAccount s nb) = nb_containers nb"
  "nb_volumes (with_containers cs nb) = nb_volumes nb" "nb_volumes (with_volumes vs nb) = vs"
  "nb_volumes (with_serviceAccount s nb) = nb_volumes nb"
  "with_containers cs (with_containers cs' nb) = with_containers cs nb"
  "with_volumes vs (with_volumes vs' nb) = with_volumes vs nb"
  "with_containers (nb_containers nb) nb = nb" "with_volumes (nb_volumes nb) nb = nb"
  "nb_status (with_containers cs nb) = nb_status nb" "nb_status (with_volumes vs nb) = nb_status nb"
  by (simp_all add: pod_defs)

lemma edit_simps [simp]:
  "nb_meta (edit_container n f nb) = nb_meta nb" "nb_meta (put_volume v nb) = nb_meta nb"
  "nb_volumes (edit_container n f nb) = nb_volumes nb"
  "nb_containers (put_volume v nb) = nb_containers nb"
  "nb_containers (edit_container n f nb) = update_first (named n) f (nb_containers nb)"
  "nb_volumes (put_volume v nb) = put_first (vol_named (v_name v)) v (nb_volumes nb)"
  by (simp_all add: edit_container_def put_volume_def)

lemma find_update_first:
  "(\<And>x. p x \<Longrightarrow> p (f x)) \<Longrightarrow> find p (update_first p f xs) = map_option f (find p xs)"
  by (induction xs) auto

lemma find_update_first_other:
  "(\<And>x. p x \<Longrightarrow> q (f x) = q x) \<Longrightarrow> (\<And>x. p x \<Longrightarrow> \<not> q x) \<Longrightarrow> find q (update_first p f xs) = find q xs"
  by (induction xs) auto

lemma update_first_fixed:
  "(\<And>x. find p xs = Some x \<Longrightarrow> f x = x) \<Longrightarrow> update_first p f xs = xs"
  by (induction xs) auto

lemma put_first_fixed: "find p xs = Some y \<Longrightarrow> put_first p y xs = xs"
  by (induction xs) (auto simp: put_first_def split: if_splits)

lemma find_put_volume [simp]: "find (vol_named (v_name v)) (nb_volumes (put_volume v nb)) = Some v"
  by (simp add: put_first_find vol_named_def)

lemma find_put_volume_other: "n \<noteq> v_name v \<Longrightarrow>
    find (vol_named n) (nb_volumes (put_volume v nb)) = find (vol_named n) (nb_volumes nb)"
  by (auto simp: vol_named_def intro!: put_first_find_other)

lemma put_volume_fixed: "find (vol_named (v_name v)) (nb_volumes nb) = Some v \<Longrightarrow> put_volume v nb = nb"
  by (simp add: put_volume_def put_first_fixed)

lemma edit_container_fixed:
  "(\<And>c. find (named n) (nb_containers nb) = Some c \<Longrightarrow> f c = c) \<Longrightarrow> edit_container n f nb = nb"
  by (simp add: edit_container_def update_first_fixed)

lemma put_mount_simps [simp]:
  "c_name (put_mount m c) = c_name c" "c_env (put_mount m c) = c_env c" "c_image (put_mount m c) = c_image c"
  "c_volumeMounts (put_mount m c) = put_first (mount_named (vm_name m)) m (c_volumeMounts c)"
  by (simp_all add: put_mount_def)

lemma put_mount_fixed:
  "find (mount_named (vm_name m)) (c_volumeMounts c) = Some m \<Longrightarrow> put_mount m c = c"
  by (simp add: put_mount_def put_first_fixed)

lemma put_mount_idem [simp]: "put_mount m (put_mount m c) = put_mount m c"
  by (simp add: put_mount_def put_first_twice mount_named_def)

lemma set_env_filter_other: "k \<noteq> j \<Longrightarrow> filter (env_named j) (set_env k v env) = filter (env_named j) env"
  unfolding set_env_def by (induction env) (auto simp: env_named_def)

lemma set_env_filter: "filter (env_named k) (set_env k v env) = map (\<lambda>e. e\<lparr>ev_value := v\<rparr>) (filter (env_named k) env)"
  unfolding set_env_def by (induction env) (auto simp: env_named_def)

lemma env_loop_other:
  "j \<notin> fst ` set kvs \<Longrightarrow> filter (env_named j) (env_loop kvs env new) = filter (env_named j) (env @ new)"
  by (induction kvs env new rule: env_loop.induct)
     (auto simp: set_env_filter_other new_env_def env_named_def)

text \<open>The variables are set: each occurs, and every entry of its name has its value.\<close>

definition env_set :: "(string \<times> string) list \<Rightarrow> envvar list \<Rightarrow> bool" where
  "env_set kvs env \<longleftrightarrow> (\<forall>(k, v) \<in> set kvs. filter (env_named k) env \<noteq> [] \<and>
     (\<forall>e \<in> set (filter (env_named k) env). ev_value e = v))"

lemma env_loop_sets:
  assumes "distinct (map fst kvs)" "\<And>k v. (k, v) \<in> set kvs \<Longrightarrow> filter (env_named k) new = []"
  shows "env_set kvs (env_loop kvs env new)"
  using assms
proof (induction kvs env new rule: env_loop.induct)
  case (2 k v kvs env new)
  let ?new = "if list_ex (env_named k) env then new else new @ [new_env k v]"
  let ?r = "env_loop kvs (set_env k v env) ?new"
  have tail: "env_set kvs ?r"
    using 2 by (intro "2.IH") (force simp: new_env_def env_named_def)+
  have new: "filter (env_named k) new = []" using "2.prems"(2)[of k v] by simp
  have "filter (env_named k) ?r = map (\<lambda>e. e\<lparr>ev_value := v\<rparr>) (filter (env_named k) env) @ filter (env_named k) ?new"
    using "2.prems"(1) by (simp add: env_loop_other set_env_filter)
  then have "filter (env_named k) ?r \<noteq> [] \<and> (\<forall>e \<in> set (filter (env_named k) ?r). ev_value e = v)"
    using new by (cases "list_ex (env_named k) env")
      (auto simp: new_env_def env_named_def list_ex_iff filter_empty_conv simp del: set_filter)
  with tail show ?case by (simp add: env_set_def)
qed (simp add: env_set_def)

lemma env_loop_fixed: "env_set kvs env \<Longrightarrow> env_loop kvs env [] = env"
proof (induction kvs)
  case (Cons kv kvs)
  obtain k v where kv: "kv = (k, v)" by (cases kv)
  have "set_env k v env = env"
    using Cons.prems kv by (auto simp: env_set_def set_env_def env_named_def intro!: map_idI)
  moreover have "list_ex (env_named k) env"
    using Cons.prems kv by (auto simp: env_set_def list_ex_iff filter_empty_conv)
  ultimately show ?case using Cons kv by (simp add: env_set_def)
qed simp

lemma range_order_distinct:
  assumes "range_order ord" "distinct (map fst kvs)"
  shows "distinct (map fst (ord kvs)) \<and> set (ord kvs) = set kvs"
proof -
  have d: "distinct kvs" using assms(2) by (simp add: distinct_map)
  with assms have "distinct (ord kvs)" "set (ord kvs) = set kvs" by (auto simp: range_order_def)
  moreover from this assms(2) have "inj_on fst (set (ord kvs))" by (simp add: distinct_map)
  ultimately show ?thesis by (simp add: distinct_map)
qed

section \<open>The contract of a pod mutator\<close>

text \<open>
  An edit of the Notebook that may fail. On the notebooks it is meant for (\<open>pre\<close>, a
  condition on the metadata) it keeps the metadata, establishes what it is for
  (\<open>settled\<close>), and leaves a settled Notebook exactly as it is; so it is idempotent. Two
  edits of which the second keeps what the first established compose to one.
\<close>

locale pod_mutator =
  fixes f :: "notebook \<Rightarrow> goerr + notebook"
    and pre :: "objmeta \<Rightarrow> bool"
    and settled :: "notebook \<Rightarrow> bool"
  assumes keeps_meta: "f nb = Inr nb' \<Longrightarrow> nb_meta nb' = nb_meta nb"
    and establishes: "pre (nb_meta nb) \<Longrightarrow> f nb = Inr nb' \<Longrightarrow> settled nb'"
    and fixed: "pre (nb_meta nb) \<Longrightarrow> settled nb \<Longrightarrow> f nb = Inr nb"
begin

lemma idempotent: "pre (nb_meta nb) \<Longrightarrow> f nb = Inr nb' \<Longrightarrow> f nb' = Inr nb'"
  using keeps_meta[of nb nb'] establishes[of nb nb'] fixed[of nb'] by simp

lemma settled_iff: "pre (nb_meta nb) \<Longrightarrow> settled nb \<longleftrightarrow> f nb = Inr nb"
  using establishes fixed by blast

end

locale compatible_mutators = first: pod_mutator f pre settled_f + second: pod_mutator g pre settled_g
  for f g pre settled_f settled_g +
  assumes keeps_first: "pre (nb_meta nb) \<Longrightarrow> settled_f nb \<Longrightarrow> g nb = Inr nb' \<Longrightarrow> settled_f nb'"

definition seq :: "('a \<Rightarrow> goerr + 'b) \<Rightarrow> ('b \<Rightarrow> goerr + 'c) \<Rightarrow> 'a \<Rightarrow> goerr + 'c" where
  "seq f g x = (case f x of Inl e \<Rightarrow> Inl e | Inr y \<Rightarrow> g y)"

sublocale compatible_mutators \<subseteq> both: pod_mutator "seq f g" pre "\<lambda>nb. settled_f nb \<and> settled_g nb"
proof
  fix nb nb'
  show "seq f g nb = Inr nb' \<Longrightarrow> nb_meta nb' = nb_meta nb"
    by (auto simp: seq_def split: sum.splits dest!: first.keeps_meta second.keeps_meta)
  show "pre (nb_meta nb) \<Longrightarrow> seq f g nb = Inr nb' \<Longrightarrow> settled_f nb' \<and> settled_g nb'"
    unfolding seq_def
    by (auto split: sum.splits intro: keeps_first second.establishes first.establishes
        dest: first.keeps_meta)
       (metis first.establishes first.keeps_meta keeps_first second.establishes)+
  show "pre (nb_meta nb) \<Longrightarrow> settled_f nb \<and> settled_g nb \<Longrightarrow> seq f g nb = Inr nb"
    by (simp add: seq_def first.fixed second.fixed)
qed

end
