(* ===== verification/PodMutation.thy ===== *)
theory PodMutation
  imports PodEdit NotebookCore
begin

text \<open>
  The mutations of the admission webhook on the pod of a Notebook:
  \<open>odh-notebook-controller/controllers/notebook_mutating_webhook.go\<close> (reconciliation lock,
  kube-rbac-proxy sidecar, CA bundle, cluster proxy variables, image of the image stream),
  \<open>notebook_feast_config.go\<close> and \<open>notebook_probe_timeout.go\<close>. Parsing a
  \<open>resource.Quantity\<close>, the order of Go's map ranges, the default TLS arguments and the choice
  among equally recent image items are parameters.
\<close>

section \<open>Constants\<close>

definition AnnotationInjectAuth :: string where [go_consts]:
  "AnnotationInjectAuth = ''notebooks.opendatahub.io/inject-auth''"
definition AnnotationUpdatePending :: string where [go_consts]:
  "AnnotationUpdatePending = ''notebooks.opendatahub.io/update-pending''"
definition AnnotationValueReconciliationLock :: string where [go_consts]:
  "AnnotationValueReconciliationLock = ''odh-notebook-controller-lock''"
definition ContainerNameKubeRbacProxy :: string where [go_consts]:
  "ContainerNameKubeRbacProxy = ''kube-rbac-proxy''"
definition KubeRbacProxyConfigVolumeName :: string where [go_consts]:
  "KubeRbacProxyConfigVolumeName = ''kube-rbac-proxy-config''"
definition KubeRbacProxyTLSCertsVolumeName :: string where [go_consts]:
  "KubeRbacProxyTLSCertsVolumeName = ''kube-rbac-proxy-tls-certificates''"
definition LastImageSelectionAnnotation :: string where [go_consts]:
  "LastImageSelectionAnnotation = ''notebooks.opendatahub.io/last-image-selection''"
definition WorkbenchImageNamespaceAnnotation :: string where [go_consts]:
  "WorkbenchImageNamespaceAnnotation = ''opendatahub.io/workbench-image-namespace''"
definition TrustedCAVolumeName :: string where [go_consts]:
  "TrustedCAVolumeName = ''trusted-ca''"
definition feastConfigVolumeName :: string where [go_consts]:
  "feastConfigVolumeName = ''odh-feast-config''"
definition OdhConfigMapName :: string where [go_consts]:
  "OdhConfigMapName = ''odh-trusted-ca-bundle''"
definition CaBundleCertKey :: string where [go_consts]:
  "CaBundleCertKey = ''ca-bundle.crt''"
definition WorkbenchTrustedCABundleName :: string where [go_consts]:
  "WorkbenchTrustedCABundleName = ''workbench-trusted-ca-bundle''"

section \<open>The reconciliation lock\<close>

definition InjectReconciliationLock :: "objmeta \<Rightarrow> objmeta" where
  "InjectReconciliationLock m = (case m_annotations m of
     Some f \<Rightarrow> with_annotations (Some (fmupd StoppedAnnotation AnnotationValueReconciliationLock f)) m
   | None \<Rightarrow> with_annotations (mlit [(StoppedAnnotation, AnnotationValueReconciliationLock)]) m)"

text \<open>\<open>ParseBool\<close>'s error is dropped: a value that is not a boolean is false.\<close>

definition KubeRbacProxyInjectionIsEnabled :: "objmeta \<Rightarrow> bool" where
  "KubeRbacProxyInjectionIsEnabled m \<longleftrightarrow>
     (if mget (m_annotations m) AnnotationInjectAuth \<noteq> []
      then (case ParseBool (mget (m_annotations m) AnnotationInjectAuth) of Some b \<Rightarrow> b | None \<Rightarrow> False)
      else False)"

section \<open>The resources of the sidecar\<close>

datatype sidecar_key = CpuRequest | MemoryRequest | CpuLimit | MemoryLimit

record resourceConfig =
  cpuRequest :: quantity
  memoryRequest :: quantity
  cpuLimit :: quantity
  memoryLimit :: quantity

fun sidecar_annotation :: "sidecar_key \<Rightarrow> string" where
  "sidecar_annotation CpuRequest = ''notebooks.opendatahub.io/auth-sidecar-cpu-request''"
| "sidecar_annotation MemoryRequest = ''notebooks.opendatahub.io/auth-sidecar-memory-request''"
| "sidecar_annotation CpuLimit = ''notebooks.opendatahub.io/auth-sidecar-cpu-limit''"
| "sidecar_annotation MemoryLimit = ''notebooks.opendatahub.io/auth-sidecar-memory-limit''"

fun set_quantity :: "sidecar_key \<Rightarrow> quantity \<Rightarrow> resourceConfig \<Rightarrow> resourceConfig" where
  "set_quantity CpuRequest q c = c\<lparr>cpuRequest := q\<rparr>"
| "set_quantity MemoryRequest q c = c\<lparr>memoryRequest := q\<rparr>"
| "set_quantity CpuLimit q c = c\<lparr>cpuLimit := q\<rparr>"
| "set_quantity MemoryLimit q c = c\<lparr>memoryLimit := q\<rparr>"

definition sidecar_keys :: "sidecar_key list" where
  "sidecar_keys = [CpuRequest, MemoryRequest, CpuLimit, MemoryLimit]"

definition MustParse :: "(string \<Rightarrow> goerr + quantity) \<Rightarrow> string \<Rightarrow> goerr + quantity" where
  "MustParse pq s = (case pq s of Inl e \<Rightarrow> Inl (Panic ''cannot parse'') | Inr q \<Rightarrow> Inr q)"

definition default_resources :: "(string \<Rightarrow> goerr + quantity) \<Rightarrow> goerr + resourceConfig" where
  "default_resources pq =
     seq (MustParse pq) (\<lambda>cr. seq (MustParse pq) (\<lambda>mr. seq (MustParse pq) (\<lambda>cl. seq (MustParse pq) (\<lambda>ml.
       Inr \<lparr>cpuRequest = cr, memoryRequest = mr, cpuLimit = cl, memoryLimit = ml\<rparr>)
       ''64Mi'') ''100m'') ''64Mi'') ''100m''"

text \<open>One turn of the loop over the four annotations.\<close>

definition parse_sidecar ::
  "(string \<Rightarrow> goerr + quantity) \<Rightarrow> smap \<Rightarrow> sidecar_key \<Rightarrow> resourceConfig \<Rightarrow> goerr + resourceConfig" where
  "parse_sidecar pq annotations k config = (
     let key = sidecar_annotation k; valStr = mget annotations key in
     if valStr = [] then Inr config
     else case pq (TrimSpace valStr) of
       Inl e \<Rightarrow> Inl (Wrap (''invalid value for annotation '' @ quoted key @ '': '' @ quoted valStr) e)
     | Inr val \<Rightarrow> if q_nanos val < 0 then Inl (Errorf (''annotation '' @ quoted key @ '' value '' @ quoted valStr @ '' cannot be negative''))
                 else Inr (set_quantity k val config))"

fun parse_sidecars ::
  "(string \<Rightarrow> goerr + quantity) \<Rightarrow> smap \<Rightarrow> sidecar_key list \<Rightarrow> resourceConfig \<Rightarrow> goerr + resourceConfig" where
  "parse_sidecars pq annotations [] config = Inr config"
| "parse_sidecars pq annotations (k # ks) config =
     (case parse_sidecar pq annotations k config of Inl e \<Rightarrow> Inl e | Inr c \<Rightarrow> parse_sidecars pq annotations ks c)"

definition parseAndValidateAuthSidecarResources ::
  "(string \<Rightarrow> goerr + quantity) \<Rightarrow> (sidecar_key list \<Rightarrow> sidecar_key list) \<Rightarrow> notebook \<Rightarrow> goerr + resourceConfig" where
  "parseAndValidateAuthSidecarResources pq ord nb = (case default_resources pq of
     Inl e \<Rightarrow> Inl e
   | Inr config \<Rightarrow>
       if nb_annotations nb = None then Inr config
       else case parse_sidecars pq (nb_annotations nb) (ord sidecar_keys) config of
         Inl e \<Rightarrow> Inl e
       | Inr c \<Rightarrow>
           if q_nanos (cpuRequest c) > q_nanos (cpuLimit c)
           then Inl (Errorf (''CPU request ('' @ q_text (cpuRequest c) @ '') cannot be greater than CPU limit ('' @ q_text (cpuLimit c) @ '')''))
           else if q_nanos (memoryRequest c) > q_nanos (memoryLimit c)
           then Inl (Errorf (''memory request ('' @ q_text (memoryRequest c) @ '') cannot be greater than memory limit ('' @ q_text (memoryLimit c) @ '')''))
           else Inr c)"

section \<open>The sidecar\<close>

record KubeRbacProxyConfig =
  ProxyImage :: string
  TLSArgs :: "string list option"

definition proxy_args :: "string list \<Rightarrow> string list" where
  "proxy_args tlsArgs =
     [''--secure-listen-address=0.0.0.0:'' @ Itoa 8443,
      ''--upstream=http://127.0.0.1:'' @ Itoa 8888 @ ''/'',
      ''--logtostderr=true'',
      ''--v=0'',
      ''--proxy-endpoints-port='' @ Itoa 8444,
      ''--config-file=/etc/kube-rbac-proxy/config-file.yaml'',
      ''--tls-cert-file=/etc/tls/private/tls.crt'',
      ''--tls-private-key-file=/etc/tls/private/tls.key'',
      ''--auth-header-fields-enabled=true'',
      ''--auth-header-user-field-name=X-Auth-Request-User'',
      ''--auth-header-groups-field-name=X-Auth-Request-Groups''] @ tlsArgs"

definition healthz :: "int32 \<Rightarrow> probe" where
  "healthz delay = \<lparr>pr_path = ''/healthz'', pr_port = 8444, pr_scheme = ''HTTPS'', pr_initialDelay = delay,
     pr_timeout = 1, pr_period = 5, pr_success = 1, pr_failure = 3, pr_rest = []\<rparr>"

definition proxy_container :: "string \<Rightarrow> string list \<Rightarrow> resourceConfig \<Rightarrow> container" where
  "proxy_container img args c = \<lparr>c_name = ContainerNameKubeRbacProxy, c_image = img,
     c_pullPolicy = ''Always'', c_args = args, c_workingDir = [],
     c_ports = Some [\<lparr>cp_name = ''kube-rbac-proxy'', cp_containerPort = 8443, cp_protocol = ''TCP''\<rparr>],
     c_env = [],
     c_resources = \<lparr>rs_requests = [(''cpu'', cpuRequest c), (''memory'', memoryRequest c)],
                    rs_limits = [(''cpu'', cpuLimit c), (''memory'', memoryLimit c)]\<rparr>,
     c_volumeMounts = [plain_mount KubeRbacProxyConfigVolumeName ''/etc/kube-rbac-proxy'' False,
                       plain_mount KubeRbacProxyTLSCertsVolumeName ''/etc/tls/private'' False],
     c_liveness = Some (healthz 30), c_readiness = Some (healthz 5), c_securityContext = None, c_rest = []\<rparr>"

definition put_container :: "container \<Rightarrow> notebook \<Rightarrow> notebook" where
  "put_container c nb = with_containers (put_first (named (c_name c)) c (nb_containers nb)) nb"

definition proxy_config_volume :: "notebook \<Rightarrow> volume" where
  "proxy_config_volume nb = configmap_volume KubeRbacProxyConfigVolumeName
     (nb_name nb @ ''-kube-rbac-proxy-config'') None (Some 420)"

definition proxy_tls_volume :: "notebook \<Rightarrow> volume" where
  "proxy_tls_volume nb = secret_volume KubeRbacProxyTLSCertsVolumeName (nb_name nb @ ''-kube-rbac-proxy-tls'') None (Some 420)"

text \<open>
  \<open>InjectKubeRbacProxy\<close>; \<open>intermediate\<close> stands for \<open>intermediateKubeRbacProxyTLS()\<close>, the
  arguments used when the configuration has none.
\<close>

definition InjectKubeRbacProxy ::
  "(string \<Rightarrow> goerr + quantity) \<Rightarrow> (sidecar_key list \<Rightarrow> sidecar_key list) \<Rightarrow> goerr + string list \<Rightarrow>
    KubeRbacProxyConfig \<Rightarrow> notebook \<Rightarrow> goerr + notebook" where
  "InjectKubeRbacProxy pq ord intermediate cfg nb =
     (case parseAndValidateAuthSidecarResources pq ord nb of
        Inl e \<Rightarrow> Inl (Wrap ''invalid kube-rbac-proxy resource configuration'' e)
      | Inr config \<Rightarrow> (case (case TLSArgs cfg of
            None \<Rightarrow> (case intermediate of Inl e \<Rightarrow> Inl (Wrap ''resolving kube-rbac-proxy TLS settings'' e)
                                       | Inr args \<Rightarrow> Inr args)
          | Some args \<Rightarrow> Inr args) of
          Inl e \<Rightarrow> Inl e
        | Inr tlsArgs \<Rightarrow> Inr (with_serviceAccount (nb_name nb)
            (put_volume (proxy_tls_volume nb) (put_volume (proxy_config_volume nb)
              (put_container (proxy_container (ProxyImage cfg) (proxy_args tlsArgs) config) nb))))))"

section \<open>Cluster proxy variables\<close>

text \<open>
  The three variables are the whole of \<open>proxyEnvVars\<close> when it is used: they are
  overwritten together just before.
\<close>

definition ClusterWideProxyIsEnabled :: "'s env \<Rightarrow> ('s, (string \<times> string) list option) handler" where
  "ClusterWideProxyIsEnabled E = do {
     r \<leftarrow> ListIn E KProxy to_proxy None None;
     return_h (case r of Inl _ \<Rightarrow> None
       | Inr items \<Rightarrow> map_option (\<lambda>p. [(''HTTP_PROXY'', px_http p), (''HTTPS_PROXY'', px_https p),
                                        (''NO_PROXY'', px_noProxy p)])
           (find (\<lambda>p. m_name (px_meta p) = ''cluster'' \<and> px_http p \<noteq> [] \<and> px_https p \<noteq> [] \<and> px_noProxy p \<noteq> []) items))
   }"

definition inject_env :: "(string \<times> string) list \<Rightarrow> container \<Rightarrow> container" where
  "inject_env kvs c = c\<lparr>c_env := env_loop kvs (c_env c) []\<rparr>"

definition InjectProxyConfigEnvVars ::
  "((string \<times> string) list \<Rightarrow> (string \<times> string) list) \<Rightarrow> (string \<times> string) list \<Rightarrow> notebook \<Rightarrow> notebook" where
  "InjectProxyConfigEnvVars ord vars nb = edit_container (nb_name nb) (inject_env (ord vars)) nb"

section \<open>The CA bundle\<close>

definition cert_env_vars :: "(string \<times> string) list" where
  "cert_env_vars = map (\<lambda>k. (k, ''/etc/pki/tls/custom-certs/ca-bundle.crt''))
     [''PIP_CERT'', ''REQUESTS_CA_BUNDLE'', ''SSL_CERT_FILE'', ''PIPELINES_SSL_SA_CERTS'',
      ''KF_PIPELINES_SSL_SA_CERTS'', ''GIT_SSL_CAINFO'']"

definition cert_mount :: volmount where
  "cert_mount = plain_mount TrustedCAVolumeName ''/etc/pki/tls/custom-certs'' True"

definition cert_volume :: "string \<Rightarrow> volume" where
  "cert_volume cm = configmap_volume TrustedCAVolumeName cm (Some True) None"

text \<open>Its error, a container that vanished between two loops, cannot occur.\<close>

definition InjectCertConfig ::
  "((string \<times> string) list \<Rightarrow> (string \<times> string) list) \<Rightarrow> string \<Rightarrow> notebook \<Rightarrow> notebook" where
  "InjectCertConfig ord cm nb =
     edit_container (nb_name nb) (\<lambda>c. put_mount cert_mount (inject_env (ord cert_env_vars) c))
       (put_volume (cert_volume cm) nb)"

definition workbench_bundle :: "string \<Rightarrow> smap \<Rightarrow> configmap" where
  "workbench_bundle ns data = \<lparr>cm_meta = empty_meta\<lparr>m_name := WorkbenchTrustedCABundleName, m_namespace := ns,
     m_labels := mlit [(''opendatahub.io/managed-by'', ''workbenches'')]\<rparr>,
     cm_data = mlit [(CaBundleCertKey, mget data CaBundleCertKey)], cm_rest = []\<rparr>"

definition CheckAndMountCACertBundle ::
  "'s env \<Rightarrow> ((string \<times> string) list \<Rightarrow> (string \<times> string) list) \<Rightarrow> notebook \<Rightarrow> ('s, notebook) handler" where
  "CheckAndMountCACertBundle E ord nb = do {
     odh \<leftarrow> Get E KConfigMap to_configmap (nb_ns nb, OdhConfigMapName);
     case odh of
       Inl _ \<Rightarrow> return_h nb
     | Inr odhConfigMap \<Rightarrow> do {
         wb \<leftarrow> Get E KConfigMap to_configmap (nb_ns nb, WorkbenchTrustedCABundleName);
         created \<leftarrow> (case wb of
            Inr cm \<Rightarrow> return_h (Inr cm)
          | Inl _ \<Rightarrow> Create E to_configmap (OConfigMap (workbench_bundle (nb_ns nb) (cm_data odhConfigMap))));
         return_h (case created of
            Inl _ \<Rightarrow> nb
          | Inr cm \<Rightarrow> if m_name (cm_meta cm) = WorkbenchTrustedCABundleName
                     then InjectCertConfig ord WorkbenchTrustedCABundleName nb else nb)
       }
   }"

section \<open>The image of the image stream\<close>

text \<open>
  The loop over the containers of \<open>SetContainerImageFromRegistry\<close>, by index, with the Notebook
  it mutates: each container with the Notebook's name is handled; the image is written to
  the first container, the \<open>JUPYTER_IMAGE\<close> variable to the one at hand.
\<close>

definition set_jupyter_image :: "string \<Rightarrow> container \<Rightarrow> container" where
  "set_jupyter_image sel c = c\<lparr>c_env := update_first (env_named ''JUPYTER_IMAGE'') (\<lambda>e. e\<lparr>ev_value := sel\<rparr>) (c_env c)\<rparr>"

definition apply_image :: "nat \<Rightarrow> string \<Rightarrow> string \<Rightarrow> notebook \<Rightarrow> notebook" where
  "apply_image i sel img nb = (
     let cs = nb_containers nb; cs1 = cs[0 := (cs ! 0)\<lparr>c_image := img\<rparr>]
     in with_containers (cs1[i := set_jupyter_image sel (cs1 ! i)]) nb)"

definition select_tag :: "(tagitem list \<Rightarrow> tagitem) \<Rightarrow> string \<Rightarrow> (string \<times> tagitem list) list \<Rightarrow> string option" where
  "select_tag newest tag tags = map_option (\<lambda>t. ti_reference (newest (snd t)))
     (find (\<lambda>t. fst t = tag \<and> snd t \<noteq> []) tags)"

definition image_namespace :: "smap \<Rightarrow> string \<Rightarrow> string" where
  "image_namespace annotations controllerNamespace = (case mlookup annotations WorkbenchImageNamespaceAnnotation of
     None \<Rightarrow> controllerNamespace
   | Some n \<Rightarrow> if TrimSpace n = [] then controllerNamespace else n)"

fun image_loop ::
  "'s env \<Rightarrow> (tagitem list \<Rightarrow> tagitem) \<Rightarrow> string \<Rightarrow> string \<Rightarrow> nat list \<Rightarrow> bool \<Rightarrow> notebook \<Rightarrow> ('s, notebook) ehandler" where
  "image_loop E newest sel ns [] found nb =
     (if found then ok nb else fail (Errorf (''no container found matching the notebook name '' @ nb_name nb)))"
| "image_loop E newest sel ns (i # is) found nb = (
     if c_name (nb_containers nb ! i) \<noteq> nb_name nb then image_loop E newest sel ns is found nb
     else if Contains (c_image (nb_containers nb ! i)) ''image-registry.openshift-image-registry.svc:5000'' then ok nb
     else case split_at_byte CHR '':'' sel of
       [stream, tag] \<Rightarrow> do {
         r \<leftarrow> Get E KImageStream to_imagestream (ns, stream);
         case r of
           Inl _ \<Rightarrow> image_loop E newest sel ns is True nb
         | Inr st \<Rightarrow> (case is_statusTags st of
             None \<Rightarrow> fail (Errorf ''ImageStream has no status or tags'')
           | Some tags \<Rightarrow> (case select_tag newest tag tags of
               None \<Rightarrow> image_loop E newest sel ns is True nb
             | Some img \<Rightarrow> image_loop E newest sel ns is True (apply_image i sel img nb)))
       }
     | _ \<Rightarrow> fail (Errorf ''invalid image selection format''))"

definition SetContainerImageFromRegistry ::
  "'s env \<Rightarrow> (tagitem list \<Rightarrow> tagitem) \<Rightarrow> string \<Rightarrow> notebook \<Rightarrow> ('s, notebook) ehandler" where
  "SetContainerImageFromRegistry E newest controllerNamespace nb =
     (case mlookup (nb_annotations nb) LastImageSelectionAnnotation of
        None \<Rightarrow> ok nb
      | Some sel \<Rightarrow> image_loop E newest sel (image_namespace (nb_annotations nb) controllerNamespace)
          [0..<length (nb_containers nb)] False nb)"

section \<open>Feast\<close>

definition isFeastEnabled :: "notebook \<Rightarrow> bool" where
  "isFeastEnabled nb \<longleftrightarrow> (if m_labels (nb_meta nb) = None then False
     else mget (m_labels (nb_meta nb)) ''opendatahub.io/feast-integration'' = trueString)"

definition isFeastMounted :: "notebook \<Rightarrow> bool" where
  "isFeastMounted nb \<longleftrightarrow> list_ex (vol_named feastConfigVolumeName) (nb_volumes nb)"

definition feast_mount :: volmount where
  "feast_mount = plain_mount feastConfigVolumeName ''/opt/app-root/src/feast-config'' True"

definition feast_volume :: "string \<Rightarrow> volume" where
  "feast_volume cm = configmap_volume feastConfigVolumeName cm None None"

text \<open>The volume is there before the container is looked for, and stays when there is none.\<close>

definition mountFeastConfig :: "string \<Rightarrow> notebook \<Rightarrow> goerr option \<times> notebook" where
  "mountFeastConfig cm nb = (
     let nb1 = put_volume (feast_volume cm) nb in
     if list_ex (named (nb_name nb)) (nb_containers nb1)
     then (None, edit_container (nb_name nb) (put_mount feast_mount) nb1)
     else (Some (Errorf (''notebook image container not found '' @ nb_name nb)), nb1))"

definition unmountFeastConfig :: "notebook \<Rightarrow> notebook" where
  "unmountFeastConfig nb =
     edit_container (nb_name nb)
       (\<lambda>c. c\<lparr>c_volumeMounts := delete_first (mount_named feastConfigVolumeName) (c_volumeMounts c)\<rparr>)
       (with_volumes (delete_first (vol_named feastConfigVolumeName) (nb_volumes nb)) nb)"

definition NewFeastConfig :: "notebook \<Rightarrow> goerr option \<times> notebook" where
  "NewFeastConfig nb = (case mountFeastConfig (nb_name nb @ ''-feast-config'') nb of
     (None, nb') \<Rightarrow> (None, nb')
   | (Some e, nb') \<Rightarrow> (Some (Wrap ''error mounting Feast config volume'' e), nb'))"

section \<open>Probe timeouts\<close>

text \<open>
  The read is attempted three times in all, a NotFound ends it. The request context is taken
  to be live.
\<close>

definition readWorkbenchProbeTimeout :: "'s env \<Rightarrow> string \<Rightarrow> ('s, int32 \<times> bool) ehandler" where
  "readWorkbenchProbeTimeout E namespace = do {
     r \<leftarrow> retry_on 2 (\<lambda>e. \<not> IsNotFound e)
            (Get E KConfigMap to_configmap (namespace, ''notebook-controller-setting-config''));
     case r of
       Inl e \<Rightarrow> if IsNotFound e then ok (0, False) else fail (Wrap ''read ConfigMap'' e)
     | Inr cm \<Rightarrow> (case mlookup (cm_data cm) ''WORKBENCH_PROBE_TIMEOUT_SECONDS'' of
         None \<Rightarrow> ok (0, False)
       | Some raw \<Rightarrow> (case ParseInt 32 raw of
           None \<Rightarrow> fail (Errorf ''must be a positive int32'')
         | Some parsed \<Rightarrow> if parsed \<le> 0 then fail (Errorf ''must be a positive int32'')
                         else ok (word_of_int parsed, True)))
   }"

definition applyProbeTimeout :: "string \<Rightarrow> int32 \<Rightarrow> notebook \<Rightarrow> notebook" where
  "applyProbeTimeout name t nb = edit_container name (\<lambda>c. c\<lparr>
     c_liveness := map_option (\<lambda>p. p\<lparr>pr_timeout := t\<rparr>) (c_liveness c),
     c_readiness := map_option (\<lambda>p. p\<lparr>pr_timeout := t\<rparr>) (c_readiness c)\<rparr>) nb"

section \<open>The mutations as mutators\<close>

lemma inject_env_simps [simp]:
  "c_name (inject_env kvs c) = c_name c" "c_volumeMounts (inject_env kvs c) = c_volumeMounts c"
  "c_image (inject_env kvs c) = c_image c" "c_env (inject_env kvs c) = env_loop kvs (c_env c) []"
  by (simp_all add: inject_env_def)

lemma inject_env_fixed: "env_set kvs (c_env c) \<Longrightarrow> inject_env kvs c = c"
  by (simp add: inject_env_def env_loop_fixed)

lemma cert_vars_distinct: "distinct (map fst cert_env_vars)"
  by (simp add: cert_env_vars_def)

text \<open>What each mutation is for, as a condition on the Notebook.\<close>

definition cert_settled :: "string \<Rightarrow> notebook \<Rightarrow> bool" where
  "cert_settled cm nb \<longleftrightarrow> find (vol_named TrustedCAVolumeName) (nb_volumes nb) = Some (cert_volume cm) \<and>
     (\<forall>c. find (named (nb_name nb)) (nb_containers nb) = Some c \<longrightarrow>
        find (mount_named TrustedCAVolumeName) (c_volumeMounts c) = Some cert_mount \<and> env_set cert_env_vars (c_env c))"

definition feast_settled :: "notebook \<Rightarrow> bool" where
  "feast_settled nb \<longleftrightarrow>
     find (vol_named feastConfigVolumeName) (nb_volumes nb) = Some (feast_volume (nb_name nb @ ''-feast-config'')) \<and>
     (\<exists>c. find (named (nb_name nb)) (nb_containers nb) = Some c \<and>
        find (mount_named feastConfigVolumeName) (c_volumeMounts c) = Some feast_mount)"

definition proxy_settled ::
  "(string \<Rightarrow> goerr + quantity) \<Rightarrow> (sidecar_key list \<Rightarrow> sidecar_key list) \<Rightarrow> goerr + string list \<Rightarrow>
    KubeRbacProxyConfig \<Rightarrow> notebook \<Rightarrow> bool" where
  "proxy_settled pq ord intermediate cfg nb \<longleftrightarrow> (\<exists>config args.
     parseAndValidateAuthSidecarResources pq ord nb = Inr config \<and>
     (case TLSArgs cfg of None \<Rightarrow> intermediate = Inr args | Some a \<Rightarrow> a = args) \<and>
     find (named ContainerNameKubeRbacProxy) (nb_containers nb) =
       Some (proxy_container (ProxyImage cfg) (proxy_args args) config) \<and>
     find (vol_named KubeRbacProxyConfigVolumeName) (nb_volumes nb) = Some (proxy_config_volume nb) \<and>
     find (vol_named KubeRbacProxyTLSCertsVolumeName) (nb_volumes nb) = Some (proxy_tls_volume nb) \<and>
     ps_serviceAccountName (nb_podspec nb) = nb_name nb)"

lemma with_serviceAccount_same: "ps_serviceAccountName (nb_podspec nb) = s \<Longrightarrow> with_serviceAccount s nb = nb"
  by (auto simp: with_serviceAccount_def)

lemma with_serviceAccount_name [simp]: "ps_serviceAccountName (nb_podspec (with_serviceAccount s nb)) = s"
  by (simp add: with_serviceAccount_def)

lemma volume_names [simp]:
  "v_name (configmap_volume n cm opt mode) = n" "v_name (secret_volume n s opt mode) = n"
  "vm_name (plain_mount n path ro) = n" "v_name (cert_volume cm) = TrustedCAVolumeName"
  "v_name (feast_volume cm) = feastConfigVolumeName" "vm_name cert_mount = TrustedCAVolumeName"
  "vm_name feast_mount = feastConfigVolumeName"
  "v_name (proxy_config_volume nb) = KubeRbacProxyConfigVolumeName"
  "v_name (proxy_tls_volume nb) = KubeRbacProxyTLSCertsVolumeName"
  "c_name (proxy_container img args c) = ContainerNameKubeRbacProxy"
  by (simp_all add: configmap_volume_def secret_volume_def plain_mount_def cert_volume_def feast_volume_def
      cert_mount_def feast_mount_def proxy_config_volume_def proxy_tls_volume_def proxy_container_def)

lemma volume_name_neqs [simp]:
  "TrustedCAVolumeName \<noteq> feastConfigVolumeName" "feastConfigVolumeName \<noteq> TrustedCAVolumeName"
  "TrustedCAVolumeName \<noteq> KubeRbacProxyConfigVolumeName" "TrustedCAVolumeName \<noteq> KubeRbacProxyTLSCertsVolumeName"
  "feastConfigVolumeName \<noteq> KubeRbacProxyConfigVolumeName" "feastConfigVolumeName \<noteq> KubeRbacProxyTLSCertsVolumeName"
  "KubeRbacProxyConfigVolumeName \<noteq> KubeRbacProxyTLSCertsVolumeName"
  "KubeRbacProxyTLSCertsVolumeName \<noteq> KubeRbacProxyConfigVolumeName"
  by (simp_all add: go_consts)

lemma find_edit [simp]:
  "(\<And>c. c_name (f c) = c_name c) \<Longrightarrow>
    find (named n) (update_first (named n) f cs) = map_option f (find (named n) cs)"
  by (rule find_update_first) (simp add: named_def)

lemma find_put_mount_other:
  "n \<noteq> vm_name m \<Longrightarrow> find (mount_named n) (put_first (mount_named (vm_name m)) m ms) = find (mount_named n) ms"
  by (auto simp: mount_named_def intro!: put_first_find_other)

lemma find_put_mount: "find (mount_named (vm_name m)) (put_first (mount_named (vm_name m)) m ms) = Some m"
  by (simp add: put_first_find mount_named_def)

lemma env_set_order: "set kvs = set kvs' \<Longrightarrow> env_set kvs env = env_set kvs' env"
  by (simp add: env_set_def)

text \<open>
  The notebooks the webhook's edits are meant for: the range order only reorders, and the
  Notebook is not called like the sidecar (whose container would replace its own).
\<close>

definition mutable :: "((string \<times> string) list \<Rightarrow> (string \<times> string) list) \<Rightarrow> objmeta \<Rightarrow> bool" where
  "mutable ord m \<longleftrightarrow> range_order ord \<and> m_name m \<noteq> ContainerNameKubeRbacProxy"

lemma InjectCertConfig_settles:
  assumes "range_order ord"
  shows "cert_settled cm (InjectCertConfig ord cm nb)"
proof -
  have d: "distinct (map fst (ord cert_env_vars))" "set (ord cert_env_vars) = set cert_env_vars"
    using range_order_distinct[OF assms cert_vars_distinct] by auto
  have env: "env_set cert_env_vars (env_loop (ord cert_env_vars) env [])" for env
    using env_loop_sets[OF d(1), of "[]" env] env_set_order[OF d(2)] by simp
  have vol: "find (vol_named TrustedCAVolumeName) (put_first (vol_named TrustedCAVolumeName) (cert_volume cm) vs) =
      Some (cert_volume cm)" for vs
    by (rule put_first_find) (simp add: vol_named_def)
  have mount: "find (mount_named TrustedCAVolumeName) (put_first (mount_named TrustedCAVolumeName) cert_mount ms) =
      Some cert_mount" for ms
    by (rule put_first_find) (simp add: mount_named_def)
  show ?thesis
    unfolding cert_settled_def InjectCertConfig_def
    by (auto simp: vol mount env)
qed

lemma InjectCertConfig_fixed:
  assumes "range_order ord" "cert_settled cm nb"
  shows "InjectCertConfig ord cm nb = nb"
proof -
  have d: "set (ord cert_env_vars) = set cert_env_vars"
    using range_order_distinct[OF assms(1) cert_vars_distinct] by auto
  have v: "put_volume (cert_volume cm) nb = nb"
    using assms(2) by (intro put_volume_fixed) (simp add: cert_settled_def)
  have "put_mount cert_mount (inject_env (ord cert_env_vars) c) = c"
    if "find (named (nb_name nb)) (nb_containers nb) = Some c" for c
  proof -
    from assms(2) that have c: "find (mount_named TrustedCAVolumeName) (c_volumeMounts c) = Some cert_mount"
      "env_set (ord cert_env_vars) (c_env c)"
      by (auto simp: cert_settled_def env_set_order[OF d])
    then show ?thesis by (simp add: inject_env_fixed put_mount_fixed)
  qed
  then show ?thesis unfolding InjectCertConfig_def v by (rule edit_container_fixed)
qed

interpretation cert: pod_mutator "\<lambda>nb. Inr (InjectCertConfig ord cm nb)" "mutable ord" "cert_settled cm" for ord cm
  by unfold_locales
     (auto simp: mutable_def InjectCertConfig_settles InjectCertConfig_fixed, simp add: InjectCertConfig_def)

text \<open>Feast's mounting as an edit: the error, or the Notebook.\<close>

definition feast_edit :: "notebook \<Rightarrow> goerr + notebook" where
  "feast_edit nb = (case NewFeastConfig nb of (None, nb') \<Rightarrow> Inr nb' | (Some e, _) \<Rightarrow> Inl e)"

lemma feast_edit_Inr:
  "feast_edit nb = Inr nb' \<longleftrightarrow> list_ex (named (nb_name nb)) (nb_containers nb) \<and>
     nb' = edit_container (nb_name nb) (put_mount feast_mount) (put_volume (feast_volume (nb_name nb @ ''-feast-config'')) nb)"
  by (auto simp: feast_edit_def NewFeastConfig_def mountFeastConfig_def Let_def)

lemma list_ex_find: "list_ex p xs \<longleftrightarrow> (\<exists>x. find p xs = Some x)"
  by (induction xs) auto

interpretation feast: pod_mutator feast_edit "mutable ord" feast_settled for ord
proof
  fix nb nb'
  show "feast_edit nb = Inr nb' \<Longrightarrow> nb_meta nb' = nb_meta nb" by (simp add: feast_edit_Inr)
  have vol: "find (vol_named feastConfigVolumeName) (put_first (vol_named feastConfigVolumeName) (feast_volume cm) vs) =
      Some (feast_volume cm)" for cm vs
    by (rule put_first_find) (simp add: vol_named_def)
  have mount: "find (mount_named feastConfigVolumeName) (put_first (mount_named feastConfigVolumeName) feast_mount ms) =
      Some feast_mount" for ms
    by (rule put_first_find) (simp add: mount_named_def)
  show "mutable ord (nb_meta nb) \<Longrightarrow> feast_edit nb = Inr nb' \<Longrightarrow> feast_settled nb'"
    by (auto simp: feast_edit_Inr feast_settled_def list_ex_find vol mount)
  show "mutable ord (nb_meta nb) \<Longrightarrow> feast_settled nb \<Longrightarrow> feast_edit nb = Inr nb"
  proof -
    assume s: "feast_settled nb"
    have v: "put_volume (feast_volume (nb_name nb @ ''-feast-config'')) nb = nb"
      using s by (intro put_volume_fixed) (simp add: feast_settled_def)
    have "edit_container (nb_name nb) (put_mount feast_mount) nb = nb"
      using s by (intro edit_container_fixed put_mount_fixed) (auto simp: feast_settled_def)
    with v s show "feast_edit nb = Inr nb" by (auto simp: feast_edit_Inr list_ex_find feast_settled_def)
  qed
qed

lemma parse_meta_only:
  assumes "nb_meta nb' = nb_meta nb"
  shows "parseAndValidateAuthSidecarResources pq ord nb' = parseAndValidateAuthSidecarResources pq ord nb"
  unfolding parseAndValidateAuthSidecarResources_def assms ..

lemma volumes_meta_only:
  "nb_meta nb' = nb_meta nb \<Longrightarrow> proxy_config_volume nb' = proxy_config_volume nb"
  "nb_meta nb' = nb_meta nb \<Longrightarrow> proxy_tls_volume nb' = proxy_tls_volume nb"
  by (simp_all add: proxy_config_volume_def proxy_tls_volume_def)

lemma put_container_simps [simp]:
  "nb_meta (put_container c nb) = nb_meta nb" "nb_volumes (put_container c nb) = nb_volumes nb"
  "nb_containers (put_container c nb) = put_first (named (c_name c)) c (nb_containers nb)"
  by (simp_all add: put_container_def)

text \<open>The Notebook with the sidecar, for given arguments and resources.\<close>

definition with_proxy :: "string \<Rightarrow> string list \<Rightarrow> resourceConfig \<Rightarrow> notebook \<Rightarrow> notebook" where
  "with_proxy img args config nb = with_serviceAccount (nb_name nb)
     (put_volume (proxy_tls_volume nb) (put_volume (proxy_config_volume nb)
       (put_container (proxy_container img args config) nb)))"

lemma InjectKubeRbacProxy_Inr:
  "InjectKubeRbacProxy pq ord tlsd cfg nb = Inr nb' \<longleftrightarrow>
    (\<exists>config args. parseAndValidateAuthSidecarResources pq ord nb = Inr config \<and>
       (case TLSArgs cfg of None \<Rightarrow> tlsd = Inr args | Some a \<Rightarrow> a = args) \<and>
       nb' = with_proxy (ProxyImage cfg) (proxy_args args) config nb)"
  by (auto simp: InjectKubeRbacProxy_def with_proxy_def split: sum.splits option.splits)

lemma with_proxy_simps [simp]:
  "nb_meta (with_proxy img args config nb) = nb_meta nb"
  "nb_containers (with_proxy img args config nb) =
     put_first (named ContainerNameKubeRbacProxy) (proxy_container img args config) (nb_containers nb)"
  "ps_serviceAccountName (nb_podspec (with_proxy img args config nb)) = nb_name nb"
  by (simp_all add: with_proxy_def)

lemma with_proxy_volumes:
  "find (vol_named KubeRbacProxyConfigVolumeName) (nb_volumes (with_proxy img args config nb)) = Some (proxy_config_volume nb)"
  "find (vol_named KubeRbacProxyTLSCertsVolumeName) (nb_volumes (with_proxy img args config nb)) = Some (proxy_tls_volume nb)"
  "n \<noteq> KubeRbacProxyConfigVolumeName \<Longrightarrow> n \<noteq> KubeRbacProxyTLSCertsVolumeName \<Longrightarrow>
    find (vol_named n) (nb_volumes (with_proxy img args config nb)) = find (vol_named n) (nb_volumes nb)"
  by (auto simp: with_proxy_def vol_named_def put_first_find intro!: put_first_find_other[THEN trans] put_first_find)

lemma with_proxy_containers:
  "find (named ContainerNameKubeRbacProxy) (nb_containers (with_proxy img args config nb)) =
     Some (proxy_container img args config)"
  "n \<noteq> ContainerNameKubeRbacProxy \<Longrightarrow>
    find (named n) (nb_containers (with_proxy img args config nb)) = find (named n) (nb_containers nb)"
  by (auto simp: named_def put_first_find intro!: put_first_find_other)

lemma with_proxy_fixed:
  assumes "find (named ContainerNameKubeRbacProxy) (nb_containers nb) = Some (proxy_container img args config)"
    "find (vol_named KubeRbacProxyConfigVolumeName) (nb_volumes nb) = Some (proxy_config_volume nb)"
    "find (vol_named KubeRbacProxyTLSCertsVolumeName) (nb_volumes nb) = Some (proxy_tls_volume nb)"
    "ps_serviceAccountName (nb_podspec nb) = nb_name nb"
  shows "with_proxy img args config nb = nb"
proof -
  have "put_container (proxy_container img args config) nb = nb"
    using assms(1) by (simp add: put_container_def put_first_fixed)
  moreover have "put_volume (proxy_config_volume nb) nb = nb" "put_volume (proxy_tls_volume nb) nb = nb"
    using assms(2,3) by (simp_all add: put_volume_fixed)
  ultimately show ?thesis using assms(4) by (simp add: with_proxy_def with_serviceAccount_same)
qed

interpretation proxy: pod_mutator "InjectKubeRbacProxy pq sord tlsd cfg" "mutable ord" "proxy_settled pq sord tlsd cfg"
  for pq sord tlsd cfg ord
proof
  fix nb nb'
  show "InjectKubeRbacProxy pq sord tlsd cfg nb = Inr nb' \<Longrightarrow> nb_meta nb' = nb_meta nb"
    by (auto simp: InjectKubeRbacProxy_Inr)
  show "proxy_settled pq sord tlsd cfg nb'" if "InjectKubeRbacProxy pq sord tlsd cfg nb = Inr nb'"
  proof -
    from that obtain config args where i: "parseAndValidateAuthSidecarResources pq sord nb = Inr config"
      "case TLSArgs cfg of None \<Rightarrow> tlsd = Inr args | Some a \<Rightarrow> a = args"
      and nb': "nb' = with_proxy (ProxyImage cfg) (proxy_args args) config nb"
      unfolding InjectKubeRbacProxy_Inr by blast
    have m: "nb_meta nb' = nb_meta nb" by (simp add: nb')
    show ?thesis
      unfolding proxy_settled_def
    proof (intro exI[of _ config] exI[of _ args] conjI)
      show "parseAndValidateAuthSidecarResources pq sord nb' = Inr config" using i(1) parse_meta_only[OF m] by simp
      show "case TLSArgs cfg of None \<Rightarrow> tlsd = Inr args | Some a \<Rightarrow> a = args" by (rule i(2))
      show "find (named ContainerNameKubeRbacProxy) (nb_containers nb') =
          Some (proxy_container (ProxyImage cfg) (proxy_args args) config)"
        unfolding nb' by (rule with_proxy_containers)
      show "find (vol_named KubeRbacProxyConfigVolumeName) (nb_volumes nb') = Some (proxy_config_volume nb')"
        unfolding volumes_meta_only(1)[OF m] unfolding nb' by (rule with_proxy_volumes)
      show "find (vol_named KubeRbacProxyTLSCertsVolumeName) (nb_volumes nb') = Some (proxy_tls_volume nb')"
        unfolding volumes_meta_only(2)[OF m] unfolding nb' by (rule with_proxy_volumes)
      show "ps_serviceAccountName (nb_podspec nb') = nb_name nb'" using m by (simp add: nb')
    qed
  qed
  show "InjectKubeRbacProxy pq sord tlsd cfg nb = Inr nb" if "proxy_settled pq sord tlsd cfg nb"
    using that with_proxy_fixed unfolding InjectKubeRbacProxy_Inr proxy_settled_def by metis
qed

interpretation cert_feast: compatible_mutators "\<lambda>nb. Inr (InjectCertConfig ord cm nb)" feast_edit "mutable ord"
    "cert_settled cm" feast_settled for ord cm
  by unfold_locales
     (auto simp: feast_edit_Inr cert_settled_def find_update_first named_def find_put_volume_other
       find_put_mount_other intro!: put_first_find_other[THEN trans] simp: vol_named_def mount_named_def)

interpretation cert_feast_proxy: compatible_mutators
    "seq (\<lambda>nb. Inr (InjectCertConfig ord cm nb)) feast_edit" "InjectKubeRbacProxy pq sord tlsd cfg" "mutable ord"
    "\<lambda>nb. cert_settled cm nb \<and> feast_settled nb" "proxy_settled pq sord tlsd cfg" for ord cm pq sord tlsd cfg
  by unfold_locales
     (auto simp: InjectKubeRbacProxy_Inr cert_settled_def feast_settled_def mutable_def with_proxy_volumes
       with_proxy_containers simp del: with_proxy_simps(2))

end
