(* ===== verification/RuntimeImages.thy ===== *)
theory RuntimeImages
  imports PodMutation
begin

text \<open>
  \<open>odh-notebook-controller/controllers/notebook_runtime.go\<close>: the ConfigMap
  \<open>pipeline-runtime-images\<close>, made of the tags of the labelled image streams, and its mount
  into the containers of a Notebook. \<open>encoding/json\<close> is the environment's \<open>env_unmarshal\<close>
  and \<open>env_marshal\<close>; the decoding of the tree into Go's types is written out.
\<close>

definition runtimeImagesConfigMap :: string where [go_consts]:
  "runtimeImagesConfigMap = ''pipeline-runtime-images''"
definition runtimeImagesMountPath :: string where [go_consts]:
  "runtimeImagesMountPath = ''/opt/app-root/pipeline-runtimes/''"
definition runtimeImagesVolume :: string where [go_consts]:
  "runtimeImagesVolume = ''runtime-images''"

section \<open>Key names\<close>

text \<open>The bytes of the class \<open>[-._a-zA-Z0-9]\<close>; every byte of another rune is outside it.\<close>

definition key_char :: "char \<Rightarrow> bool" where
  "key_char c \<longleftrightarrow> c = CHR ''-'' \<or> c = CHR ''.'' \<or> c = CHR ''_'' \<or>
     (let n = (of_char c :: nat) in (97 \<le> n \<and> n \<le> 122) \<or> (65 \<le> n \<and> n \<le> 90) \<or> (48 \<le> n \<and> n \<le> 57))"

text \<open>\<open>ReplaceAllString\<close> of a run of bytes satisfying \<open>p\<close> by one dash; \<open>b\<close>: inside a run.\<close>

fun dash_runs :: "(char \<Rightarrow> bool) \<Rightarrow> bool \<Rightarrow> string \<Rightarrow> string" where
  "dash_runs p b [] = []"
| "dash_runs p b (c # s) =
     (if p c then (if b then dash_runs p True s else CHR ''-'' # dash_runs p True s)
      else c # dash_runs p False s)"

definition TrimDash :: "string \<Rightarrow> string" where
  "TrimDash s = rev (dropWhile (\<lambda>c. c = CHR ''-'') (rev (dropWhile (\<lambda>c. c = CHR ''-'') s)))"

definition formatKeyName :: "string \<Rightarrow> string" where
  "formatKeyName displayName = (
     let s1 = dash_runs (\<lambda>c. \<not> key_char c) False (ToLower displayName);
         s2 = dash_runs (\<lambda>c. c = CHR ''-'') False s1;
         s3 = TrimDash s2
     in if s3 = [] then [] else s3 @ ''.json'')"

section \<open>Metadata\<close>

text \<open>\<open>json.Unmarshal\<close> into \<open>map[string]interface{}\<close>: an object, or \<open>null\<close> for the nil map.\<close>

fun as_json_map :: "jvalue \<Rightarrow> (string, jvalue) fmap option option" where
  "as_json_map (JMap m) = Some (Some m)"
| "as_json_map JNull = Some None"
| "as_json_map _ = None"

definition json_get :: "(string, jvalue) fmap option \<Rightarrow> string \<Rightarrow> jvalue" where
  "json_get m k = (case m of None \<Rightarrow> JNull | Some f \<Rightarrow> (case fmlookup f k of None \<Rightarrow> JNull | Some v \<Rightarrow> v))"

definition json_of_map :: "(string, jvalue) fmap option \<Rightarrow> jvalue" where
  "json_of_map m = (case m of None \<Rightarrow> JNull | Some f \<Rightarrow> JMap f)"

fun as_map_array :: "jvalue \<Rightarrow> (string, jvalue) fmap option list option" where
  "as_map_array (JList vs) = those (map as_json_map vs)"
| "as_map_array JNull = Some []"
| "as_map_array _ = None"

definition parseRuntimeImageMetadata :: "'s env \<Rightarrow> string \<Rightarrow> string \<Rightarrow> string" where
  "parseRuntimeImageMetadata E rawJSON imageUrl =
     (case Option.bind (env_unmarshal E rawJSON) as_map_array of
        None \<Rightarrow> ''{}''
      | Some [] \<Rightarrow> ''{}''
      | Some (m # _) \<Rightarrow> env_marshal E (case json_get m ''metadata'' of
            JMap metadata \<Rightarrow>
              json_of_map (map_option (fmupd ''metadata'' (JMap (fmupd ''image_name'' (JStr imageUrl) metadata))) m)
          | _ \<Rightarrow> json_of_map m))"

definition extractDisplayName :: "'s env \<Rightarrow> string \<Rightarrow> string" where
  "extractDisplayName E metadata = (case Option.bind (env_unmarshal E metadata) as_json_map of
     None \<Rightarrow> []
   | Some m \<Rightarrow> (case json_get m ''display_name'' of JStr s \<Rightarrow> s | _ \<Rightarrow> []))"

section \<open>The ConfigMap\<close>

text \<open>One turn of the inner loop: the entry of a tag, if it has one.\<close>

definition tag_entry :: "'s env \<Rightarrow> spectag \<Rightarrow> (string \<times> string) option" where
  "tag_entry E tag = (
     let metadataRaw = (if mget (stag_annotations tag) ''opendatahub.io/runtime-image-metadata'' = []
           then ''[]'' else mget (stag_annotations tag) ''opendatahub.io/runtime-image-metadata'')
     in case stag_from tag of
          None \<Rightarrow> None
        | Some imageURL \<Rightarrow>
            if imageURL = [] then None
            else let metadataParsed = parseRuntimeImageMetadata E metadataRaw imageURL;
                     displayName = extractDisplayName E metadataParsed
                 in if displayName = [] then None
                    else if formatKeyName displayName = [] then None
                    else Some (formatKeyName displayName, metadataParsed))"

definition is_runtime_stream :: "imagestream \<Rightarrow> bool" where
  "is_runtime_stream st \<longleftrightarrow> mget (m_labels (is_meta st)) ''opendatahub.io/runtime-image'' = trueString"

definition runtime_entries :: "'s env \<Rightarrow> imagestream list \<Rightarrow> (string \<times> string) list" where
  "runtime_entries E streams =
     concat (map (\<lambda>st. List.map_filter (tag_entry E) (is_specTags st)) (filter is_runtime_stream streams))"

text \<open>A later entry of the same key overwrites an earlier one.\<close>

definition runtime_data :: "'s env \<Rightarrow> imagestream list \<Rightarrow> (string, string) fmap" where
  "runtime_data E streams = fold (\<lambda>(k, v) m. fmupd k v m) (runtime_entries E streams) fmempty"

definition getRuntimeConfigMap :: "'s env \<Rightarrow> string \<Rightarrow> string \<Rightarrow> ('s, configmap option) ehandler" where
  "getRuntimeConfigMap E name ns = do {
     r \<leftarrow> Get E KConfigMap to_configmap (ns, name);
     (case r of
        Inl e \<Rightarrow> if IsNotFound e then ok None else fail e
      | Inr cm \<Rightarrow> ok (Some cm))
   }"

definition runtime_configmap :: "string \<Rightarrow> (string, string) fmap \<Rightarrow> configmap" where
  "runtime_configmap ns data = \<lparr>cm_meta = empty_meta\<lparr>m_name := runtimeImagesConfigMap, m_namespace := ns,
     m_labels := mlit [(''opendatahub.io/managed-by'', ''workbenches'')]\<rparr>,
     cm_data = Some data, cm_rest = []\<rparr>"

definition SyncRuntimeImagesConfigMap :: "'s env \<Rightarrow> string \<Rightarrow> string \<Rightarrow> ('s, unit) ehandler" where
  "SyncRuntimeImagesConfigMap E notebookNamespace controllerNamespace =
     check (ListIn E KImageStream to_imagestream (Some controllerNamespace) None) (\<lambda>streams.
     check (getRuntimeConfigMap E runtimeImagesConfigMap notebookNamespace) (\<lambda>existing.
       let data = runtime_data E streams in
       if fmdom data = {||} then ok ()
       else (case existing of
         Some cm \<Rightarrow>
           if cm_data cm = Some data then ok ()
           else check (Update E to_configmap (OConfigMap (cm\<lparr>cm_data := Some data\<rparr>))) (\<lambda>_. ok ())
       | None \<Rightarrow>
           check (Create E to_configmap (OConfigMap (runtime_configmap notebookNamespace data))) (\<lambda>_. ok ()))))"

definition EnsureNotebookConfigMap :: "'s env \<Rightarrow> string \<Rightarrow> notebook \<Rightarrow> ('s, unit) ehandler" where
  "EnsureNotebookConfigMap E controllerNamespace nb =
     SyncRuntimeImagesConfigMap E (nb_ns nb) controllerNamespace"

section \<open>The mount\<close>

text \<open>
  Appending a volume and, in every container that does not already have it by the test
  \<open>has\<close>, a mount. The Elyra secret is mounted the same way.
\<close>

definition add_mount :: "(volmount \<Rightarrow> bool) \<Rightarrow> volmount \<Rightarrow> container \<Rightarrow> container" where
  "add_mount has m c = (if list_ex has (c_volumeMounts c) then c
                        else c\<lparr>c_volumeMounts := c_volumeMounts c @ [m]\<rparr>)"

definition add_mounts :: "volume \<Rightarrow> (volmount \<Rightarrow> bool) \<Rightarrow> volmount \<Rightarrow> notebook \<Rightarrow> notebook" where
  "add_mounts vol has m nb = (
     let nb1 = (if list_ex (vol_named (v_name vol)) (nb_volumes nb) then nb
                else with_volumes (nb_volumes nb @ [vol]) nb)
     in with_containers (map (add_mount has m) (nb_containers nb1)) nb1)"

definition runtime_volume :: volume where
  "runtime_volume = configmap_volume runtimeImagesVolume runtimeImagesConfigMap (Some True) None"

definition runtime_mount :: volmount where
  "runtime_mount = plain_mount runtimeImagesVolume runtimeImagesMountPath False"

definition MountPipelineRuntimeImages :: "'s env \<Rightarrow> notebook \<Rightarrow> ('s, notebook) ehandler" where
  "MountPipelineRuntimeImages E nb = do {
     r \<leftarrow> Get E KConfigMap to_configmap (nb_ns nb, runtimeImagesConfigMap);
     (case r of
        Inl e \<Rightarrow> if IsNotFound e then ok nb else fail e
      | Inr cm \<Rightarrow>
          if mempty (cm_data cm) then ok nb
          else ok (add_mounts runtime_volume (mount_named runtimeImagesVolume) runtime_mount nb))
   }"

section \<open>Facts\<close>

lemma add_mounts_meta [simp]: "nb_meta (add_mounts vol has m nb) = nb_meta nb"
  by (simp add: add_mounts_def Let_def)

lemma add_mount_idem: "has m \<Longrightarrow> add_mount has m (add_mount has m c) = add_mount has m c"
  by (simp add: add_mount_def)

lemma add_mounts_idem:
  "has m \<Longrightarrow> add_mounts vol has m (add_mounts vol has m nb) = add_mounts vol has m nb"
  by (auto simp: add_mounts_def Let_def vol_named_def add_mount_idem comp_def)

text \<open>A key name is a valid key of a ConfigMap: only letters, digits, dot, dash, underscore.\<close>

lemma dash_runs_chars: "set (dash_runs p b s) \<subseteq> {c \<in> set s. \<not> p c} \<union> {CHR ''-''}"
  by (induction p b s rule: dash_runs.induct) auto

lemma key_char_dash [simp]: "key_char CHR ''-''"
  by (simp add: key_char_def)

lemma TrimDash_chars: "set (TrimDash s) \<subseteq> set s"
  unfolding TrimDash_def by (auto dest!: set_dropWhileD)

lemma formatKeyName_chars: "list_all key_char (formatKeyName s)"
proof -
  have json: "list_all key_char ''.json''" by (simp add: key_char_def)
  let ?s1 = "dash_runs (\<lambda>c. \<not> key_char c) False (ToLower s)"
  let ?s2 = "dash_runs (\<lambda>c. c = CHR ''-'') False ?s1"
  have s1: "c \<in> set ?s1 \<Longrightarrow> key_char c" for c using dash_runs_chars[of "\<lambda>c. \<not> key_char c" False "ToLower s"] by auto
  have s2: "c \<in> set ?s2 \<Longrightarrow> key_char c" for c using dash_runs_chars[of "\<lambda>c. c = CHR ''-''" False ?s1] s1 by auto
  have "c \<in> set (TrimDash ?s2) \<Longrightarrow> key_char c" for c using TrimDash_chars[of ?s2] s2 by blast
  then show ?thesis using json by (auto simp: formatKeyName_def Let_def list_all_iff)
qed

end
