(* ===== verification/ElyraConfig.thy ===== *)
theory ElyraConfig
  imports RuntimeImages
begin

text \<open>
  \<open>odh-notebook-controller/controllers/notebook_dspa_secret.go\<close>: the Secret
  \<open>ds-pipeline-config\<close>, made of the pipelines application of the namespace and of the host
  of the gateway, and its mount into a Notebook. Logging is left out.
\<close>

definition elyraRuntimeSecretName :: string where [go_consts]:
  "elyraRuntimeSecretName = ''ds-pipeline-config''"
definition elyraRuntimeMountPath :: string where [go_consts]:
  "elyraRuntimeMountPath = ''/opt/app-root/runtimes''"
definition elyraRuntimeVolumeName :: string where [go_consts]:
  "elyraRuntimeVolumeName = ''elyra-dsp-details''"
definition dspaInstanceName :: string where [go_consts]:
  "dspaInstanceName = ''dspa''"
definition gatewayName :: string where [go_consts]:
  "gatewayName = ''data-science-gateway''"
definition gatewayNamespace :: string where [go_consts]:
  "gatewayNamespace = ''openshift-ingress''"
definition managedByKey :: string where [go_consts]:
  "managedByKey = ''opendatahub.io/managed-by''"
definition managedByValue :: string where [go_consts]:
  "managedByValue = ''workbenches''"

section \<open>Optional resources\<close>

text \<open>A missing object and a missing CRD are both no object.\<close>

definition optional :: "goerr + 'a \<Rightarrow> goerr + 'a option" where
  "optional r = (case r of
     Inl e \<Rightarrow> if IsNotFound e then Inr None else if IsNoMatchError e then Inr None else Inl e
   | Inr x \<Rightarrow> Inr (Some x))"

definition getDSPAInstance :: "'s env \<Rightarrow> string \<Rightarrow> ('s, dspa option) ehandler" where
  "getDSPAInstance E ns = do {
     r \<leftarrow> Get E KDSPA to_dspa (ns, dspaInstanceName);
     return_h (optional r)
   }"

definition getGatewayInstance :: "'s env \<Rightarrow> ('s, gateway option) ehandler" where
  "getGatewayInstance E = do {
     r \<leftarrow> Get E KGateway to_gateway (gatewayNamespace, gatewayName);
     return_h (optional r)
   }"

section \<open>The host name\<close>

definition getGatewayConfigOwnerName :: "gateway option \<Rightarrow> string" where
  "getGatewayConfigOwnerName g = (case g of None \<Rightarrow> []
     | Some gw \<Rightarrow> (case find (\<lambda>r. or_kind r = ''GatewayConfig'') (m_ownerRefs (gw_meta gw)) of
         None \<Rightarrow> [] | Some r \<Rightarrow> or_name r))"

definition owned_by_config :: "string \<Rightarrow> osroute \<Rightarrow> bool" where
  "owned_by_config config r \<longleftrightarrow>
     list_ex (\<lambda>own. or_kind own = ''GatewayConfig'' \<and> or_name own = config) (m_ownerRefs (osr_meta r))"

definition getHostnameFromRoute :: "'s env \<Rightarrow> string \<Rightarrow> ('s, string) ehandler" where
  "getHostnameFromRoute E gatewayConfigName = (
     if gatewayConfigName = [] then ok []
     else do {
       r \<leftarrow> ListIn E KRoute to_route (Some gatewayNamespace) None;
       (case r of
          Inl e \<Rightarrow> if IsNoMatchError e then ok [] else fail e
        | Inr routes \<Rightarrow> (case find (owned_by_config gatewayConfigName) routes of
            None \<Rightarrow> ok [] | Some route \<Rightarrow> ok (osr_host route)))
     })"

definition listener_hostname :: "gateway \<Rightarrow> string" where
  "listener_hostname gw = (case gw_listeners gw of
     [] \<Rightarrow> [] | h # _ \<Rightarrow> (case h of None \<Rightarrow> [] | Some s \<Rightarrow> s))"

definition getHostnameForPublicEndpoint :: "'s env \<Rightarrow> gateway option \<Rightarrow> ('s, string) handler" where
  "getHostnameForPublicEndpoint E g = (case g of
     None \<Rightarrow> return_h []
   | Some gw \<Rightarrow>
       if listener_hostname gw \<noteq> [] then return_h (listener_hostname gw)
       else if getGatewayConfigOwnerName g \<noteq> [] then do {
         r \<leftarrow> getHostnameFromRoute E (getGatewayConfigOwnerName g);
         return_h (case r of Inl _ \<Rightarrow> [] | Inr h \<Rightarrow> h)
       } else return_h [])"

section \<open>The runtime configuration\<close>

record elyra_fields =
  ef_cosEndpoint :: string
  ef_cosBucket :: string
  ef_cosSecret :: string
  ef_usernameKey :: string
  ef_passwordKey :: string

definition s3_field :: "string \<Rightarrow> string" where
  "s3_field f = ''objectStorage.externalStorage.s3CredentialSecret'' @ f"

text \<open>The validation of the specification, in the order of the code.\<close>

definition validate_dspa :: "dspa \<Rightarrow> goerr + elyra_fields" where
  "validate_dspa d = (case dspa_objectStorage d of
     None \<Rightarrow> Inl (Errorf (''invalid DSPA CR: '' @ quoted ''objectStorage'' @ '' is not configured''))
   | Some None \<Rightarrow> Inl (Errorf (''invalid DSPA CR: '' @ quoted ''objectStorage.externalStorage'' @ '' is not configured''))
   | Some (Some xs) \<Rightarrow>
       if xs_host xs = [] then Inl (Errorf (''invalid DSPA CR: missing or invalid '' @ quoted ''host''))
       else if xs_bucket xs = [] then Inl (Errorf (''invalid DSPA CR: missing or invalid '' @ quoted ''bucket''))
       else (case xs_s3 xs of
         None \<Rightarrow> Inl (Errorf (''invalid DSPA CR: '' @ quoted (s3_field []) @ '' is not configured''))
       | Some s3 \<Rightarrow>
           if s3_secretName s3 = [] then Inl (Errorf (''invalid DSPA CR: '' @ quoted (s3_field ''.secretName'') @ '' is empty''))
           else if s3_accessKey s3 = [] then Inl (Errorf (''invalid DSPA CR: '' @ quoted (s3_field ''.accessKey'') @ '' is empty''))
           else if s3_secretKey s3 = [] then Inl (Errorf (''invalid DSPA CR: '' @ quoted (s3_field ''.secretKey'') @ '' is empty''))
           else Inr \<lparr>ef_cosEndpoint = (if xs_scheme xs = [] then ''https'' else xs_scheme xs) @ ''://'' @ xs_host xs,
                     ef_cosBucket = xs_bucket xs, ef_cosSecret = s3_secretName s3,
                     ef_usernameKey = s3_accessKey s3, ef_passwordKey = s3_secretKey s3\<rparr>))"

definition jobject :: "(string \<times> jvalue) list \<Rightarrow> jvalue" where
  "jobject kvs = JMap (fmap_of_list kvs)"

definition elyra_config :: "string \<Rightarrow> elyra_fields \<Rightarrow> string \<Rightarrow> string \<Rightarrow> string \<Rightarrow> string \<Rightarrow> jvalue" where
  "elyra_config apiEndpoint f user pass hostname ns = jobject
     [(''display_name'', JStr ''Pipeline''),
      (''schema_name'', JStr ''kfp''),
      (''metadata'', jobject (
        [(''tags'', JList []),
         (''display_name'', JStr ''Pipeline''),
         (''engine'', JStr ''Argo''),
         (''runtime_type'', JStr ''KUBEFLOW_PIPELINES''),
         (''auth_type'', JStr ''KUBERNETES_SERVICE_ACCOUNT_TOKEN''),
         (''cos_auth_type'', JStr ''KUBERNETES_SECRET''),
         (''api_endpoint'', JStr apiEndpoint),
         (''cos_endpoint'', JStr (ef_cosEndpoint f)),
         (''cos_bucket'', JStr (ef_cosBucket f)),
         (''cos_username'', JStr user),
         (''cos_password'', JStr pass),
         (''cos_secret'', JStr (ef_cosSecret f))] @
        (if hostname = [] then []
         else [(''public_api_endpoint'', JStr (''https://'' @ hostname @ ''/external/elyra/'' @ ns))])))]"

definition extractElyraRuntimeConfigInfo ::
  "'s env \<Rightarrow> gateway option \<Rightarrow> dspa \<Rightarrow> notebook \<Rightarrow> ('s, jvalue) ehandler" where
  "extractElyraRuntimeConfigInfo E g d nb =
     check (lift (validate_dspa d)) (\<lambda>f. do {
       r \<leftarrow> Get E KSecret to_secret (nb_ns nb, ef_cosSecret f);
       (case r of
          Inl e \<Rightarrow> fail (Wrap (''failed to get secret '' @ quoted (ef_cosSecret f)) e)
        | Inr sec \<Rightarrow> (case (mlookup (sec_data sec) (ef_usernameKey f), mlookup (sec_data sec) (ef_passwordKey f)) of
            (Some user, Some pass) \<Rightarrow> do {
              hostname \<leftarrow> getHostnameForPublicEndpoint E g;
              ok (elyra_config (dspa_apiUrl d) f user pass hostname (nb_ns nb))
            }
          | (None, _) \<Rightarrow> fail (Errorf (''missing key '' @ quoted (ef_usernameKey f) @ '' in secret '' @ quoted (ef_cosSecret f)))
          | (_, None) \<Rightarrow> fail (Errorf (''missing key '' @ quoted (ef_passwordKey f) @ '' in secret '' @ quoted (ef_cosSecret f)))))
     })"

section \<open>The Secret\<close>

definition elyra_owner :: "objmeta \<Rightarrow> ownerref" where
  "elyra_owner m = \<lparr>or_apiVersion = ''datasciencepipelinesapplications.opendatahub.io/v1'',
     or_kind = ''DataSciencePipelinesApplication'', or_name = m_name m, or_uid = m_uid m,
     or_controller = Some True, or_blockOwnerDeletion = Some False\<rparr>"

definition elyra_secret :: "string \<Rightarrow> objmeta \<Rightarrow> string \<Rightarrow> secret" where
  "elyra_secret ns owner dspJSON = \<lparr>sec_meta = empty_meta\<lparr>m_name := elyraRuntimeSecretName, m_namespace := ns,
     m_labels := mlit [(managedByKey, managedByValue)], m_ownerRefs := [elyra_owner owner]\<rparr>,
     sec_type = ''Opaque'', sec_data = mlit [(''odh_dsp.json'', dspJSON)]\<rparr>"

definition sync_elyra_secret :: "'s env \<Rightarrow> secret \<Rightarrow> ('s, unit) ehandler" where
  "sync_elyra_secret E desired = do {
     r \<leftarrow> Get E KSecret to_secret (meta_key (sec_meta desired));
     (case r of
        Inl e \<Rightarrow> if IsNotFound e then do {
             c \<leftarrow> Create E to_secret (OSecret desired);
             (case c of Inl e' \<Rightarrow> if IsAlreadyExists e' then ok () else fail e' | Inr _ \<Rightarrow> ok ())
           } else fail e
      | Inr existing \<Rightarrow>
          if sec_data existing \<noteq> sec_data desired \<or>
             mget (m_labels (sec_meta existing)) managedByKey \<noteq> managedByValue
          then check (Update E to_secret (OSecret (existing\<lparr>
                 sec_meta := (sec_meta existing)\<lparr>m_labels := m_labels (sec_meta desired)\<rparr>,
                 sec_data := sec_data desired\<rparr>))) (\<lambda>_. ok ())
          else ok ())
   }"

text \<open>An error of the extraction is not an error here: nothing is written.\<close>

definition SyncElyraRuntimeConfigSecret :: "'s env \<Rightarrow> notebook \<Rightarrow> ('s, unit) ehandler" where
  "SyncElyraRuntimeConfigSecret E nb =
     check (getGatewayInstance E) (\<lambda>g.
     check (getDSPAInstance E (nb_ns nb)) (\<lambda>d. case d of
         None \<Rightarrow> ok ()
       | Some dsp \<Rightarrow> do {
           r \<leftarrow> extractElyraRuntimeConfigInfo E g dsp nb;
           (case r of
              Inl _ \<Rightarrow> ok ()
            | Inr dspData \<Rightarrow>
                sync_elyra_secret E (elyra_secret (nb_ns nb) (dspa_meta dsp) (env_marshal E dspData)))
         }))"

definition ReconcileElyraRuntimeConfigSecret :: "'s env \<Rightarrow> notebook \<Rightarrow> ('s, unit) ehandler" where
  "ReconcileElyraRuntimeConfigSecret E nb = SyncElyraRuntimeConfigSecret E nb"

section \<open>The mount\<close>

definition elyra_volume :: volume where
  "elyra_volume = secret_volume elyraRuntimeVolumeName elyraRuntimeSecretName (Some True) None"

definition elyra_mount :: volmount where
  "elyra_mount = plain_mount elyraRuntimeVolumeName elyraRuntimeMountPath False"

definition elyra_mounted :: "volmount \<Rightarrow> bool" where
  "elyra_mounted m \<longleftrightarrow> vm_name m = elyraRuntimeVolumeName \<or> vm_mountPath m = elyraRuntimeMountPath"

definition MountElyraRuntimeConfigSecret :: "'s env \<Rightarrow> notebook \<Rightarrow> ('s, notebook) ehandler" where
  "MountElyraRuntimeConfigSecret E nb = do {
     r \<leftarrow> Get E KSecret to_secret (nb_ns nb, elyraRuntimeSecretName);
     (case r of
        Inl e \<Rightarrow> if IsNotFound e then ok nb else fail e
      | Inr sec \<Rightarrow>
          if mget (m_labels (sec_meta sec)) managedByKey \<noteq> managedByValue then ok nb
          else if mempty (sec_data sec) then ok nb
          else ok (add_mounts elyra_volume elyra_mounted elyra_mount nb))
   }"

section \<open>Facts\<close>

lemma optional_Inl: "optional r = Inl e \<longleftrightarrow> r = Inl e \<and> \<not> IsNotFound e \<and> \<not> IsNoMatchError e"
  by (auto simp: optional_def split: sum.splits)

text \<open>What these handlers write: nothing but the Secret of the namespace.\<close>

lemma reads_only [emit_rules]:
  "emits (wr P) (getDSPAInstance E ns)" "emits (wr P) (getGatewayInstance E)"
  "emits (wr P) (getHostnameFromRoute E config)"
  unfolding getDSPAInstance_def getGatewayInstance_def getHostnameFromRoute_def
  by (intro emit_rules; simp)+

lemma endpoint_reads_only [emit_rules]: "emits (wr P) (getHostnameForPublicEndpoint E g)"
  unfolding getHostnameForPublicEndpoint_def by (intro emit_rules)

lemma extract_reads_only [emit_rules]: "emits (wr P) (extractElyraRuntimeConfigInfo E g d nb)"
  unfolding extractElyraRuntimeConfigInfo_def
  by (intro emit_rules; simp)

end
