(* ===== verification/Rbac.thy ===== *)
theory Rbac
  imports ElyraConfig
begin

text \<open>
  \<open>odh-notebook-controller/controllers/notebook_rbac.go\<close>: the RoleBinding that gives the
  Notebook's service account access to the pipelines of its namespace.
\<close>

section \<open>Create unless it is there\<close>

text \<open>The idiom of the ODH controller: \<open>AlreadyExists\<close> is no error of a create.\<close>

definition create_tolerant :: "'s env \<Rightarrow> (kobj \<Rightarrow> 'a option) \<Rightarrow> kobj \<Rightarrow> ('s, unit) ehandler" where
  "create_tolerant E p x = do {
     r \<leftarrow> Create E p x;
     (case r of Inl e \<Rightarrow> if IsAlreadyExists e then ok () else fail e | Inr _ \<Rightarrow> ok ())
   }"

text \<open>\<open>Get\<close>, then a body for the object found and one for a missing object; other errors return.\<close>

definition get_or :: "'s env \<Rightarrow> kind \<Rightarrow> (kobj \<Rightarrow> 'a option) \<Rightarrow> nsname \<Rightarrow>
    ('s, 'b) ehandler \<Rightarrow> ('a \<Rightarrow> ('s, 'b) ehandler) \<Rightarrow> ('s, 'b) ehandler" where
  "get_or E k p key missing found = do {
     r \<leftarrow> Get E k p key;
     (case r of Inl e \<Rightarrow> if IsNotFound e then missing else fail e | Inr x \<Rightarrow> found x)
   }"

lemma emits_create_tolerant [emit_rules]:
  "(\<And>resp. P (Call (RCreate x) resp)) \<Longrightarrow> emits P (create_tolerant E p x)"
  unfolding create_tolerant_def by (intro emit_rules; assumption)

lemma emits_get_or [emit_rules]:
  "(\<And>resp. P (Call (RGet k key) resp)) \<Longrightarrow> emits P m \<Longrightarrow> (\<And>x. emits P (f x)) \<Longrightarrow>
    emits P (get_or E k p key m f)"
  unfolding get_or_def by (intro emit_rules; assumption)

lemma run_create_tolerant:
  "run_state (create_tolerant E p x) w = (case env_api E (RCreate x) (server w) of
     (resp, s) \<Rightarrow> ((case as_obj p resp of Inl e \<Rightarrow> if IsAlreadyExists e then Inr () else Inl e | Inr _ \<Rightarrow> Inr ()),
        w\<lparr>server := s, trace := trace w @ [Call (RCreate x) resp]\<rparr>))"
  by (simp add: create_tolerant_def Create_def split: prod.splits sum.splits)

lemma run_get_or:
  "run_state (get_or E k p key m f) w = (case env_api E (RGet k key) (server w) of
     (resp, s) \<Rightarrow> let w' = w\<lparr>server := s, trace := trace w @ [Call (RGet k key) resp]\<rparr> in
       (case as_obj p resp of
          Inl e \<Rightarrow> if IsNotFound e then run_state m w' else (Inl e, w')
        | Inr x \<Rightarrow> run_state (f x) w'))"
  by (simp add: get_or_def Get_def Let_def split: prod.splits sum.splits)

section \<open>Role bindings\<close>

definition NewRoleBinding :: "notebook \<Rightarrow> string \<Rightarrow> string \<Rightarrow> string \<Rightarrow> rolebinding" where
  "NewRoleBinding nb rolebindingName roleRefKind roleRefName =
     \<lparr>rb_meta = empty_meta\<lparr>m_name := rolebindingName, m_namespace := nb_ns nb,
        m_labels := mlit [(''notebook-name'', nb_name nb)]\<rparr>,
      rb_roleRef = \<lparr>rr_apiGroup = ''rbac.authorization.k8s.io'', rr_kind = roleRefKind, rr_name = roleRefName\<rparr>,
      rb_subjects = [\<lparr>sj_kind = ''ServiceAccount'', sj_name = nb_name nb, sj_namespace = nb_ns nb\<rparr>]\<rparr>"

definition checkRoleExists :: "'s env \<Rightarrow> string \<Rightarrow> string \<Rightarrow> string \<Rightarrow> ('s, bool) ehandler" where
  "checkRoleExists E roleRefKind roleRefName ns = (
     if roleRefKind = ''ClusterRole''
     then get_or E KClusterRole to_any ([], roleRefName) (ok False) (\<lambda>_. ok True)
     else get_or E KRole to_any (ns, roleRefName) (ok False) (\<lambda>_. ok True))"

text \<open>The update sends the freshly built object, not the one found.\<close>

definition reconcileRoleBinding :: "'s env \<Rightarrow> string \<Rightarrow> string \<Rightarrow> string \<Rightarrow> notebook \<Rightarrow> ('s, unit) ehandler" where
  "reconcileRoleBinding E rolebindingName roleRefKind roleRefName nb =
     check (checkRoleExists E roleRefKind roleRefName (nb_ns nb)) (\<lambda>roleExists.
       if \<not> roleExists then ok ()
       else let roleBinding = NewRoleBinding nb rolebindingName roleRefKind roleRefName in
         get_or E KRoleBinding to_rolebinding (nb_ns nb, rolebindingName)
           (check (lift (SetControllerReference E (nb_meta nb) (rb_meta roleBinding))) (\<lambda>m.
            check (Create E to_rolebinding (ORoleBinding (roleBinding\<lparr>rb_meta := m\<rparr>))) (\<lambda>_. ok ())))
           (\<lambda>found. if rb_subjects roleBinding \<noteq> rb_subjects found
                    then check (Update E to_rolebinding (ORoleBinding roleBinding)) (\<lambda>_. ok ())
                    else ok ()))"

definition ReconcileRoleBindings :: "'s env \<Rightarrow> notebook \<Rightarrow> ('s, unit) ehandler" where
  "ReconcileRoleBindings E nb =
     reconcileRoleBinding E (''elyra-pipelines-'' @ nb_name nb) ''Role'' ''ds-pipeline-user-access-dspa'' nb"

lemma NewRoleBinding_simps [simp]:
  "m_name (rb_meta (NewRoleBinding nb n k r)) = n" "m_namespace (rb_meta (NewRoleBinding nb n k r)) = nb_ns nb"
  "m_ownerRefs (rb_meta (NewRoleBinding nb n k r)) = []"
  by (simp_all add: NewRoleBinding_def empty_meta_def)

lemma checkRoleExists_reads [emit_rules]: "emits (wr P) (checkRoleExists E k r ns)"
  unfolding checkRoleExists_def by (intro emit_rules; simp)

end
