(* ===== verification/Mlflow.thy ===== *)
theory Mlflow
  imports Rbac
begin

text \<open>
  \<open>odh-notebook-controller/controllers/notebook_mlflow.go\<close>: the MLflow variables the webhook
  puts into the Notebook's container, and the RoleBinding the controller keeps for it.
\<close>

definition MLflowIdentifier :: string where [go_consts]: "MLflowIdentifier = ''mlflow''"
definition MLflowClusterRoleName :: string where [go_consts]:
  "MLflowClusterRoleName = ''mlflow-operator-mlflow-integration''"
definition MLflowTrackingURIEnvVar :: string where [go_consts]: "MLflowTrackingURIEnvVar = ''MLFLOW_TRACKING_URI''"
definition MLflowK8sIntegrationEnvVar :: string where [go_consts]:
  "MLflowK8sIntegrationEnvVar = ''MLFLOW_K8S_INTEGRATION''"
definition MLflowTrackingAuthEnvVar :: string where [go_consts]: "MLflowTrackingAuthEnvVar = ''MLFLOW_TRACKING_AUTH''"
definition MLflowTrackingAuthValue :: string where [go_consts]: "MLflowTrackingAuthValue = ''kubernetes-namespaced''"
definition MLflowInstanceAnnotation :: string where [go_consts]:
  "MLflowInstanceAnnotation = ''opendatahub.io/mlflow-instance''"

section \<open>The variables of the container\<close>

definition mlflowRoleBindingName :: "notebook \<Rightarrow> string" where
  "mlflowRoleBindingName nb = nb_name nb @ ''-'' @ MLflowIdentifier"

definition getMLflowInstanceAnnotation :: "notebook \<Rightarrow> string \<times> bool" where
  "getMLflowInstanceAnnotation nb =
     (let val = TrimSpace (mget (nb_annotations nb) MLflowInstanceAnnotation) in (val, val \<noteq> []))"

definition set_first_env :: "string \<Rightarrow> string \<Rightarrow> container \<Rightarrow> container" where
  "set_first_env n v c = c\<lparr>c_env :=
     (if list_ex (env_named n) (c_env c) then update_first (env_named n) (\<lambda>e. e\<lparr>ev_value := v\<rparr>) (c_env c)
      else c_env c @ [new_env n v])\<rparr>"

definition setNotebookContainerEnvVar :: "notebook \<Rightarrow> string \<Rightarrow> string \<Rightarrow> goerr + notebook" where
  "setNotebookContainerEnvVar nb envVarName envVarValue =
     (if list_ex (named (nb_name nb)) (nb_containers nb)
      then Inr (edit_container (nb_name nb) (set_first_env envVarName envVarValue) nb)
      else Inl (Errorf ''notebook image container not found''))"

definition drop_first_env :: "string \<Rightarrow> container \<Rightarrow> container" where
  "drop_first_env n c = c\<lparr>c_env := delete_first (env_named n) (c_env c)\<rparr>"

definition removeNotebookContainerEnvVar :: "string \<Rightarrow> notebook \<Rightarrow> notebook" where
  "removeNotebookContainerEnvVar envVarName nb = edit_container (nb_name nb) (drop_first_env envVarName) nb"

definition CleanupMLflowEnvVars :: "notebook \<Rightarrow> notebook" where
  "CleanupMLflowEnvVars nb = removeNotebookContainerEnvVar MLflowTrackingURIEnvVar
     (removeNotebookContainerEnvVar MLflowTrackingAuthEnvVar
       (removeNotebookContainerEnvVar MLflowK8sIntegrationEnvVar nb))"

definition tracking_uri :: "string \<Rightarrow> string \<Rightarrow> string" where
  "tracking_uri instanceName hostname = (
     let pathSegment = (if instanceName \<noteq> [] \<and> instanceName \<noteq> MLflowIdentifier
                        then MLflowIdentifier @ ''-'' @ instanceName else MLflowIdentifier)
     in if HasPrefix hostname ''https://'' \<or> HasPrefix hostname ''http://''
        then hostname @ ''/'' @ pathSegment
        else ''https://'' @ hostname @ ''/'' @ pathSegment)"

definition getMLflowTrackingURI :: "'s env \<Rightarrow> string \<Rightarrow> string \<Rightarrow> ('s, string) ehandler" where
  "getMLflowTrackingURI E instanceName gatewayURL = (
     if gatewayURL \<noteq> [] then ok (tracking_uri instanceName gatewayURL)
     else do {
       g \<leftarrow> getGatewayInstance E;
       (case g of
          Inl e \<Rightarrow> fail (Wrap ''failed to get Gateway instance for MLflow tracking URI'' e)
        | Inr gw \<Rightarrow> do {
            hostname \<leftarrow> getHostnameForPublicEndpoint E gw;
            (if hostname = [] then fail (Errorf ''unable to determine hostname for MLflow tracking URI'')
             else ok (tracking_uri instanceName hostname))
          })
     })"

text \<open>An error leaves the Notebook as edited so far.\<close>

definition HandleMLflowEnvVars :: "'s env \<Rightarrow> string \<Rightarrow> notebook \<Rightarrow> ('s, notebook) handler" where
  "HandleMLflowEnvVars E gatewayURL nb = (
     let (instanceName, instanceEnabled) = getMLflowInstanceAnnotation nb in
     if \<not> instanceEnabled then return_h (CleanupMLflowEnvVars nb)
     else case setNotebookContainerEnvVar nb MLflowK8sIntegrationEnvVar trueString of
       Inl _ \<Rightarrow> return_h nb
     | Inr nb1 \<Rightarrow> (case setNotebookContainerEnvVar nb1 MLflowTrackingAuthEnvVar MLflowTrackingAuthValue of
         Inl _ \<Rightarrow> return_h nb1
       | Inr nb2 \<Rightarrow> do {
           u \<leftarrow> getMLflowTrackingURI E instanceName gatewayURL;
           return_h (case u of
             Inl _ \<Rightarrow> removeNotebookContainerEnvVar MLflowTrackingURIEnvVar nb2
           | Inr trackingURI \<Rightarrow> (case setNotebookContainerEnvVar nb2 MLflowTrackingURIEnvVar trackingURI of
               Inl _ \<Rightarrow> nb2 | Inr nb3 \<Rightarrow> nb3))
         }))"

section \<open>The RoleBinding\<close>

text \<open>\<open>equality.Semantic.DeepEqual\<close> on maps: nil and empty are equal.\<close>

definition semantic_eq :: "smap \<Rightarrow> smap \<Rightarrow> bool" where
  "semantic_eq a b \<longleftrightarrow> (mempty a \<and> mempty b) \<or> a = b"

definition ReconcileMLflowRoleBinding :: "'s env \<Rightarrow> notebook \<Rightarrow> ('s, unit) ehandler" where
  "ReconcileMLflowRoleBinding E nb = (
     let desired0 = NewRoleBinding nb (mlflowRoleBindingName nb) ''ClusterRole'' MLflowClusterRoleName in
     check (lift (SetControllerReference E (nb_meta nb) (rb_meta desired0))) (\<lambda>m.
       let desired = desired0\<lparr>rb_meta := m\<rparr> in
       get_or E KRoleBinding to_rolebinding (meta_key m)
         (create_tolerant E to_rolebinding (ORoleBinding desired))
         (\<lambda>found.
           if rb_subjects desired \<noteq> rb_subjects found \<or>
              \<not> semantic_eq (m_labels m) (m_labels (rb_meta found)) \<or>
              m_ownerRefs m \<noteq> m_ownerRefs (rb_meta found)
           then check (Update E to_rolebinding (ORoleBinding (found\<lparr>rb_subjects := rb_subjects desired,
                  rb_meta := (rb_meta found)\<lparr>m_labels := m_labels m, m_ownerRefs := m_ownerRefs m\<rparr>\<rparr>))) (\<lambda>_. ok ())
           else ok ())))"

definition CleanupMLflowRoleBinding :: "'s env \<Rightarrow> notebook \<Rightarrow> ('s, unit) ehandler" where
  "CleanupMLflowRoleBinding E nb = do {
     r \<leftarrow> Delete E KRoleBinding (nb_ns nb, mlflowRoleBindingName nb);
     (case r of Inl e \<Rightarrow> if IsNotFound e then ok () else fail e | Inr _ \<Rightarrow> ok ())
   }"

text \<open>The result is the delay after which to requeue, in seconds (0 for none).\<close>

definition ReconcileMLflowIntegration :: "'s env \<Rightarrow> notebook \<Rightarrow> ('s, int) ehandler" where
  "ReconcileMLflowIntegration E nb = (
     if \<not> snd (getMLflowInstanceAnnotation nb)
     then check (CleanupMLflowRoleBinding E nb) (\<lambda>_. ok 0)
     else check (checkRoleExists E ''ClusterRole'' MLflowClusterRoleName []) (\<lambda>clusterRoleExists.
       if \<not> clusterRoleExists then do {
         emit (Emitted (nb_key nb) ''Warning'' ''MLflowClusterRolePending''
           (''Waiting for MLflow ClusterRole '' @ dquoted MLflowClusterRoleName @ '' to be created''));
         ok 30
       }
       else check (ReconcileMLflowRoleBinding E nb) (\<lambda>_. ok 0)))"

section \<open>Facts\<close>

lemma set_first_env_name [simp]: "c_name (set_first_env n v c) = c_name c"
  by (simp add: set_first_env_def)

lemma drop_first_env_name [simp]: "c_name (drop_first_env n c) = c_name c"
  by (simp add: drop_first_env_def)

lemma mlflow_meta [simp]:
  "nb_meta (removeNotebookContainerEnvVar n nb) = nb_meta nb" "nb_meta (CleanupMLflowEnvVars nb) = nb_meta nb"
  by (simp_all add: removeNotebookContainerEnvVar_def CleanupMLflowEnvVars_def)

lemma setNotebookContainerEnvVar_Inr:
  "setNotebookContainerEnvVar nb n v = Inr nb' \<longleftrightarrow> list_ex (named (nb_name nb)) (nb_containers nb) \<and>
     nb' = edit_container (nb_name nb) (set_first_env n v) nb"
  by (auto simp: setNotebookContainerEnvVar_def)

lemma getMLflowTrackingURI_reads [emit_rules]: "emits (wr P) (getMLflowTrackingURI E i g)"
  unfolding getMLflowTrackingURI_def by (intro emit_rules; simp)

lemma HandleMLflowEnvVars_reads [emit_rules]: "emits (wr P) (HandleMLflowEnvVars E g nb)"
  unfolding HandleMLflowEnvVars_def by (intro emit_rules; simp)

end
