(* ===== verification/GoCrypto.thy ===== *)
theory GoCrypto
  imports GoStrings
begin

text \<open>
  What the source uses of \<open>crypto/tls\<close>: the version numbers, the cipher suites with their names
  and IDs, and \<open>tls.CipherSuiteName\<close>.
\<close>

type_synonym uint16 = "16 word"

definition VersionTLS10 :: uint16 where "VersionTLS10 = 0x0301"
definition VersionTLS11 :: uint16 where "VersionTLS11 = 0x0302"
definition VersionTLS12 :: uint16 where "VersionTLS12 = 0x0303"
definition VersionTLS13 :: uint16 where "VersionTLS13 = 0x0304"

lemmas tls_versions = VersionTLS10_def VersionTLS11_def VersionTLS12_def VersionTLS13_def

text \<open>\<open>tls.CipherSuites()\<close> and \<open>tls.InsecureCipherSuites()\<close>: the names and IDs.\<close>

definition CipherSuites :: "(string \<times> uint16) list" where
  "CipherSuites = [
     (''TLS_AES_128_GCM_SHA256'', 0x1301), (''TLS_AES_256_GCM_SHA384'', 0x1302),
     (''TLS_CHACHA20_POLY1305_SHA256'', 0x1303),
     (''TLS_ECDHE_ECDSA_WITH_AES_128_CBC_SHA'', 0xc009), (''TLS_ECDHE_ECDSA_WITH_AES_256_CBC_SHA'', 0xc00a),
     (''TLS_ECDHE_RSA_WITH_AES_128_CBC_SHA'', 0xc013), (''TLS_ECDHE_RSA_WITH_AES_256_CBC_SHA'', 0xc014),
     (''TLS_ECDHE_ECDSA_WITH_AES_128_GCM_SHA256'', 0xc02b), (''TLS_ECDHE_ECDSA_WITH_AES_256_GCM_SHA384'', 0xc02c),
     (''TLS_ECDHE_RSA_WITH_AES_128_GCM_SHA256'', 0xc02f), (''TLS_ECDHE_RSA_WITH_AES_256_GCM_SHA384'', 0xc030),
     (''TLS_ECDHE_RSA_WITH_CHACHA20_POLY1305_SHA256'', 0xcca8),
     (''TLS_ECDHE_ECDSA_WITH_CHACHA20_POLY1305_SHA256'', 0xcca9)]"

definition InsecureCipherSuites :: "(string \<times> uint16) list" where
  "InsecureCipherSuites = [
     (''TLS_RSA_WITH_RC4_128_SHA'', 0x0005), (''TLS_RSA_WITH_3DES_EDE_CBC_SHA'', 0x000a),
     (''TLS_RSA_WITH_AES_128_CBC_SHA'', 0x002f), (''TLS_RSA_WITH_AES_256_CBC_SHA'', 0x0035),
     (''TLS_RSA_WITH_AES_128_CBC_SHA256'', 0x003c), (''TLS_RSA_WITH_AES_128_GCM_SHA256'', 0x009c),
     (''TLS_RSA_WITH_AES_256_GCM_SHA384'', 0x009d), (''TLS_ECDHE_ECDSA_WITH_RC4_128_SHA'', 0xc007),
     (''TLS_ECDHE_RSA_WITH_RC4_128_SHA'', 0xc011), (''TLS_ECDHE_RSA_WITH_3DES_EDE_CBC_SHA'', 0xc012),
     (''TLS_ECDHE_ECDSA_WITH_AES_128_CBC_SHA256'', 0xc023), (''TLS_ECDHE_RSA_WITH_AES_128_CBC_SHA256'', 0xc027)]"

text \<open>\<open>fmt.Sprintf("0x%04X", id)\<close>, the name of an ID that is no suite's.\<close>

definition hex_digit :: "nat \<Rightarrow> char" where
  "hex_digit n = ''0123456789ABCDEF'' ! n"

definition hex4 :: "uint16 \<Rightarrow> string" where
  "hex4 i = (let n = unat i in ''0x'' @ map hex_digit [n div 4096, n div 256 mod 16, n div 16 mod 16, n mod 16])"

definition CipherSuiteName :: "uint16 \<Rightarrow> string" where
  "CipherSuiteName i = (case find (\<lambda>(_, j). j = i) (CipherSuites @ InsecureCipherSuites) of
     Some (name, _) \<Rightarrow> name | None \<Rightarrow> hex4 i)"

end
