(* ===== verification/ProxyTls.thy ===== *)
theory ProxyTls
  imports Mlflow GoCrypto
begin

text \<open>
  \<open>odh-notebook-controller/controllers/kube_rbac_proxy_tls.go\<close>: the TLS flags of the
  kube-rbac-proxy sidecar, resolved from the security profile of the cluster, and how the
  controller applies them: to a stopped Notebook at once, to a running one as a pending
  update. \<open>openshift/library-go\<close> and the profile tables of \<open>openshift/api\<close> are the parameter
  \<open>tlslib\<close>.
\<close>

definition tlsMinVersionFlag :: string where [go_consts]: "tlsMinVersionFlag = ''--tls-min-version=''"
definition tlsCipherSuitesFlag :: string where [go_consts]: "tlsCipherSuitesFlag = ''--tls-cipher-suites=''"
definition tlsCurvePreferencesFlag :: string where [go_consts]:
  "tlsCurvePreferencesFlag = ''--tls-curve-preferences=''"
definition tlsUpdatePendingReason :: string where [go_consts]:
  "tlsUpdatePendingReason = ''kube-rbac-proxy TLS settings differ from the cluster security profile''"
text \<open>
  \<open>libgocrypto.TLSVersion\<close>, \<open>CipherSuite\<close>, \<open>OpenSSLToIANACipherSuites\<close>; the table
  \<open>configv1.TLSProfiles\<close>; \<open>tlsFIPSEnabled()\<close>, which is \<open>fips140.Enabled\<close>.
\<close>

record tlslib =
  tl_version :: "string \<Rightarrow> goerr + uint16"
  tl_cipherSuite :: "string \<Rightarrow> uint16 option"
  tl_openssl :: "string \<Rightarrow> string list"
  tl_profiles :: "string \<Rightarrow> tlsprofilespec option"
  tl_fips :: bool

record kubeRbacProxyTLS =
  ptls_Args :: "string list"
  ptls_CurvePreferences :: "string list"

section \<open>Groups and ciphers\<close>

fun groupCurveIDs :: "tlsgroup \<Rightarrow> int option" where
  "groupCurveIDs SecP256r1 = Some 23"
| "groupCurveIDs SecP384r1 = Some 24"
| "groupCurveIDs SecP521r1 = Some 25"
| "groupCurveIDs X25519 = Some 29"
| "groupCurveIDs X25519MLKEM768 = Some 4588"
| "groupCurveIDs (OtherGroup _) = None"

definition fipsTLSGroups :: "tlsgroup list" where
  "fipsTLSGroups = [SecP256r1, SecP384r1, SecP521r1]"

definition curve_id :: "tlslib \<Rightarrow> tlsgroup \<Rightarrow> string option" where
  "curve_id L g = (case groupCurveIDs g of
     None \<Rightarrow> None
   | Some i \<Rightarrow> if tl_fips L \<and> \<not> List.member fipsTLSGroups g then None else Some (Itoa i))"

definition curvePreferenceIDs :: "tlslib \<Rightarrow> tlsgroup list \<Rightarrow> bool \<Rightarrow> goerr + string list" where
  "curvePreferenceIDs L groups strict = (
     if groups = [] then Inr []
     else let ids = List.map_filter (curve_id L) groups in
       if ids = [] \<and> strict then Inl (Errorf ''strict TLS profile groups cannot be represented'') else Inr ids)"

text \<open>The IDs the runtime can negotiate, without RC4.\<close>

definition proxyRuntimeCipherIDs :: "uint16 \<Rightarrow> bool" where
  "proxyRuntimeCipherIDs i \<longleftrightarrow> list_ex (\<lambda>(_, j). j = i) CipherSuites \<or>
     list_ex (\<lambda>(name, j). \<not> Contains name ''RC4'' \<and> j = i) InsecureCipherSuites"

definition cipherIDUsableForTLS12 :: "uint16 \<Rightarrow> bool" where
  "cipherIDUsableForTLS12 i \<longleftrightarrow> (if 0x1300 \<le> i \<and> i \<le> 0x13ff then False else proxyRuntimeCipherIDs i)"

definition ianaCipherForTLS12 :: "tlslib \<Rightarrow> string \<Rightarrow> string option" where
  "ianaCipherForTLS12 L name = (
     let cid = (case tl_cipherSuite L name of
           Some i \<Rightarrow> Some i
         | None \<Rightarrow> (case tl_openssl L name of [converted] \<Rightarrow> tl_cipherSuite L converted | _ \<Rightarrow> None))
     in case cid of None \<Rightarrow> None
        | Some i \<Rightarrow> if cipherIDUsableForTLS12 i then Some (CipherSuiteName i) else None)"

definition hasHTTP2RequiredCipher :: "string list \<Rightarrow> bool" where
  "hasHTTP2RequiredCipher ciphers \<longleftrightarrow> list_ex (\<lambda>c. c = ''TLS_ECDHE_RSA_WITH_AES_128_GCM_SHA256'' \<or>
     c = ''TLS_ECDHE_ECDSA_WITH_AES_128_GCM_SHA256'') ciphers"

definition tls12CipherNames :: "tlslib \<Rightarrow> string list \<Rightarrow> goerr + string list" where
  "tls12CipherNames L names = (
     let ciphers = List.map_filter (\<lambda>n. if TrimSpace n = [] then None else ianaCipherForTLS12 L (TrimSpace n)) names
     in if ciphers = [] then Inl (Errorf ''TLS profile has no cipher suite usable with TLS 1.2'')
        else if \<not> hasHTTP2RequiredCipher ciphers
        then Inl (Errorf (''TLS profile cipher list cannot be served by kube-rbac-proxy with HTTP/2: '' @
               ''missing an HTTP/2-required AES_128_GCM_SHA256 suite''))
        else Inr ciphers)"

section \<open>Profiles\<close>

definition curvePreferenceFlag :: "string list \<Rightarrow> string" where
  "curvePreferenceFlag ids = tlsCurvePreferencesFlag @ string_join '','' ids"

definition tlsProfileSpecToProxyTLS :: "tlslib \<Rightarrow> tlsprofilespec \<Rightarrow> bool \<Rightarrow> goerr + kubeRbacProxyTLS" where
  "tlsProfileSpecToProxyTLS L spec strict = (
     let minVersion = tps_minVersion spec in
     if minVersion = [] then Inl (Errorf ''TLS profile minimum version cannot be represented'')
     else case tl_version L minVersion of
       Inl e \<Rightarrow> Inl (Wrap (''TLS profile minimum version '' @ dquoted minVersion @ '' cannot be represented'') e)
     | Inr parsed \<Rightarrow>
         if parsed < VersionTLS12
         then Inl (Errorf (''TLS profile minimum version '' @ dquoted minVersion @ '' cannot be represented''))
         else case curvePreferenceIDs L (tps_groups spec) strict of
           Inl e \<Rightarrow> Inl e
         | Inr curves \<Rightarrow> (case (if parsed < VersionTLS13
                  then (case tls12CipherNames L (tps_ciphers spec) of
                     Inl e \<Rightarrow> Inl e
                   | Inr ciphers \<Rightarrow> Inr [tlsMinVersionFlag @ minVersion, tlsCipherSuitesFlag @ string_join '','' ciphers])
                  else Inr [tlsMinVersionFlag @ minVersion]) of
             Inl e \<Rightarrow> Inl e
           | Inr args \<Rightarrow> Inr \<lparr>ptls_Args = (if curves = [] then args else args @ [curvePreferenceFlag curves]),
                           ptls_CurvePreferences = curves\<rparr>))"

definition intermediateKubeRbacProxyTLS :: "tlslib \<Rightarrow> goerr + kubeRbacProxyTLS" where
  "intermediateKubeRbacProxyTLS L = (case tl_profiles L ''Intermediate'' of
     None \<Rightarrow> Inl (Errorf ''intermediate TLS profile is not defined'')
   | Some spec \<Rightarrow> tlsProfileSpecToProxyTLS L spec False)"

definition strictProfileSpec :: "tlslib \<Rightarrow> tlsprofile \<Rightarrow> goerr + tlsprofilespec" where
  "strictProfileSpec L profile = (
     if tlp_type profile = ''Custom''
     then (case tlp_custom profile of
        None \<Rightarrow> Inl (Wrap ''strict TLS profile cannot be represented'' (Sentinel ''ErrCustomProfileNil''))
      | Some c \<Rightarrow> Inr c)
     else case tl_profiles L (tlp_type profile) of
        None \<Rightarrow> Inl (Errorf (''strict TLS profile type '' @ dquoted (tlp_type profile) @ '' is not representable''))
      | Some spec \<Rightarrow> Inr spec)"

definition useConfiguredTLSProfile :: "string \<Rightarrow> bool" where
  "useConfiguredTLSProfile adherence \<longleftrightarrow>
     \<not> (adherence = [] \<or> adherence = ''LegacyAdheringComponentsOnly'')"

definition resolveKubeRbacProxyTLS :: "tlslib \<Rightarrow> tlsprofile option \<Rightarrow> string \<Rightarrow> goerr + kubeRbacProxyTLS" where
  "resolveKubeRbacProxyTLS L profile adherence = (case profile of
     None \<Rightarrow> intermediateKubeRbacProxyTLS L
   | Some p \<Rightarrow>
       if tlp_type p = [] \<or> \<not> useConfiguredTLSProfile adherence then intermediateKubeRbacProxyTLS L
       else case strictProfileSpec L p of Inl e \<Rightarrow> Inl e | Inr spec \<Rightarrow> tlsProfileSpecToProxyTLS L spec True)"

section \<open>Reading the cluster\<close>

text \<open>A NotRegistered error is looked for through the chain of wrapped errors.\<close>

fun unwrapped_not_registered :: "goerr \<Rightarrow> bool" where
  "unwrapped_not_registered (ApiErr r) \<longleftrightarrow> r = NotRegistered"
| "unwrapped_not_registered (Wrap _ e) \<longleftrightarrow> unwrapped_not_registered e"
| "unwrapped_not_registered _ \<longleftrightarrow> False"

definition openShiftAPIServerUnavailable :: "goerr \<Rightarrow> bool" where
  "openShiftAPIServerUnavailable e \<longleftrightarrow> IsNotFound e \<or> IsNoMatchError e \<or> unwrapped_not_registered e"

definition loadKubeRbacProxyTLS :: "'s env \<Rightarrow> tlslib \<Rightarrow> ('s, kubeRbacProxyTLS) ehandler" where
  "loadKubeRbacProxyTLS E L = do {
     r \<leftarrow> Get E KAPIServer to_apiserver ([], ''cluster'');
     return_h (case r of
        Inl e \<Rightarrow> if openShiftAPIServerUnavailable e then intermediateKubeRbacProxyTLS L
                else Inl (Wrap ''reading APIServer TLS profile'' e)
      | Inr a \<Rightarrow> resolveKubeRbacProxyTLS L (as_profile a) (as_adherence a))
   }"

definition kubeRbacProxyAdmissionConfig ::
  "'s env \<Rightarrow> tlslib \<Rightarrow> KubeRbacProxyConfig \<Rightarrow> ('s, KubeRbacProxyConfig) ehandler" where
  "kubeRbacProxyAdmissionConfig E L base = do {
     r \<leftarrow> loadKubeRbacProxyTLS E L;
     (case r of
        Inl e \<Rightarrow> fail (Wrap ''resolving kube-rbac-proxy TLS settings'' e)
      | Inr resolved \<Rightarrow> ok (base\<lparr>TLSArgs := Some (ptls_Args resolved)\<rparr>))
   }"

section \<open>Applying the flags\<close>

definition kubeRbacProxyTLSFlag :: "string \<Rightarrow> bool" where
  "kubeRbacProxyTLSFlag arg \<longleftrightarrow> HasPrefix arg tlsMinVersionFlag \<or> HasPrefix arg tlsCipherSuitesFlag \<or>
     HasPrefix arg tlsCurvePreferencesFlag"

definition mergeKubeRbacProxyTLSArgs :: "string list \<Rightarrow> string list \<Rightarrow> string list" where
  "mergeKubeRbacProxyTLSArgs args tlsArgs = filter (\<lambda>a. \<not> kubeRbacProxyTLSFlag a) args @ tlsArgs"

definition notebookDefersPodTemplateChange :: "notebook \<Rightarrow> bool" where
  "notebookDefersPodTemplateChange nb \<longleftrightarrow>
     \<not> HasAnnotation (nb_meta nb) StoppedAnnotation \<and> \<not> HasAnnotation (nb_meta nb) AnnotationNotebookRestart"

definition clearTLSUpdatePending :: "notebook \<Rightarrow> notebook" where
  "clearTLSUpdatePending nb = (
     if mget (nb_annotations nb) AnnotationUpdatePending \<noteq> tlsUpdatePendingReason then nb
     else map_meta (\<lambda>m. with_annotations (mdelete AnnotationUpdatePending (m_annotations m)) m) nb)"

text \<open>The annotation of \<open>current\<close> written into a map that may be nil.\<close>

definition sync_annotations :: "smap \<Rightarrow> smap \<Rightarrow> smap" where
  "sync_annotations cur anns = (case mlookup cur AnnotationUpdatePending of
     Some v \<Rightarrow> (case anns of None \<Rightarrow> mlit [(AnnotationUpdatePending, v)]
                          | Some f \<Rightarrow> Some (fmupd AnnotationUpdatePending v f))
   | None \<Rightarrow> mdelete AnnotationUpdatePending anns)"

definition syncReconciledNotebook :: "notebook \<Rightarrow> notebook \<Rightarrow> notebook" where
  "syncReconciledNotebook nb current = (
     let nb1 = map_meta (\<lambda>m. (with_annotations (sync_annotations (nb_annotations current) (m_annotations m)) m)
                \<lparr>m_resourceVersion := m_resourceVersion (nb_meta current)\<rparr>) nb
     in case find (named ContainerNameKubeRbacProxy) (nb_containers current) of
          None \<Rightarrow> nb1
        | Some stored \<Rightarrow> with_containers
            (update_first (named ContainerNameKubeRbacProxy) (\<lambda>c. c\<lparr>c_args := c_args stored\<rparr>) (nb_containers nb1)) nb1)"

definition update_and_sync :: "'s env \<Rightarrow> notebook \<Rightarrow> notebook \<Rightarrow> ('s, notebook) ehandler" where
  "update_and_sync E nb current =
     check (Update E to_notebook (ONotebook current)) (\<lambda>current'. ok (syncReconciledNotebook nb current'))"

definition deferRunningNotebookTLS :: "'s env \<Rightarrow> notebook \<Rightarrow> notebook \<Rightarrow> bool \<Rightarrow> ('s, notebook) ehandler" where
  "deferRunningNotebookTLS E nb current argsMatch = (
     let pending = mget (nb_annotations current) AnnotationUpdatePending in
     if argsMatch \<and> pending = tlsUpdatePendingReason
     then update_and_sync E nb (clearTLSUpdatePending current)
     else if argsMatch \<or> pending \<noteq> [] then ok (syncReconciledNotebook nb current)
     else update_and_sync E nb (map_meta (\<lambda>m. with_annotations
            (case m_annotations m of None \<Rightarrow> mlit [(AnnotationUpdatePending, tlsUpdatePendingReason)]
             | Some f \<Rightarrow> Some (fmupd AnnotationUpdatePending tlsUpdatePendingReason f)) m) current))"

text \<open>The body of the retry; the result is the caller's Notebook, brought up to date.\<close>

definition apply_tls :: "'s env \<Rightarrow> string list \<Rightarrow> notebook \<Rightarrow> ('s, notebook) ehandler" where
  "apply_tls E tlsArgs nb =
     check (Get E KNotebook to_notebook (nb_key nb)) (\<lambda>current.
       case find (named ContainerNameKubeRbacProxy) (nb_containers current) of
         None \<Rightarrow> ok nb
       | Some c \<Rightarrow> (
           let updated = mergeKubeRbacProxyTLSArgs (c_args c) tlsArgs;
               argsMatch = (c_args c = updated) in
           if notebookDefersPodTemplateChange current then deferRunningNotebookTLS E nb current argsMatch
           else if argsMatch \<and> mget (nb_annotations current) AnnotationUpdatePending \<noteq> tlsUpdatePendingReason
           then ok (syncReconciledNotebook nb current)
           else update_and_sync E nb (clearTLSUpdatePending (edit_container ContainerNameKubeRbacProxy
                  (\<lambda>c. c\<lparr>c_args := updated\<rparr>) current))))"

definition reconcileKubeRbacProxyTLS :: "'s env \<Rightarrow> tlslib \<Rightarrow> notebook \<Rightarrow> ('s, notebook) ehandler" where
  "reconcileKubeRbacProxyTLS E L nb = (
     if \<not> KubeRbacProxyInjectionIsEnabled (nb_meta nb) then ok nb
     else do {
       r \<leftarrow> loadKubeRbacProxyTLS E L;
       (case r of
          Inl e \<Rightarrow> fail (Wrap ''resolving kube-rbac-proxy TLS settings'' e)
        | Inr resolved \<Rightarrow> RetryOnConflict E ''DefaultRetry'' (apply_tls E (ptls_Args resolved) nb))
     })"

section \<open>Facts\<close>

lemma loadKubeRbacProxyTLS_reads [emit_rules]: "emits (wr P) (loadKubeRbacProxyTLS E L)"
  unfolding loadKubeRbacProxyTLS_def by (intro emit_rules; simp)

lemma kubeRbacProxyAdmissionConfig_reads [emit_rules]: "emits (wr P) (kubeRbacProxyAdmissionConfig E L base)"
  unfolding kubeRbacProxyAdmissionConfig_def by (intro emit_rules)

lemma HasPrefix_append [simp]: "HasPrefix (p @ s) p"
  by (simp add: HasPrefix_def)

lemma args_are_flags:
  assumes "tlsProfileSpecToProxyTLS L spec strict = Inr t"
  shows "list_all kubeRbacProxyTLSFlag (ptls_Args t)"
  using assms
  by (auto simp: tlsProfileSpecToProxyTLS_def Let_def kubeRbacProxyTLSFlag_def curvePreferenceFlag_def
      split: if_splits option.splits sum.splits)

lemma resolved_are_flags:
  assumes "resolveKubeRbacProxyTLS L profile adherence = Inr t"
  shows "list_all kubeRbacProxyTLSFlag (ptls_Args t)"
  using assms args_are_flags
  by (auto simp: resolveKubeRbacProxyTLS_def intermediateKubeRbacProxyTLS_def split: if_splits option.splits sum.splits)

lemma merge_idem:
  assumes "list_all kubeRbacProxyTLSFlag tlsArgs"
  shows "mergeKubeRbacProxyTLSArgs (mergeKubeRbacProxyTLSArgs args old) tlsArgs = mergeKubeRbacProxyTLSArgs args tlsArgs \<longleftrightarrow>
    filter (\<lambda>a. \<not> kubeRbacProxyTLSFlag a) old = []"
  by (simp add: mergeKubeRbacProxyTLSArgs_def)

end
