(* ===== verification/PendingDiff.thy ===== *)
theory PendingDiff
  imports KubeTypes
begin

text \<open>
  The reason of a blocked update (\<open>notebook_mutating_webhook.go\<close>): \<open>getStructDiff\<close> has \<open>go-cmp\<close>
  walk the two pod specifications with a reporter that keeps the first difference. The library is a
  parameter: the calls it makes on the reporter, in order, and what its \<open>Equal\<close> returns, unless it panics.
\<close>

section \<open>The reporter\<close>

text \<open>A step of a \<open>cmp.Path\<close>: its name and the two values there, as \<open>%+v\<close> prints them.\<close>

record path_step =
  step_name :: string
  step_vx :: string
  step_vy :: string

datatype cmp_call = CallPush path_step | CallReport bool | CallPop

text \<open>\<open>gc_text\<close> is \<open>%#v\<close> of a path, and \<open>gc_zero\<close> the step \<open>Path.Last\<close> returns of an empty one.\<close>

record cmplib =
  gc_equal :: "podspec \<Rightarrow> podspec \<Rightarrow> cmp_call list \<times> bool option"
  gc_text :: "path_step list \<Rightarrow> string"
  gc_zero :: path_step

record FirstDifferenceReporter =
  fr_path :: "path_step list"
  fr_diff :: string

definition PushStep :: "path_step \<Rightarrow> FirstDifferenceReporter \<Rightarrow> FirstDifferenceReporter" where
  "PushStep s r = r\<lparr>fr_path := fr_path r @ [s]\<rparr>"

definition difference_at :: "cmplib \<Rightarrow> path_step list \<Rightarrow> string" where
  "difference_at L p = (let s = (if p = [] then gc_zero L else last p) in
     gc_text L p @ '': '' @ step_vx s @ '' != '' @ step_vy s)"

definition Report :: "cmplib \<Rightarrow> bool \<Rightarrow> FirstDifferenceReporter \<Rightarrow> FirstDifferenceReporter" where
  "Report L eq r = (if fr_diff r = [] \<and> \<not> eq then r\<lparr>fr_diff := difference_at L (fr_path r)\<rparr> else r)"

definition PopStep :: "FirstDifferenceReporter \<Rightarrow> goerr + FirstDifferenceReporter" where
  "PopStep r = (if fr_path r = [] then Inl (Panic ''slice bounds out of range'')
     else Inr (r\<lparr>fr_path := butlast (fr_path r)\<rparr>))"

fun feed :: "cmplib \<Rightarrow> cmp_call list \<Rightarrow> FirstDifferenceReporter \<Rightarrow> goerr + FirstDifferenceReporter" where
  "feed L [] r = Inr r"
| "feed L (CallPush s # cs) r = feed L cs (PushStep s r)"
| "feed L (CallReport eq # cs) r = feed L cs (Report L eq r)"
| "feed L (CallPop # cs) r = (case PopStep r of Inl e \<Rightarrow> Inl e | Inr r' \<Rightarrow> feed L cs r')"

text \<open>A panic is recovered, and leaves the result it began with.\<close>

definition getStructDiff :: "cmplib \<Rightarrow> podspec \<Rightarrow> podspec \<Rightarrow> string" where
  "getStructDiff L a b = (
     let failed = ''failed to compute the reason for why there is a pending restart''
     in case gc_equal L a b of (calls, eq) \<Rightarrow>
       (case feed L calls \<lparr>fr_path = [], fr_diff = []\<rparr> of
          Inl e \<Rightarrow> failed
        | Inr comparator \<Rightarrow> (case eq of None \<Rightarrow> failed | Some _ \<Rightarrow> fr_diff comparator)))"

section \<open>The first difference\<close>

text \<open>
  What \<open>go-cmp\<close> documents: it descends into the tree of the values, reports each leaf once, and pops
  every step it pushed.
\<close>

datatype cmp_tree = Leaf path_step bool | Branch path_step "cmp_tree list"

fun cmp_calls :: "cmp_tree \<Rightarrow> cmp_call list" where
  "cmp_calls (Leaf s eq) = [CallPush s, CallReport eq, CallPop]"
| "cmp_calls (Branch s ts) = CallPush s # concat (map cmp_calls ts) @ [CallPop]"

text \<open>The paths of the leaves that differ, from left to right.\<close>

fun differing :: "path_step list \<Rightarrow> cmp_tree \<Rightarrow> path_step list list" where
  "differing p (Leaf s eq) = (if eq then [] else [p @ [s]])"
| "differing p (Branch s ts) = concat (map (differing (p @ [s])) ts)"

fun first_of :: "cmplib \<Rightarrow> string \<Rightarrow> path_step list list \<Rightarrow> string" where
  "first_of L d [] = d"
| "first_of L d (p # ps) = (if d = [] then difference_at L p else d)"

lemma difference_nonempty [simp]: "difference_at L p \<noteq> []"
  by (simp add: difference_at_def Let_def)

lemma first_of_append: "first_of L d (ps @ qs) = first_of L (first_of L d ps) qs"
  by (cases ps; cases qs) auto

lemma feed_append: "feed L (cs @ ds) r = (case feed L cs r of Inl e \<Rightarrow> Inl e | Inr r' \<Rightarrow> feed L ds r')"
  by (induction L cs r rule: feed.induct) (auto split: sum.split)

text \<open>A subtree leaves the path as it was, and the difference found so far, or else its own first.\<close>

lemma feed_tree:
  "feed L (cmp_calls t) \<lparr>fr_path = p, fr_diff = d\<rparr> = Inr \<lparr>fr_path = p, fr_diff = first_of L d (differing p t)\<rparr>"
proof (induction t arbitrary: p d)
  case (Branch s ts)
  have "feed L (concat (map cmp_calls us)) \<lparr>fr_path = q, fr_diff = d\<rparr> =
      Inr \<lparr>fr_path = q, fr_diff = first_of L d (concat (map (differing q) us))\<rparr>" if "set us \<subseteq> set ts" for us q d
    using that
  proof (induction us arbitrary: d)
    case (Cons u us)
    then show ?case using Branch.IH[of u] by (simp add: feed_append first_of_append)
  qed simp
  from this[of ts] show ?case by (simp add: PushStep_def PopStep_def feed_append)
qed (simp add: PushStep_def PopStep_def Report_def)

text \<open>
  C32. The reason given is the first difference: when the library walks a tree of the two values and does
  not panic, \<open>getStructDiff\<close> names the path and the values of the first leaf, from left to right, that
  differs, and is empty exactly when none does.
\<close>

theorem struct_diff_is_first_difference:
  assumes "gc_equal L a b = (cmp_calls t, Some eq)"
  shows "getStructDiff L a b = (case differing [] t of [] \<Rightarrow> [] | p # _ \<Rightarrow> difference_at L p) \<and>
    (getStructDiff L a b = [] \<longleftrightarrow> differing [] t = [])"
proof -
  have "getStructDiff L a b = first_of L [] (differing [] t)"
    by (simp add: getStructDiff_def Let_def assms feed_tree)
  then show ?thesis by (cases "differing [] t") auto
qed

definition sample_step :: "string \<Rightarrow> path_step" where
  "sample_step n = \<lparr>step_name = n, step_vx = ''1'', step_vy = ''2''\<rparr>"

definition sample_tree :: cmp_tree where
  "sample_tree = Branch (sample_step ''root'') [Leaf (sample_step ''.a'') True, Leaf (sample_step ''.b'') False, Leaf (sample_step ''.c'') False]"

definition sample_cmp :: cmplib where
  "sample_cmp = \<lparr>gc_equal = (\<lambda>_ _. (cmp_calls sample_tree, Some False)), gc_text = concat o map step_name, gc_zero = sample_step []\<rparr>"

theorem struct_diff_is_first_difference_witness:
  "\<forall>a b. getStructDiff sample_cmp a b = ''root.b: 1 != 2''"
proof (intro allI)
  fix a b
  have "gc_equal sample_cmp a b = (cmp_calls sample_tree, Some False)" by (simp add: sample_cmp_def)
  from struct_diff_is_first_difference[OF this] show "getStructDiff sample_cmp a b = ''root.b: 1 != 2''"
    by (simp add: sample_tree_def difference_at_def sample_cmp_def sample_step_def)
qed

end
