(* ===== verification/Webhook.thy ===== *)
theory Webhook
  imports ProxyTls PendingDiff
begin

text \<open>
  The two admission webhooks of the ODH controller: \<open>NotebookWebhook.Handle\<close>
  (\<open>notebook_mutating_webhook.go\<close>), which composes the mutations, and blocks those that would
  restart a running Notebook; and \<open>NotebookValidatingWebhook.Handle\<close>
  (\<open>notebook_validating_webhook.go\<close>, \<open>notebook_podspec_validation.go\<close>). The decoder's
  result for the object and the old object of a request are part of the request.
\<close>

section \<open>Requests and responses\<close>

datatype operation = OpCreate | OpUpdate | OpOther string

record admission_request =
  rq_operation :: operation
  rq_object :: "goerr + notebook"
  rq_oldObject :: "goerr + notebook"

text \<open>\<open>Patched nb\<close> is the patch that turns the request's object into \<open>nb\<close>.\<close>

datatype admission_response = Errored nat goerr | Denied string | Allowed | Patched notebook

text \<open>
  The webhook's configuration, and what it takes from elsewhere: \<open>resource.ParseQuantity\<close>,
  Go's map orders, the choice of the newest image item, the TLS library, and \<open>go-cmp\<close>.
\<close>

record webhook =
  wh_namespace :: string
  wh_mlflowEnabled :: bool
  wh_gatewayURL :: string
  wh_proxyConfig :: KubeRbacProxyConfig
  wh_parseQuantity :: "string \<Rightarrow> goerr + quantity"
  wh_keyOrder :: "sidecar_key list \<Rightarrow> sidecar_key list"
  wh_envOrder :: "(string \<times> string) list \<Rightarrow> (string \<times> string) list"
  wh_newest :: "tagitem list \<Rightarrow> tagitem"
  wh_tls :: tlslib
  wh_cmp :: cmplib

section \<open>Equality of pod specs\<close>

text \<open>
  \<open>equality.Semantic.DeepEqual\<close>: nil and empty slices are equal, quantities are compared by
  value, resource lists as maps.
\<close>

definition semantic_quantities :: "(string \<times> quantity) list \<Rightarrow> (string, int) fmap" where
  "semantic_quantities qs = fmap_of_list (map (\<lambda>(k, q). (k, q_nanos q)) qs)"

definition semantic_container :: "container \<Rightarrow> container \<times> (string, int) fmap \<times> (string, int) fmap" where
  "semantic_container c = (c\<lparr>c_ports := (case c_ports c of Some [] \<Rightarrow> None | p \<Rightarrow> p),
       c_resources := \<lparr>rs_requests = [], rs_limits = []\<rparr>\<rparr>,
     semantic_quantities (rs_requests (c_resources c)), semantic_quantities (rs_limits (c_resources c)))"

definition podspec_eq :: "podspec \<Rightarrow> podspec \<Rightarrow> bool" where
  "podspec_eq a b \<longleftrightarrow>
     map semantic_container (ps_containers a) = map semantic_container (ps_containers b) \<and>
     map semantic_container (ps_initContainers a) = map semantic_container (ps_initContainers b) \<and>
     map semantic_container (ps_ephemeralContainers a) = map semantic_container (ps_ephemeralContainers b) \<and>
     a\<lparr>ps_containers := [], ps_initContainers := [], ps_ephemeralContainers := []\<rparr> =
     b\<lparr>ps_containers := [], ps_initContainers := [], ps_ephemeralContainers := []\<rparr>"

section \<open>The mutating webhook\<close>

definition env_true :: "'s env \<Rightarrow> string \<Rightarrow> bool" where
  "env_true E k \<longleftrightarrow> ToLower (TrimSpace (Getenv E k)) = trueString"

definition feast_stage :: "notebook \<Rightarrow> notebook" where
  "feast_stage nb = (
     if isFeastEnabled nb then snd (NewFeastConfig nb)
     else if isFeastMounted nb then unmountFeastConfig nb
     else nb)"

definition elyra_stage :: "'s env \<Rightarrow> notebook \<Rightarrow> ('s, notebook) ehandler" where
  "elyra_stage E nb = (
     if env_true E ''SET_PIPELINE_SECRET''
     then do { _ \<leftarrow> SyncElyraRuntimeConfigSecret E nb; MountElyraRuntimeConfigSecret E nb }
     else ok nb)"

text \<open>The part of \<open>Handle\<close> for creates and updates.\<close>

definition mutate_pod :: "'s env \<Rightarrow> webhook \<Rightarrow> notebook \<Rightarrow> ('s, notebook) ehandler" where
  "mutate_pod E W nb =
     check (SetContainerImageFromRegistry E (wh_newest W) (wh_namespace W) nb) (\<lambda>nb1. do {
       nb2 \<leftarrow> CheckAndMountCACertBundle E (wh_envOrder W) nb1;
       _ \<leftarrow> SyncRuntimeImagesConfigMap E (nb_ns nb2) (wh_namespace W);
       check (MountPipelineRuntimeImages E nb2) (\<lambda>nb3.
       check (elyra_stage E nb3) (\<lambda>nb4. do {
         nb5 \<leftarrow> return_h (feast_stage nb4);
         (if wh_mlflowEnabled W
          then do { nb6 \<leftarrow> HandleMLflowEnvVars E (wh_gatewayURL W) nb5; ok nb6 }
          else ok nb5)
       }))
     })"

definition injectKubeRbacProxy :: "'s env \<Rightarrow> webhook \<Rightarrow> notebook \<Rightarrow> ('s, notebook) ehandler" where
  "injectKubeRbacProxy E W nb =
     check (kubeRbacProxyAdmissionConfig E (wh_tls W) (wh_proxyConfig W)) (\<lambda>cfg.
       lift (InjectKubeRbacProxy (wh_parseQuantity W) (wh_keyOrder W)
         (map_sum (\<lambda>e. e) ptls_Args (intermediateKubeRbacProxyTLS (wh_tls W))) cfg nb))"

definition probe_stage :: "int32 \<times> bool \<Rightarrow> notebook \<Rightarrow> notebook" where
  "probe_stage r nb = (case r of (t, configured) \<Rightarrow>
     if \<not> configured then nb
     else let nb1 = applyProbeTimeout (nb_name nb) t nb in
       if KubeRbacProxyInjectionIsEnabled (nb_meta nb1) then applyProbeTimeout ContainerNameKubeRbacProxy t nb1 else nb1)"

definition injectClusterProxy :: "'s env \<Rightarrow> bool" where
  "injectClusterProxy E \<longleftrightarrow> (case env_var E ''INJECT_CLUSTER_PROXY_ENV'' of
     None \<Rightarrow> False
   | Some raw \<Rightarrow> (case ParseBool (TrimSpace raw) of Some b \<Rightarrow> b | None \<Rightarrow> False))"

definition cluster_proxy_stage :: "'s env \<Rightarrow> webhook \<Rightarrow> notebook \<Rightarrow> ('s, notebook) handler" where
  "cluster_proxy_stage E W nb = (
     if injectClusterProxy E then do {
       vars \<leftarrow> ClusterWideProxyIsEnabled E;
       return_h (case vars of None \<Rightarrow> nb | Some kvs \<Rightarrow> InjectProxyConfigEnvVars (wh_envOrder W) kvs nb)
     } else return_h nb)"

text \<open>The Notebook to store, and the reason of a pending restart, if the update is blocked.\<close>

definition maybeRestartRunningNotebook ::
  "webhook \<Rightarrow> admission_request \<Rightarrow> notebook \<Rightarrow> goerr + (notebook \<times> string option)" where
  "maybeRestartRunningNotebook W req mutated = (
     if rq_operation req = OpCreate then Inr (mutated, None)
     else if HasAnnotation (nb_meta mutated) StoppedAnnotation then Inr (mutated, None)
     else if HasAnnotation (nb_meta mutated) AnnotationNotebookRestart then Inr (mutated, None)
     else case rq_object req of Inl e \<Rightarrow> Inl e
     | Inr updated \<Rightarrow> (case rq_oldObject req of Inl e \<Rightarrow> Inl e
       | Inr old \<Rightarrow>
           if \<not> podspec_eq (nb_podspec old) (nb_podspec updated) then Inr (mutated, None)
           else if podspec_eq (nb_podspec old) (nb_podspec mutated) then Inr (mutated, None)
           else Inr (mutated\<lparr>nb_podspec := nb_podspec updated\<rparr>,
                     Some (getStructDiff (wh_cmp W) (nb_podspec mutated) (nb_podspec updated)))))"

definition mark_pending :: "notebook \<times> string option \<Rightarrow> notebook" where
  "mark_pending r = (case r of (nb, pending) \<Rightarrow> map_meta (\<lambda>m.
     let f = (case m_annotations m of None \<Rightarrow> fmempty | Some g \<Rightarrow> g) in
     with_annotations (Some (case pending of
        Some reason \<Rightarrow> fmupd AnnotationUpdatePending reason f
      | None \<Rightarrow> fmdrop AnnotationUpdatePending f)) m) nb)"

text \<open>\<open>Handle\<close> once the object is decoded: an error here is an internal error.\<close>

definition mutate_notebook :: "'s env \<Rightarrow> webhook \<Rightarrow> admission_request \<Rightarrow> notebook \<Rightarrow> ('s, notebook) ehandler" where
  "mutate_notebook E W req nb0 = (
     let nb = (if rq_operation req = OpCreate then map_meta InjectReconciliationLock nb0 else nb0) in
     check (if rq_operation req = OpCreate \<or> rq_operation req = OpUpdate then mutate_pod E W nb else ok nb) (\<lambda>nb1.
     check (if KubeRbacProxyInjectionIsEnabled (nb_meta nb1) then injectKubeRbacProxy E W nb1 else ok nb1) (\<lambda>nb2.
     check (readWorkbenchProbeTimeout E (wh_namespace W)) (\<lambda>probe. do {
       nb3 \<leftarrow> cluster_proxy_stage E W (probe_stage probe nb2);
       (case maybeRestartRunningNotebook W req nb3 of
          Inl e \<Rightarrow> fail e
        | Inr r \<Rightarrow> ok (mark_pending r))
     }))))"

definition Handle :: "'s env \<Rightarrow> webhook \<Rightarrow> admission_request \<Rightarrow> ('s, admission_response) handler" where
  "Handle E W req = (case rq_object req of
     Inl e \<Rightarrow> return_h (Errored 400 e)
   | Inr nb0 \<Rightarrow> do {
       r \<leftarrow> mutate_notebook E W req nb0;
       return_h (case r of Inl e \<Rightarrow> Errored 500 e | Inr nb \<Rightarrow> Patched nb)
     })"

section \<open>The validating webhook\<close>

definition validateContainerSecurityContext :: "string \<Rightarrow> securitycontext option \<Rightarrow> goerr option" where
  "validateContainerSecurityContext containerName sc = (case sc of
     None \<Rightarrow> None
   | Some s \<Rightarrow> if sc_privileged s = Some True
              then Some (Errorf (''privileged container '' @ dquoted containerName @ '' is not allowed in notebook pod spec''))
              else None)"

fun validate_containers :: "container list \<Rightarrow> goerr option" where
  "validate_containers [] = None"
| "validate_containers (c # cs) = (case validateContainerSecurityContext (c_name c) (c_securityContext c) of
     Some e \<Rightarrow> Some e | None \<Rightarrow> validate_containers cs)"

definition validatePodSpecSecurity :: "podspec \<Rightarrow> string \<Rightarrow> goerr option" where
  "validatePodSpecSecurity ps notebookName = (
     if ps_hostNetwork ps then Some (Errorf ''hostNetwork is not allowed in notebook pod spec'')
     else if ps_hostPID ps then Some (Errorf ''hostPID is not allowed in notebook pod spec'')
     else if ps_hostIPC ps then Some (Errorf ''hostIPC is not allowed in notebook pod spec'')
     else if ps_serviceAccountName ps \<noteq> [] \<and> ps_serviceAccountName ps \<noteq> notebookName
     then Some (Errorf (''serviceAccountName '' @ dquoted (ps_serviceAccountName ps) @
            '' is not allowed; notebooks use a dedicated service account named after the notebook''))
     else case find (\<lambda>v. v_hostPath v \<noteq> None) (ps_volumes ps) of
       Some v \<Rightarrow> Some (Errorf (''hostPath volume '' @ dquoted (v_name v) @ '' is not allowed in notebook pod spec''))
     | None \<Rightarrow> validate_containers (ps_containers ps @ ps_initContainers ps @ ps_ephemeralContainers ps))"

definition validateMLflowAnnotationRemoval :: "notebook \<Rightarrow> notebook \<Rightarrow> goerr option" where
  "validateMLflowAnnotationRemoval oldNotebook newNotebook = (
     if HasAnnotation (nb_meta newNotebook) StoppedAnnotation then None
     else if snd (getMLflowInstanceAnnotation oldNotebook) \<and> \<not> snd (getMLflowInstanceAnnotation newNotebook)
     then Some (Errorf (''cannot remove '' @ quoted MLflowInstanceAnnotation @
            '' annotation while the notebook is running; please stop the notebook first, then remove the annotation''))
     else None)"

fun err_text :: "goerr \<Rightarrow> string" where
  "err_text (Errorf s) = s"
| "err_text _ = []"

definition Validate :: "admission_request \<Rightarrow> admission_response" where
  "Validate req = (case rq_object req of
     Inl e \<Rightarrow> Errored 400 e
   | Inr new \<Rightarrow> (case validatePodSpecSecurity (nb_podspec new) (nb_name new) of
       Some e \<Rightarrow> Denied (err_text e)
     | None \<Rightarrow>
         if rq_operation req = OpUpdate then (case rq_oldObject req of
             Inl e \<Rightarrow> Errored 400 e
           | Inr old \<Rightarrow> (case validateMLflowAnnotationRemoval old new of
               Some e \<Rightarrow> Denied (err_text e) | None \<Rightarrow> Allowed))
         else Allowed))"

end
