(* ===== verification/Results.thy ===== *)
theory Results
  imports Webhook
begin

text \<open>
  What a handler returns, whatever the server answers: \<open>yields P m\<close> says that every result
  that is not an error satisfies \<open>P\<close>. With it, the two facts about the mutating webhook
  everything else rests on: what its stages may change of a pod (\<open>safe_edit\<close>), and that the
  sidecar, once there, stays.
\<close>

named_theorems yield_rules \<open>decomposition rules of \<open>yields\<close>\<close>
named_theorems safe_rules \<open>edits that are \<open>safe_edit\<close>\<close>

section \<open>Results\<close>

definition yields :: "('a \<Rightarrow> bool) \<Rightarrow> ('s, 'a) ehandler \<Rightarrow> bool" where
  "yields P m \<longleftrightarrow> (\<forall>w x. fst (run_state m w) = Inr x \<longrightarrow> P x)"

definition yields_h :: "('a \<Rightarrow> bool) \<Rightarrow> ('s, 'a) handler \<Rightarrow> bool" where
  "yields_h P m \<longleftrightarrow> (\<forall>w. P (fst (run_state m w)))"

lemma yieldsD: "yields P m \<Longrightarrow> run_state m w = (Inr x, w') \<Longrightarrow> P x"
  unfolding yields_def by (metis fst_conv)

lemma yields_mono: "yields P m \<Longrightarrow> (\<And>x. P x \<Longrightarrow> Q x) \<Longrightarrow> yields Q m"
  unfolding yields_def by blast

lemma yields_hI: "(\<And>x. P x) \<Longrightarrow> yields_h P m"
  by (simp add: yields_h_def)

lemma yields_ok [yield_rules]: "P x \<Longrightarrow> yields P (ok x)"
  by (simp add: yields_def)

lemma yields_fail [yield_rules]: "yields P (fail e)"
  by (simp add: yields_def)

lemma yields_return [yield_rules]: "(\<And>x. r = Inr x \<Longrightarrow> P x) \<Longrightarrow> yields P (State_Monad.return r)"
  by (simp add: yields_def)

lemma yields_lift [yield_rules]: "(\<And>x. r = Inr x \<Longrightarrow> P x) \<Longrightarrow> yields P (lift r)"
  by (simp add: yields_def)

lemma yields_h_return [yield_rules]: "P x \<Longrightarrow> yields_h P (return_h x)"
  by (simp add: yields_h_def)

lemma yields_check:
  assumes "yields P m" "\<And>x. P x \<Longrightarrow> yields Q (f x)"
  shows "yields Q (check m f)"
  unfolding yields_def
proof (intro allI impI)
  fix w y assume r: "fst (run_state (check m f) w) = Inr y"
  obtain z w1 where m: "run_state m w = (z, w1)" by (cases "run_state m w")
  with r obtain x where x: "z = Inr x" "fst (run_state (f x) w1) = Inr y" by (cases z) auto
  with m assms(1) have "P x" by (metis yieldsD)
  with assms(2) x(2) show "Q y" by (simp add: yields_def)
qed

lemma yields_bind:
  assumes "yields_h P m" "\<And>x. P x \<Longrightarrow> yields Q (f x)"
  shows "yields Q (State_Monad.bind m f)"
  unfolding yields_def
proof (intro allI impI)
  fix w y assume r: "fst (run_state (State_Monad.bind m f) w) = Inr y"
  obtain x w1 where m: "run_state m w = (x, w1)" by (cases "run_state m w")
  with assms(1) have "P x" unfolding yields_h_def by (metis fst_conv)
  with assms(2) r m show "Q y" by (simp add: yields_def)
qed

lemma yields_h_bind:
  assumes "yields_h P m" "\<And>x. P x \<Longrightarrow> yields_h Q (f x)"
  shows "yields_h Q (State_Monad.bind m f)"
  unfolding yields_h_def
proof
  fix w
  obtain x w1 where m: "run_state m w = (x, w1)" by (cases "run_state m w")
  with assms(1) have "P x" unfolding yields_h_def by (metis fst_conv)
  with assms(2) m show "Q (fst (run_state (State_Monad.bind m f) w))" by (simp add: yields_h_def)
qed

lemma yields_any [yield_rules]:
  "(\<And>x. yields Q (f x)) \<Longrightarrow> yields Q (State_Monad.bind m f)"
  by (rule yields_bind[where P = "\<lambda>_. True"]) (auto simp: yields_h_def)

lemma yields_h_any [yield_rules]:
  "(\<And>x. yields_h Q (f x)) \<Longrightarrow> yields_h Q (State_Monad.bind m f)"
  by (rule yields_h_bind[where P = "\<lambda>_. True"]) (auto simp: yields_h_def)

lemma yields_check_any [yield_rules]:
  "(\<And>x. yields Q (f x)) \<Longrightarrow> yields Q (check m f)"
  by (rule yields_check[where P = "\<lambda>_. True"]) (auto simp: yields_def)

lemma yields_cases [yield_rules]:
  "(b \<Longrightarrow> yields P m) \<Longrightarrow> (\<not> b \<Longrightarrow> yields P n) \<Longrightarrow> yields P (if b then m else n)"
  "(\<And>e. x = Inl e \<Longrightarrow> yields P (f e)) \<Longrightarrow> (\<And>y. x = Inr y \<Longrightarrow> yields P (g y)) \<Longrightarrow>
    yields P (case x of Inl e \<Rightarrow> f e | Inr y \<Rightarrow> g y)"
  "(z = None \<Longrightarrow> yields P m) \<Longrightarrow> (\<And>y. z = Some y \<Longrightarrow> yields P (k y)) \<Longrightarrow>
    yields P (case z of None \<Rightarrow> m | Some y \<Rightarrow> k y)"
  "(\<And>y. y = v \<Longrightarrow> yields P (l y)) \<Longrightarrow> yields P (let y = v in l y)"
  by (auto split: sum.splits option.splits)

lemma yields_h_cases [yield_rules]:
  "(b \<Longrightarrow> yields_h P m) \<Longrightarrow> (\<not> b \<Longrightarrow> yields_h P n) \<Longrightarrow> yields_h P (if b then m else n)"
  "(\<And>e. x = Inl e \<Longrightarrow> yields_h P (f e)) \<Longrightarrow> (\<And>y. x = Inr y \<Longrightarrow> yields_h P (g y)) \<Longrightarrow>
    yields_h P (case x of Inl e \<Rightarrow> f e | Inr y \<Rightarrow> g y)"
  "(z = None \<Longrightarrow> yields_h P m) \<Longrightarrow> (\<And>y. z = Some y \<Longrightarrow> yields_h P (k y)) \<Longrightarrow>
    yields_h P (case z of None \<Rightarrow> m | Some y \<Rightarrow> k y)"
  by (auto split: sum.splits option.splits)

section \<open>What an edit of the pod may change\<close>

text \<open>
  Only the containers, the volumes and the service account, which becomes the Notebook's
  name if it changes; no volume with a host path and no security context is introduced.
\<close>

definition pod_safe :: "string \<Rightarrow> podspec \<Rightarrow> podspec \<Rightarrow> bool" where
  "pod_safe n ps ps' \<longleftrightarrow>
     ps'\<lparr>ps_containers := [], ps_volumes := [], ps_serviceAccountName := []\<rparr> =
       ps\<lparr>ps_containers := [], ps_volumes := [], ps_serviceAccountName := []\<rparr> \<and>
     (ps_serviceAccountName ps' = ps_serviceAccountName ps \<or> ps_serviceAccountName ps' = n) \<and>
     (\<forall>v \<in> set (ps_volumes ps'). v_hostPath v = None \<or> v \<in> set (ps_volumes ps)) \<and>
     (\<forall>c \<in> set (ps_containers ps'). c_securityContext c = None \<or>
        (\<exists>c0 \<in> set (ps_containers ps). c_securityContext c0 = c_securityContext c))"

definition safe_edit :: "notebook \<Rightarrow> notebook \<Rightarrow> bool" where
  "safe_edit nb nb' \<longleftrightarrow> nb_meta nb' = nb_meta nb \<and> nb_status nb' = nb_status nb \<and>
     pod_safe (nb_name nb) (nb_podspec nb) (nb_podspec nb')"

lemma pod_safe_trans: "pod_safe n a b \<Longrightarrow> pod_safe n b c \<Longrightarrow> pod_safe n a c"
  unfolding pod_safe_def by (metis (no_types, lifting))

lemma safe_refl [safe_rules, simp]: "safe_edit nb nb"
  by (simp add: safe_edit_def pod_safe_def) blast

lemma safe_trans: "safe_edit a b \<Longrightarrow> safe_edit b c \<Longrightarrow> safe_edit a c"
  unfolding safe_edit_def by (metis pod_safe_trans)

lemma safe_meta: "safe_edit a b \<Longrightarrow> nb_meta b = nb_meta a"
  by (simp add: safe_edit_def)

lemma safe_with_containers:
  assumes "\<And>c. c \<in> set cs \<Longrightarrow> c_securityContext c = None \<or>
    (\<exists>c0 \<in> set (nb_containers nb). c_securityContext c0 = c_securityContext c)"
  shows "safe_edit nb (with_containers cs nb)"
  using assms by (auto simp: safe_edit_def pod_safe_def with_containers_def nb_containers_def)

lemma safe_with_volumes:
  assumes "\<And>v. v \<in> set vs \<Longrightarrow> v_hostPath v = None \<or> v \<in> set (nb_volumes nb)"
  shows "safe_edit nb (with_volumes vs nb)"
  using assms by (auto simp: safe_edit_def pod_safe_def with_volumes_def nb_volumes_def)

lemma update_first_mem: "x \<in> set (update_first p f xs) \<Longrightarrow> x \<in> set xs \<or> (\<exists>y \<in> set xs. x = f y)"
  by (induction xs) (auto split: if_splits)

lemma delete_first_mem: "x \<in> set (delete_first p xs) \<Longrightarrow> x \<in> set xs"
  by (induction xs) (auto split: if_splits)

lemma safe_edit_container [safe_rules]:
  assumes "safe_edit nb x" "\<And>c. c_securityContext (f c) = c_securityContext c"
  shows "safe_edit nb (edit_container n f x)"
  unfolding edit_container_def
  by (rule safe_trans[OF assms(1)], rule safe_with_containers) (use assms(2) in \<open>auto dest!: update_first_mem\<close>)

lemma safe_put_volume [safe_rules]: "safe_edit nb x \<Longrightarrow> v_hostPath v = None \<Longrightarrow> safe_edit nb (put_volume v x)"
  unfolding put_volume_def by (erule safe_trans, rule safe_with_volumes) (auto dest!: put_first_mem)

lemma safe_put_container [safe_rules]:
  "safe_edit nb x \<Longrightarrow> c_securityContext c = None \<Longrightarrow> safe_edit nb (put_container c x)"
  unfolding put_container_def by (erule safe_trans, rule safe_with_containers) (auto dest!: put_first_mem)

lemma safe_with_serviceAccount [safe_rules]:
  assumes "safe_edit nb x" "n = nb_name nb"
  shows "safe_edit nb (with_serviceAccount n x)"
proof (rule safe_trans[OF assms(1)])
  have "n = nb_name x" using assms by (simp add: safe_meta)
  then show "safe_edit x (with_serviceAccount n x)"
    by (auto simp: safe_edit_def pod_safe_def with_serviceAccount_def)
qed

lemma volume_sources [simp]:
  "v_hostPath (configmap_volume n cm opt mode) = None" "v_hostPath (secret_volume n s opt mode) = None"
  "v_hostPath (cert_volume cm) = None" "v_hostPath (feast_volume cm) = None"
  "v_hostPath (proxy_config_volume nb) = None" "v_hostPath (proxy_tls_volume nb) = None"
  "v_hostPath runtime_volume = None" "v_hostPath elyra_volume = None"
  "c_securityContext (proxy_container img args c) = None"
  by (simp_all add: configmap_volume_def secret_volume_def cert_volume_def feast_volume_def
      proxy_config_volume_def proxy_tls_volume_def runtime_volume_def elyra_volume_def proxy_container_def)

section \<open>The stages are safe edits\<close>

lemma safe_InjectCertConfig [safe_rules]: "safe_edit nb (InjectCertConfig ord cm nb)"
  unfolding InjectCertConfig_def by (intro safe_rules) (simp_all add: put_mount_def inject_env_def)

lemma safe_InjectProxyConfigEnvVars [safe_rules]: "safe_edit nb (InjectProxyConfigEnvVars ord vars nb)"
  unfolding InjectProxyConfigEnvVars_def by (intro safe_rules) (simp add: inject_env_def)

lemma add_mount_security [simp]: "c_securityContext (add_mount has m c) = c_securityContext c"
  by (simp add: add_mount_def)

lemma safe_add_mounts [safe_rules]:
  assumes "v_hostPath vol = None"
  shows "safe_edit nb (add_mounts vol has m nb)"
proof -
  let ?nb1 = "if list_ex (vol_named (v_name vol)) (nb_volumes nb) then nb else with_volumes (nb_volumes nb @ [vol]) nb"
  have "safe_edit nb ?nb1" using assms by (auto intro!: safe_with_volumes)
  moreover have "safe_edit ?nb1 (with_containers (map (add_mount has m) (nb_containers ?nb1)) ?nb1)"
    by (rule safe_with_containers) (auto split: if_splits)
  ultimately show ?thesis unfolding add_mounts_def Let_def by (rule safe_trans)
qed

lemma safe_mountFeastConfig: "safe_edit nb (snd (mountFeastConfig cm nb))"
  unfolding mountFeastConfig_def Let_def
  by (auto intro!: safe_rules simp: put_mount_def)

lemma snd_NewFeastConfig: "snd (NewFeastConfig nb) = snd (mountFeastConfig (nb_name nb @ ''-feast-config'') nb)"
  by (simp add: NewFeastConfig_def split: prod.splits option.splits)

lemma safe_unmountFeastConfig: "safe_edit nb (unmountFeastConfig nb)"
  unfolding unmountFeastConfig_def
  by (intro safe_rules safe_with_volumes) (auto dest: delete_first_mem)

lemma safe_feast_stage [safe_rules]: "safe_edit nb (feast_stage nb)"
  by (simp add: feast_stage_def snd_NewFeastConfig safe_mountFeastConfig safe_unmountFeastConfig)

lemma safe_removeEnvVar [safe_rules]: "safe_edit nb x \<Longrightarrow> safe_edit nb (removeNotebookContainerEnvVar n x)"
  unfolding removeNotebookContainerEnvVar_def by (intro safe_rules) (simp_all add: drop_first_env_def)

lemma safe_setEnvVar: "setNotebookContainerEnvVar x n v = Inr nb' \<Longrightarrow> safe_edit nb x \<Longrightarrow> safe_edit nb nb'"
  unfolding setNotebookContainerEnvVar_Inr
  by (elim conjE) (simp, intro safe_rules, simp_all add: set_first_env_def)

lemma safe_CleanupMLflowEnvVars [safe_rules]: "safe_edit nb (CleanupMLflowEnvVars nb)"
  unfolding CleanupMLflowEnvVars_def by (intro safe_rules)

lemma safe_HandleMLflowEnvVars: "yields_h (safe_edit nb) (HandleMLflowEnvVars E g nb)"
proof -
  obtain i b where g: "getMLflowInstanceAnnotation nb = (i, b)" by (cases "getMLflowInstanceAnnotation nb")
  show ?thesis
    unfolding HandleMLflowEnvVars_def g Let_def prod.case
  proof (intro yield_rules safe_rules safe_refl)
    fix nb1 assume "setNotebookContainerEnvVar nb MLflowK8sIntegrationEnvVar trueString = Inr nb1"
    then show 1: "safe_edit nb nb1" by (rule safe_setEnvVar) simp
    fix nb2 u assume "setNotebookContainerEnvVar nb1 MLflowTrackingAuthEnvVar MLflowTrackingAuthValue = Inr nb2"
    from this 1 have "safe_edit nb nb2" by (rule safe_setEnvVar)
    then show "safe_edit nb (case u of
        Inl _ \<Rightarrow> removeNotebookContainerEnvVar MLflowTrackingURIEnvVar nb2
      | Inr trackingURI \<Rightarrow> (case setNotebookContainerEnvVar nb2 MLflowTrackingURIEnvVar trackingURI of
          Inl _ \<Rightarrow> nb2 | Inr nb3 \<Rightarrow> nb3))"
      by (auto intro: safe_removeEnvVar safe_setEnvVar split: sum.splits)
  qed
qed

lemma safe_InjectKubeRbacProxy:
  assumes "InjectKubeRbacProxy pq ord tlsd cfg nb = Inr nb'"
  shows "safe_edit nb nb'"
proof -
  from assms obtain img args config where nb': "nb' = with_proxy img args config nb"
    unfolding InjectKubeRbacProxy_Inr by blast
  show ?thesis unfolding nb' with_proxy_def by (intro safe_rules) simp_all
qed

lemma safe_probe_stage [safe_rules]: "safe_edit nb (probe_stage r nb)"
  unfolding probe_stage_def applyProbeTimeout_def Let_def
  by (cases r) (auto intro!: safe_rules)

lemma safe_apply_image: "i < length (nb_containers nb) \<Longrightarrow> safe_edit nb (apply_image i sel img nb)"
  unfolding apply_image_def Let_def
proof (rule safe_with_containers)
  fix c
  let ?cs = "nb_containers nb" and ?z = "nb_containers nb ! 0"
  assume i: "i < length ?cs" and c: "c \<in> set ((?cs[0 := ?z\<lparr>c_image := img\<rparr>])[i := set_jupyter_image sel (?cs[0 := ?z\<lparr>c_image := img\<rparr>] ! i)])"
  have ith: "?cs ! i \<in> set ?cs" and z: "?z \<in> set ?cs" using i by (auto intro: nth_mem)
  from c have "c \<in> set ?cs \<or> c = ?z\<lparr>c_image := img\<rparr> \<or> c = set_jupyter_image sel (?cs[0 := ?z\<lparr>c_image := img\<rparr>] ! i)"
    by (meson set_update_subset_insert insertE subsetD)
  then show "c_securityContext c = None \<or> (\<exists>c0 \<in> set ?cs. c_securityContext c0 = c_securityContext c)"
    using z ith i by (cases "i = 0") (auto simp: set_jupyter_image_def)
qed

lemma length_apply_image [simp]: "length (nb_containers (apply_image i sel img nb)) = length (nb_containers nb)"
  by (simp add: apply_image_def Let_def)

lemma safe_image_loop:
  "(\<And>i. i \<in> set is \<Longrightarrow> i < length (nb_containers nb)) \<Longrightarrow>
    yields (safe_edit nb) (image_loop E newest sel ns is found nb)"
proof (induction "is" arbitrary: found nb)
  case (Cons i "is")
  have next_nb: "yields (safe_edit nb) (image_loop E newest sel ns is f nb)" for f
    using Cons by simp
  have step: "yields (safe_edit nb) (image_loop E newest sel ns is f (apply_image i sel img nb))" for f img
    using Cons by (intro yields_mono[OF Cons.IH]) (auto intro: safe_trans[OF safe_apply_image])
  have split: "yields (safe_edit nb) (case xs of [stream, tag] \<Rightarrow> m stream tag | _ \<Rightarrow> fail e)"
    if "\<And>a b. yields (safe_edit nb) (m a b)" for xs :: "string list" and m :: "string \<Rightarrow> string \<Rightarrow> ('a, notebook) ehandler" and e
    using that by (auto intro: yields_fail split: list.splits)
  show ?case
    unfolding image_loop.simps
    by (intro yield_rules split next_nb step safe_refl)
qed (auto intro!: yield_rules)

lemma safe_SetContainerImageFromRegistry: "yields (safe_edit nb) (SetContainerImageFromRegistry E newest ns nb)"
  unfolding SetContainerImageFromRegistry_def
  by (intro yield_rules safe_refl safe_image_loop) simp

lemma safe_CheckAndMountCACertBundle: "yields_h (safe_edit nb) (CheckAndMountCACertBundle E ord nb)"
  unfolding CheckAndMountCACertBundle_def
  by (intro yield_rules safe_refl) (auto intro!: safe_rules split: sum.splits)

lemma safe_mounts:
  "yields (safe_edit nb) (MountPipelineRuntimeImages E nb)"
  "yields (safe_edit nb) (elyra_stage E nb)"
  unfolding MountPipelineRuntimeImages_def elyra_stage_def MountElyraRuntimeConfigSecret_def
  by (intro yield_rules safe_refl safe_add_mounts; simp)+

lemma safe_cluster_proxy_stage: "yields_h (safe_edit nb) (cluster_proxy_stage E W nb)"
  unfolding cluster_proxy_stage_def
  by (intro yield_rules safe_refl) (auto intro!: safe_rules split: option.splits)

lemma safe_injectKubeRbacProxy: "yields (safe_edit nb) (injectKubeRbacProxy E W nb)"
  unfolding injectKubeRbacProxy_def by (intro yield_rules) (rule safe_InjectKubeRbacProxy)

lemma safe_mutate_pod: "yields (safe_edit nb) (mutate_pod E W nb)"
  unfolding mutate_pod_def
proof (rule yields_check[OF safe_SetContainerImageFromRegistry], rule yields_bind[OF safe_CheckAndMountCACertBundle],
    rule yields_any, rule yields_check[OF safe_mounts(1)], rule yields_check[OF safe_mounts(2)],
    rule yields_bind[OF yields_h_return[where P = "safe_edit nb"]])
  fix nb1 nb2 nb3 nb4
  assume "safe_edit nb nb1" "safe_edit nb1 nb2" "safe_edit nb2 nb3" "safe_edit nb3 nb4"
  then have 4: "safe_edit nb nb4" by (blast intro: safe_trans)
  then show "safe_edit nb (feast_stage nb4)" by (blast intro: safe_trans safe_feast_stage)
  fix nb5 assume 5: "safe_edit nb nb5"
  show "yields (safe_edit nb) (if wh_mlflowEnabled W
      then State_Monad.bind (HandleMLflowEnvVars E (wh_gatewayURL W) nb5) ok else ok nb5)"
    using 5 by (auto intro!: yield_rules(1) yields_bind[OF safe_HandleMLflowEnvVars] intro: safe_trans)
qed

end
