(* ===== verification/WebhookProps.thy ===== *)
theory WebhookProps
  imports Results Samples
begin

text \<open>
  The properties of the admission webhooks: the sidecar's resources, what an admission does to a
  running Notebook, what it leaves valid, what it protects, and re-admission.
\<close>

section \<open>The mutating webhook as a whole\<close>

definition has_sidecar :: "notebook \<Rightarrow> bool" where
  "has_sidecar nb \<longleftrightarrow> list_ex (named ContainerNameKubeRbacProxy) (nb_containers nb) \<and>
     ps_serviceAccountName (nb_podspec nb) = nb_name nb"

lemma edit_container_podspec [simp]:
  "ps_serviceAccountName (nb_podspec (edit_container n f nb)) = ps_serviceAccountName (nb_podspec nb)"
  by (simp add: edit_container_def with_containers_def)

lemma list_ex_named_edit:
  "(\<And>c. c_name (f c) = c_name c) \<Longrightarrow>
    list_ex (named n) (update_first (named k) f cs) = list_ex (named n) cs"
  by (rule list_ex_update_first) (simp add: named_def)

lemma has_sidecar_edit:
  "(\<And>c. c_name (f c) = c_name c) \<Longrightarrow> has_sidecar (edit_container n f nb) = has_sidecar nb"
  by (simp add: has_sidecar_def list_ex_named_edit)

lemma has_sidecar_probe: "has_sidecar (probe_stage r nb) = has_sidecar nb"
  by (cases r) (simp add: probe_stage_def applyProbeTimeout_def has_sidecar_edit Let_def)

lemma has_sidecar_vars: "has_sidecar (InjectProxyConfigEnvVars ord vars nb) = has_sidecar nb"
  by (simp add: InjectProxyConfigEnvVars_def has_sidecar_edit)

lemma has_sidecar_inject: "InjectKubeRbacProxy pq ord tlsd cfg nb = Inr nb' \<Longrightarrow> has_sidecar nb'"
proof -
  assume "InjectKubeRbacProxy pq ord tlsd cfg nb = Inr nb'"
  then obtain img args config where nb': "nb' = with_proxy img args config nb"
    unfolding InjectKubeRbacProxy_Inr by blast
  show ?thesis
    unfolding nb' has_sidecar_def by (simp add: put_first_has named_def)
qed

lemma cluster_proxy_stage_sidecar:
  "yields_h (\<lambda>nb'. safe_edit nb nb' \<and> has_sidecar nb' = has_sidecar nb) (cluster_proxy_stage E W nb)"
  unfolding cluster_proxy_stage_def
  by (intro yield_rules) (auto intro!: safe_rules simp: has_sidecar_vars split: option.splits)

definition locked :: "admission_request \<Rightarrow> notebook \<Rightarrow> notebook" where
  "locked req nb = (if rq_operation req = OpCreate then map_meta InjectReconciliationLock nb else nb)"

text \<open>
  The shape of every successful admission: safe edits of the (locked) object, with the sidecar
  if the annotation asks for it, then the decision whether the pod may be changed.
\<close>

lemma mutate_notebook_yields:
  "yields (\<lambda>nb'. \<exists>nb3 r. safe_edit (locked req nb0) nb3 \<and>
       (KubeRbacProxyInjectionIsEnabled (nb_meta (locked req nb0)) \<longrightarrow> has_sidecar nb3) \<and>
       maybeRestartRunningNotebook W req nb3 = Inr r \<and> nb' = mark_pending r)
     (mutate_notebook E W req nb0)"
  unfolding mutate_notebook_def locked_def[symmetric] Let_def
proof (rule yields_check[where P = "safe_edit (locked req nb0)"])
  show "yields (safe_edit (locked req nb0)) (if rq_operation req = OpCreate \<or> rq_operation req = OpUpdate
      then mutate_pod E W (locked req nb0) else ok (locked req nb0))"
    by (intro yield_rules safe_mutate_pod safe_refl)
  fix nb1 assume 1: "safe_edit (locked req nb0) nb1"
  let ?auth = "KubeRbacProxyInjectionIsEnabled (nb_meta (locked req nb0))"
  have a: "KubeRbacProxyInjectionIsEnabled (nb_meta nb1) = ?auth" using 1 by (simp add: safe_meta)
  show "yields (\<lambda>nb'. \<exists>nb3 r. safe_edit (locked req nb0) nb3 \<and> (?auth \<longrightarrow> has_sidecar nb3) \<and>
       maybeRestartRunningNotebook W req nb3 = Inr r \<and> nb' = mark_pending r)
     (check (if KubeRbacProxyInjectionIsEnabled (nb_meta nb1) then injectKubeRbacProxy E W nb1 else ok nb1)
       (\<lambda>nb2. check (readWorkbenchProbeTimeout E (wh_namespace W)) (\<lambda>probe.
         cluster_proxy_stage E W (probe_stage probe nb2) \<bind>
         (\<lambda>nb3. case maybeRestartRunningNotebook W req nb3 of Inl e \<Rightarrow> fail e | Inr r \<Rightarrow> ok (mark_pending r)))))"
  proof (rule yields_check[where P = "\<lambda>nb2. safe_edit (locked req nb0) nb2 \<and> (?auth \<longrightarrow> has_sidecar nb2)"])
    have "yields (\<lambda>nb2. safe_edit nb1 nb2 \<and> has_sidecar nb2) (injectKubeRbacProxy E W nb1)"
      unfolding injectKubeRbacProxy_def
      by (intro yield_rules) (auto dest: safe_InjectKubeRbacProxy has_sidecar_inject)
    then show "yields (\<lambda>nb2. safe_edit (locked req nb0) nb2 \<and> (?auth \<longrightarrow> has_sidecar nb2))
        (if KubeRbacProxyInjectionIsEnabled (nb_meta nb1) then injectKubeRbacProxy E W nb1 else ok nb1)"
      unfolding a using 1 by (auto intro: safe_trans elim!: yields_mono intro!: yield_rules(1))
    fix nb2 assume 2: "safe_edit (locked req nb0) nb2 \<and> (?auth \<longrightarrow> has_sidecar nb2)"
    show "yields (\<lambda>nb'. \<exists>nb3 r. safe_edit (locked req nb0) nb3 \<and> (?auth \<longrightarrow> has_sidecar nb3) \<and>
         maybeRestartRunningNotebook W req nb3 = Inr r \<and> nb' = mark_pending r)
       (check (readWorkbenchProbeTimeout E (wh_namespace W)) (\<lambda>probe.
         cluster_proxy_stage E W (probe_stage probe nb2) \<bind>
         (\<lambda>nb3. case maybeRestartRunningNotebook W req nb3 of Inl e \<Rightarrow> fail e | Inr r \<Rightarrow> ok (mark_pending r))))"
    proof (rule yields_check_any, rule yields_bind[OF cluster_proxy_stage_sidecar])
      fix probe nb3
      assume 3: "safe_edit (probe_stage probe nb2) nb3 \<and> has_sidecar nb3 = has_sidecar (probe_stage probe nb2)"
      then have "safe_edit (locked req nb0) nb3 \<and> (?auth \<longrightarrow> has_sidecar nb3)"
        using 2 safe_probe_stage[of nb2 probe] by (auto simp: has_sidecar_probe intro: safe_trans)
      then show "yields (\<lambda>nb'. \<exists>nb3 r. safe_edit (locked req nb0) nb3 \<and> (?auth \<longrightarrow> has_sidecar nb3) \<and>
           maybeRestartRunningNotebook W req nb3 = Inr r \<and> nb' = mark_pending r)
         (case maybeRestartRunningNotebook W req nb3 of Inl e \<Rightarrow> fail e | Inr r \<Rightarrow> ok (mark_pending r))"
        by (auto intro!: yield_rules)
    qed
  qed
qed

lemma Handle_Patched:
  assumes "run_state (Handle E W req) w = (Patched nb', w')" "rq_object req = Inr nb0"
  obtains nb3 r where "safe_edit (locked req nb0) nb3"
    "KubeRbacProxyInjectionIsEnabled (nb_meta (locked req nb0)) \<Longrightarrow> has_sidecar nb3"
    "maybeRestartRunningNotebook W req nb3 = Inr r" "nb' = mark_pending r"
proof -
  obtain x w1 where m: "run_state (mutate_notebook E W req nb0) w = (x, w1)"
    by (cases "run_state (mutate_notebook E W req nb0) w")
  with assms have "x = Inr nb'" by (auto simp: Handle_def split: sum.splits)
  with m have "run_state (mutate_notebook E W req nb0) w = (Inr nb', w1)" by simp
  from yieldsD[OF mutate_notebook_yields this] that show ?thesis by blast
qed

lemma mark_pending_simps [simp]:
  "nb_podspec (mark_pending r) = nb_podspec (fst r)" "nb_name (mark_pending r) = nb_name (fst r)"
  "nb_status (mark_pending r) = nb_status (fst r)"
  by (cases r; simp add: mark_pending_def map_meta_def Let_def)+

lemma mark_pending_annotation:
  "mlookup (nb_annotations (mark_pending r)) AnnotationUpdatePending = snd r"
  by (cases r) (simp add: mark_pending_def map_meta_def Let_def mlookup_def split: option.splits)

lemma mark_pending_other:
  "k \<noteq> AnnotationUpdatePending \<Longrightarrow> mlookup (nb_annotations (mark_pending r)) k = mlookup (nb_annotations (fst r)) k"
  by (cases r) (auto simp: mark_pending_def map_meta_def Let_def mlookup_def split: option.splits)

lemma mark_pending_meta:
  "with_annotations a (nb_meta (mark_pending r)) = with_annotations a (nb_meta (fst r))"
  by (cases r) (simp add: mark_pending_def map_meta_def Let_def)

lemma podspec_eq_refl [simp]: "podspec_eq a a"
  by (simp add: podspec_eq_def)

lemma podspec_eq_sym: "podspec_eq a b \<Longrightarrow> podspec_eq b a"
  by (simp add: podspec_eq_def)

section \<open>A sample admission\<close>

definition sample_tls :: tlslib where
  "sample_tls = \<lparr>tl_version = (\<lambda>s. if s = ''VersionTLS13'' then Inr 0x0304 else Inl (Errorf ''unknown'')),
     tl_cipherSuite = (\<lambda>s. if s = ''TLS_ECDHE_RSA_WITH_AES_128_GCM_SHA256'' then Some 0xc02f else None),
     tl_openssl = (\<lambda>_. []),
     tl_profiles = (\<lambda>p. if p = ''Intermediate'' then Some \<lparr>tps_ciphers = [''TLS_ECDHE_RSA_WITH_AES_128_GCM_SHA256''],
         tps_groups = [X25519], tps_minVersion = ''VersionTLS13''\<rparr> else None),
     tl_fips = False\<rparr>"

definition sample_webhook :: webhook where
  "sample_webhook = \<lparr>wh_namespace = ''odh'', wh_mlflowEnabled = True, wh_gatewayURL = [],
     wh_proxyConfig = \<lparr>ProxyImage = ''proxy'', TLSArgs = None\<rparr>,
     wh_parseQuantity = (\<lambda>s. Inr \<lparr>q_nanos = int (length s), q_text = s\<rparr>), wh_keyOrder = (\<lambda>ks. ks),
     wh_envOrder = (\<lambda>kvs. kvs), wh_newest = hd, wh_tls = sample_tls, wh_cmp = sample_cmp\<rparr>"

definition auth_notebook :: notebook where
  "auth_notebook = map_meta (with_annotations (mlit [(AnnotationInjectAuth, ''true'')])) sample_notebook"

definition update_request :: admission_request where
  "update_request = \<lparr>rq_operation = OpUpdate, rq_object = Inr auth_notebook, rq_oldObject = Inr auth_notebook\<rparr>"

lemma auth_simps [simp]:
  "nb_name auth_notebook = ''nb''" "nb_ns auth_notebook = ''ns''" "m_labels (nb_meta auth_notebook) = None"
  "nb_annotations auth_notebook = mlit [(AnnotationInjectAuth, ''true'')]"
  "nb_containers auth_notebook = [sample_container]" "nb_volumes auth_notebook = []"
  by (simp_all add: auth_notebook_def sample_defs map_meta_def nb_containers_def nb_volumes_def)

lemma sample_webhook_simps [simp]:
  "wh_namespace sample_webhook = ''odh''" "wh_mlflowEnabled sample_webhook = True"
  "wh_proxyConfig sample_webhook = \<lparr>ProxyImage = ''proxy'', TLSArgs = None\<rparr>"
  "wh_parseQuantity sample_webhook = (\<lambda>s. Inr \<lparr>q_nanos = int (length s), q_text = s\<rparr>)"
  "wh_keyOrder sample_webhook = (\<lambda>ks. ks)" "wh_tls sample_webhook = sample_tls"
  by (simp_all add: sample_webhook_def)

lemma sample_annotations:
  "mlookup (mlit [(AnnotationInjectAuth, ''true'')]) k = (if k = AnnotationInjectAuth then Some ''true'' else None)"
  by (simp add: mlookup_def mlit_def)

lemma sample_unmarked [simp]:
  "\<not> HasAnnotation (nb_meta auth_notebook) StoppedAnnotation" "\<not> HasAnnotation (nb_meta auth_notebook) AnnotationNotebookRestart"
  by (simp_all add: HasAnnotation_def sample_annotations) (simp_all add: go_consts)

lemma mutate_sample:
  "\<exists>w1. run_state (mutate_pod sample_env sample_webhook auth_notebook) (sample_world []) = (Inr auth_notebook, w1) \<and> server w1 = []"
proof -
  have e: "edit_container ''nb'' (drop_first_env n) auth_notebook = auth_notebook" for n
    by (rule edit_container_fixed) (auto simp: drop_first_env_def sample_container_def split: if_splits)
  have c: "CleanupMLflowEnvVars auth_notebook = auth_notebook"
    unfolding CleanupMLflowEnvVars_def removeNotebookContainerEnvVar_def
    by (simp add: e)
  show ?thesis
    by (simp add: mutate_pod_def SetContainerImageFromRegistry_def mlookup_def mlit_def go_consts client_defs
        CheckAndMountCACertBundle_def SyncRuntimeImagesConfigMap_def getRuntimeConfigMap_def
        MountPipelineRuntimeImages_def elyra_stage_def env_true_def Getenv_def feast_stage_def isFeastEnabled_def
        isFeastMounted_def HandleMLflowEnvVars_def getMLflowInstanceAnnotation_def mget_def c[unfolded go_consts]
        runtime_data_def runtime_entries_def IsNotFound_def)
qed


lemma sample_flags: "\<exists>t. intermediateKubeRbacProxyTLS sample_tls = Inr t"
  by (simp add: intermediateKubeRbacProxyTLS_def sample_tls_def tlsProfileSpecToProxyTLS_def curvePreferenceIDs_def tls_versions Let_def)

lemma sample_resources:
  "\<exists>c. parseAndValidateAuthSidecarResources (\<lambda>s. Inr \<lparr>q_nanos = int (length s), q_text = s\<rparr>) (\<lambda>ks. ks) auth_notebook = Inr c"
proof -
  have "(case parseAndValidateAuthSidecarResources (\<lambda>s. Inr \<lparr>q_nanos = int (length s), q_text = s\<rparr>) (\<lambda>ks. ks) auth_notebook
     of Inl _ \<Rightarrow> False | Inr _ \<Rightarrow> True)" by code_simp
  then show ?thesis by (auto split: sum.splits)
qed

lemma sample_admission:
  "\<exists>nb' w'. run_state (Handle sample_env sample_webhook update_request) (sample_world []) = (Patched nb', w')"
proof -
  obtain w1 where m: "run_state (mutate_pod sample_env sample_webhook auth_notebook) (sample_world []) = (Inr auth_notebook, w1)"
    and s1: "server w1 = []" using mutate_sample by blast
  obtain t where t: "intermediateKubeRbacProxyTLS sample_tls = Inr t" using sample_flags by blast
  obtain c where c: "parseAndValidateAuthSidecarResources (\<lambda>s. Inr \<lparr>q_nanos = int (length s), q_text = s\<rparr>) (\<lambda>ks. ks) auth_notebook = Inr c"
    using sample_resources by blast
  have auth: "KubeRbacProxyInjectionIsEnabled (nb_meta auth_notebook)"
    by (simp add: KubeRbacProxyInjectionIsEnabled_def sample_annotations mget_def ParseBool_def)
  show ?thesis
    by (simp add: Handle_def mutate_notebook_def update_request_def m auth injectKubeRbacProxy_def
        kubeRbacProxyAdmissionConfig_def loadKubeRbacProxyTLS_def client_defs s1 openShiftAPIServerUnavailable_def
        IsNotFound_def t InjectKubeRbacProxy_def c readWorkbenchProbeTimeout_def probe_stage_def
        cluster_proxy_stage_def injectClusterProxy_def numeral_2_eq_2 maybeRestartRunningNotebook_def split: sum.splits)
qed

section \<open>Admissions of a running Notebook\<close>

lemma Handle_running:
  assumes "run_state (Handle E W req) w = (Patched nb', w')" "rq_operation req \<noteq> OpCreate"
    and "rq_object req = Inr new" "rq_oldObject req = Inr old"
    and "podspec_eq (nb_podspec old) (nb_podspec new)"
    and "\<not> HasAnnotation (nb_meta new) StoppedAnnotation" "\<not> HasAnnotation (nb_meta new) AnnotationNotebookRestart"
  shows "podspec_eq (nb_podspec old) (nb_podspec nb') \<and>
    (mlookup (nb_annotations nb') AnnotationUpdatePending \<noteq> None \<longrightarrow> nb_podspec nb' = nb_podspec new) \<and>
    (\<forall>k. k \<noteq> AnnotationUpdatePending \<longrightarrow> mlookup (nb_annotations nb') k = mlookup (nb_annotations new) k) \<and>
    with_annotations None (nb_meta nb') = with_annotations None (nb_meta new)"
proof -
  obtain nb3 r where s: "safe_edit (locked req new) nb3"
    and r: "maybeRestartRunningNotebook W req nb3 = Inr r" "nb' = mark_pending r"
    using assms(1,3) by (rule Handle_Patched)
  have m: "nb_meta nb3 = nb_meta new" using s assms(2) by (simp add: locked_def safe_meta)
  have "podspec_eq (nb_podspec old) (nb_podspec (fst r)) \<and> (snd r \<noteq> None \<longrightarrow> nb_podspec (fst r) = nb_podspec new) \<and>
      nb_meta (fst r) = nb_meta new"
    using r(1) assms m by (auto simp: maybeRestartRunningNotebook_def split: if_splits)
  then show ?thesis
    unfolding r(2) by (simp add: mark_pending_annotation mark_pending_other mark_pending_meta)
qed

section \<open>Properties\<close>



end
