(* ===== verification/OdhBase.thy ===== *)
theory OdhBase
  imports ProxyTls
begin

text \<open>
  What the parts of the ODH controller (\<open>OpenshiftNotebookReconciler\<close>) share: its fields, the
  third-party functions it calls, and the rules for the updates it retries.
\<close>

section \<open>The reconciler\<close>

text \<open>An ingress of the platform (\<open>ingressassignment.Ingress\<close>).\<close>

record ingress =
  in_name :: string
  in_gatewayName :: string
  in_gatewayNamespace :: string
  in_isDefault :: bool

text \<open>
  The fields of the reconciler, then the library functions its handlers call:
  \<open>err.Error()\<close>, \<open>%v\<close> of a slice of errors, \<open>schema.ParseGroupVersion\<close> (group and version), \<open>pem.Decode\<close> (type and
  bytes of the first block), whether \<open>x509.ParseCertificate\<close> succeeds, \<open>json.Unmarshal\<close> of the
  list of ingresses, and \<open>ingressassignment.Resolve\<close>, which reads the Namespace through the client.
  The event recorder is set, as \<open>main\<close> does.
\<close>

record 's odh =
  od_namespace :: string
  od_mlflowEnabled :: bool
  od_tls :: tlslib
  od_errtext :: "goerr \<Rightarrow> string"
  od_errlist :: "goerr list \<Rightarrow> string"
  od_parseGV :: "string \<Rightarrow> (string \<times> string) option"
  od_pemBlock :: "string \<Rightarrow> (string \<times> string) option"
  od_certParses :: "string \<Rightarrow> bool"
  od_parseIngresses :: "string \<Rightarrow> goerr + ingress list"
  od_resolve :: "string \<Rightarrow> ingress list \<Rightarrow> 's \<Rightarrow> (goerr + ingress) \<times> 's"

definition resolve_ingress :: "'s odh \<Rightarrow> string \<Rightarrow> ingress list \<Rightarrow> ('s, ingress) ehandler" where
  "resolve_ingress R ns ingresses = State (\<lambda>w. case od_resolve R ns ingresses (server w) of
     (r, s) \<Rightarrow> (r, w\<lparr>server := s\<rparr>))"

lemma run_resolve_ingress [simp]:
  "run_state (resolve_ingress R ns is) w = (case od_resolve R ns is (server w) of (r, s) \<Rightarrow> (r, w\<lparr>server := s\<rparr>))"
  by (simp add: resolve_ingress_def)

lemma does_resolve_ingress [wp_rules]: "(\<And>r. Q r []) \<Longrightarrow> does (resolve_ingress R ns is) Q"
  by (auto simp: does_def split: prod.splits)

lemma emits_resolve_ingress [emit_rules]: "emits P (resolve_ingress R ns is)"
  by (simp add: emits_def does_resolve_ingress)

lemma setref_keeps_meta:
  assumes "setref_keeps E" "SetControllerReference E owner m = Inr m'"
  shows "m_name m' = m_name m \<and> m_namespace m' = m_namespace m \<and> m_labels m' = m_labels m"
proof -
  have "m' = m\<lparr>m_ownerRefs := m_ownerRefs m'\<rparr>"
    using assms by (simp add: setref_keeps_def SetControllerReference_def)
  then show ?thesis by (metis objmeta.select_convs(1,3,6) objmeta.surjective objmeta.update_convs(9))
qed

section \<open>Deleting what may be gone\<close>

text \<open>\<open>NotFound\<close> is no error of a delete.\<close>

definition delete_tolerant :: "'s env \<Rightarrow> kind \<Rightarrow> nsname \<Rightarrow> ('s, unit) ehandler" where
  "delete_tolerant E k key = do {
     r \<leftarrow> Delete E k key;
     (case r of Inl e \<Rightarrow> if IsNotFound e then ok () else fail e | Inr _ \<Rightarrow> ok ())
   }"

lemma emits_delete_tolerant [emit_rules]:
  "(\<And>resp. P (Call (RDelete k key) resp)) \<Longrightarrow> emits P (delete_tolerant E k key)"
  unfolding delete_tolerant_def by (intro emit_rules; assumption)

lemma run_delete_tolerant:
  "run_state (delete_tolerant E k key) w = (case env_api E (RDelete k key) (server w) of
     (resp, s) \<Rightarrow> ((case as_unit resp of Inl e \<Rightarrow> if IsNotFound e then Inr () else Inl e | Inr _ \<Rightarrow> Inr ()),
        w\<lparr>server := s, trace := trace w @ [Call (RDelete k key) resp]\<rparr>))"
  by (simp add: delete_tolerant_def Delete_def split: prod.splits sum.splits)

section \<open>Running several handlers\<close>

text \<open>Run every handler and collect the errors of those that fail.\<close>

fun collect_errors :: "('s, unit) ehandler list \<Rightarrow> ('s, goerr list) handler" where
  "collect_errors [] = return_h []"
| "collect_errors (h # hs) = do {
     r \<leftarrow> h;
     es \<leftarrow> collect_errors hs;
     return_h (case r of Inl e \<Rightarrow> e # es | Inr _ \<Rightarrow> es)
   }"

lemma emits_collect_errors [emit_rules]:
  "(\<And>h. h \<in> set hs \<Longrightarrow> emits P h) \<Longrightarrow> emits P (collect_errors hs)"
  by (induction hs) (auto intro!: emit_rules)

section \<open>Writes that rest on reads\<close>

text \<open>
  \<open>justifies J A m\<close>: every write of \<open>m\<close> is one that \<open>J\<close> allows, given the effects of \<open>A\<close>
  that came before and those of the run itself. \<open>J\<close> typically asks for the read the written
  object was computed from.
\<close>

definition justifies :: "(effect set \<Rightarrow> request \<Rightarrow> bool) \<Rightarrow> effect set \<Rightarrow> ('s, 'a) handler \<Rightarrow> bool" where
  "justifies J A m \<longleftrightarrow> does m (\<lambda>_ es. \<forall>q resp. Call q resp \<in> set es \<longrightarrow> is_write q \<longrightarrow> J (A \<union> set es) q)"

lemma justifies_weaken:
  "justifies J A m \<Longrightarrow> (\<And>B q. A \<subseteq> B \<Longrightarrow> J B q \<Longrightarrow> K B q) \<Longrightarrow> justifies K A m"
  unfolding justifies_def by (erule does_mono) blast

lemma justifies_emits: "emits (wr P) m \<Longrightarrow> (\<And>B q. P q \<Longrightarrow> J B q) \<Longrightarrow> justifies J A m"
  unfolding justifies_def by (drule writes_does, erule does_mono) blast

lemma justifies_trace:
  assumes "justifies J {} m" "run_state m w = (r, w')" "trace w' = trace w @ es" "Call q resp \<in> set es" "is_write q"
  shows "J (set es) q"
  using does_run[OF assms(1)[unfolded justifies_def] assms(2)] assms(3-5) by auto

text \<open>The contract of such a \<open>J\<close>: a read more never forbids a write.\<close>

locale read_based =
  fixes J :: "effect set \<Rightarrow> request \<Rightarrow> bool"
  assumes keeps: "J A q \<Longrightarrow> A \<subseteq> B \<Longrightarrow> J B q"
begin

lemma later: "justifies J A m \<Longrightarrow> A \<subseteq> B \<Longrightarrow> justifies J B m"
  unfolding justifies_def by (erule does_mono) (meson Un_mono keeps order_refl)

lemma return: "justifies J A (State_Monad.return x)"
  by (simp add: justifies_def does_return)

lemma lifted: "justifies J A (lift r)"
  by (simp add: lift_def return)

lemma emitted: "justifies J A (emit (Emitted k t r m))"
  by (simp add: justifies_def does_emit)

lemma bound:
  assumes "justifies J A m" "\<And>x. justifies J A (f x)"
  shows "justifies J A (State_Monad.bind m f)"
  unfolding justifies_def
proof (rule does_bind, rule does_mono[OF assms(1)[unfolded justifies_def]])
  fix x es assume 1: "\<forall>q resp. Call q resp \<in> set es \<longrightarrow> is_write q \<longrightarrow> J (A \<union> set es) q"
  show "does (f x) (\<lambda>y es'. \<forall>q resp. Call q resp \<in> set (es @ es') \<longrightarrow> is_write q \<longrightarrow> J (A \<union> set (es @ es')) q)"
    using assms(2)[of x] unfolding justifies_def
  proof (rule does_mono, intro allI impI)
    fix y es' q resp
    assume 2: "\<forall>q resp. Call q resp \<in> set es' \<longrightarrow> is_write q \<longrightarrow> J (A \<union> set es') q"
      and q: "Call q resp \<in> set (es @ es')" "is_write q"
    have "A \<union> set es \<subseteq> A \<union> set (es @ es')" "A \<union> set es' \<subseteq> A \<union> set (es @ es')" by auto
    with q 1 2 show "J (A \<union> set (es @ es')) q" by (auto intro: keeps)
  qed
qed

lemma checked: "justifies J A m \<Longrightarrow> (\<And>x. justifies J A (f x)) \<Longrightarrow> justifies J A (check m f)"
  unfolding check_def by (rule bound) (auto intro: return split: sum.splits)

lemma checked_lift: "(\<And>x. r = Inr x \<Longrightarrow> justifies J A (f x)) \<Longrightarrow> justifies J A (check (lift r) f)"
  by (cases r) (simp_all add: check_def lift_def return)

lemma called: "(\<And>resp. is_write q \<Longrightarrow> J (insert (Call q resp) A) q) \<Longrightarrow> justifies J A (call_as E p q)"
  unfolding justifies_def by (rule does_call_as) auto

lemma read_bind:
  assumes "\<not> is_write q"
    "\<And>resp. justifies J (insert (Call q resp) A) (f (p resp))"
  shows "justifies J A (State_Monad.bind (call_as E p q) f)"
  unfolding justifies_def
proof (rule does_bind, rule does_call_as)
  fix resp
  show "does (f (p resp)) (\<lambda>y es'. \<forall>q' resp'. Call q' resp' \<in> set ([Call q resp] @ es') \<longrightarrow> is_write q' \<longrightarrow>
    J (A \<union> set ([Call q resp] @ es')) q')"
    using assms(2)[of resp] unfolding justifies_def by (rule does_mono) (use assms(1) in auto)
qed

lemma get_bind: "(\<And>resp. justifies J (insert (Call (RGet k key) resp) A) (f (as_obj p resp))) \<Longrightarrow>
    justifies J A (State_Monad.bind (Get E k p key) f)"
  unfolding Get_def by (rule read_bind) simp_all

lemma get_check:
  assumes "\<And>resp x. as_obj p resp = Inr x \<Longrightarrow> justifies J (insert (Call (RGet k key) resp) A) (f x)"
  shows "justifies J A (check (Get E k p key) f)"
  unfolding check_def by (rule get_bind) (auto intro: return assms split: sum.splits)

lemma list_check:
  assumes "\<And>resp xs. as_list p resp = Inr xs \<Longrightarrow> justifies J (insert (Call (RList k ns ls) resp) A) (f xs)"
  shows "justifies J A (check (ListIn E k p ns ls) f)"
  unfolding check_def ListIn_def by (rule read_bind) (auto intro: return assms split: sum.splits)

lemma client:
  "justifies J A (Get E k q key)" "justifies J A (ListIn E k r ns ls)"
  "(\<And>resp. J (insert (Call (RCreate x) resp) A) (RCreate x)) \<Longrightarrow> justifies J A (Create E p x)"
  "(\<And>resp. J (insert (Call (RUpdate x) resp) A) (RUpdate x)) \<Longrightarrow> justifies J A (Update E p x)"
  "(\<And>resp. J (insert (Call (RDelete k key) resp) A) (RDelete k key)) \<Longrightarrow> justifies J A (Delete E k key)"
  "(\<And>resp. J (insert (Call (RPatchMerge y x) resp) A) (RPatchMerge y x)) \<Longrightarrow> justifies J A (PatchMerge E p y x)"
  "(\<And>resp. J (insert (Call (RPatchRaw k key s) resp) A) (RPatchRaw k key s)) \<Longrightarrow> justifies J A (PatchRaw E k p key s)"
  unfolding client_defs by (rule called, simp)+

lemma retried: "justifies J A m \<Longrightarrow> justifies J A (retry_on n p m)"
  by (induction n) (auto intro!: bound return split: sum.splits)

lemma retried_on_conflict:
  "justifies J A m \<Longrightarrow> justifies J A (RetryOnConflict E b m)" "justifies J A m \<Longrightarrow> justifies J A (RetryOnError E b c m)"
  by (simp_all add: RetryOnConflict_def RetryOnError_def retried)

lemma cases:
  "(b \<Longrightarrow> justifies J A m) \<Longrightarrow> (\<not> b \<Longrightarrow> justifies J A n) \<Longrightarrow> justifies J A (if b then m else n)"
  "(\<And>e. x = Inl e \<Longrightarrow> justifies J A (f e)) \<Longrightarrow> (\<And>y. x = Inr y \<Longrightarrow> justifies J A (g y)) \<Longrightarrow>
    justifies J A (case x of Inl e \<Rightarrow> f e | Inr y \<Rightarrow> g y)"
  "(z = None \<Longrightarrow> justifies J A m) \<Longrightarrow> (\<And>y. z = Some y \<Longrightarrow> justifies J A (k y)) \<Longrightarrow>
    justifies J A (case z of None \<Rightarrow> m | Some y \<Rightarrow> k y)"
  by (auto split: sum.splits option.splits)

lemma collected: "(\<And>h. h \<in> set hs \<Longrightarrow> justifies J A h) \<Longrightarrow> justifies J A (collect_errors hs)"
  by (induction hs) (auto intro!: bound return)

lemma tolerant:
  "(\<And>resp. J (insert (Call (RCreate x) resp) A) (RCreate x)) \<Longrightarrow> justifies J A (create_tolerant E p x)"
  "(\<And>resp. J (insert (Call (RDelete k key) resp) A) (RDelete k key)) \<Longrightarrow> justifies J A (delete_tolerant E k key)"
  unfolding create_tolerant_def delete_tolerant_def by (auto intro!: bound client return split: sum.splits)

lemma got_or:
  assumes "justifies J A m" "\<And>resp x. as_obj p resp = Inr x \<Longrightarrow> justifies J (insert (Call (RGet k key) resp) A) (f x)"
  shows "justifies J A (get_or E k p key m f)"
  unfolding get_or_def by (rule get_bind) (auto intro: return assms later split: sum.splits)

lemma resolved: "justifies J A (resolve_ingress R ns is)"
  by (simp add: justifies_def does_resolve_ingress)

end

end
