(* ===== verification/MemServer.thy ===== *)
theory MemServer
  imports OdhBase Samples
begin

text \<open>
  A calculus for what a handler leaves on a server that keeps what it is given
  (\<open>mem_api\<close>): \<open>triple P m Q\<close>, from a stored state that satisfies \<open>P\<close>, ends in one that
  satisfies \<open>Q\<close> together with the result, whatever the trace.
\<close>

named_theorems triple_rules \<open>decomposition rules of \<open>triple\<close>\<close>

section \<open>Triples\<close>

definition triple :: "('s \<Rightarrow> bool) \<Rightarrow> ('s, 'a) handler \<Rightarrow> ('a \<Rightarrow> 's \<Rightarrow> bool) \<Rightarrow> bool" where
  "triple P m Q \<longleftrightarrow> (\<forall>w. P (server w) \<longrightarrow> Q (fst (run_state m w)) (server (snd (run_state m w))))"

lemma tripleD: "triple P m Q \<Longrightarrow> run_state m w = (r, w') \<Longrightarrow> P (server w) \<Longrightarrow> Q r (server w')"
  unfolding triple_def by (metis fst_conv snd_conv)

lemma triple_mono: "triple P m Q \<Longrightarrow> (\<And>s. P' s \<Longrightarrow> P s) \<Longrightarrow> (\<And>r s. Q r s \<Longrightarrow> Q' r s) \<Longrightarrow> triple P' m Q'"
  unfolding triple_def by blast

lemma triple_return [triple_rules]: "(\<And>s. P s \<Longrightarrow> Q x s) \<Longrightarrow> triple P (State_Monad.return x) Q"
  by (simp add: triple_def)

lemma triple_lift [triple_rules]: "(\<And>s. P s \<Longrightarrow> Q r s) \<Longrightarrow> triple P (lift r) Q"
  by (simp add: triple_def)

lemma triple_emit [triple_rules]: "(\<And>s. P s \<Longrightarrow> Q () s) \<Longrightarrow> triple P (emit e) Q"
  by (simp add: triple_def)

lemma triple_bind:
  fixes m :: "('s, 'a) handler"
  assumes "triple P m S" "\<And>x. triple (S x) (f x) Q"
  shows "triple P (State_Monad.bind m f) Q"
  unfolding triple_def
proof (intro allI impI)
  fix w :: "'s world" assume P: "P (server w)"
  obtain x w1 where m: "run_state m w = (x, w1)" by (cases "run_state m w")
  with assms(1) P have "S x (server w1)" by (metis tripleD)
  with assms(2)[of x] have "Q (fst (run_state (f x) w1)) (server (snd (run_state (f x) w1)))"
    unfolding triple_def by blast
  with m show "Q (fst (run_state (State_Monad.bind m f) w)) (server (snd (run_state (State_Monad.bind m f) w)))"
    by simp
qed

lemma triple_check:
  assumes "triple P m S" "\<And>e s. S (Inl e) s \<Longrightarrow> Q (Inl e) s" "\<And>x. triple (S (Inr x)) (f x) Q"
  shows "triple P (check m f) Q"
  unfolding check_def
proof (rule triple_bind[OF assms(1)])
  fix r show "triple (S r) (case r of Inl e \<Rightarrow> fail e | Inr x \<Rightarrow> f x) Q"
    using assms(2,3) by (cases r) (auto intro: triple_return)
qed

lemma triple_check_lift [triple_rules]:
  "(\<And>e s. r = Inl e \<Longrightarrow> P s \<Longrightarrow> Q (Inl e) s) \<Longrightarrow> (\<And>x. r = Inr x \<Longrightarrow> triple P (f x) Q) \<Longrightarrow>
    triple P (check (lift r) f) Q"
  by (cases r) (simp_all add: check_def lift_def triple_return)

lemma triple_cases [triple_rules]:
  "(b \<Longrightarrow> triple P m Q) \<Longrightarrow> (\<not> b \<Longrightarrow> triple P n Q) \<Longrightarrow> triple P (if b then m else n) Q"
  "(\<And>e. x = Inl e \<Longrightarrow> triple P (f e) Q) \<Longrightarrow> (\<And>y. x = Inr y \<Longrightarrow> triple P (g y) Q) \<Longrightarrow>
    triple P (case x of Inl e \<Rightarrow> f e | Inr y \<Rightarrow> g y) Q"
  "(z = None \<Longrightarrow> triple P m Q) \<Longrightarrow> (\<And>y. z = Some y \<Longrightarrow> triple P (k y) Q) \<Longrightarrow>
    triple P (case z of None \<Rightarrow> m | Some y \<Rightarrow> k y) Q"
  by (auto split: sum.splits option.splits)

lemma triple_retry:
  assumes "triple P m Q" "\<And>e s. Q (Inl e) s \<Longrightarrow> P s"
  shows "triple P (retry_on n p m) Q"
proof (induction n)
  case (Suc n)
  show ?case
    unfolding retry_on.simps
  proof (rule triple_bind[OF assms(1)])
    fix r
    have "triple (Q (Inl e)) (retry_on n p m) Q" for e
      by (rule triple_mono[OF Suc]) (auto intro: assms(2))
    then show "triple (Q r) (case r of Inl e \<Rightarrow> if p e then retry_on n p m else fail e | Inr x \<Rightarrow> ok x) Q"
      by (auto intro!: triple_return split: sum.splits)
  qed
qed (simp add: assms(1))

lemma triple_RetryOnConflict:
  "triple P m Q \<Longrightarrow> (\<And>e s. Q (Inl e) s \<Longrightarrow> P s) \<Longrightarrow> triple P (RetryOnConflict E b m) Q"
  unfolding RetryOnConflict_def RetryOnError_def by (rule triple_retry)

text \<open>
  Handlers run one after another, with their errors collected: if each keeps what the earlier
  ones established and establishes its own part unless it fails, then without an error every
  part holds in the end.
\<close>

lemma collect_errors_triple:
  assumes "\<And>x ys. x \<in> U \<Longrightarrow> set ys \<subseteq> U \<Longrightarrow> x \<notin> set ys \<Longrightarrow>
      triple (\<lambda>s. \<forall>y \<in> set ys. G y s) (h x) (\<lambda>r s. (\<forall>y \<in> set ys. G y s) \<and> (r = Inr () \<longrightarrow> G x s))"
    and "distinct (before @ xs)" "set (before @ xs) \<subseteq> U"
  shows "triple (\<lambda>s. \<forall>y \<in> set before. G y s) (collect_errors (map h xs))
    (\<lambda>es s. es = [] \<longrightarrow> (\<forall>y \<in> set (before @ xs). G y s))"
  using assms
proof (induction xs arbitrary: before)
  case (Cons x xs)
  have IH: "triple (\<lambda>s. \<forall>y \<in> set (before @ [x]). G y s) (collect_errors (map h xs))
      (\<lambda>es s. es = [] \<longrightarrow> (\<forall>y \<in> set (before @ x # xs). G y s))"
    using Cons.IH[of "before @ [x]"] Cons.prems by simp
  have any: "triple P m (\<lambda>_ _. True)" for P :: "'b \<Rightarrow> bool" and m :: "('b, goerr list) handler"
    by (simp add: triple_def)
  have "triple (\<lambda>s. (\<forall>y \<in> set before. G y s) \<and> (r = Inr () \<longrightarrow> G x s))
      (do { es \<leftarrow> collect_errors (map h xs); return_h (case r of Inl e \<Rightarrow> e # es | Inr _ \<Rightarrow> es) })
      (\<lambda>es s. es = [] \<longrightarrow> (\<forall>y \<in> set (before @ x # xs). G y s))" for r :: "goerr + unit"
  proof (cases r)
    case (Inl e)
    then show ?thesis by (auto intro!: triple_bind[OF any] triple_return)
  next
    case (Inr u)
    have "triple (\<lambda>s. (\<forall>y \<in> set before. G y s) \<and> (r = Inr () \<longrightarrow> G x s)) (collect_errors (map h xs))
        (\<lambda>es s. es = [] \<longrightarrow> (\<forall>y \<in> set (before @ x # xs). G y s))"
      by (rule triple_mono[OF IH]) (use Inr in auto)
    then show ?thesis by (rule triple_bind) (use Inr in \<open>auto intro!: triple_return\<close>)
  qed
  then show ?case
    using Cons.prems by (auto intro!: triple_bind[OF Cons.prems(1)])
qed (auto intro: triple_return)

lemma run_fst: "fst (run_state m w) = r \<Longrightarrow> run_state m w = (r, snd (run_state m w))"
  by (simp add: prod_eq_iff)

section \<open>Calls on the server\<close>

definition stored :: "kind \<Rightarrow> nsname \<Rightarrow> kobj list \<Rightarrow> kobj option" where
  "stored k key s = find (same_obj k key) s"

lemma stored_kind: "stored k key s = Some x \<Longrightarrow> obj_kind x = k \<and> obj_key x = key"
  unfolding stored_def by (rule find_same_obj)

lemma stored_Cons: "stored k key (x # s) = (if obj_kind x = k \<and> obj_key x = key then Some x else stored k key s)"
  by (simp add: stored_def same_obj_def)

lemma stored_None: "stored k key s = None \<longleftrightarrow> \<not> list_ex (same_obj k key) s"
  by (auto simp: stored_def find_None_iff list_ex_iff)

lemma stored_replace:
  assumes "obj_kind x = k'" "obj_key x = key'"
  shows "stored k key (replace_first (same_obj k' key') x s) =
    (if k = k' \<and> key = key' \<and> stored k' key' s \<noteq> None then Some x else stored k key s)"
  using assms by (induction s) (auto simp: stored_def same_obj_def)

lemma stored_netpolicy: "stored KNetworkPolicy key s = Some x \<Longrightarrow> \<exists>p. x = ONetworkPolicy p"
  by (cases x) (auto dest: stored_kind)

lemma stored_httproute: "stored KHTTPRoute key s = Some x \<Longrightarrow> \<exists>p. x = OHTTPRoute p"
  by (cases x) (auto dest: stored_kind)

lemma Get_mem:
  assumes "env_api E = mem_api"
  shows "triple P (Get E k p key) (\<lambda>r s. P s \<and> r = (case stored k key s of
    None \<Rightarrow> Inl (ApiErr NotFound) | Some x \<Rightarrow> (case p x of None \<Rightarrow> Inl decode_err | Some y \<Rightarrow> Inr y)))"
  using assms by (auto simp: triple_def Get_def stored_def split: option.splits)

lemma Create_mem:
  assumes "env_api E = mem_api"
  shows "triple P (Create E p x) (\<lambda>r s. \<exists>s0. P s0 \<and> (case stored (obj_kind x) (obj_key x) s0 of
    None \<Rightarrow> s = x # s0 \<and> r = as_obj p (RespObj x) | Some _ \<Rightarrow> s = s0 \<and> r = Inl (ApiErr AlreadyExists)))"
  unfolding triple_def
proof (intro allI impI)
  fix w :: "kobj list world" assume P: "P (server w)"
  let ?S = "stored (obj_kind x) (obj_key x) (server w)"
  have "mem_api (RCreate x) (server w) = (case ?S of None \<Rightarrow> (RespObj x, x # server w)
      | Some _ \<Rightarrow> (RespErr (ApiErr AlreadyExists), server w))"
    using stored_None[of "obj_kind x" "obj_key x" "server w"] by (auto split: option.splits)
  with P assms show "\<exists>s0. P s0 \<and> (case stored (obj_kind x) (obj_key x) s0 of
      None \<Rightarrow> server (snd (run_state (Create E p x) w)) = x # s0 \<and> fst (run_state (Create E p x) w) = as_obj p (RespObj x)
    | Some _ \<Rightarrow> server (snd (run_state (Create E p x) w)) = s0 \<and> fst (run_state (Create E p x) w) = Inl (ApiErr AlreadyExists))"
    by (intro exI[of _ "server w"]) (cases ?S; simp add: Create_def del: mem_api.simps)
qed

lemma Update_mem:
  assumes "env_api E = mem_api"
  shows "triple P (Update E p x) (\<lambda>r s. \<exists>s0. P s0 \<and> (case stored (obj_kind x) (obj_key x) s0 of
    None \<Rightarrow> s = s0 \<and> r = Inl (ApiErr NotFound)
  | Some _ \<Rightarrow> s = replace_first (same_obj (obj_kind x) (obj_key x)) x s0 \<and> r = as_obj p (RespObj x)))"
  unfolding triple_def
proof (intro allI impI)
  fix w :: "kobj list world" assume P: "P (server w)"
  let ?S = "stored (obj_kind x) (obj_key x) (server w)"
  have "mem_api (RUpdate x) (server w) = (case ?S of None \<Rightarrow> (RespErr (ApiErr NotFound), server w)
      | Some _ \<Rightarrow> (RespObj x, replace_first (same_obj (obj_kind x) (obj_key x)) x (server w)))"
    using stored_None[of "obj_kind x" "obj_key x" "server w"] by (auto split: option.splits)
  with P assms show "\<exists>s0. P s0 \<and> (case stored (obj_kind x) (obj_key x) s0 of
      None \<Rightarrow> server (snd (run_state (Update E p x) w)) = s0 \<and> fst (run_state (Update E p x) w) = Inl (ApiErr NotFound)
    | Some _ \<Rightarrow> server (snd (run_state (Update E p x) w)) = replace_first (same_obj (obj_kind x) (obj_key x)) x s0 \<and> fst (run_state (Update E p x) w) = as_obj p (RespObj x))"
    by (intro exI[of _ "server w"]) (cases ?S; simp add: Update_def del: mem_api.simps)
qed

text \<open>The same as decomposition rules, for each outcome on its own.\<close>

lemma Update_triple:
  assumes "env_api E = mem_api"
    and "\<And>s. P s \<Longrightarrow> stored (obj_kind x) (obj_key x) s = None \<Longrightarrow> Q (Inl (ApiErr NotFound)) s"
    and "\<And>s. P s \<Longrightarrow> stored (obj_kind x) (obj_key x) s \<noteq> None \<Longrightarrow>
      Q (as_obj p (RespObj x)) (replace_first (same_obj (obj_kind x) (obj_key x)) x s)"
  shows "triple P (Update E p x) Q"
proof (rule triple_mono[OF Update_mem[OF assms(1), of P]], assumption, elim exE conjE)
  fix r s s0 assume P: "P s0" and r: "case stored (obj_kind x) (obj_key x) s0 of
      None \<Rightarrow> s = s0 \<and> r = Inl (ApiErr NotFound) | Some _ \<Rightarrow> s = replace_first (same_obj (obj_kind x) (obj_key x)) x s0 \<and> r = as_obj p (RespObj x)"
  show "Q r s"
  proof (cases "stored (obj_kind x) (obj_key x) s0 = None")
    case True
    with r assms(2)[OF P] show ?thesis by simp
  next
    case False
    with r assms(3)[OF P] show ?thesis by (simp split: option.splits)
  qed
qed

lemma Create_triple:
  assumes "env_api E = mem_api"
    and "\<And>s. P s \<Longrightarrow> stored (obj_kind x) (obj_key x) s = None \<Longrightarrow> Q (as_obj p (RespObj x)) (x # s)"
    and "\<And>s. P s \<Longrightarrow> stored (obj_kind x) (obj_key x) s \<noteq> None \<Longrightarrow> Q (Inl (ApiErr AlreadyExists)) s"
  shows "triple P (Create E p x) Q"
proof (rule triple_mono[OF Create_mem[OF assms(1), of P]], assumption, elim exE conjE)
  fix r s s0 assume P: "P s0" and r: "case stored (obj_kind x) (obj_key x) s0 of
      None \<Rightarrow> s = x # s0 \<and> r = as_obj p (RespObj x) | Some _ \<Rightarrow> s = s0 \<and> r = Inl (ApiErr AlreadyExists)"
  show "Q r s"
  proof (cases "stored (obj_kind x) (obj_key x) s0 = None")
    case True
    with r assms(2)[OF P] show ?thesis by simp
  next
    case False
    with r assms(3)[OF P] show ?thesis by (simp split: option.splits)
  qed
qed

lemma Get_bind_triple:
  assumes "env_api E = mem_api"
    and "triple (\<lambda>s. P s \<and> stored k key s = None) (f (Inl (ApiErr NotFound))) Q"
    and "\<And>x. triple (\<lambda>s. P s \<and> stored k key s = Some x) (f (as_obj p (RespObj x))) Q"
  shows "triple P (State_Monad.bind (Get E k p key) f) Q"
proof (rule triple_bind[OF Get_mem[OF assms(1)]])
  fix r
  show "triple (\<lambda>s. P s \<and> r = (case stored k key s of None \<Rightarrow> Inl (ApiErr NotFound)
      | Some x \<Rightarrow> (case p x of None \<Rightarrow> Inl decode_err | Some y \<Rightarrow> Inr y))) (f r) Q"
    using assms(2,3) unfolding triple_def by (auto split: option.splits)
qed

lemma Get_check_triple:
  assumes "env_api E = mem_api"
    and "\<And>s. P s \<Longrightarrow> stored k key s = None \<Longrightarrow> Q (Inl (ApiErr NotFound)) s"
    and "\<And>x s. P s \<Longrightarrow> stored k key s = Some x \<Longrightarrow> p x = None \<Longrightarrow> Q (Inl decode_err) s"
    and "\<And>x y. p x = Some y \<Longrightarrow> triple (\<lambda>s. P s \<and> stored k key s = Some x) (f y) Q"
  shows "triple P (check (Get E k p key) f) Q"
  unfolding check_def
proof (rule Get_bind_triple[OF assms(1)])
  show "triple (\<lambda>s. P s \<and> stored k key s = None) (case Inl (ApiErr NotFound) of Inl e \<Rightarrow> fail e | Inr x \<Rightarrow> f x) Q"
    using assms(2) by (auto intro: triple_return)
  show "triple (\<lambda>s. P s \<and> stored k key s = Some x) (case as_obj p (RespObj x) of Inl e \<Rightarrow> fail e | Inr y \<Rightarrow> f y) Q" for x
    using assms(3,4) by (cases "p x") (auto intro: triple_return)
qed

lemma check_ok_triple: "triple P m (\<lambda>r s. Q (map_sum (\<lambda>e. e) (\<lambda>_. z) r) s) \<Longrightarrow> triple P (check m (\<lambda>_. ok z)) Q"
  by (rule triple_check, assumption) (auto intro: triple_return)

text \<open>What the handlers rely on of \<open>SetControllerReference\<close>: the owner controls the object.\<close>

definition setref_controls :: "'s env \<Rightarrow> bool" where
  "setref_controls E \<longleftrightarrow> (\<forall>owner m m'. env_setref E owner m = Inr m' \<longrightarrow> IsControlledBy m' owner)"

lemma mem_setref_laws [simp]: "setref_keeps (mem_env vars t)" "setref_controls (mem_env vars t)"
  by (auto simp: setref_keeps_def setref_controls_def mem_setref_def IsControlledBy_def GetControllerOf_def)

section \<open>A sample reconciler\<close>

definition sample_ingress :: ingress where
  "sample_ingress = \<lparr>in_name = ''default'', in_gatewayName = ''gw'', in_gatewayNamespace = ''gws'', in_isDefault = True\<rparr>"

definition sample_odh :: "(kobj list) odh" where
  "sample_odh = \<lparr>od_namespace = ''odh'', od_mlflowEnabled = False, od_tls = undefined,
     od_errtext = (\<lambda>_. ''error''), od_errlist = (\<lambda>_. ''errors''),
     od_parseGV = (\<lambda>s. if s = ''kubeflow.org/v1beta1'' then Some (''kubeflow.org'', ''v1beta1'') else None),
     od_pemBlock = (\<lambda>s. Some (''CERTIFICATE'', s)), od_certParses = (\<lambda>_. True),
     od_parseIngresses = (\<lambda>_. Inr []), od_resolve = (\<lambda>_ _ s. (Inr sample_ingress, s))\<rparr>"

lemma sample_odh_simps [simp]:
  "od_namespace sample_odh = ''odh''" "od_mlflowEnabled sample_odh = False"
  "od_resolve sample_odh = (\<lambda>_ _ s. (Inr sample_ingress, s))"
  "od_errtext sample_odh = (\<lambda>_. ''error'')"
  by (simp_all add: sample_odh_def)

end
