(* ===== verification/NetworkPolicies.thy ===== *)
theory NetworkPolicies
  imports OdhBase
begin

text \<open>
  \<open>odh-notebook-controller/controllers/notebook_network.go\<close>: the three network policies of
  a Notebook, and the reconciliation that creates, repairs or adopts them, but never overwrites a
  policy another resource controls.
\<close>

section \<open>The desired policies\<close>

definition NotebookPort :: int32 where
  "NotebookPort = 8888"
definition NotebookKubeRbacProxyPort :: int32 where
  "NotebookKubeRbacProxyPort = 8443"
definition namespaceNameLabelKey :: string where [go_consts]:
  "namespaceNameLabelKey = ''kubernetes.io/metadata.name''"

definition notebookPodSelector :: "notebook \<Rightarrow> smap" where
  "notebookPodSelector nb = mlit [(''notebook-name'', nb_name nb)]"

definition controllerNamespacePeer :: "string \<Rightarrow> netpeer" where
  "controllerNamespacePeer ns = \<lparr>peer_namespaceLabels = Some (mlit [(namespaceNameLabelKey, ns)]), peer_rest = []\<rparr>"

definition tcp_port :: "int32 \<Rightarrow> netport" where
  "tcp_port p = \<lparr>np_protocol = Some ''TCP'', np_port = Some (IntVal p), np_rest = []\<rparr>"

definition notebookPortRule :: netport where
  "notebookPortRule = tcp_port NotebookPort"

definition policy :: "notebook \<Rightarrow> string \<Rightarrow> netingress list option \<Rightarrow> netegress list option \<Rightarrow> string \<Rightarrow> netpolicy" where
  "policy nb suffix i e ty = \<lparr>npol_meta = empty_meta\<lparr>m_name := nb_name nb @ suffix, m_namespace := nb_ns nb\<rparr>,
     npol_spec = \<lparr>nps_podSelector = notebookPodSelector nb, nps_ingress = i, nps_egress = e,
       nps_types = Some [ty], nps_rest = []\<rparr>\<rparr>"

definition NewNotebookNetworkPolicy :: "notebook \<Rightarrow> string \<Rightarrow> netpolicy" where
  "NewNotebookNetworkPolicy nb controllerNamespace = policy nb ''-ctrl-np''
     (Some [\<lparr>ni_ports = Some [notebookPortRule], ni_from = Some [controllerNamespacePeer controllerNamespace]\<rparr>])
     None ''Ingress''"

definition NewKubeRbacProxyNetworkPolicy :: "notebook \<Rightarrow> netpolicy" where
  "NewKubeRbacProxyNetworkPolicy nb = policy nb ''-kube-rbac-proxy-np''
     (Some [\<lparr>ni_ports = Some [tcp_port NotebookKubeRbacProxyPort], ni_from = None\<rparr>]) None ''Ingress''"

definition NewEgressNetworkPolicy :: "notebook \<Rightarrow> netpolicy" where
  "NewEgressNetworkPolicy nb = policy nb ''-egress-np'' None (Some [\<lparr>ne_ports = None, ne_to = None\<rparr>]) ''Egress''"

definition CompareNotebookNetworkPolicies :: "netpolicy \<Rightarrow> netpolicy \<Rightarrow> bool" where
  "CompareNotebookNetworkPolicies np1 np2 \<longleftrightarrow>
     m_labels (npol_meta np1) = m_labels (npol_meta np2) \<and> npol_spec np1 = npol_spec np2"

section \<open>Ownership\<close>

definition isKubeflowNotebookOwner :: "'s odh \<Rightarrow> ownerref \<Rightarrow> bool" where
  "isKubeflowNotebookOwner R owner \<longleftrightarrow> or_kind owner = ''Notebook'' \<and>
     (case od_parseGV R (or_apiVersion owner) of
        None \<Rightarrow> False
      | Some (grp, version) \<Rightarrow> grp = ''kubeflow.org'' \<and> version \<in> {''v1'', ''v1beta1'', ''v1alpha1''})"

definition recordNetworkPolicyEvent :: "notebook \<Rightarrow> string \<Rightarrow> string \<Rightarrow> ('s, unit) handler" where
  "recordNetworkPolicyEvent nb reason message = emit (Emitted (nb_key nb) ''Warning'' reason message)"

text \<open>The owner references of a policy whose controller is a Notebook that is gone.\<close>

definition drop_controller :: "objmeta \<Rightarrow> objmeta" where
  "drop_controller m = m\<lparr>m_ownerRefs := filter (\<lambda>r. or_controller r \<noteq> Some True) (m_ownerRefs m)\<rparr>"

text \<open>Whether a policy belongs to a resource that is not this Notebook, nor one it replaces.\<close>

definition foreign_policy :: "'s odh \<Rightarrow> notebook \<Rightarrow> objmeta \<Rightarrow> bool" where
  "foreign_policy R nb m \<longleftrightarrow> \<not> IsControlledBy m (nb_meta nb) \<and> (case GetControllerOf m of
     None \<Rightarrow> False
   | Some c \<Rightarrow> \<not> isKubeflowNotebookOwner R c \<or> or_name c \<noteq> nb_name nb)"

definition networkPolicyOwnershipConflict :: "notebook \<Rightarrow> string \<Rightarrow> goerr" where
  "networkPolicyOwnershipConflict nb found =
     Errorf (''networkpolicy '' @ dquoted found @ '' is not controlled by Notebook '' @ nb_name nb)"

section \<open>Reconciliation\<close>

text \<open>
  The retried body. \<open>Some\<close> of the policy's name is the ownership conflict: the code returns an
  error that is no conflict of versions, which ends the retry, and sets a flag.
\<close>

definition write_policy :: "'s env \<Rightarrow> netpolicy \<Rightarrow> netpolicy \<Rightarrow> objmeta \<Rightarrow> ('s, string option) ehandler" where
  "write_policy E desired found m = check (Update E to_netpolicy (ONetworkPolicy (found\<lparr>
     npol_meta := m\<lparr>m_labels := m_labels (npol_meta desired)\<rparr>, npol_spec := npol_spec desired\<rparr>))) (\<lambda>_. ok None)"

definition repair_found :: "'s env \<Rightarrow> 's odh \<Rightarrow> notebook \<Rightarrow> netpolicy \<Rightarrow> netpolicy \<Rightarrow> ('s, string option) ehandler" where
  "repair_found E R nb desired found = (
     let m = npol_meta found in
     if foreign_policy R nb m then do {
       recordNetworkPolicyEvent nb ''NetworkPolicyOwnershipConflict''
         (''Refusing to overwrite NetworkPolicy '' @ dquoted (m_name m) @ '' because it is not controlled by this Notebook'');
       ok (Some (m_name m))
     }
     else if \<not> IsControlledBy m (nb_meta nb)
     then check (lift (SetControllerReference E (nb_meta nb) (drop_controller m))) (write_policy E desired found)
     else if CompareNotebookNetworkPolicies desired found then ok None
     else write_policy E desired found m)"

definition repair_policy :: "'s env \<Rightarrow> 's odh \<Rightarrow> notebook \<Rightarrow> netpolicy \<Rightarrow> ('s, string option) ehandler" where
  "repair_policy E R nb desired =
     check (Get E KNetworkPolicy to_netpolicy (nb_ns nb, m_name (npol_meta desired))) (repair_found E R nb desired)"

definition policy_failed :: "'s odh \<Rightarrow> notebook \<Rightarrow> string \<Rightarrow> netpolicy \<Rightarrow> goerr \<Rightarrow> ('s, 'a) ehandler" where
  "policy_failed R nb what desired e = do {
     recordNetworkPolicyEvent nb ''NetworkPolicyReconcileFailed''
       (''Failed to '' @ what @ '' required NetworkPolicy '' @ dquoted (m_name (npol_meta desired)) @ '': '' @ od_errtext R e);
     fail e
   }"

definition reconcileExistingNetworkPolicy :: "'s env \<Rightarrow> 's odh \<Rightarrow> notebook \<Rightarrow> netpolicy \<Rightarrow> ('s, unit) ehandler" where
  "reconcileExistingNetworkPolicy E R nb desired = do {
     r \<leftarrow> RetryOnConflict E ''DefaultRetry'' (repair_policy E R nb desired);
     (case r of
        Inl e \<Rightarrow> policy_failed R nb ''repair'' desired e
      | Inr None \<Rightarrow> ok ()
      | Inr (Some found) \<Rightarrow> fail (networkPolicyOwnershipConflict nb found))
   }"

text \<open>Creating the policy, with its owner reference; another actor may have created it since.\<close>

definition create_policy :: "'s env \<Rightarrow> 's odh \<Rightarrow> notebook \<Rightarrow> netpolicy \<Rightarrow> ('s, unit) ehandler" where
  "create_policy E R nb desired = do {
     r \<leftarrow> Create E to_netpolicy (ONetworkPolicy desired);
     (case r of
        Inr _ \<Rightarrow> ok ()
      | Inl e \<Rightarrow> if IsAlreadyExists e then reconcileExistingNetworkPolicy E R nb desired
                 else policy_failed R nb ''create'' desired e)
   }"

definition reconcileNetworkPolicy :: "'s env \<Rightarrow> 's odh \<Rightarrow> notebook \<Rightarrow> netpolicy \<Rightarrow> ('s, unit) ehandler" where
  "reconcileNetworkPolicy E R nb desired = do {
     r \<leftarrow> Get E KNetworkPolicy to_netpolicy (nb_ns nb, m_name (npol_meta desired));
     (case r of
        Inr _ \<Rightarrow> reconcileExistingNetworkPolicy E R nb desired
      | Inl e \<Rightarrow>
          if \<not> IsNotFound e then fail e
          else (case SetControllerReference E (nb_meta nb) (npol_meta desired) of
            Inl e \<Rightarrow> policy_failed R nb ''set owner reference on'' desired e
          | Inr m \<Rightarrow> create_policy E R nb (desired\<lparr>npol_meta := m\<rparr>)))
   }"

definition desired_policies :: "'s odh \<Rightarrow> notebook \<Rightarrow> netpolicy list" where
  "desired_policies R nb = [NewNotebookNetworkPolicy nb (od_namespace R), NewKubeRbacProxyNetworkPolicy nb, NewEgressNetworkPolicy nb]"

definition ReconcileAllNetworkPolicies :: "'s env \<Rightarrow> 's odh \<Rightarrow> notebook \<Rightarrow> ('s, unit) ehandler" where
  "ReconcileAllNetworkPolicies E R nb = do {
     es \<leftarrow> collect_errors (map (reconcileNetworkPolicy E R nb) (desired_policies R nb));
     (case errors_Join es of None \<Rightarrow> ok () | Some e \<Rightarrow> fail e)
   }"

section \<open>What the reconciliation writes\<close>

text \<open>
  A policy created from the desired one, with the owner reference; or the update of a policy
  that was read, is not foreign, and gets the desired labels and spec.
\<close>

definition owned_policy :: "'s env \<Rightarrow> notebook \<Rightarrow> netpolicy \<Rightarrow> netpolicy \<Rightarrow> bool" where
  "owned_policy E nb desired p \<longleftrightarrow> (\<exists>m. SetControllerReference E (nb_meta nb) (npol_meta desired) = Inr m \<and>
     p = desired\<lparr>npol_meta := m\<rparr>)"

definition repaired_policy :: "'s env \<Rightarrow> notebook \<Rightarrow> netpolicy \<Rightarrow> netpolicy \<Rightarrow> netpolicy \<Rightarrow> bool" where
  "repaired_policy E nb desired found p \<longleftrightarrow> (\<exists>m.
     (if IsControlledBy (npol_meta found) (nb_meta nb) then m = npol_meta found
      else SetControllerReference E (nb_meta nb) (drop_controller (npol_meta found)) = Inr m) \<and>
     p = found\<lparr>npol_meta := m\<lparr>m_labels := m_labels (npol_meta desired)\<rparr>, npol_spec := npol_spec desired\<rparr>)"

definition policy_write :: "'s env \<Rightarrow> 's odh \<Rightarrow> notebook \<Rightarrow> effect set \<Rightarrow> request \<Rightarrow> bool" where
  "policy_write E R nb A q \<longleftrightarrow> (\<exists>desired \<in> set (desired_policies R nb).
     (\<exists>p. q = RCreate (ONetworkPolicy p) \<and> owned_policy E nb desired p) \<or>
     (\<exists>found p. Call (RGet KNetworkPolicy (nb_ns nb, m_name (npol_meta desired))) (RespObj (ONetworkPolicy found)) \<in> A \<and>
        \<not> foreign_policy R nb (npol_meta found) \<and> repaired_policy E nb desired found p \<and> q = RUpdate (ONetworkPolicy p)))"

interpretation np: read_based "policy_write E R nb"
  by unfold_locales (unfold policy_write_def, blast)

lemma policy_response: "as_obj to_netpolicy resp = Inr p \<Longrightarrow> resp = RespObj (ONetworkPolicy p)"
  by (auto simp: as_obj_Inr elim: to_netpolicy.elims)

lemma write_policy_writes:
  "(\<And>resp. J (insert (Call (RUpdate (ONetworkPolicy (found\<lparr>npol_meta := m\<lparr>m_labels := m_labels (npol_meta d)\<rparr>,
      npol_spec := npol_spec d\<rparr>))) resp) A) (RUpdate (ONetworkPolicy (found\<lparr>
      npol_meta := m\<lparr>m_labels := m_labels (npol_meta d)\<rparr>, npol_spec := npol_spec d\<rparr>)))) \<Longrightarrow>
    read_based J \<Longrightarrow> justifies J A (write_policy E d found m)"
  unfolding write_policy_def by (intro read_based.checked read_based.client read_based.return)

lemma repair_policy_writes:
  assumes "d0 \<in> set (desired_policies R nb)" "m_name (npol_meta d) = m_name (npol_meta d0)"
    "m_labels (npol_meta d) = m_labels (npol_meta d0)" "npol_spec d = npol_spec d0"
  shows "justifies (policy_write E R nb) A (repair_policy E R nb d)"
  unfolding repair_policy_def
proof (rule np.get_check)
  fix resp found
  assume "as_obj to_netpolicy resp = Inr found"
  then have resp: "resp = RespObj (ONetworkPolicy found)" by (rule policy_response)
  let ?A = "insert (Call (RGet KNetworkPolicy (nb_ns nb, m_name (npol_meta d))) resp) A"
  have W: "justifies (policy_write E R nb) ?A (write_policy E d found m)"
    if "\<not> foreign_policy R nb (npol_meta found)"
      "if IsControlledBy (npol_meta found) (nb_meta nb) then m = npol_meta found
       else SetControllerReference E (nb_meta nb) (drop_controller (npol_meta found)) = Inr m" for m
  proof (rule write_policy_writes[OF _ np.read_based_axioms])
    have "repaired_policy E nb d0 found (found\<lparr>npol_meta := m\<lparr>m_labels := m_labels (npol_meta d)\<rparr>, npol_spec := npol_spec d\<rparr>)"
      using that(2) assms(3,4) unfolding repaired_policy_def by auto
    with that(1) show "policy_write E R nb (insert c ?A) (RUpdate (ONetworkPolicy (found\<lparr>
        npol_meta := m\<lparr>m_labels := m_labels (npol_meta d)\<rparr>, npol_spec := npol_spec d\<rparr>)))" for c
      unfolding policy_write_def resp assms(2) by (intro bexI[OF _ assms(1)]) blast
  qed
  show "justifies (policy_write E R nb) ?A (repair_found E R nb d found)"
    unfolding repair_found_def Let_def recordNetworkPolicyEvent_def
    by (intro np.cases np.bound np.checked_lift np.return np.emitted W) simp_all
qed

lemma policy_failed_writes: "justifies (policy_write E R nb) A (policy_failed R nb t d e)"
  unfolding policy_failed_def recordNetworkPolicyEvent_def by (intro np.bound np.emitted np.return)

lemma reconcileExisting_writes:
  assumes "d0 \<in> set (desired_policies R nb)" "m_name (npol_meta d) = m_name (npol_meta d0)"
    "m_labels (npol_meta d) = m_labels (npol_meta d0)" "npol_spec d = npol_spec d0"
  shows "justifies (policy_write E R nb) A (reconcileExistingNetworkPolicy E R nb d)"
  unfolding reconcileExistingNetworkPolicy_def
  by (intro np.bound np.retried_on_conflict repair_policy_writes[OF assms] policy_failed_writes np.cases np.return)

lemma reconcileNetworkPolicy_writes:
  assumes "setref_keeps E" "d \<in> set (desired_policies R nb)"
  shows "justifies (policy_write E R nb) A (reconcileNetworkPolicy E R nb d)"
proof -
  have create: "justifies (policy_write E R nb) A (create_policy E R nb (d\<lparr>npol_meta := m\<rparr>))"
    if m: "SetControllerReference E (nb_meta nb) (npol_meta d) = Inr m" for m
  proof -
    have W: "policy_write E R nb B (RCreate (ONetworkPolicy (d\<lparr>npol_meta := m\<rparr>)))" for B
      using assms(2) m unfolding policy_write_def owned_policy_def by blast
    show ?thesis
      unfolding create_policy_def
      by (intro np.bound np.cases np.client np.return policy_failed_writes reconcileExisting_writes[OF assms(2)] W)
        (simp_all add: setref_keeps_meta[OF assms(1) m])
  qed
  show ?thesis
    unfolding reconcileNetworkPolicy_def
    by (intro np.bound np.cases np.client np.return policy_failed_writes reconcileExisting_writes[OF assms(2)] create)
      simp_all
qed

lemma ReconcileAllNetworkPolicies_writes:
  "setref_keeps E \<Longrightarrow> justifies (policy_write E R nb) A (ReconcileAllNetworkPolicies E R nb)"
  unfolding ReconcileAllNetworkPolicies_def
  by (intro np.bound np.collected np.cases np.return) (auto intro: reconcileNetworkPolicy_writes)

end
