(* ===== verification/NetworkProps.thy ===== *)
theory NetworkProps
  imports MemServer NetworkPolicies
begin

text \<open>
  The properties of the network policies: what the reconciliation may write on any server, and
  what is in place after it on one that keeps what it is given.
\<close>

section \<open>Network policies\<close>

lemma policy_names: "map (\<lambda>p. m_name (npol_meta p)) (desired_policies R nb) =
    [nb_name nb @ ''-ctrl-np'', nb_name nb @ ''-kube-rbac-proxy-np'', nb_name nb @ ''-egress-np'']"
  by (simp add: desired_policies_def NewNotebookNetworkPolicy_def NewKubeRbacProxyNetworkPolicy_def
      NewEgressNetworkPolicy_def policy_def)

lemma policy_meta:
  "p \<in> set (desired_policies R nb) \<Longrightarrow> m_namespace (npol_meta p) = nb_ns nb \<and> m_labels (npol_meta p) = None \<and>
    m_ownerRefs (npol_meta p) = []"
  by (auto simp: desired_policies_def NewNotebookNetworkPolicy_def NewKubeRbacProxyNetworkPolicy_def
      NewEgressNetworkPolicy_def policy_def empty_meta_def)

text \<open>The policy \<open>d\<close> is in place: stored under its name, as desired, and controlled by the Notebook.\<close>

definition policy_in_place :: "notebook \<Rightarrow> netpolicy \<Rightarrow> kobj list \<Rightarrow> bool" where
  "policy_in_place nb d s \<longleftrightarrow> (\<exists>p. stored KNetworkPolicy (nb_ns nb, m_name (npol_meta d)) s = Some (ONetworkPolicy p) \<and>
     CompareNotebookNetworkPolicies d p \<and> IsControlledBy (npol_meta p) (nb_meta nb))"

text \<open>The policies of the names \<open>D\<close>, other than that of \<open>d\<close>, stay in place.\<close>

definition others_in_place :: "notebook \<Rightarrow> netpolicy list \<Rightarrow> netpolicy \<Rightarrow> kobj list \<Rightarrow> bool" where
  "others_in_place nb D d s \<longleftrightarrow> (\<forall>x \<in> set D. m_name (npol_meta x) \<noteq> m_name (npol_meta d) \<longrightarrow> policy_in_place nb x s)"

lemma others_Cons:
  assumes "others_in_place nb D d s" "obj_key x = (nb_ns nb, m_name (npol_meta d))"
  shows "others_in_place nb D d (x # s)"
  using assms unfolding others_in_place_def policy_in_place_def by (auto simp: stored_Cons)

lemma others_replace:
  assumes "others_in_place nb D d s" "obj_key x = (nb_ns nb, m_name (npol_meta d))" "obj_kind x = KNetworkPolicy"
  shows "others_in_place nb D d (replace_first (same_obj KNetworkPolicy (nb_ns nb, m_name (npol_meta d))) x s)"
  using assms unfolding others_in_place_def policy_in_place_def by (auto simp: stored_replace)

lemma IsControlledBy_labels [simp]: "IsControlledBy (m\<lparr>m_labels := l\<rparr>) owner = IsControlledBy m owner"
  by (simp add: IsControlledBy_def GetControllerOf_def)

lemma drop_controller_simps [simp]:
  "m_name (drop_controller m) = m_name m" "m_namespace (drop_controller m) = m_namespace m"
  by (simp_all add: drop_controller_def)

text \<open>Writing the desired labels and spec into a policy that is stored and controlled.\<close>

lemma write_policy_triple:
  assumes E: "env_api E = mem_api"
    and m: "m_name m = m_name (npol_meta found)" "m_namespace m = m_namespace (npol_meta found)"
      "IsControlledBy m (nb_meta nb)"
  shows "triple (\<lambda>s. others_in_place nb D d s \<and>
      stored KNetworkPolicy (nb_ns nb, m_name (npol_meta d)) s = Some (ONetworkPolicy found))
    (write_policy E d found m)
    (\<lambda>r s. others_in_place nb D d s \<and> (r = Inr None \<longrightarrow> policy_in_place nb d s))"
  (is "triple ?P _ ?Q")
  unfolding write_policy_def
proof (rule check_ok_triple, rule Update_triple[OF E])
  let ?key = "(nb_ns nb, m_name (npol_meta d))"
  let ?x = "ONetworkPolicy (found\<lparr>npol_meta := m\<lparr>m_labels := m_labels (npol_meta d)\<rparr>, npol_spec := npol_spec d\<rparr>)"
  fix s assume P: "?P s"
  then show "?Q (map_sum (\<lambda>e. e) (\<lambda>_. None) (Inl (ApiErr NotFound) :: goerr + netpolicy)) s" by simp
  have "obj_key ?x = ?key" using P m stored_kind[of KNetworkPolicy ?key s] by (auto simp: obj_key_def meta_key_def)
  then show "?Q (map_sum (\<lambda>e. e) (\<lambda>_. None) (as_obj to_netpolicy (RespObj ?x)))
      (replace_first (same_obj (obj_kind ?x) (obj_key ?x)) ?x s)"
    using P m(3) unfolding policy_in_place_def
    by (auto simp: others_replace stored_replace CompareNotebookNetworkPolicies_def)
qed

lemma repair_policy_triple:
  assumes E: "env_api E = mem_api" "setref_keeps E" "setref_controls E"
  shows "triple (others_in_place nb D d) (repair_policy E R nb d)
    (\<lambda>r s. others_in_place nb D d s \<and> (r = Inr None \<longrightarrow> policy_in_place nb d s))"
  unfolding repair_policy_def
proof (rule Get_check_triple[OF E(1)])
  let ?key = "(nb_ns nb, m_name (npol_meta d))"
  fix x found assume x: "to_netpolicy x = Some found"
  let ?P = "\<lambda>s. others_in_place nb D d s \<and> stored KNetworkPolicy ?key s = Some (ONetworkPolicy found)"
  let ?Q = "\<lambda>r s. others_in_place nb D d s \<and> (r = Inr None \<longrightarrow> policy_in_place nb d s)"
  have adopt: "triple ?P (write_policy E d found m) ?Q"
    if "SetControllerReference E (nb_meta nb) (drop_controller (npol_meta found)) = Inr m" for m
    by (rule write_policy_triple[OF E(1)])
      (use setref_keeps_meta[OF E(2) that] that E(3) in \<open>auto simp: setref_controls_def SetControllerReference_def\<close>)
  have own: "triple ?P (write_policy E d found (npol_meta found)) ?Q" if "IsControlledBy (npol_meta found) (nb_meta nb)"
    by (rule write_policy_triple[OF E(1)]) (simp_all add: that)
  have "triple ?P (repair_found E R nb d found) ?Q"
    unfolding repair_found_def Let_def recordNetworkPolicyEvent_def
    by (intro triple_rules triple_bind[where S = "\<lambda>_. ?P"] adopt own) (auto simp: policy_in_place_def)
  moreover have "x = ONetworkPolicy found" using x by (auto elim: to_netpolicy.elims)
  ultimately show "triple (\<lambda>s. others_in_place nb D d s \<and> stored KNetworkPolicy ?key s = Some x) (repair_found E R nb d found) ?Q"
    by simp
qed auto

lemma in_place_cong:
  assumes "m_name (npol_meta d') = m_name (npol_meta d)" "m_labels (npol_meta d') = m_labels (npol_meta d)"
    "npol_spec d' = npol_spec d"
  shows "policy_in_place nb d' = policy_in_place nb d" "others_in_place nb D d' = others_in_place nb D d"
  using assms by (auto simp: fun_eq_iff policy_in_place_def others_in_place_def CompareNotebookNetworkPolicies_def)

lemma policy_failed_triple: "(\<And>s. P s \<Longrightarrow> Q (Inl e) s) \<Longrightarrow> triple P (policy_failed R nb t d e) Q"
  unfolding policy_failed_def recordNetworkPolicyEvent_def
  by (intro triple_bind[where S = "\<lambda>_. P"] triple_rules)

lemma reconcileExisting_triple:
  assumes E: "env_api E = mem_api" "setref_keeps E" "setref_controls E"
  shows "triple (others_in_place nb D d) (reconcileExistingNetworkPolicy E R nb d)
    (\<lambda>r s. others_in_place nb D d s \<and> (r = Inr () \<longrightarrow> policy_in_place nb d s))"
  unfolding reconcileExistingNetworkPolicy_def
  by (rule triple_bind[OF triple_RetryOnConflict[OF repair_policy_triple[OF E]]])
    (auto intro!: triple_rules policy_failed_triple)

lemma create_policy_triple:
  assumes E: "env_api E = mem_api" "setref_keeps E" "setref_controls E"
    and d: "m_namespace (npol_meta d) = nb_ns nb" "IsControlledBy (npol_meta d) (nb_meta nb)"
  shows "triple (others_in_place nb D d) (create_policy E R nb d)
    (\<lambda>r s. others_in_place nb D d s \<and> (r = Inr () \<longrightarrow> policy_in_place nb d s))"
  (is "triple ?P _ ?Q")
  unfolding create_policy_def
proof (rule triple_bind[where S = "\<lambda>r s. ?P s \<and> (\<forall>y. r = Inr y \<longrightarrow> policy_in_place nb d s)"],
    rule Create_triple[OF E(1)])
  have key: "obj_key (ONetworkPolicy d) = (nb_ns nb, m_name (npol_meta d))" by (simp add: obj_key_def meta_key_def d)
  fix s assume "?P s"
  then show "?P (ONetworkPolicy d # s) \<and>
      (\<forall>y. as_obj to_netpolicy (RespObj (ONetworkPolicy d)) = Inr y \<longrightarrow> policy_in_place nb d (ONetworkPolicy d # s))"
    using key d(2) by (simp add: others_Cons) (simp add: policy_in_place_def stored_Cons CompareNotebookNetworkPolicies_def)
next
  show "triple (\<lambda>s. ?P s \<and> (\<forall>y. r = Inr y \<longrightarrow> policy_in_place nb d s))
      (case r of Inr _ \<Rightarrow> ok ()
       | Inl e \<Rightarrow> if IsAlreadyExists e then reconcileExistingNetworkPolicy E R nb d else policy_failed R nb ''create'' d e) ?Q" for r
    by (intro triple_rules policy_failed_triple triple_mono[OF reconcileExisting_triple[OF E]]) auto
qed simp

lemma reconcileNetworkPolicy_triple:
  assumes E: "env_api E = mem_api" "setref_keeps E" "setref_controls E" and ns: "m_namespace (npol_meta d) = nb_ns nb"
  shows "triple (others_in_place nb D d) (reconcileNetworkPolicy E R nb d)
    (\<lambda>r s. others_in_place nb D d s \<and> (r = Inr () \<longrightarrow> policy_in_place nb d s))"
  (is "triple ?P _ ?Q")
proof -
  have create: "triple ?P (create_policy E R nb (d\<lparr>npol_meta := m\<rparr>)) ?Q"
    if m: "SetControllerReference E (nb_meta nb) (npol_meta d) = Inr m" for m
  proof -
    have "IsControlledBy m (nb_meta nb)" using E(3) m by (simp add: setref_controls_def SetControllerReference_def)
    then have "triple (others_in_place nb D (d\<lparr>npol_meta := m\<rparr>)) (create_policy E R nb (d\<lparr>npol_meta := m\<rparr>))
        (\<lambda>r s. others_in_place nb D (d\<lparr>npol_meta := m\<rparr>) s \<and> (r = Inr () \<longrightarrow> policy_in_place nb (d\<lparr>npol_meta := m\<rparr>) s))"
      by (intro create_policy_triple[OF E]) (simp_all add: setref_keeps_meta[OF E(2) m] ns)
    moreover have "policy_in_place nb (d\<lparr>npol_meta := m\<rparr>) = policy_in_place nb d"
        "others_in_place nb D (d\<lparr>npol_meta := m\<rparr>) = others_in_place nb D d"
      by (rule in_place_cong; simp add: setref_keeps_meta[OF E(2) m])+
    ultimately show ?thesis by simp
  qed
  show ?thesis
    unfolding reconcileNetworkPolicy_def
    by (rule Get_bind_triple[OF E(1)]; intro triple_rules policy_failed_triple triple_mono[OF create]
        triple_mono[OF reconcileExisting_triple[OF E]]) auto
qed

lemma policies_distinct: "distinct (map (\<lambda>p. m_name (npol_meta p)) (desired_policies R nb))"
  unfolding policy_names by simp

lemma ReconcileAllNetworkPolicies_triple:
  assumes E: "env_api E = mem_api" "setref_keeps E" "setref_controls E"
  shows "triple (\<lambda>_. True) (ReconcileAllNetworkPolicies E R nb)
    (\<lambda>r s. r = Inr () \<longrightarrow> (\<forall>d \<in> set (desired_policies R nb). policy_in_place nb d s))"
proof -
  let ?D = "desired_policies R nb"
  have step: "triple (\<lambda>s. \<forall>y \<in> set ys. policy_in_place nb y s) (reconcileNetworkPolicy E R nb d)
      (\<lambda>r s. (\<forall>y \<in> set ys. policy_in_place nb y s) \<and> (r = Inr () \<longrightarrow> policy_in_place nb d s))"
    if d: "d \<in> set ?D" "d \<notin> set ys" "set ys \<subseteq> set ?D" for d ys
  proof -
    have "m_name (npol_meta y) \<noteq> m_name (npol_meta d)" if "y \<in> set ys" for y
      using that d policies_distinct[of R nb] by (metis distinct_map inj_onD subsetD)
    then have "others_in_place nb ys d = (\<lambda>s. \<forall>y \<in> set ys. policy_in_place nb y s)"
      by (auto simp: others_in_place_def fun_eq_iff)
    with reconcileNetworkPolicy_triple[OF E, of d nb ys R] policy_meta[OF d(1)] show ?thesis by simp
  qed
  have "triple (\<lambda>s. \<forall>y \<in> set []. policy_in_place nb y s) (collect_errors (map (reconcileNetworkPolicy E R nb) ?D))
      (\<lambda>es s. es = [] \<longrightarrow> (\<forall>y \<in> set ([] @ ?D). policy_in_place nb y s))"
    using step policies_distinct[of R nb] by (intro collect_errors_triple[where U = "set ?D"]) (auto simp: distinct_map)
  then show ?thesis
    unfolding ReconcileAllNetworkPolicies_def errors_Join_def
    by (intro triple_bind) (auto intro!: triple_rules)
qed

lemma sample_policies_run:
  "fst (run_state (ReconcileAllNetworkPolicies sample_env sample_odh sample_notebook) (sample_world [])) = Inr ()"
  "trace (snd (run_state (ReconcileAllNetworkPolicies sample_env sample_odh sample_notebook) (sample_world []))) =
     concat (map (\<lambda>d. let d' = d\<lparr>npol_meta := (npol_meta d)\<lparr>m_ownerRefs :=
         [\<lparr>or_apiVersion = ''kubeflow.org/v1beta1'', or_kind = ''Notebook'', or_name = ''nb'', or_uid = ''u'',
           or_controller = Some True, or_blockOwnerDeletion = Some True\<rparr>]\<rparr>\<rparr>
       in [Call (RGet KNetworkPolicy (''ns'', m_name (npol_meta d))) (RespErr (ApiErr NotFound)),
           Call (RCreate (ONetworkPolicy d')) (RespObj (ONetworkPolicy d'))])
     (desired_policies sample_odh sample_notebook))"
  by (simp_all add: ReconcileAllNetworkPolicies_def desired_policies_def reconcileNetworkPolicy_def client_defs
      same_obj_def create_policy_def NewNotebookNetworkPolicy_def NewKubeRbacProxyNetworkPolicy_def obj_key_def meta_key_def
      NewEgressNetworkPolicy_def policy_def sample_defs IsNotFound_def SetControllerReference_def mem_setref_def errors_Join_def Let_def)

section \<open>Properties: network policies\<close>

text \<open>
  C8. A network policy that belongs to another resource is never touched: every write of the
  network policy reconciliation creates one of the Notebook's three policies with its owner
  reference, or updates a policy it read under one of their names that is not foreign (it has no
  controller, or this Notebook, or an earlier Notebook of the same name), changing only labels,
  spec and owner references. This holds for every server and every interleaving.
\<close>

theorem foreign_policy_untouched:
  assumes "run_state (ReconcileAllNetworkPolicies E R nb) w = (r, w')" "trace w' = trace w @ es"
    and "Call q resp \<in> set es" "is_write q" "setref_keeps E"
  shows "policy_write E R nb (set es) q"
  by (rule justifies_trace[OF ReconcileAllNetworkPolicies_writes[OF assms(5)] assms(1-4)])

theorem foreign_policy_untouched_witness:
  "policy_write sample_env sample_odh sample_notebook
     (set (trace (snd (run_state (ReconcileAllNetworkPolicies sample_env sample_odh sample_notebook) (sample_world [])))))
     (RCreate (ONetworkPolicy ((NewEgressNetworkPolicy sample_notebook)\<lparr>npol_meta :=
        (npol_meta (NewEgressNetworkPolicy sample_notebook))\<lparr>m_ownerRefs :=
         [\<lparr>or_apiVersion = ''kubeflow.org/v1beta1'', or_kind = ''Notebook'', or_name = ''nb'', or_uid = ''u'',
           or_controller = Some True, or_blockOwnerDeletion = Some True\<rparr>]\<rparr>\<rparr>)))"
proof (rule foreign_policy_untouched)
  show "run_state (ReconcileAllNetworkPolicies sample_env sample_odh sample_notebook) (sample_world []) =
     (Inr (), snd (run_state (ReconcileAllNetworkPolicies sample_env sample_odh sample_notebook) (sample_world [])))"
    by (metis prod.collapse sample_policies_run(1))
qed (auto simp: sample_policies_run(2) desired_policies_def Let_def)



end
