(* ===== verification/Routes.thy ===== *)
theory Routes
  imports OdhBase
begin

text \<open>
  \<open>odh-notebook-controller/controllers/notebook_route.go\<close> and
  \<open>notebook_referencegrant.go\<close>: the HTTPRoute of a Notebook in the controller's namespace, the
  ingress it hangs off, and the ReferenceGrant the Notebooks of a namespace share. Labels stand in
  for owner references, which cannot cross namespaces.
\<close>

section \<open>The route of a Notebook\<close>

definition HTTPRouteSubDomainMaxLen :: nat where
  "HTTPRouteSubDomainMaxLen = 63"
definition DefaultGatewayName :: string where [go_consts]:
  "DefaultGatewayName = ''data-science-gateway''"
definition DefaultGatewayNamespace :: string where [go_consts]:
  "DefaultGatewayNamespace = ''openshift-ingress''"
definition NotebookControllerConfigMap :: string where [go_consts]:
  "NotebookControllerConfigMap = ''odh-notebook-controller-config''"
definition IngressesKey :: string where [go_consts]:
  "IngressesKey = ''ingresses''"
definition defaultIngressName :: string where [go_consts]:
  "defaultIngressName = ''default''"
definition KubeRbacProxyServiceSuffix :: string where [go_consts]:
  "KubeRbacProxyServiceSuffix = ''-kube-rbac-proxy''"

definition httpRouteName :: "notebook \<Rightarrow> string" where
  "httpRouteName nb = ''nb-'' @ nb_ns nb @ ''-'' @ nb_name nb"

definition route_labels :: "notebook \<Rightarrow> smap" where
  "route_labels nb = mlit [(''notebook-name'', nb_name nb), (''notebook-namespace'', nb_ns nb)]"

definition route_meta :: "notebook \<Rightarrow> string \<Rightarrow> objmeta" where
  "route_meta nb centralNamespace =
     (if length (httpRouteName nb) > HTTPRouteSubDomainMaxLen
      then empty_meta\<lparr>m_generateName := ''nb-'' @ take 10 (nb_ns nb) @ ''-'' @ take 10 (nb_name nb) @ ''-'',
             m_namespace := centralNamespace, m_labels := route_labels nb\<rparr>
      else empty_meta\<lparr>m_name := httpRouteName nb, m_namespace := centralNamespace, m_labels := route_labels nb\<rparr>)"

definition route_to :: "string \<Rightarrow> int32 \<Rightarrow> notebook \<Rightarrow> string \<Rightarrow> ingress \<Rightarrow> httproute" where
  "route_to backend port nb centralNamespace i = \<lparr>hr_meta = route_meta nb centralNamespace,
     hr_spec = \<lparr>
       rt_parentRefs = Some [\<lparr>pref_name = in_gatewayName i, pref_namespace = Some (in_gatewayNamespace i), pref_rest = []\<rparr>],
       rt_rules = Some [\<lparr>
         ru_matches = Some [\<lparr>rm_pathType = Some ''PathPrefix'',
            rm_pathValue = Some (''/notebook/'' @ nb_ns nb @ ''/'' @ nb_name nb), rm_rest = []\<rparr>],
         ru_backendRefs = Some [\<lparr>br_name = backend, br_namespace = Some (nb_ns nb), br_port = Some port, br_rest = []\<rparr>],
         ru_rest = []\<rparr>],
       rt_rest = []\<rparr>\<rparr>"

definition NewNotebookHTTPRoute :: "notebook \<Rightarrow> string \<Rightarrow> ingress \<Rightarrow> httproute" where
  "NewNotebookHTTPRoute nb = route_to (nb_name nb) 8888 nb"

definition NewNotebookKubeRbacProxyHTTPRoute :: "notebook \<Rightarrow> string \<Rightarrow> ingress \<Rightarrow> httproute" where
  "NewNotebookKubeRbacProxyHTTPRoute nb = route_to (nb_name nb @ KubeRbacProxyServiceSuffix) 8443 nb"

definition CompareNotebookHTTPRoutes :: "httproute \<Rightarrow> httproute \<Rightarrow> bool" where
  "CompareNotebookHTTPRoutes r1 r2 \<longleftrightarrow> m_labels (hr_meta r1) = m_labels (hr_meta r2) \<and> hr_spec r1 = hr_spec r2"

section \<open>The ingress\<close>

definition ErrUnknownIngress :: string where [go_consts]: "ErrUnknownIngress = ''unknown ingress''"
definition ErrInvalidIngresses :: string where [go_consts]: "ErrInvalidIngresses = ''invalid ingresses''"

definition unresolvable :: "goerr \<Rightarrow> bool" where
  "unresolvable e \<longleftrightarrow> errors_Is e ErrUnknownIngress \<or> errors_Is e ErrInvalidIngresses"

definition ingressEventReason :: "goerr \<Rightarrow> string" where
  "ingressEventReason e = (if errors_Is e ErrInvalidIngresses then ''IngressConfigInvalid'' else ''IngressNotFound'')"

definition defaultNotebookIngress :: "'s env \<Rightarrow> ingress" where
  "defaultNotebookIngress E = \<lparr>in_name = defaultIngressName,
     in_gatewayName = nonempty_or (Getenv E ''NOTEBOOK_GATEWAY_NAME'') DefaultGatewayName,
     in_gatewayNamespace = nonempty_or (Getenv E ''NOTEBOOK_GATEWAY_NAMESPACE'') DefaultGatewayNamespace,
     in_isDefault = True\<rparr>"

text \<open>The ingresses offered to the resolution: the configured ones, and the default one if none is.\<close>

definition with_default :: "'s env \<Rightarrow> ingress list \<Rightarrow> ingress list" where
  "with_default E is = (if list_ex in_isDefault is then is else is @ [defaultNotebookIngress E])"

definition configured_ingresses :: "'s env \<Rightarrow> 's odh \<Rightarrow> smap \<Rightarrow> goerr + ingress list" where
  "configured_ingresses E R config = (case config of
     None \<Rightarrow> Inr [defaultNotebookIngress E]
   | Some _ \<Rightarrow> (let data = mget config IngressesKey in
       if data = [] then Inr (with_default E [])
       else (case od_parseIngresses R data of
         Inl e \<Rightarrow> Inl (Wrap ''parse notebook controller ingress config'' (Join [Sentinel ErrInvalidIngresses, e]))
       | Inr is \<Rightarrow> Inr (with_default E is))))"

definition notebookIngress :: "'s env \<Rightarrow> 's odh \<Rightarrow> string \<Rightarrow> smap \<Rightarrow> ('s, ingress) ehandler" where
  "notebookIngress E R ns config =
     check (lift (configured_ingresses E R config)) (\<lambda>is. resolve_ingress R ns is)"

section \<open>Reconciling the route\<close>

definition list_routes :: "'s env \<Rightarrow> 's odh \<Rightarrow> notebook \<Rightarrow> ('s, httproute list) ehandler" where
  "list_routes E R nb = ListIn E KHTTPRoute to_httproute (Some (od_namespace R)) (route_labels nb)"

text \<open>\<open>DeleteHTTPRouteForNotebook\<close>: every route is tried, and the errors are collected in one.\<close>

definition delete_route :: "'s env \<Rightarrow> httproute \<Rightarrow> ('s, unit) ehandler" where
  "delete_route E h = do {
     r \<leftarrow> Delete E KHTTPRoute (meta_key (hr_meta h));
     (case r of
        Inl e \<Rightarrow> if IsNotFound e then ok ()
                 else fail (Wrap (''failed to delete HTTPRoute '' @ m_name (hr_meta h)) e)
      | Inr _ \<Rightarrow> ok ())
   }"

definition DeleteHTTPRouteForNotebook :: "'s env \<Rightarrow> 's odh \<Rightarrow> notebook \<Rightarrow> ('s, unit) ehandler" where
  "DeleteHTTPRouteForNotebook E R nb =
     check (list_routes E R nb) (\<lambda>routes. do {
       es \<leftarrow> collect_errors (map (delete_route E) routes);
       (if es = [] then ok ()
        else fail (Errorf (''failed to delete some HTTPRoutes: '' @ od_errlist R es)))
     })"

text \<open>The body of the retry: the route again, with the desired spec and labels.\<close>

definition repair_route :: "'s env \<Rightarrow> 's odh \<Rightarrow> string \<Rightarrow> httproute \<Rightarrow> ('s, unit) ehandler" where
  "repair_route E R name desired =
     check (Get E KHTTPRoute to_httproute (od_namespace R, name)) (\<lambda>found.
       check (Update E to_httproute (OHTTPRoute (found\<lparr>hr_spec := hr_spec desired,
         hr_meta := (hr_meta found)\<lparr>m_labels := m_labels (hr_meta desired)\<rparr>\<rparr>))) (\<lambda>_. ok ()))"

definition ensure_route :: "'s env \<Rightarrow> 's odh \<Rightarrow> notebook \<Rightarrow> httproute \<Rightarrow> ('s, unit) ehandler" where
  "ensure_route E R nb desired =
     check (list_routes E R nb) (\<lambda>routes. case routes of
         [] \<Rightarrow> create_tolerant E to_httproute (OHTTPRoute desired)
       | [found] \<Rightarrow> if CompareNotebookHTTPRoutes desired found then ok ()
           else RetryOnConflict E ''DefaultRetry'' (repair_route E R (m_name (hr_meta found)) desired)
       | _ \<Rightarrow> fail (Errorf ''multiple HTTPRoutes found for notebook''))"

definition reconcileHTTPRoute :: "'s env \<Rightarrow> 's odh \<Rightarrow> notebook \<Rightarrow> smap \<Rightarrow>
    (notebook \<Rightarrow> string \<Rightarrow> ingress \<Rightarrow> httproute) \<Rightarrow> ('s, unit) ehandler" where
  "reconcileHTTPRoute E R nb config newHTTPRoute = do {
     i \<leftarrow> notebookIngress E R (nb_ns nb) config;
     (case i of
        Inl e \<Rightarrow>
          if unresolvable e then do {
            emit (Emitted (nb_key nb) ''Warning'' (ingressEventReason e) (od_errtext R e));
            d \<leftarrow> DeleteHTTPRouteForNotebook E R nb;
            (case d of Inl de \<Rightarrow> fail (Join [e, de]) | Inr _ \<Rightarrow> ok ())
          } else fail e
      | Inr i \<Rightarrow> ensure_route E R nb (newHTTPRoute nb (od_namespace R) i))
   }"

definition ReconcileHTTPRoute :: "'s env \<Rightarrow> 's odh \<Rightarrow> notebook \<Rightarrow> smap \<Rightarrow> ('s, unit) ehandler" where
  "ReconcileHTTPRoute E R nb config = reconcileHTTPRoute E R nb config NewNotebookHTTPRoute"

definition ReconcileKubeRbacProxyHTTPRoute :: "'s env \<Rightarrow> 's odh \<Rightarrow> notebook \<Rightarrow> smap \<Rightarrow> ('s, unit) ehandler" where
  "ReconcileKubeRbacProxyHTTPRoute E R nb config = reconcileHTTPRoute E R nb config NewNotebookKubeRbacProxyHTTPRoute"

section \<open>Routes of the other mode\<close>

definition first_backend :: "httproute \<Rightarrow> backendref option" where
  "first_backend h = (case elems (rt_rules (hr_spec h)) of [] \<Rightarrow> None
     | r # _ \<Rightarrow> (case elems (ru_backendRefs r) of [] \<Rightarrow> None | b # _ \<Rightarrow> Some b))"

definition conflicting_route :: "notebook \<Rightarrow> bool \<Rightarrow> httproute \<Rightarrow> bool" where
  "conflicting_route nb isAuthMode h = (case first_backend h of None \<Rightarrow> False
     | Some b \<Rightarrow>
         if isAuthMode then br_name b = nb_name nb \<or> br_port b = Some 8888
         else br_name b = nb_name nb @ KubeRbacProxyServiceSuffix \<or> br_port b = Some 8443)"

fun delete_routes :: "'s env \<Rightarrow> httproute list \<Rightarrow> ('s, unit) ehandler" where
  "delete_routes E [] = ok ()"
| "delete_routes E (h # hs) = check (delete_tolerant E KHTTPRoute (meta_key (hr_meta h))) (\<lambda>_. delete_routes E hs)"

definition EnsureConflictingHTTPRouteAbsent :: "'s env \<Rightarrow> 's odh \<Rightarrow> notebook \<Rightarrow> bool \<Rightarrow> ('s, unit) ehandler" where
  "EnsureConflictingHTTPRouteAbsent E R nb isAuthMode =
     check (list_routes E R nb) (\<lambda>routes. delete_routes E (filter (conflicting_route nb isAuthMode) routes))"

section \<open>The ReferenceGrant\<close>

definition ReferenceGrantName :: string where [go_consts]:
  "ReferenceGrantName = ''notebook-httproute-access''"

definition NewNotebookReferenceGrant :: "string \<Rightarrow> string \<Rightarrow> refgrant" where
  "NewNotebookReferenceGrant ns centralNamespace = \<lparr>
     rg_meta = empty_meta\<lparr>m_name := ReferenceGrantName, m_namespace := ns,
       m_labels := mlit [(''app.kubernetes.io/managed-by'', ''odh-notebook-controller''),
                         (''opendatahub.io/component'', ''notebook-controller'')]\<rparr>,
     rg_from = Some [\<lparr>gf_group = ''gateway.networking.k8s.io'', gf_kind = ''HTTPRoute'', gf_namespace = centralNamespace\<rparr>],
     rg_to = Some [\<lparr>gt_group = [], gt_kind = ''Service'', gt_name = None\<rparr>]\<rparr>"

definition CompareNotebookReferenceGrants :: "refgrant \<Rightarrow> refgrant \<Rightarrow> bool" where
  "CompareNotebookReferenceGrants a b \<longleftrightarrow>
     m_labels (rg_meta a) = m_labels (rg_meta b) \<and> rg_from a = rg_from b \<and> rg_to a = rg_to b"

definition ReconcileReferenceGrant :: "'s env \<Rightarrow> 's odh \<Rightarrow> notebook \<Rightarrow> ('s, unit) ehandler" where
  "ReconcileReferenceGrant E R nb = (
     let desired = NewNotebookReferenceGrant (nb_ns nb) (od_namespace R) in
     get_or E KReferenceGrant to_refgrant (nb_ns nb, ReferenceGrantName)
       (create_tolerant E to_refgrant (OReferenceGrant desired))
       (\<lambda>found. if CompareNotebookReferenceGrants desired found then ok ()
          else check (Update E to_refgrant (OReferenceGrant (found\<lparr>rg_from := rg_from desired, rg_to := rg_to desired,
            rg_meta := (rg_meta found)\<lparr>m_labels := m_labels (rg_meta desired)\<rparr>\<rparr>))) (\<lambda>_. ok ())))"

definition other_active :: "notebook \<Rightarrow> notebook \<Rightarrow> bool" where
  "other_active nb n \<longleftrightarrow> nb_name n \<noteq> nb_name nb \<and> m_deletionTimestamp (nb_meta n) = None"

definition isLastNotebookInNamespace :: "'s env \<Rightarrow> notebook \<Rightarrow> ('s, bool) ehandler" where
  "isLastNotebookInNamespace E nb =
     check (ListIn E KNotebook to_notebook (Some (nb_ns nb)) None) (\<lambda>nbs.
       ok (length (filter (other_active nb) nbs) = 0))"

definition DeleteReferenceGrantIfLastNotebook :: "'s env \<Rightarrow> notebook \<Rightarrow> ('s, unit) ehandler" where
  "DeleteReferenceGrantIfLastNotebook E nb =
     check (isLastNotebookInNamespace E nb) (\<lambda>isLast.
       if \<not> isLast then ok ()
       else delete_tolerant E KReferenceGrant (nb_ns nb, ReferenceGrantName))"

end
