(* ===== verification/ProxyObjects.thy ===== *)
theory ProxyObjects
  imports Routes
begin

text \<open>
  \<open>odh-notebook-controller/controllers/notebook_kube_rbac_auth.go\<close>: the objects the
  kube-rbac-proxy sidecar needs, its service account, service, configuration, and the binding that
  lets it review tokens. Only the configuration is repaired once it exists.
\<close>

section \<open>The desired objects\<close>

definition KubeRbacProxyServicePort :: int32 where
  "KubeRbacProxyServicePort = 8443"
definition KubeRbacProxyServicePortName :: string where [go_consts]:
  "KubeRbacProxyServicePortName = ''kube-rbac-proxy''"
definition KubeRbacProxyConfigSuffix :: string where [go_consts]:
  "KubeRbacProxyConfigSuffix = ''-kube-rbac-proxy-config''"
definition KubeRbacProxyConfigFileName :: string where [go_consts]:
  "KubeRbacProxyConfigFileName = ''config-file.yaml''"

definition NewNotebookServiceAccount :: "notebook \<Rightarrow> serviceaccount" where
  "NewNotebookServiceAccount nb = \<lparr>sa_meta = empty_meta\<lparr>m_name := nb_name nb, m_namespace := nb_ns nb,
     m_labels := mlit [(''notebook-name'', nb_name nb)]\<rparr>, sa_imagePullSecrets = []\<rparr>"

definition NewNotebookKubeRbacProxyService :: "notebook \<Rightarrow> service" where
  "NewNotebookKubeRbacProxyService nb = \<lparr>
     svc_meta = empty_meta\<lparr>m_name := nb_name nb @ KubeRbacProxyServiceSuffix, m_namespace := nb_ns nb,
       m_labels := mlit [(''notebook-name'', nb_name nb)],
       m_annotations := mlit [(''service.beta.openshift.io/serving-cert-secret-name'', nb_name nb @ ''-kube-rbac-proxy-tls'')]\<rparr>,
     svc_type = [], svc_selector = mlit [(''statefulset'', nb_name nb)],
     svc_ports = [\<lparr>sp_name = KubeRbacProxyServicePortName, sp_port = KubeRbacProxyServicePort,
                    sp_targetPort = StrVal KubeRbacProxyServicePortName, sp_protocol = ''TCP''\<rparr>],
     svc_rest = []\<rparr>"

definition newline :: string where
  "newline = [CHR 0x0A]"

definition proxy_config_file :: "notebook \<Rightarrow> string" where
  "proxy_config_file nb =
     ''authorization:'' @ newline @
     ''  resourceAttributes:'' @ newline @
     ''    verb: get'' @ newline @
     ''    resource: notebooks'' @ newline @
     ''    apiGroup: kubeflow.org'' @ newline @
     ''    name: '' @ nb_name nb @ newline @
     ''    namespace: '' @ nb_ns nb"

definition NewNotebookKubeRbacProxyConfigMap :: "notebook \<Rightarrow> configmap" where
  "NewNotebookKubeRbacProxyConfigMap nb = \<lparr>
     cm_meta = empty_meta\<lparr>m_name := nb_name nb @ KubeRbacProxyConfigSuffix, m_namespace := nb_ns nb,
       m_labels := mlit [(''notebook-name'', nb_name nb)]\<rparr>,
     cm_data = mlit [(KubeRbacProxyConfigFileName, proxy_config_file nb)], cm_rest = []\<rparr>"

definition auth_delegator_name :: "notebook \<Rightarrow> string" where
  "auth_delegator_name nb = nb_name nb @ ''-rbac-'' @ nb_ns nb @ ''-auth-delegator''"

definition NewNotebookKubeRbacProxyClusterRoleBinding :: "notebook \<Rightarrow> rolebinding" where
  "NewNotebookKubeRbacProxyClusterRoleBinding nb = \<lparr>
     rb_meta = empty_meta\<lparr>m_name := auth_delegator_name nb,
       m_labels := mlit [(''opendatahub.io/component'', ''notebook-controller''), (''opendatahub.io/namespace'', nb_ns nb)]\<rparr>,
     rb_roleRef = \<lparr>rr_apiGroup = ''rbac.authorization.k8s.io'', rr_kind = ''ClusterRole'', rr_name = ''system:auth-delegator''\<rparr>,
     rb_subjects = [\<lparr>sj_kind = ''ServiceAccount'', sj_name = nb_name nb, sj_namespace = nb_ns nb\<rparr>]\<rparr>"

section \<open>Reconciliation\<close>

definition ReconcileNotebookServiceAccount :: "'s env \<Rightarrow> notebook \<Rightarrow> ('s, unit) ehandler" where
  "ReconcileNotebookServiceAccount E nb = (
     let sa = NewNotebookServiceAccount nb in
     get_or E KServiceAccount to_serviceaccount (nb_ns nb, m_name (sa_meta sa))
       (check (lift (SetControllerReference E (nb_meta nb) (sa_meta sa))) (\<lambda>m.
          create_tolerant E to_serviceaccount (OServiceAccount (sa\<lparr>sa_meta := m\<rparr>))))
       (\<lambda>_. ok ()))"

definition ReconcileKubeRbacProxyService :: "'s env \<Rightarrow> notebook \<Rightarrow> ('s, unit) ehandler" where
  "ReconcileKubeRbacProxyService E nb = (
     let svc = NewNotebookKubeRbacProxyService nb in
     get_or E KService to_service (nb_ns nb, m_name (svc_meta svc))
       (check (lift (SetControllerReference E (nb_meta nb) (svc_meta svc))) (\<lambda>m.
          create_tolerant E to_service (OService (svc\<lparr>svc_meta := m\<rparr>))))
       (\<lambda>_. ok ()))"

text \<open>\<open>len\<close> of a map, and the loop that looks the desired entries up in the map found.\<close>

definition map_len :: "smap \<Rightarrow> nat" where
  "map_len m = (case m of None \<Rightarrow> 0 | Some f \<Rightarrow> fcard (fmdom f))"

definition map_differs :: "smap \<Rightarrow> smap \<Rightarrow> bool" where
  "map_differs desired found \<longleftrightarrow> map_len found \<noteq> map_len desired \<or> \<not> mall (\<lambda>k v. mget found k = v) desired"

definition ReconcileKubeRbacProxyConfigMap :: "'s env \<Rightarrow> notebook \<Rightarrow> ('s, unit) ehandler" where
  "ReconcileKubeRbacProxyConfigMap E nb = (
     let cm = NewNotebookKubeRbacProxyConfigMap nb in
     get_or E KConfigMap to_configmap (nb_ns nb, m_name (cm_meta cm))
       (check (lift (SetControllerReference E (nb_meta nb) (cm_meta cm))) (\<lambda>m.
          create_tolerant E to_configmap (OConfigMap (cm\<lparr>cm_meta := m\<rparr>))))
       (\<lambda>found. if map_differs (cm_data cm) (cm_data found) \<or> map_differs (m_labels (cm_meta cm)) (m_labels (cm_meta found))
          then check (Update E to_configmap (OConfigMap (found\<lparr>cm_data := cm_data cm,
                 cm_meta := (cm_meta found)\<lparr>m_labels := m_labels (cm_meta cm)\<rparr>\<rparr>))) (\<lambda>_. ok ())
          else ok ()))"

definition ReconcileKubeRbacProxyClusterRoleBinding :: "'s env \<Rightarrow> notebook \<Rightarrow> ('s, unit) ehandler" where
  "ReconcileKubeRbacProxyClusterRoleBinding E nb = (
     let crb = NewNotebookKubeRbacProxyClusterRoleBinding nb in
     get_or E KClusterRoleBinding to_clusterrolebinding ([], m_name (rb_meta crb))
       (create_tolerant E to_clusterrolebinding (OClusterRoleBinding crb))
       (\<lambda>_. ok ()))"

definition CleanupKubeRbacProxyClusterRoleBinding :: "'s env \<Rightarrow> notebook \<Rightarrow> ('s, unit) ehandler" where
  "CleanupKubeRbacProxyClusterRoleBinding E nb = delete_tolerant E KClusterRoleBinding ([], auth_delegator_name nb)"

section \<open>Comparing maps\<close>

text \<open>
  The comparison misses a difference: an entry with an empty value in the desired map and another
  key in the map found. Where no desired value is empty, it is equality up to nil.
\<close>

lemma map_differs_iff:
  assumes "desired = Some d" "\<And>k v. fmlookup d k = Some v \<Longrightarrow> v \<noteq> []" "d \<noteq> fmempty"
  shows "map_differs desired found \<longleftrightarrow> found \<noteq> desired"
proof
  show "map_differs desired found \<Longrightarrow> found \<noteq> desired"
    by (auto simp: map_differs_def mall_iff mget_def)
  assume ne: "found \<noteq> desired"
  show "map_differs desired found"
  proof (rule ccontr)
    assume c: "\<not> map_differs desired found"
    then have len: "map_len found = map_len desired" and all: "\<And>k v. fmlookup d k = Some v \<Longrightarrow> mget found k = v"
      by (auto simp: map_differs_def mall_iff assms(1))
    from all assms(2) have sub: "\<And>k v. fmlookup d k = Some v \<Longrightarrow> mlookup found k = Some v"
      by (metis mget_def option.exhaust option.simps(4) option.simps(5))
    obtain k v where "fmlookup d k = Some v" using assms(3) by (metis fmempty_lookup fmap_ext not_None_eq)
    then obtain f where f: "found = Some f" using sub by (cases found) auto
    have dom: "fmdom d |\<subseteq>| fmdom f" using sub by (auto simp: f fmlookup_dom_iff)
    have "fcard (fmdom f) = fcard (fmdom d)" using len by (simp add: map_len_def f assms(1))
    with dom have "fmdom d = fmdom f" by (metis fcard_seteq order_refl)
    then have "f = d" using sub
      by (intro fmap_ext) (metis f fmdom_notD fmdom_notI mlookup_Some not_None_eq)
    with ne f assms(1) show False by simp
  qed
qed

end
