(* ===== verification/TrustedCerts.thy ===== *)
theory TrustedCerts
  imports OdhBase
begin

text \<open>
  The certificate part of \<open>odh-notebook-controller/controllers/notebook_controller.go\<close>:
  \<open>CreateNotebookCertConfigMap\<close> gathers the trusted certificates of a namespace in one
  ConfigMap, \<open>IsConfigMapDeleted\<close> asks whether a Notebook mounts it and it is gone, and
  \<open>UnsetNotebookCertConfig\<close> takes it out of the Notebook. The last deletes from slices
  while it ranges over them, which is modelled on the array the slices share.
\<close>

section \<open>Gathering certificates\<close>

definition SelfSignedConfigMapName :: string where [go_consts]:
  "SelfSignedConfigMapName = ''kube-root-ca.crt''"
definition ServiceCAConfigMapName :: string where [go_consts]:
  "ServiceCAConfigMapName = ''openshift-service-ca.crt''"
definition OdhCABundleCertKey :: string where [go_consts]:
  "OdhCABundleCertKey = ''odh-ca-bundle.crt''"
definition pemCertificateBlockType :: string where [go_consts]:
  "pemCertificateBlockType = ''CERTIFICATE''"

definition cert_files :: "string \<Rightarrow> string list" where
  "cert_files configMapName = (
     if configMapName = OdhConfigMapName then [CaBundleCertKey, OdhCABundleCertKey]
     else if configMapName = SelfSignedConfigMapName then [''ca.crt'']
     else if configMapName = ServiceCAConfigMapName then [''service-ca.crt'']
     else [])"

definition is_certificate :: "'s odh \<Rightarrow> string \<Rightarrow> bool" where
  "is_certificate R data = (case od_pemBlock R data of
     None \<Rightarrow> False
   | Some (ty, bytes) \<Rightarrow> ty = pemCertificateBlockType \<and> od_certParses R bytes)"

text \<open>The inner loop: the pool with the certificates of the files, or \<open>None\<close> where the code returns.\<close>

fun scan_files :: "'s odh \<Rightarrow> smap \<Rightarrow> string list \<Rightarrow> string list \<Rightarrow> string list option" where
  "scan_files R data [] pool = Some pool"
| "scan_files R data (f # fs) pool = (
     let certData = TrimSpace (mget data f) in
     if mlookup data f = None \<or> f = CaBundleCertKey \<and> certData = [] then None
     else if certData = [] then scan_files R data fs pool
     else scan_files R data fs (if is_certificate R certData then pool @ [certData] else pool))"

fun scan_configmaps :: "'s env \<Rightarrow> 's odh \<Rightarrow> string \<Rightarrow> string list \<Rightarrow> string list \<Rightarrow> ('s, string list option) handler" where
  "scan_configmaps E R ns [] pool = return_h (Some pool)"
| "scan_configmaps E R ns (n # rest) pool = do {
     r \<leftarrow> Get E KConfigMap to_configmap (ns, n);
     (case r of
        Inl e \<Rightarrow> if IsNotFound e \<and> n = OdhConfigMapName then return_h None
                 else scan_configmaps E R ns rest pool
      | Inr cm \<Rightarrow> (case scan_files R (cm_data cm) (cert_files n) pool of
          None \<Rightarrow> return_h None
        | Some pool' \<Rightarrow> scan_configmaps E R ns rest pool'))
   }"

definition trusted_configmap :: "string \<Rightarrow> string list \<Rightarrow> configmap" where
  "trusted_configmap ns pool = \<lparr>cm_meta = empty_meta\<lparr>m_name := WorkbenchTrustedCABundleName, m_namespace := ns,
     m_labels := mlit [(''opendatahub.io/managed-by'', ''workbenches'')]\<rparr>,
     cm_data = mlit [(CaBundleCertKey, string_join [CHR 0x0A] pool)], cm_rest = []\<rparr>"

text \<open>An error of the lookup that is not \<open>NotFound\<close> is dropped.\<close>

definition CreateNotebookCertConfigMap :: "'s env \<Rightarrow> 's odh \<Rightarrow> notebook \<Rightarrow> ('s, unit) ehandler" where
  "CreateNotebookCertConfigMap E R nb = do {
     p \<leftarrow> scan_configmaps E R (nb_ns nb) [OdhConfigMapName, SelfSignedConfigMapName, ServiceCAConfigMapName] [];
     (case p of
        None \<Rightarrow> ok ()
      | Some pool \<Rightarrow>
          if pool = [] then ok ()
          else let desired = trusted_configmap (nb_ns nb) pool in do {
            r \<leftarrow> Get E KConfigMap to_configmap (meta_key (cm_meta desired));
            (case r of
               Inl e \<Rightarrow> if IsNotFound e then create_tolerant E to_configmap (OConfigMap desired) else ok ()
             | Inr found \<Rightarrow> if cm_data found = cm_data desired then ok ()
                 else check (Update E to_configmap (OConfigMap (found\<lparr>cm_data := cm_data desired\<rparr>))) (\<lambda>_. ok ()))
          })
   }"

section \<open>The bundle is gone\<close>

definition bundle_volume :: "volume \<Rightarrow> bool" where
  "bundle_volume v \<longleftrightarrow> (case v_configMap v of None \<Rightarrow> False | Some c \<Rightarrow> cs_cmName c = WorkbenchTrustedCABundleName)"

text \<open>Any error of the lookup counts as a missing ConfigMap.\<close>

definition IsConfigMapDeleted :: "'s env \<Rightarrow> notebook \<Rightarrow> ('s, bool) handler" where
  "IsConfigMapDeleted E nb = do {
     r \<leftarrow> Get E KConfigMap to_configmap (nb_ns nb, WorkbenchTrustedCABundleName);
     return_h (case r of Inr _ \<Rightarrow> False | Inl _ \<Rightarrow> list_ex bundle_volume (nb_volumes nb))
   }"

section \<open>Deleting from a slice while ranging over it\<close>

text \<open>
  \<open>for i, x := range s { if p(x) { s = append(s[:i], s[i+1:]...) } }\<close>. The range keeps the
  slice header it started with, of length \<open>n\<close>, but reads the elements from the array that the
  deletions shift. \<open>range_delete p i k arr len\<close>: at index \<open>i\<close>, with \<open>k\<close> iterations left,
  array \<open>arr\<close>, and \<open>s\<close> of length \<open>len\<close>. Slicing \<open>s[i+1:]\<close> beyond \<open>len\<close> panics.
\<close>

definition append_shift :: "nat \<Rightarrow> nat \<Rightarrow> 'a list \<Rightarrow> 'a list" where
  "append_shift i len arr = take i arr @ drop (i + 1) (take len arr) @ drop (len - 1) arr"

fun range_delete :: "('a \<Rightarrow> bool) \<Rightarrow> nat \<Rightarrow> nat \<Rightarrow> 'a list \<Rightarrow> nat \<Rightarrow> goerr + 'a list" where
  "range_delete p i 0 arr len = Inr (take len arr)"
| "range_delete p i (Suc k) arr len = (
     if p (arr ! i)
     then if i + 1 > len then Inl (Panic ''slice bounds out of range'')
          else range_delete p (i + 1) k (append_shift i len arr) (len - 1)
     else range_delete p (i + 1) k arr len)"

definition delete_ranging :: "('a \<Rightarrow> bool) \<Rightarrow> 'a list \<Rightarrow> goerr + 'a list" where
  "delete_ranging p xs = range_delete p 0 (length xs) xs (length xs)"

fun delete_vars :: "string list \<Rightarrow> envvar list \<Rightarrow> goerr + envvar list" where
  "delete_vars [] env = Inr env"
| "delete_vars (key # keys) env = (case delete_ranging (\<lambda>e. key = ev_name e) env of
     Inl e \<Rightarrow> Inl e | Inr env' \<Rightarrow> delete_vars keys env')"

section \<open>Taking the bundle out of a Notebook\<close>

definition unset_env_vars :: "string list" where
  "unset_env_vars = [''PIP_CERT'', ''REQUESTS_CA_BUNDLE'', ''SSL_CERT_FILE'', ''PIPELINES_SSL_SA_CERTS'',
     ''GIT_SSL_CAINFO'', ''KF_PIPELINES_SSL_SA_CERTS'']"

definition unset_container :: "container \<Rightarrow> goerr + container" where
  "unset_container c = (case delete_vars unset_env_vars (c_env c) of Inl e \<Rightarrow> Inl e
     | Inr env \<Rightarrow> (case delete_ranging (\<lambda>m. vm_name m = TrustedCAVolumeName) (c_volumeMounts c) of Inl e \<Rightarrow> Inl e
       | Inr mounts \<Rightarrow> Inr (c\<lparr>c_env := env, c_volumeMounts := mounts\<rparr>)))"

text \<open>The copy of the Notebook and whether its spec changed.\<close>

definition unset_notebook :: "notebook \<Rightarrow> goerr + notebook \<times> bool" where
  "unset_notebook nb = (
     let volumes = (\<lambda>n changed. if list_ex bundle_volume (nb_volumes n)
           then (with_volumes (delete_first bundle_volume (nb_volumes n)) n, True) else (n, changed))
     in case find (named (nb_name nb)) (nb_containers nb) of
       None \<Rightarrow> Inr (volumes nb False)
     | Some c \<Rightarrow> (case unset_container c of Inl e \<Rightarrow> Inl e
         | Inr c' \<Rightarrow> Inr (volumes (with_containers (replace_first (named (nb_name nb)) c' (nb_containers nb)) nb) True)))"

definition UnsetNotebookCertConfig :: "'s env \<Rightarrow> notebook \<Rightarrow> ('s, unit) ehandler" where
  "UnsetNotebookCertConfig E nb =
     check (lift (unset_notebook nb)) (\<lambda>(nb', changed).
       if changed then check (PatchMerge E to_notebook (ONotebook nb) (ONotebook nb')) (\<lambda>_. ok ()) else ok ())"

section \<open>What the ranging deletion does\<close>

lemma append_shift_split:
  "append_shift (length ys) (length (ys @ x # zs)) (ys @ x # zs) = ys @ zs @ [last (x # zs)]"
  by (cases zs rule: rev_cases) (simp_all add: append_shift_def)

lemma length_append_shift:
  "i < len \<Longrightarrow> len \<le> length arr \<Longrightarrow> length (append_shift i len arr) = length arr"
  by (simp add: append_shift_def)

lemma last_append_shift:
  assumes "i < len" "len \<le> length arr"
  shows "append_shift i len arr ! (length arr - 1) = arr ! (length arr - 1)"
proof -
  have ne: "drop (len - 1) arr \<noteq> []" using assms by simp
  then have "last (append_shift i len arr) = last arr" by (simp add: append_shift_def)
  moreover have "append_shift i len arr \<noteq> []" using ne by (simp add: append_shift_def)
  moreover have "arr \<noteq> []" using ne by auto
  ultimately show ?thesis by (simp add: last_conv_nth length_append_shift[OF assms])
qed

lemma range_delete_skip:
  "(\<And>j. i \<le> j \<Longrightarrow> j < i + m \<Longrightarrow> \<not> p (arr ! j)) \<Longrightarrow>
    range_delete p i (m + k) arr len = range_delete p (i + m) k arr len"
proof (induction m arbitrary: i)
  case (Suc m)
  have IH: "range_delete p (Suc i) (m + k) arr len = range_delete p (Suc i + m) k arr len"
    by (rule Suc.IH) (use Suc.prems in auto)
  have "\<not> p (arr ! i)" using Suc.prems[of i] by simp
  then show ?case using IH by simp
qed simp

lemma range_delete_first:
  assumes "\<forall>y \<in> set ys. \<not> p y" "p x"
  shows "delete_ranging p (ys @ x # zs) =
    range_delete p (length ys + 1) (length zs) (ys @ zs @ [last (x # zs)]) (length (ys @ zs))"
proof -
  have "\<not> p ((ys @ x # zs) ! j)" if "j < length ys" for j
    using assms(1) that by (simp add: nth_append)
  then have "delete_ranging p (ys @ x # zs) =
      range_delete p (length ys) (Suc (length zs)) (ys @ x # zs) (length (ys @ x # zs))"
    using range_delete_skip[of 0 "length ys" p "ys @ x # zs" "Suc (length zs)"]
    by (simp add: delete_ranging_def)
  then show ?thesis using assms(2) append_shift_split[of ys x zs] by simp
qed

text \<open>With one match at most, it deletes the match.\<close>

lemma delete_ranging_none: "\<forall>x \<in> set xs. \<not> p x \<Longrightarrow> delete_ranging p xs = Inr xs"
  using range_delete_skip[of 0 "length xs" p xs 0 "length xs"] by (simp add: delete_ranging_def)

lemma delete_ranging_one:
  assumes "length (filter p xs) \<le> 1"
  shows "delete_ranging p xs = Inr (filter (\<lambda>x. \<not> p x) xs)"
proof (cases "\<exists>x \<in> set xs. p x")
  case False
  then show ?thesis by (simp add: delete_ranging_none)
next
  case True
  then obtain ys x zs where xs: "xs = ys @ x # zs" "p x" "\<forall>y \<in> set ys. \<not> p y"
    by (metis split_list_first_prop)
  with assms have zs: "\<forall>z \<in> set zs. \<not> p z" by (auto simp: filter_empty_conv)
  let ?arr = "ys @ zs @ [last (x # zs)]"
  have "\<not> p (?arr ! j)" if "length ys + 1 \<le> j" "j < length ys + 1 + length zs" for j
  proof -
    have "zs \<noteq> []" using that by auto
    then have "?arr ! j \<in> set zs"
      using that by (cases "j < length ys + length zs") (auto simp: nth_append not_less)
    with zs show ?thesis by blast
  qed
  then have "range_delete p (length ys + 1) (length zs + 0) ?arr (length (ys @ zs)) = Inr (ys @ zs)"
    by (subst range_delete_skip) simp_all
  with xs zs show ?thesis by (simp add: range_delete_first)
qed

text \<open>With a match before a match that ends the slice, it panics: the array still ends with it.\<close>

lemma range_delete_stale:
  "p (arr ! (length arr - 1)) \<Longrightarrow> len < length arr \<Longrightarrow> i + k = length arr \<Longrightarrow> 0 < k \<Longrightarrow>
    range_delete p i k arr len = Inl (Panic ''slice bounds out of range'')"
proof (induction k arbitrary: i arr len)
  case (Suc k)
  show ?case
  proof (cases "p (arr ! i) \<and> i + 1 > len")
    case False
    have "k \<noteq> 0"
    proof
      assume "k = 0"
      with Suc.prems(3) have "length arr - 1 = i" by simp
      with Suc.prems(1,2,3) False show False by auto
    qed
    then have k: "0 < k" "(i + 1) + k = length arr" using Suc.prems(3) by simp_all
    show ?thesis
    proof (cases "p (arr ! i)")
      case True
      with False have i: "i < len" "len \<le> length arr" using Suc.prems(2) by simp_all
      have "range_delete p (i + 1) k (append_shift i len arr) (len - 1) = Inl (Panic ''slice bounds out of range'')"
        by (rule Suc.IH) (use Suc.prems(1,2) k i in \<open>simp_all add: length_append_shift last_append_shift[unfolded One_nat_def]\<close>)
      with True i show ?thesis by simp
    next
      case no: False
      have "range_delete p (i + 1) k arr len = Inl (Panic ''slice bounds out of range'')"
        by (rule Suc.IH[OF Suc.prems(1,2) k(2,1)])
      with no show ?thesis by simp
    qed
  qed simp
qed simp

lemma delete_ranging_panics:
  assumes "x \<in> set xs" "p x" "p y"
  shows "delete_ranging p (xs @ [y]) = Inl (Panic ''slice bounds out of range'')"
proof -
  obtain ys x' zs where xs: "xs = ys @ x' # zs" "p x'" "\<forall>y \<in> set ys. \<not> p y"
    using assms by (metis split_list_first_prop)
  have "delete_ranging p (ys @ x' # (zs @ [y])) =
      range_delete p (length ys + 1) (length (zs @ [y])) (ys @ (zs @ [y]) @ [last (x' # zs @ [y])]) (length (ys @ zs @ [y]))"
    by (rule range_delete_first[OF xs(3,2)])
  also have "\<dots> = Inl (Panic ''slice bounds out of range'')"
    by (rule range_delete_stale) (use assms(3) in \<open>simp_all add: nth_append\<close>)
  finally show ?thesis by (simp add: xs(1))
qed

lemma delete_vars_distinct:
  "distinct (map ev_name env) \<Longrightarrow> delete_vars keys env = Inr (filter (\<lambda>e. ev_name e \<notin> set keys) env)"
proof (induction keys arbitrary: env)
  case (Cons key keys)
  have "length (filter (\<lambda>e. key = ev_name e) env) \<le> 1"
    using Cons.prems by (induction env) (auto simp: filter_empty_conv)
  then have "delete_ranging (\<lambda>e. key = ev_name e) env = Inr (filter (\<lambda>e. key \<noteq> ev_name e) env)"
    by (simp add: delete_ranging_one)
  moreover have "distinct (map ev_name (filter (\<lambda>e. key \<noteq> ev_name e) env))"
    using Cons.prems by (simp add: distinct_map_filter)
  ultimately show ?case using Cons.IH by (simp add: conj_commute) (metis (mono_tags, lifting))
qed simp

end
