(* ===== verification/OdhReconciler.thy ===== *)
theory OdhReconciler
  imports Webhook NetworkPolicies ProxyObjects TrustedCerts
begin

text \<open>
  \<open>OpenshiftNotebookReconciler.Reconcile\<close> (\<open>odh-notebook-controller/controllers/notebook_controller.go\<close>),
  with \<open>notebook_oauth.go\<close>: finalizers are added first, in a run of their own; then the
  objects around the Notebook are brought up to date, and the lock that keeps a new Notebook from
  starting is removed last; when the Notebook is deleted, what its owner references cannot
  reach is cleaned up and the finalizers are removed. Then the watches.
\<close>

section \<open>Constants and small functions\<close>

definition HTTPRouteFinalizerName :: string where [go_consts]:
  "HTTPRouteFinalizerName = ''notebook.opendatahub.io/httproute-cleanup''"
definition ReferenceGrantFinalizerName :: string where [go_consts]:
  "ReferenceGrantFinalizerName = ''notebook.opendatahub.io/referencegrant-cleanup''"
definition KubeRbacProxyFinalizerName :: string where [go_consts]:
  "KubeRbacProxyFinalizerName = ''notebook.opendatahub.io/kube-rbac-proxy-cleanup''"
definition NotebookOAuthClientFinalizer :: string where [go_consts]:
  "NotebookOAuthClientFinalizer = ''notebook-oauth-client-finalizer.opendatahub.io''"

definition CompareNotebooks :: "notebook \<Rightarrow> notebook \<Rightarrow> bool" where
  "CompareNotebooks nb1 nb2 \<longleftrightarrow> m_labels (nb_meta nb1) = m_labels (nb_meta nb2) \<and>
     nb_annotations nb1 = nb_annotations nb2 \<and> nb_podspec nb1 = nb_podspec nb2"

definition ReconciliationLockIsEnabled :: "objmeta \<Rightarrow> bool" where
  "ReconciliationLockIsEnabled m \<longleftrightarrow> (if mget (m_annotations m) StoppedAnnotation \<noteq> []
     then mget (m_annotations m) StoppedAnnotation = AnnotationValueReconciliationLock else False)"

text \<open>What a reconciliation asks of the work queue.\<close>

datatype reconcile_result = Finished | Requeue | RequeueAfter int

definition notebookControllerConfig :: "'s env \<Rightarrow> 's odh \<Rightarrow> ('s, smap) ehandler" where
  "notebookControllerConfig E R = do {
     r \<leftarrow> Get E KConfigMap to_configmap (od_namespace R, NotebookControllerConfigMap);
     (case r of
        Inl e \<Rightarrow> if IsNotFound e then ok None else fail (Wrap ''get notebook controller config'' e)
      | Inr cm \<Rightarrow> ok (cm_data cm))
   }"

section \<open>OAuth clients\<close>

definition hasOAuthClientFinalizer :: "notebook \<Rightarrow> bool" where
  "hasOAuthClientFinalizer nb \<longleftrightarrow> list_ex (\<lambda>f. f = NotebookOAuthClientFinalizer) (m_finalizers (nb_meta nb))"

text \<open>The Notebook is the one the server sends back.\<close>

definition removeOAuthClientFinalizer :: "'s env \<Rightarrow> notebook \<Rightarrow> ('s, notebook) ehandler" where
  "removeOAuthClientFinalizer E nb = (
     if \<not> ContainsFinalizer (nb_meta nb) NotebookOAuthClientFinalizer then ok nb
     else Update E to_notebook (ONotebook (map_meta (RemoveFinalizer NotebookOAuthClientFinalizer) nb)))"

definition oauthClientName :: "notebook \<Rightarrow> string" where
  "oauthClientName nb = nb_name nb @ ''-'' @ nb_ns nb @ ''-oauth-client''"

definition deleteOAuthClient :: "'s env \<Rightarrow> notebook \<Rightarrow> ('s, unit) ehandler" where
  "deleteOAuthClient E nb =
     get_or E KOAuthClient to_any ([], oauthClientName nb) (ok ())
       (\<lambda>c. delete_tolerant E KOAuthClient (obj_key c))"

section \<open>The lock\<close>

definition wait_for_pull_secret :: "'s env \<Rightarrow> notebook \<Rightarrow> ('s, unit) ehandler" where
  "wait_for_pull_secret E nb =
     check (Get E KServiceAccount to_serviceaccount (nb_ns nb, nb_name nb)) (\<lambda>sa.
       if sa_imagePullSecrets sa = [] then fail (Errorf ''pull secret not mounted'') else ok ())"

definition lock_patch :: string where
  "lock_patch = CHR ''{'' # dquoted ''metadata'' @ '':'' @ CHR ''{'' # dquoted ''annotations'' @ '':'' @ CHR ''{'' #
     dquoted StoppedAnnotation @ '':null}}}''"

text \<open>Three attempts to see the pull secret; the wait is best effort, and its error is dropped.\<close>

definition RemoveReconciliationLock :: "'s env \<Rightarrow> notebook \<Rightarrow> ('s, unit) ehandler" where
  "RemoveReconciliationLock E nb = do {
     _ \<leftarrow> retry_on 2 (\<lambda>_. True) (wait_for_pull_secret E nb);
     check (PatchRaw E KNotebook to_notebook (nb_key nb) lock_patch) (\<lambda>_. ok ())
   }"

section \<open>Finalizers\<close>

text \<open>The loops over the finalizers to add and to remove: the new metadata, and whether it changed.\<close>

fun add_finalizers :: "string list \<Rightarrow> objmeta \<Rightarrow> objmeta \<times> bool" where
  "add_finalizers [] m = (m, False)"
| "add_finalizers (f # fs) m = (
     if ContainsFinalizer m f then add_finalizers fs m
     else (fst (add_finalizers fs (AddFinalizer f m)), True))"

fun remove_finalizers :: "string list \<Rightarrow> objmeta \<Rightarrow> objmeta \<times> bool" where
  "remove_finalizers [] m = (m, False)"
| "remove_finalizers (f # fs) m = (
     if ContainsFinalizer m f then (fst (remove_finalizers fs (RemoveFinalizer f m)), True)
     else remove_finalizers fs m)"

definition update_finalizers :: "'s env \<Rightarrow> nsname \<Rightarrow> (objmeta \<Rightarrow> objmeta \<times> bool) \<Rightarrow> ('s, unit) ehandler" where
  "update_finalizers E key f = RetryOnConflict E ''DefaultRetry''
     (check (Get E KNotebook to_notebook key) (\<lambda>cur. case f (nb_meta cur) of (m, modified) \<Rightarrow>
        if modified then check (Update E to_notebook (ONotebook (cur\<lparr>nb_meta := m\<rparr>))) (\<lambda>_. ok ()) else ok ()))"

definition finalizers_to_add :: "notebook \<Rightarrow> string list" where
  "finalizers_to_add nb =
     (if ContainsFinalizer (nb_meta nb) HTTPRouteFinalizerName then [] else [HTTPRouteFinalizerName]) @
     (if ContainsFinalizer (nb_meta nb) ReferenceGrantFinalizerName then [] else [ReferenceGrantFinalizerName]) @
     (if KubeRbacProxyInjectionIsEnabled (nb_meta nb) \<and> \<not> ContainsFinalizer (nb_meta nb) KubeRbacProxyFinalizerName
      then [KubeRbacProxyFinalizerName] else [])"

section \<open>Deletion\<close>

text \<open>
  A cleanup: the finalizer it is for, whether it is to be run, and the handler. The result is
  the finalizers that may go and the errors.
\<close>

definition run_cleanup :: "bool \<Rightarrow> ('s, unit) ehandler \<Rightarrow> ('s, goerr option) handler" where
  "run_cleanup wanted h = (if wanted then do {
     r \<leftarrow> h;
     return_h (case r of Inl e \<Rightarrow> Some e | Inr _ \<Rightarrow> None)
   } else return_h None)"

definition cleanup_all :: "'s env \<Rightarrow> 's odh \<Rightarrow> notebook \<Rightarrow> ('s, string list \<times> goerr list) handler" where
  "cleanup_all E R nb = (let has = ContainsFinalizer (nb_meta nb) in do {
     e1 \<leftarrow> run_cleanup (has HTTPRouteFinalizerName) (DeleteHTTPRouteForNotebook E R nb);
     e2 \<leftarrow> run_cleanup (has ReferenceGrantFinalizerName) (DeleteReferenceGrantIfLastNotebook E nb);
     e3 \<leftarrow> run_cleanup (KubeRbacProxyInjectionIsEnabled (nb_meta nb)) (CleanupKubeRbacProxyClusterRoleBinding E nb);
     return_h (
       (if has HTTPRouteFinalizerName \<and> e1 = None then [HTTPRouteFinalizerName] else []) @
       (if has ReferenceGrantFinalizerName \<and> e2 = None then [ReferenceGrantFinalizerName] else []) @
       (if has KubeRbacProxyFinalizerName \<and> e3 = None then [KubeRbacProxyFinalizerName] else []),
       List.map_filter (\<lambda>e. e) [e1, e2, e3])
   })"

definition combined_error :: "'s odh \<Rightarrow> goerr list \<Rightarrow> goerr" where
  "combined_error R es = (case es of
     [e] \<Rightarrow> e
   | _ \<Rightarrow> Errorf (''multiple cleanup failures ('' @ Itoa (int (length es)) @ '' errors): '' @
            string_join ''; '' (map (od_errtext R) es)))"

definition oauth_cleanup :: "'s env \<Rightarrow> notebook \<Rightarrow> ('s, notebook) ehandler" where
  "oauth_cleanup E nb = (
     if hasOAuthClientFinalizer nb
     then check (deleteOAuthClient E nb) (\<lambda>_. removeOAuthClientFinalizer E nb)
     else ok nb)"

definition reconcile_deleted :: "'s env \<Rightarrow> 's odh \<Rightarrow> notebook \<Rightarrow> ('s, reconcile_result) ehandler" where
  "reconcile_deleted E R nb0 =
     check (oauth_cleanup E nb0) (\<lambda>nb. do {
       (done, errors) \<leftarrow> cleanup_all E R nb;
       check (if done = [] then ok () else update_finalizers E (nb_key nb) (remove_finalizers done)) (\<lambda>_.
         if errors = [] then ok Finished else fail (combined_error R errors))
     })"

section \<open>Reconcile\<close>

definition reconcile_certs :: "'s env \<Rightarrow> 's odh \<Rightarrow> notebook \<Rightarrow> ('s, unit) ehandler" where
  "reconcile_certs E R nb =
     check (CreateNotebookCertConfigMap E R nb) (\<lambda>_. do {
       deleted \<leftarrow> IsConfigMapDeleted E nb;
       (if deleted then UnsetNotebookCertConfig E nb else ok ())
     })"

definition reconcile_pipelines :: "'s env \<Rightarrow> notebook \<Rightarrow> ('s, unit) ehandler" where
  "reconcile_pipelines E nb =
     check (if env_true E ''SET_PIPELINE_RBAC'' then ReconcileRoleBindings E nb else ok ()) (\<lambda>_.
     if env_true E ''SET_PIPELINE_SECRET'' then ReconcileElyraRuntimeConfigSecret E nb else ok ())"

text \<open>The part that depends on the mode; it returns the Notebook as the TLS reconciliation leaves it.\<close>

definition reconcile_auth :: "'s env \<Rightarrow> 's odh \<Rightarrow> smap \<Rightarrow> notebook \<Rightarrow> ('s, notebook) ehandler" where
  "reconcile_auth E R config nb =
     check (EnsureConflictingHTTPRouteAbsent E R nb True) (\<lambda>_.
     check (ReconcileNotebookServiceAccount E nb) (\<lambda>_.
     check (ReconcileKubeRbacProxyClusterRoleBinding E nb) (\<lambda>_.
     check (ReconcileKubeRbacProxyConfigMap E nb) (\<lambda>_.
     check (ReconcileKubeRbacProxyService E nb) (\<lambda>_.
     check (ReconcileKubeRbacProxyHTTPRoute E R nb config) (\<lambda>_.
     reconcileKubeRbacProxyTLS E (od_tls R) nb))))))"

definition reconcile_plain :: "'s env \<Rightarrow> 's odh \<Rightarrow> smap \<Rightarrow> notebook \<Rightarrow> ('s, notebook) ehandler" where
  "reconcile_plain E R config nb =
     check (EnsureConflictingHTTPRouteAbsent E R nb False) (\<lambda>_.
     check (CleanupKubeRbacProxyClusterRoleBinding E nb) (\<lambda>_.
     check (ReconcileHTTPRoute E R nb config) (\<lambda>_. ok nb)))"

definition finish_reconcile :: "'s env \<Rightarrow> notebook \<Rightarrow> ('s, reconcile_result) ehandler" where
  "finish_reconcile E nb =
     check (if ReconciliationLockIsEnabled (nb_meta nb) then RemoveReconciliationLock E nb else ok ()) (\<lambda>_. ok Finished)"

definition reconcile_objects :: "'s env \<Rightarrow> 's odh \<Rightarrow> notebook \<Rightarrow> ('s, reconcile_result) ehandler" where
  "reconcile_objects E R nb0 =
     check (notebookControllerConfig E R) (\<lambda>config.
     check (reconcile_certs E R nb0) (\<lambda>_.
     check (ReconcileAllNetworkPolicies E R nb0) (\<lambda>_.
     check (EnsureNotebookConfigMap E (od_namespace R) nb0) (\<lambda>_.
     check (reconcile_pipelines E nb0) (\<lambda>_.
     check (ReconcileReferenceGrant E R nb0) (\<lambda>_.
     check (if KubeRbacProxyInjectionIsEnabled (nb_meta nb0) then reconcile_auth E R config nb0
            else reconcile_plain E R config nb0) (\<lambda>nb.
     check (if od_mlflowEnabled R then ReconcileMLflowIntegration E nb else ok 0) (\<lambda>after.
       if after > 0 then ok (RequeueAfter after)
       else finish_reconcile E nb))))))))"

definition OdhReconcile :: "'s env \<Rightarrow> 's odh \<Rightarrow> nsname \<Rightarrow> ('s, reconcile_result) ehandler" where
  "OdhReconcile E R req = do {
     r \<leftarrow> Get E KNotebook to_notebook req;
     (case r of
        Inl e \<Rightarrow> if IsNotFound e then ok Finished else fail e
      | Inr nb \<Rightarrow>
          if m_deletionTimestamp (nb_meta nb) \<noteq> None then reconcile_deleted E R nb
          else if finalizers_to_add nb \<noteq> []
          then check (update_finalizers E (nb_key nb) (add_finalizers (finalizers_to_add nb))) (\<lambda>_. ok Requeue)
          else reconcile_objects E R nb)
   }"

end
