(* ===== verification/CertProps.thy ===== *)
theory CertProps
  imports MemServer OdhReconciler
begin

text \<open>
  The properties of the certificate handling: what enters the trusted bundle, when the bundle
  is left alone, and what taking it out of a Notebook does.
\<close>

lemma plain_sample_ns: "nb_ns sample_notebook = ''ns''"
  by (simp add: sample_defs)

section \<open>The pool\<close>

lemma scan_files_certificates:
  "scan_files R data fs pool = Some pool' \<Longrightarrow> list_all (is_certificate R) pool \<Longrightarrow> list_all (is_certificate R) pool'"
  by (induction fs arbitrary: pool) (auto simp: Let_def split: if_splits)

lemma scan_configmaps_certificates:
  "list_all (is_certificate R) pool \<Longrightarrow>
    does (scan_configmaps E R ns names pool)
      (\<lambda>r es. (\<forall>e \<in> set es. wr (\<lambda>_. False) e) \<and> (\<forall>pool'. r = Some pool' \<longrightarrow> list_all (is_certificate R) pool'))"
proof (induction names arbitrary: pool)
  case (Cons n names)
  let ?Q = "\<lambda>r es. (\<forall>e \<in> set es. wr (\<lambda>_. False) e) \<and> (\<forall>pool'. r = Some pool' \<longrightarrow> list_all (is_certificate R) pool')"
  have on: "does (scan_configmaps E R ns names pool') (\<lambda>y es'. ?Q y ([c] @ es'))"
    if "list_all (is_certificate R) pool'" "wr (\<lambda>_. False) c" for pool' c
    by (rule does_mono[OF Cons.IH[OF that(1)]]) (use that(2) in auto)
  show ?case
    unfolding scan_configmaps.simps
    by (intro wp_rules on Cons.prems) (auto intro: scan_files_certificates[OF _ Cons.prems])
qed (auto intro!: wp_rules)

text \<open>A bundle whose entry is a join of certificates.\<close>

definition certificates_only :: "'s odh \<Rightarrow> configmap \<Rightarrow> bool" where
  "certificates_only R cm \<longleftrightarrow> (\<exists>pool. list_all (is_certificate R) pool \<and> pool \<noteq> [] \<and>
     cm_data cm = mlit [(CaBundleCertKey, string_join [CHR 0x0A] pool)])"

definition bundle_write :: "'s odh \<Rightarrow> string \<Rightarrow> request \<Rightarrow> bool" where
  "bundle_write R ns q \<longleftrightarrow> (\<exists>cm. (q = RCreate (OConfigMap cm) \<and> meta_key (cm_meta cm) = (ns, WorkbenchTrustedCABundleName) \<or>
     q = RUpdate (OConfigMap cm)) \<and> certificates_only R cm)"

lemma trusted_key [simp]: "meta_key (cm_meta (trusted_configmap ns pool)) = (ns, WorkbenchTrustedCABundleName)"
  by (simp add: trusted_configmap_def meta_key_def)

lemma trusted_certificates:
  "list_all (is_certificate R) pool \<Longrightarrow> pool \<noteq> [] \<Longrightarrow> certificates_only R (cm\<lparr>cm_data := cm_data (trusted_configmap ns pool)\<rparr>)"
  "list_all (is_certificate R) pool \<Longrightarrow> pool \<noteq> [] \<Longrightarrow> certificates_only R (trusted_configmap ns pool)"
  by (auto simp: certificates_only_def trusted_configmap_def)

lemma CreateNotebookCertConfigMap_writes: "emits (wr (bundle_write R (nb_ns nb))) (CreateNotebookCertConfigMap E R nb)"
  unfolding emits_def CreateNotebookCertConfigMap_def
proof (rule does_bind, rule does_mono[OF scan_configmaps_certificates])
  fix p :: "string list option" and es
  assume a: "(\<forall>e \<in> set es. wr (\<lambda>_. False) e) \<and> (\<forall>pool'. p = Some pool' \<longrightarrow> list_all (is_certificate R) pool')"
  let ?W = "wr (bundle_write R (nb_ns nb))"
  have es: "list_all ?W es" using a by (auto simp: list_all_iff elim: wr_mono)
  have "emits ?W (case p of None \<Rightarrow> ok ()
      | Some pool \<Rightarrow> if pool = [] then ok ()
          else let desired = trusted_configmap (nb_ns nb) pool in do {
            r \<leftarrow> Get E KConfigMap to_configmap (meta_key (cm_meta desired));
            (case r of
               Inl e \<Rightarrow> if IsNotFound e then create_tolerant E to_configmap (OConfigMap desired) else ok ()
             | Inr found \<Rightarrow> if cm_data found = cm_data desired then ok ()
                 else check (Update E to_configmap (OConfigMap (found\<lparr>cm_data := cm_data desired\<rparr>))) (\<lambda>_. ok ()))
          })"
    using a by (intro emit_rules) (auto simp: bundle_write_def intro: trusted_certificates)
  then show "does (case p of None \<Rightarrow> ok ()
      | Some pool \<Rightarrow> if pool = [] then ok ()
          else let desired = trusted_configmap (nb_ns nb) pool in do {
            r \<leftarrow> Get E KConfigMap to_configmap (meta_key (cm_meta desired));
            (case r of
               Inl e \<Rightarrow> if IsNotFound e then create_tolerant E to_configmap (OConfigMap desired) else ok ()
             | Inr found \<Rightarrow> if cm_data found = cm_data desired then ok ()
                 else check (Update E to_configmap (OConfigMap (found\<lparr>cm_data := cm_data desired\<rparr>))) (\<lambda>_. ok ()))
          }) (\<lambda>y es'. list_all ?W (es @ es'))"
    unfolding emits_def using es by (auto elim: does_mono)
qed simp

section \<open>Taking the bundle in and out\<close>

lemma filter_ordered_vars:
  assumes "range_order ord"
  shows "fst ` set (ord cert_env_vars) = set unset_env_vars" "distinct (map fst (ord cert_env_vars))"
proof -
  have c: "set (ord cert_env_vars) = set cert_env_vars" "distinct (ord cert_env_vars)"
    using assms by (auto simp: range_order_def cert_env_vars_def)
  then show "fst ` set (ord cert_env_vars) = set unset_env_vars"
    by (auto simp: cert_env_vars_def unset_env_vars_def)
  have "inj_on fst (set cert_env_vars)" by (auto simp: cert_env_vars_def inj_on_def)
  with c show "distinct (map fst (ord cert_env_vars))" by (simp add: distinct_map)
qed

lemma env_loop_fresh:
  assumes "\<forall>e \<in> set env. ev_name e \<notin> fst ` set kvs"
  shows "env_loop kvs env new = env @ new @ map (\<lambda>(k, v). new_env k v) kvs"
  using assms
proof (induction kvs env new rule: env_loop.induct)
  case (2 k v kvs env new)
  have "set_env k v env = env" using "2.prems" by (auto simp: set_env_def intro!: map_idI)
  moreover have "\<not> list_ex (env_named k) env" using "2.prems" by (auto simp: list_ex_iff env_named_def)
  ultimately show ?case using "2.IH" "2.prems" by simp
qed simp

lemma delete_vars_injected:
  assumes "range_order ord" "distinct (map ev_name env)" "\<forall>e \<in> set env. ev_name e \<notin> set unset_env_vars"
  shows "delete_vars unset_env_vars (env_loop (ord cert_env_vars) env []) = Inr env"
proof -
  let ?new = "map (\<lambda>(k, v). new_env k v) (ord cert_env_vars)"
  have names: "map ev_name ?new = map fst (ord cert_env_vars)" by (auto simp: new_env_def)
  have eq: "env_loop (ord cert_env_vars) env [] = env @ ?new"
    using assms(3) filter_ordered_vars(1)[OF assms(1)] by (subst env_loop_fresh) auto
  have "distinct (map ev_name (env @ ?new))"
    using assms(2,3) filter_ordered_vars[OF assms(1)] names by (auto simp del: map_map simp: new_env_def)
  moreover have "k \<in> set unset_env_vars" if "(k, v) \<in> set (ord cert_env_vars)" for k v
    using that filter_ordered_vars(1)[OF assms(1)] by (metis fst_conv imageI)
  then have "filter (\<lambda>e. ev_name e \<notin> set unset_env_vars) (env @ ?new) = env"
    using assms(3) by (auto simp: filter_empty_conv new_env_def filter_id_conv)
  ultimately show ?thesis by (simp add: eq delete_vars_distinct)
qed

definition inject_container :: "((string \<times> string) list \<Rightarrow> (string \<times> string) list) \<Rightarrow> container \<Rightarrow> container" where
  "inject_container ord c = put_mount cert_mount (inject_env (ord cert_env_vars) c)"

lemma inject_container_simps [simp]:
  "c_name (inject_container ord c) = c_name c"
  "c_env (inject_container ord c) = env_loop (ord cert_env_vars) (c_env c) []"
  "c_volumeMounts (inject_container ord c) = put_first (mount_named TrustedCAVolumeName) cert_mount (c_volumeMounts c)"
  "inject_container ord c\<lparr>c_env := c_env c, c_volumeMounts := c_volumeMounts c\<rparr> = c"
  by (simp_all add: inject_container_def put_mount_def inject_env_def cert_mount_def plain_mount_def)

text \<open>A container the bundle can be put into and taken out of: unique variables, none of the bundle's, no mount.\<close>

definition fresh_container :: "container \<Rightarrow> bool" where
  "fresh_container c \<longleftrightarrow> distinct (map ev_name (c_env c)) \<and> list_all (\<lambda>e. ev_name e \<notin> set unset_env_vars) (c_env c) \<and>
     \<not> list_ex (mount_named TrustedCAVolumeName) (c_volumeMounts c)"

lemma unset_injected:
  assumes "range_order ord" "fresh_container c"
  shows "unset_container (inject_container ord c) = Inr c"
proof -
  let ?p = "\<lambda>m. vm_name m = TrustedCAVolumeName"
  have none: "\<forall>m \<in> set (c_volumeMounts c). \<not> ?p m"
    using assms(2) by (auto simp: fresh_container_def list_ex_iff mount_named_def)
  have m: "put_first (mount_named TrustedCAVolumeName) cert_mount (c_volumeMounts c) = c_volumeMounts c @ [cert_mount]"
    using assms(2) by (simp add: fresh_container_def put_first_def)
  have f: "filter ?p (c_volumeMounts c) = []" "filter (\<lambda>m. \<not> ?p m) (c_volumeMounts c) = c_volumeMounts c"
    using none by (auto simp: filter_empty_conv filter_id_conv)
  have "delete_ranging ?p (c_volumeMounts c @ [cert_mount]) = Inr (c_volumeMounts c)"
    by (subst delete_ranging_one) (simp_all add: f cert_mount_def plain_mount_def)
  with assms show ?thesis
    by (simp add: unset_container_def fresh_container_def m delete_vars_injected list_all_iff)
qed

lemma replace_updated: "find p cs = Some c \<Longrightarrow> (\<And>x. p x \<Longrightarrow> p (f x)) \<Longrightarrow> replace_first p c (update_first p f cs) = cs"
  by (induction cs) (auto split: if_splits)

lemma InjectCertConfig_container:
  "InjectCertConfig ord cm nb = edit_container (nb_name nb) (inject_container ord) (put_volume (cert_volume cm) nb)"
  by (simp add: InjectCertConfig_def inject_container_def[abs_def])

lemma bundle_cert_volume [simp]: "bundle_volume (cert_volume WorkbenchTrustedCABundleName)"
  by (simp add: bundle_volume_def cert_volume_def configmap_volume_def)

lemma delete_last: "\<not> list_ex p xs \<Longrightarrow> p y \<Longrightarrow> delete_first p (xs @ [y]) = xs"
  by (induction xs) auto

section \<open>Properties\<close>


definition odh_bundle :: configmap where
  "odh_bundle = \<lparr>cm_meta = empty_meta\<lparr>m_name := OdhConfigMapName, m_namespace := ''ns''\<rparr>,
     cm_data = mlit [(CaBundleCertKey, ''A''), (OdhCABundleCertKey, ''B'')], cm_rest = []\<rparr>"

lemma TrimSpace_AB: "TrimSpace ''A'' = ''A''" "TrimSpace ''B'' = ''B''"
  by code_simp+

lemma sample_scan:
  "scan_files sample_odh (cm_data odh_bundle) (cert_files OdhConfigMapName) [] = Some [''A'', ''B'']"
proof -
  have k: "OdhCABundleCertKey \<noteq> CaBundleCertKey" by (simp add: go_consts)
  have "is_certificate sample_odh s" for s
    by (simp add: is_certificate_def sample_odh_def go_consts)
  then show ?thesis
    using k by (simp add: odh_bundle_def cert_files_def mget_def mlit_def TrimSpace_AB)
qed

lemma sample_certs_run:
  "run_state (CreateNotebookCertConfigMap sample_env sample_odh sample_notebook) (sample_world [OConfigMap odh_bundle]) =
   (Inr (), \<lparr>server = [OConfigMap (trusted_configmap ''ns'' [''A'', ''B'']), OConfigMap odh_bundle], trace =
     [Call (RGet KConfigMap (''ns'', OdhConfigMapName)) (RespObj (OConfigMap odh_bundle)),
      Call (RGet KConfigMap (''ns'', SelfSignedConfigMapName)) (RespErr (ApiErr NotFound)),
      Call (RGet KConfigMap (''ns'', ServiceCAConfigMapName)) (RespErr (ApiErr NotFound)),
      Call (RGet KConfigMap (''ns'', WorkbenchTrustedCABundleName)) (RespErr (ApiErr NotFound)),
      Call (RCreate (OConfigMap (trusted_configmap ''ns'' [''A'', ''B''])))
        (RespObj (OConfigMap (trusted_configmap ''ns'' [''A'', ''B''])))]\<rparr>)"
proof -
  have key: "same_obj KConfigMap (''ns'', n) (OConfigMap odh_bundle) \<longleftrightarrow> n = OdhConfigMapName" for n
    by (auto simp: same_obj_def obj_key_def meta_key_def odh_bundle_def)
  have ne: "SelfSignedConfigMapName \<noteq> OdhConfigMapName" "ServiceCAConfigMapName \<noteq> OdhConfigMapName"
    "WorkbenchTrustedCABundleName \<noteq> OdhConfigMapName" by (simp_all add: go_consts)
  have ns: "nb_ns sample_notebook = ''ns''" by (simp add: sample_defs)
  show ?thesis
    by (simp add: CreateNotebookCertConfigMap_def ns client_defs key ne sample_scan IsNotFound_def Let_def
        create_tolerant_def obj_key_def)
qed


text \<open>
  Certificates are gathered all or nothing: when the ConfigMap of the platform's bundle lacks
  one of its two keys, even the optional one, the reconciliation returns after its first lookup, with
  success, and no bundle is made although the other key holds a certificate.
\<close>

theorem missing_key_stops_bundle:
  assumes "env_api E (RGet KConfigMap (nb_ns nb, OdhConfigMapName)) (server w) = (RespObj (OConfigMap cm), s)"
    and "mlookup (cm_data cm) OdhCABundleCertKey = None"
  shows "run_state (CreateNotebookCertConfigMap E R nb) w =
    (Inr (), \<lparr>server = s, trace = trace w @
      [Call (RGet KConfigMap (nb_ns nb, OdhConfigMapName)) (RespObj (OConfigMap cm))]\<rparr>)"
proof -
  have "scan_files R (cm_data cm) (cert_files OdhConfigMapName) [] = None"
    using assms(2) by (simp add: cert_files_def Let_def)
  with assms(1) show ?thesis
    by (simp add: CreateNotebookCertConfigMap_def Get_def)
qed

theorem missing_key_stops_bundle_witness:
  "run_state (CreateNotebookCertConfigMap sample_env sample_odh sample_notebook)
     (sample_world [OConfigMap (odh_bundle\<lparr>cm_data := mlit [(CaBundleCertKey, ''A'')]\<rparr>)]) =
   (Inr (), \<lparr>server = [OConfigMap (odh_bundle\<lparr>cm_data := mlit [(CaBundleCertKey, ''A'')]\<rparr>)],
     trace = trace (sample_world [OConfigMap (odh_bundle\<lparr>cm_data := mlit [(CaBundleCertKey, ''A'')]\<rparr>)]) @
       [Call (RGet KConfigMap (nb_ns sample_notebook, OdhConfigMapName))
         (RespObj (OConfigMap (odh_bundle\<lparr>cm_data := mlit [(CaBundleCertKey, ''A'')]\<rparr>)))]\<rparr>)"
  by (rule missing_key_stops_bundle)
    (simp_all add: same_obj_def obj_key_def meta_key_def odh_bundle_def sample_defs mlit_def go_consts)



text \<open>
  The removal deletes from the mounts while it ranges over them, and panics on a container that
  mounts the volume twice, the second time last: the Notebook's reconciliation then fails at
  this point in every run.
\<close>

theorem double_mount_panics:
  assumes "find (named (nb_name nb)) (nb_containers nb) = Some c" "distinct (map ev_name (c_env c))"
    and "c_volumeMounts c = ms @ [m]" "vm_name m = TrustedCAVolumeName"
    and "list_ex (\<lambda>x. vm_name x = TrustedCAVolumeName) ms"
  shows "run_state (UnsetNotebookCertConfig E nb) w = (Inl (Panic ''slice bounds out of range''), w)"
proof -
  obtain x where "x \<in> set ms" "vm_name x = TrustedCAVolumeName" using assms(5) by (auto simp: list_ex_iff)
  then have "delete_ranging (\<lambda>m. vm_name m = TrustedCAVolumeName) (ms @ [m]) = Inl (Panic ''slice bounds out of range'')"
    using assms(4) by (intro delete_ranging_panics)
  with assms(1,2,3) show ?thesis
    by (simp add: UnsetNotebookCertConfig_def unset_notebook_def unset_container_def delete_vars_distinct)
qed

definition double_mount :: notebook where
  "double_mount = with_containers [sample_container\<lparr>c_volumeMounts := [cert_mount, cert_mount]\<rparr>] sample_notebook"

theorem double_mount_panics_witness:
  "run_state (UnsetNotebookCertConfig sample_env double_mount) (sample_world []) =
    (Inl (Panic ''slice bounds out of range''), sample_world [])"
  by (rule double_mount_panics[where c = "sample_container\<lparr>c_volumeMounts := [cert_mount, cert_mount]\<rparr>" and ms = "[cert_mount]" and m = cert_mount])
    (simp_all add: double_mount_def sample_defs named_def cert_mount_def plain_mount_def)

text \<open>
  Any error of the lookup counts as a deleted bundle: when the ConfigMaps are read without
  a result but the last lookup fails, for whatever reason, a Notebook that mounts the bundle has it
  removed.
\<close>

theorem failed_lookup_unmounts_bundle:
  assumes "run_state (CreateNotebookCertConfigMap E R nb) w = (Inr (), w1)"
    and "env_api E (RGet KConfigMap (nb_ns nb, WorkbenchTrustedCABundleName)) (server w1) = (RespErr e, s1)"
    and "list_ex bundle_volume (nb_volumes nb)" "unset_notebook nb = Inr (nb', True)"
    and "run_state (reconcile_certs E R nb) w = (r, w')"
  shows "\<exists>resp. trace w' = trace w1 @ [Call (RGet KConfigMap (nb_ns nb, WorkbenchTrustedCABundleName)) (RespErr e),
    Call (RPatchMerge (ONotebook nb) (ONotebook nb')) resp]"
  using assms(5) by (auto simp: reconcile_certs_def assms(1-4) IsConfigMapDeleted_def UnsetNotebookCertConfig_def
      client_defs split: prod.splits sum.splits)

definition flaky_env :: "(kobj list) env" where
  "flaky_env = sample_env\<lparr>env_api := (\<lambda>q s.
     if q = RGet KConfigMap (''ns'', WorkbenchTrustedCABundleName) then (RespErr (ApiErr Timeout), s) else mem_api q s)\<rparr>"

definition mounted_notebook :: notebook where
  "mounted_notebook = with_volumes [cert_volume WorkbenchTrustedCABundleName] sample_notebook"

lemma mounted_unset: "unset_notebook mounted_notebook = Inr (with_volumes [] mounted_notebook, True)"
proof -
  have "nb_containers mounted_notebook = [sample_container]" "nb_name mounted_notebook = ''nb''"
    "nb_volumes mounted_notebook = [cert_volume WorkbenchTrustedCABundleName]"
    by (simp_all add: mounted_notebook_def sample_notebook_def sample_podspec_def pod_defs)
  moreover have "unset_container sample_container = Inr sample_container"
    by (simp add: unset_container_def sample_container_def delete_vars_distinct delete_ranging_none)
  moreover have "named ''nb'' sample_container" by (simp add: named_def sample_container_def)
  moreover have "with_volumes [] (with_containers [sample_container] mounted_notebook) = with_volumes [] mounted_notebook"
    by (simp add: mounted_notebook_def sample_notebook_def sample_podspec_def pod_defs)
  ultimately show ?thesis by (simp add: unset_notebook_def)
qed

lemma flaky_certs:
  "run_state (CreateNotebookCertConfigMap flaky_env sample_odh mounted_notebook) (sample_world []) =
    (Inr (), \<lparr>server = [], trace = [Call (RGet KConfigMap (''ns'', OdhConfigMapName)) (RespErr (ApiErr NotFound))]\<rparr>)"
  by (simp add: CreateNotebookCertConfigMap_def Get_def flaky_env_def mounted_notebook_def plain_sample_ns IsNotFound_def go_consts)

theorem failed_lookup_unmounts_bundle_witness:
  "\<exists>resp. trace (snd (run_state (reconcile_certs flaky_env sample_odh mounted_notebook) (sample_world []))) =
    [Call (RGet KConfigMap (''ns'', OdhConfigMapName)) (RespErr (ApiErr NotFound))] @
    [Call (RGet KConfigMap (''ns'', WorkbenchTrustedCABundleName)) (RespErr (ApiErr Timeout)),
     Call (RPatchMerge (ONotebook mounted_notebook) (ONotebook (with_volumes [] mounted_notebook))) resp]"
  using failed_lookup_unmounts_bundle[OF flaky_certs _ _ mounted_unset prod.collapse[symmetric], of "ApiErr Timeout" "[]"]
  by (simp add: flaky_env_def mounted_notebook_def plain_sample_ns)

end
