(* ===== verification/RouteProps.thy ===== *)
theory RouteProps
  imports MemServer ProxyObjects
begin

text \<open>
  The properties of routes, of the grant the Notebooks of a namespace share, and of the
  sidecar's objects.
\<close>

section \<open>Objects that are created or repaired\<close>

text \<open>
  The shape several reconcilers share: get the object, create it if it is missing, repair it if it
  is not as desired. The contract asks for little: what is created or repaired is as desired,
  has the kind and, if the object found had it, the key.
\<close>

definition ensure_object :: "'s env \<Rightarrow> (kobj \<Rightarrow> 'a option) \<Rightarrow> ('a \<Rightarrow> kobj) \<Rightarrow> kind \<Rightarrow> nsname \<Rightarrow>
    (goerr + 'a) \<Rightarrow> ('a \<Rightarrow> bool) \<Rightarrow> ('a \<Rightarrow> 'a) \<Rightarrow> ('s, unit) ehandler" where
  "ensure_object E p mk k key new fine repair =
     get_or E k p key
       (check (lift new) (\<lambda>d. create_tolerant E p (mk d)))
       (\<lambda>found. if fine found then ok () else check (Update E p (mk (repair found))) (\<lambda>_. ok ()))"

locale repairable =
  fixes p :: "kobj \<Rightarrow> 'a option" and mk :: "'a \<Rightarrow> kobj" and k :: kind and key :: nsname
    and new :: "goerr + 'a" and fine :: "'a \<Rightarrow> bool" and repair :: "'a \<Rightarrow> 'a"
  assumes decode: "p x = Some y \<Longrightarrow> x = mk y" and encode: "p (mk y) = Some y"
    and kind_mk: "obj_kind (mk y) = k"
    and new_law: "new = Inr d \<Longrightarrow> fine d \<and> obj_key (mk d) = key"
    and repair_law: "fine (repair y)" and repair_key: "obj_key (mk (repair y)) = obj_key (mk y)"
begin

text \<open>On success, the object is stored under its key, as desired.\<close>

lemma in_place:
  assumes E: "env_api E = mem_api"
  shows "triple (\<lambda>_. True) (ensure_object E p mk k key new fine repair)
    (\<lambda>r s. r = Inr () \<longrightarrow> (\<exists>y. stored k key s = Some (mk y) \<and> fine y))"
  unfolding ensure_object_def get_or_def
proof (rule Get_bind_triple[OF E])
  let ?Q = "\<lambda>(r :: goerr + unit) s. r = Inr () \<longrightarrow> (\<exists>y. stored k key s = Some (mk y) \<and> fine y)"
  have create: "triple (\<lambda>s. stored k key s = None) (create_tolerant E p (mk d)) ?Q" if "new = Inr d" for d
    unfolding create_tolerant_def
  proof (rule triple_bind, rule Create_triple[OF E, where Q = "\<lambda>r s. (\<exists>y. stored k key s = Some (mk y) \<and> fine y)"])
    show "\<exists>y. stored k key (mk d # s) = Some (mk y) \<and> fine y" for s
      using new_law[OF that] by (auto simp: stored_Cons kind_mk)
    show "\<exists>y. stored k key s = Some (mk y) \<and> fine y"
      if "stored k key s = None" "stored (obj_kind (mk d)) (obj_key (mk d)) s \<noteq> None" for s
      using that new_law[OF \<open>new = Inr d\<close>] by (simp add: kind_mk)
    show "triple (\<lambda>s. \<exists>y. stored k key s = Some (mk y) \<and> fine y)
        (case r of Inl e \<Rightarrow> if IsAlreadyExists e then ok () else fail e | Inr _ \<Rightarrow> ok ()) ?Q" for r
      by (auto intro!: triple_rules)
  qed
  show "triple (\<lambda>s. True \<and> stored k key s = None) (case Inl (ApiErr NotFound) of
      Inl e \<Rightarrow> if IsNotFound e then check (lift new) (\<lambda>d. create_tolerant E p (mk d)) else fail e
    | Inr x \<Rightarrow> if fine x then ok () else check (Update E p (mk (repair x))) (\<lambda>_. ok ())) ?Q"
    using create by (auto simp: IsNotFound_def intro!: triple_check_lift)
  fix x
  have repaired: "triple (\<lambda>s. stored k key s = Some (mk y)) (check (Update E p (mk (repair y))) (\<lambda>_. ok ())) ?Q" for y
  proof (rule check_ok_triple, rule Update_triple[OF E])
    fix s assume s: "stored k key s = Some (mk y)"
    then have "obj_key (mk (repair y)) = key" using stored_kind[OF s] by (simp add: repair_key)
    then show "?Q (map_sum (\<lambda>e. e) (\<lambda>_. ()) (as_obj p (RespObj (mk (repair y)))))
        (replace_first (same_obj (obj_kind (mk (repair y))) (obj_key (mk (repair y)))) (mk (repair y)) s)"
      using s repair_law by (auto simp: stored_replace kind_mk)
  qed simp
  show "triple (\<lambda>s. True \<and> stored k key s = Some x) (case as_obj p (RespObj x) of
      Inl e \<Rightarrow> if IsNotFound e then check (lift new) (\<lambda>d. create_tolerant E p (mk d)) else fail e
    | Inr y \<Rightarrow> if fine y then ok () else check (Update E p (mk (repair y))) (\<lambda>_. ok ())) ?Q"
  proof (cases "p x")
    case (Some y)
    with decode have "x = mk y" by blast
    with Some repaired[of y] show ?thesis by (auto intro!: triple_rules)
  qed (auto intro!: triple_rules)
qed

end

definition same_grant :: "refgrant \<Rightarrow> refgrant \<Rightarrow> refgrant" where
  "same_grant desired found = found\<lparr>rg_from := rg_from desired, rg_to := rg_to desired,
     rg_meta := (rg_meta found)\<lparr>m_labels := m_labels (rg_meta desired)\<rparr>\<rparr>"

lemma ReconcileReferenceGrant_ensures:
  "ReconcileReferenceGrant E R nb = ensure_object E to_refgrant OReferenceGrant KReferenceGrant (nb_ns nb, ReferenceGrantName)
     (Inr (NewNotebookReferenceGrant (nb_ns nb) (od_namespace R)))
     (CompareNotebookReferenceGrants (NewNotebookReferenceGrant (nb_ns nb) (od_namespace R)))
     (same_grant (NewNotebookReferenceGrant (nb_ns nb) (od_namespace R)))"
  unfolding ReconcileReferenceGrant_def ensure_object_def same_grant_def Let_def check_def lift_def by simp

interpretation grant: repairable to_refgrant OReferenceGrant KReferenceGrant "(ns, ReferenceGrantName)"
    "Inr (NewNotebookReferenceGrant ns central)" "CompareNotebookReferenceGrants (NewNotebookReferenceGrant ns central)"
    "same_grant (NewNotebookReferenceGrant ns central)"
  by unfold_locales (auto simp: CompareNotebookReferenceGrants_def same_grant_def NewNotebookReferenceGrant_def
      obj_key_def meta_key_def elim: to_refgrant.elims)

definition proxy_config_new :: "'s env \<Rightarrow> notebook \<Rightarrow> goerr + configmap" where
  "proxy_config_new E nb = map_sum (\<lambda>e. e) (\<lambda>m. (NewNotebookKubeRbacProxyConfigMap nb)\<lparr>cm_meta := m\<rparr>)
     (SetControllerReference E (nb_meta nb) (cm_meta (NewNotebookKubeRbacProxyConfigMap nb)))"

definition same_config :: "configmap \<Rightarrow> configmap \<Rightarrow> configmap" where
  "same_config desired found = found\<lparr>cm_data := cm_data desired,
     cm_meta := (cm_meta found)\<lparr>m_labels := m_labels (cm_meta desired)\<rparr>\<rparr>"

definition config_as_desired :: "configmap \<Rightarrow> configmap \<Rightarrow> bool" where
  "config_as_desired desired found \<longleftrightarrow> cm_data found = cm_data desired \<and> m_labels (cm_meta found) = m_labels (cm_meta desired)"

text \<open>The comparison of the code is equality, since the desired entries have values.\<close>

lemma proxy_config_differs:
  assumes "nb_name nb \<noteq> []"
  shows "\<not> (map_differs (cm_data (NewNotebookKubeRbacProxyConfigMap nb)) (cm_data found) \<or>
      map_differs (m_labels (cm_meta (NewNotebookKubeRbacProxyConfigMap nb))) (m_labels (cm_meta found))) \<longleftrightarrow>
    config_as_desired (NewNotebookKubeRbacProxyConfigMap nb) found"
proof -
  have one: "map_differs (mlit [(k, v)]) m \<longleftrightarrow> m \<noteq> mlit [(k, v)]" if "v \<noteq> []" for k v m
    unfolding mlit_def by (rule map_differs_iff[OF refl]) (use that in \<open>auto split: if_splits\<close>)
  have "proxy_config_file nb \<noteq> []" by (simp add: proxy_config_file_def)
  with assms show ?thesis
    by (auto simp: NewNotebookKubeRbacProxyConfigMap_def one config_as_desired_def)
qed

lemma ReconcileKubeRbacProxyConfigMap_ensures:
  assumes "nb_name nb \<noteq> []"
  shows "ReconcileKubeRbacProxyConfigMap E nb = ensure_object E to_configmap OConfigMap KConfigMap
     (nb_ns nb, nb_name nb @ KubeRbacProxyConfigSuffix) (proxy_config_new E nb)
     (config_as_desired (NewNotebookKubeRbacProxyConfigMap nb)) (same_config (NewNotebookKubeRbacProxyConfigMap nb))"
proof -
  have lift: "check (lift (map_sum (\<lambda>e. e) f r)) g = check (lift r) (\<lambda>m. g (f m))" for f g and r :: "goerr + objmeta"
    by (cases r) (simp_all add: check_def lift_def)
  have name: "m_name (cm_meta (NewNotebookKubeRbacProxyConfigMap nb)) = nb_name nb @ KubeRbacProxyConfigSuffix"
    by (simp add: NewNotebookKubeRbacProxyConfigMap_def)
  show ?thesis
    unfolding ReconcileKubeRbacProxyConfigMap_def ensure_object_def Let_def name proxy_config_new_def lift same_config_def
    using proxy_config_differs[OF assms] by (intro arg_cong2[where f = "get_or E KConfigMap to_configmap _"] refl ext) auto
qed

lemma proxy_config_repairable:
  assumes "setref_keeps E"
  shows "repairable to_configmap OConfigMap KConfigMap (nb_ns nb, nb_name nb @ KubeRbacProxyConfigSuffix)
    (proxy_config_new E nb) (config_as_desired (NewNotebookKubeRbacProxyConfigMap nb)) (same_config (NewNotebookKubeRbacProxyConfigMap nb))"
proof
  fix d assume "proxy_config_new E nb = Inr d"
  then obtain m where m: "SetControllerReference E (nb_meta nb) (cm_meta (NewNotebookKubeRbacProxyConfigMap nb)) = Inr m"
    "d = (NewNotebookKubeRbacProxyConfigMap nb)\<lparr>cm_meta := m\<rparr>"
    by (auto simp: proxy_config_new_def map_sum_def split: sum.splits)
  with setref_keeps_meta[OF assms m(1)]
  show "config_as_desired (NewNotebookKubeRbacProxyConfigMap nb) d \<and>
      obj_key (OConfigMap d) = (nb_ns nb, nb_name nb @ KubeRbacProxyConfigSuffix)"
    by (simp add: config_as_desired_def obj_key_def meta_key_def NewNotebookKubeRbacProxyConfigMap_def)
qed (auto simp: config_as_desired_def same_config_def obj_key_def meta_key_def elim: to_configmap.elims)

section \<open>Deleting routes\<close>

definition deleted_in :: "effect set \<Rightarrow> kind \<Rightarrow> nsname \<Rightarrow> bool" where
  "deleted_in A k key \<longleftrightarrow> (\<exists>resp. Call (RDelete k key) resp \<in> A \<and>
     (case as_unit resp of Inl e \<Rightarrow> IsNotFound e | Inr _ \<Rightarrow> True))"

lemma deleted_in_mono: "deleted_in A k key \<Longrightarrow> A \<subseteq> B \<Longrightarrow> deleted_in B k key"
  by (auto simp: deleted_in_def)

text \<open>A run that only deletes routes.\<close>

abbreviation only_deletes :: "effect list \<Rightarrow> bool" where
  "only_deletes es \<equiv> list_all (wr (\<lambda>q. \<exists>key. q = RDelete KHTTPRoute key)) es"

lemma delete_route_does:
  "does (delete_route E h) (\<lambda>r es. only_deletes es \<and> (r = Inr () \<longrightarrow> deleted_in (set es) KHTTPRoute (meta_key (hr_meta h))))"
  unfolding delete_route_def Delete_def
  by (intro wp_rules) (auto simp: deleted_in_def)

lemma delete_all_does:
  "does (collect_errors (map (delete_route E) hs)) (\<lambda>es' es. only_deletes es \<and>
     (es' = [] \<longrightarrow> list_all (\<lambda>h. deleted_in (set es) KHTTPRoute (meta_key (hr_meta h))) hs))"
proof (induction hs)
  case (Cons h hs)
  show ?case
    unfolding list.map collect_errors.simps
  proof (rule does_bind, rule does_mono[OF delete_route_does], rule does_bind, rule does_mono[OF Cons.IH], rule does_return)
    fix r :: "goerr + unit" and es es2 :: "effect list" and es1 :: "goerr list"
    assume "only_deletes es \<and> (r = Inr () \<longrightarrow> deleted_in (set es) KHTTPRoute (meta_key (hr_meta h)))"
      "only_deletes es2 \<and> (es1 = [] \<longrightarrow> list_all (\<lambda>h. deleted_in (set es2) KHTTPRoute (meta_key (hr_meta h))) hs)"
    then show "only_deletes (es @ es2 @ []) \<and> ((case r of Inl e \<Rightarrow> e # es1 | Inr _ \<Rightarrow> es1) = [] \<longrightarrow>
        list_all (\<lambda>h. deleted_in (set (es @ es2 @ [])) KHTTPRoute (meta_key (hr_meta h))) (h # hs))"
      by (cases r) (auto simp: list_all_iff intro: deleted_in_mono)
  qed
qed (auto intro!: wp_rules)

text \<open>Every route the controller listed for the Notebook has been deleted.\<close>

definition routes_deleted :: "'s odh \<Rightarrow> notebook \<Rightarrow> effect set \<Rightarrow> bool" where
  "routes_deleted R nb A \<longleftrightarrow> (\<exists>resp routes. Call (RList KHTTPRoute (Some (od_namespace R)) (route_labels nb)) resp \<in> A \<and>
     as_list to_httproute resp = Inr routes \<and>
     list_all (\<lambda>h. deleted_in A KHTTPRoute (meta_key (hr_meta h))) routes)"

lemma DeleteHTTPRoute_does:
  "does (DeleteHTTPRouteForNotebook E R nb) (\<lambda>r es. only_deletes es \<and> (r = Inr () \<longrightarrow> routes_deleted R nb (set es)))"
  unfolding DeleteHTTPRouteForNotebook_def list_routes_def ListIn_def
proof (rule does_check, rule does_call_as)
  fix resp
  let ?list = "Call (RList KHTTPRoute (Some (od_namespace R)) (route_labels nb)) resp"
  let ?Q = "\<lambda>r es. only_deletes es \<and> (r = Inr () \<longrightarrow> routes_deleted R nb (set es))"
  show "case as_list to_httproute resp of
      Inl e \<Rightarrow> ?Q (Inl e) [?list]
    | Inr routes \<Rightarrow> does (do {
        es \<leftarrow> collect_errors (map (delete_route E) routes);
        (if es = [] then ok ()
         else fail (Errorf (''failed to delete some HTTPRoutes: '' @ od_errlist R es)))
      }) (\<lambda>y es'. ?Q y ([?list] @ es'))"
  proof (cases "as_list to_httproute resp")
    case (Inr routes)
    have "?Q (Inr ()) ([?list] @ es)"
      if "only_deletes es" "list_all (\<lambda>h. deleted_in (set es) KHTTPRoute (meta_key (hr_meta h))) routes" for es
      using that Inr unfolding routes_deleted_def by (auto simp: list_all_iff deleted_in_def)
    then show ?thesis
      unfolding Inr sum.case
      by (intro does_bind does_mono[OF delete_all_does] does_if does_return) auto
  qed simp
qed

section \<open>Deleting the shared grant\<close>

definition last_grant :: "notebook \<Rightarrow> effect set \<Rightarrow> request \<Rightarrow> bool" where
  "last_grant nb A q \<longleftrightarrow> q = RDelete KReferenceGrant (nb_ns nb, ReferenceGrantName) \<and>
    (\<exists>resp nbs. Call (RList KNotebook (Some (nb_ns nb)) None) resp \<in> A \<and>
       as_list to_notebook resp = Inr nbs \<and> filter (other_active nb) nbs = [])"

interpretation last: read_based "last_grant nb"
  by unfold_locales (unfold last_grant_def, blast)

lemma DeleteReferenceGrant_writes: "justifies (last_grant nb) A (DeleteReferenceGrantIfLastNotebook E nb)"
  unfolding DeleteReferenceGrantIfLastNotebook_def isLastNotebookInNamespace_def check_assoc check_ok
proof (rule last.list_check)
  fix resp nbs assume "as_list to_notebook resp = Inr nbs"
  then show "justifies (last_grant nb) (insert (Call (RList KNotebook (Some (nb_ns nb)) None) resp) A)
     (if \<not> length (filter (other_active nb) nbs) = 0 then ok ()
      else delete_tolerant E KReferenceGrant (nb_ns nb, ReferenceGrantName))"
    by (intro last.cases last.return last.tolerant) (auto simp: last_grant_def)
qed

section \<open>Properties: routes\<close>

text \<open>
  C23. An ingress assignment that is unknown or invalid fails closed: when it reports success,
  the route reconciliation has emitted a warning event on the Notebook, has deleted every route it
  listed under the Notebook's labels (or found it gone), and has created and changed nothing; it
  never falls back to the default gateway.
\<close>

theorem ingress_fails_closed:
  assumes "run_state (notebookIngress E R (nb_ns nb) config) w = (Inl e, w1)" "unresolvable e"
    and "run_state (reconcileHTTPRoute E R nb config f) w = (Inr (), w')" "trace w' = trace w1 @ es"
  shows "Emitted (nb_key nb) ''Warning'' (ingressEventReason e) (od_errtext R e) \<in> set es \<and>
    routes_deleted R nb (set es) \<and> list_all (wr (\<lambda>q. \<exists>key. q = RDelete KHTTPRoute key)) es"
proof -
  let ?ev = "Emitted (nb_key nb) ''Warning'' (ingressEventReason e) (od_errtext R e)"
  obtain d w2 where d: "run_state (DeleteHTTPRouteForNotebook E R nb) (w1\<lparr>trace := trace w1 @ [?ev]\<rparr>) = (d, w2)"
    by (cases "run_state (DeleteHTTPRouteForNotebook E R nb) (w1\<lparr>trace := trace w1 @ [?ev]\<rparr>)")
  with assms have "d = Inr () \<and> w' = w2"
    by (auto simp: reconcileHTTPRoute_def split: sum.splits)
  with does_run[OF DeleteHTTPRoute_does d] obtain es2
    where "trace w' = trace w1 @ [?ev] @ es2" "only_deletes es2" "routes_deleted R nb (set es2)" by auto
  with assms(4) show ?thesis by (auto simp: routes_deleted_def deleted_in_def list_all_iff)
qed

definition closed_odh :: "(kobj list) odh" where
  "closed_odh = sample_odh\<lparr>od_resolve := (\<lambda>_ _ s. (Inl (Sentinel ErrUnknownIngress), s))\<rparr>"

lemma plain_sample: "nb_name sample_notebook = ''nb''" "nb_ns sample_notebook = ''ns''"
  by (simp_all add: sample_defs)

lemma own_labels [simp]: "mall (\<lambda>l v. mlookup m l = Some v) m"
  by (simp add: mall_iff)

lemma route_meta_simps [simp]:
  "m_labels (hr_meta (route_to b p nb ns i)) = route_labels nb" "m_namespace (hr_meta (route_to b p nb ns i)) = ns"
  by (simp_all add: route_to_def route_meta_def)

lemma closed_ingress:
  "run_state (notebookIngress E closed_odh ns None) w = (Inl (Sentinel ErrUnknownIngress), w)"
  by (simp add: notebookIngress_def configured_ingresses_def closed_odh_def)

lemma closed_run:
  "fst (run_state (reconcileHTTPRoute sample_env closed_odh sample_notebook None NewNotebookHTTPRoute)
     (sample_world [OHTTPRoute (NewNotebookHTTPRoute sample_notebook ''odh'' sample_ingress)])) = Inr ()"
proof -
  have "od_namespace closed_odh = ''odh''" by (simp add: closed_odh_def)
  then show ?thesis
    by (simp add: reconcileHTTPRoute_def closed_ingress unresolvable_def DeleteHTTPRouteForNotebook_def list_routes_def
        client_defs NewNotebookHTTPRoute_def delete_route_def same_obj_def obj_key_def split: sum.splits)
qed

theorem ingress_fails_closed_witness:
  "let w = sample_world [OHTTPRoute (NewNotebookHTTPRoute sample_notebook ''odh'' sample_ingress)];
       es = trace (snd (run_state (reconcileHTTPRoute sample_env closed_odh sample_notebook None NewNotebookHTTPRoute) w))
   in Emitted (nb_key sample_notebook) ''Warning'' (ingressEventReason (Sentinel ErrUnknownIngress))
        (od_errtext closed_odh (Sentinel ErrUnknownIngress)) \<in> set es \<and>
      routes_deleted closed_odh sample_notebook (set es) \<and> list_all (wr (\<lambda>q. \<exists>key. q = RDelete KHTTPRoute key)) es"
  unfolding Let_def
  by (rule ingress_fails_closed[OF closed_ingress _ run_fst[OF closed_run]])
    (simp add: unresolvable_def, simp only: world.simps append_Nil)

text \<open>
  The name of a route does not tell Notebooks apart, and the second one never gets a
  route: when the route name is taken by another object and no route carries the Notebook's
  labels, the reconciliation reports success and leaves the server as it was, since the
  \<open>AlreadyExists\<close> of the create is ignored. The names of the Notebook \<open>c\<close> in \<open>a-b\<close> and of
  \<open>b-c\<close> in \<open>a\<close> are the same.
\<close>

theorem taken_route_name_reported_as_success:
  assumes "env_api E = mem_api" "run_state (notebookIngress E R (nb_ns nb) config) w = (Inr i, w)"
    and "length (httpRouteName nb) \<le> 63"
    and "stored KHTTPRoute (od_namespace R, httpRouteName nb) (server w) = Some other"
    and "find (\<lambda>x. obj_kind x = KHTTPRoute \<and> m_namespace (obj_meta x) = od_namespace R \<and>
      mall (\<lambda>l v. mlookup (m_labels (obj_meta x)) l = Some v) (route_labels nb)) (server w) = None"
  shows "\<exists>w'. run_state (ReconcileHTTPRoute E R nb config) w = (Inr (), w') \<and> server w' = server w"
proof -
  have none: "filter (\<lambda>x. obj_kind x = KHTTPRoute \<and> m_namespace (obj_meta x) = od_namespace R \<and>
      mall (\<lambda>l v. mlookup (m_labels (obj_meta x)) l = Some v) (route_labels nb)) (server w) = []"
    using assms(5) by (auto simp: find_None_iff filter_empty_conv)
  have "obj_key (OHTTPRoute (NewNotebookHTTPRoute nb (od_namespace R) i)) = (od_namespace R, httpRouteName nb)"
    using assms(3) by (simp add: NewNotebookHTTPRoute_def route_to_def route_meta_def obj_key_def meta_key_def HTTPRouteSubDomainMaxLen_def)
  moreover have "list_ex (same_obj KHTTPRoute (od_namespace R, httpRouteName nb)) (server w)"
    using assms(4) stored_None by (metis option.distinct(1))
  ultimately show ?thesis
    by (simp add: ReconcileHTTPRoute_def reconcileHTTPRoute_def assms(1,2) ensure_route_def list_routes_def ListIn_def
        none create_tolerant_def Create_def IsAlreadyExists_def)
qed

definition nb_at :: "string \<Rightarrow> string \<Rightarrow> notebook" where
  "nb_at ns name = map_meta (\<lambda>m. m\<lparr>m_name := name, m_namespace := ns\<rparr>) sample_notebook"

lemma nb_at_simps [simp]: "nb_name (nb_at ns n) = n" "nb_ns (nb_at ns n) = ns"
  by (simp_all add: nb_at_def map_meta_def)

lemma other_labels: "\<not> mall (\<lambda>l v. mlookup (route_labels (nb_at ''a-b'' ''c'')) l = Some v) (route_labels (nb_at ''a'' ''b-c''))"
  by (simp add: mall_iff route_labels_def mlit_def) (rule exI[of _ "''notebook-name''"], simp)

theorem taken_route_name_reported_as_success_witness:
  "\<exists>w'. run_state (ReconcileHTTPRoute sample_env sample_odh (nb_at ''a'' ''b-c'') None)
      (sample_world [OHTTPRoute (NewNotebookHTTPRoute (nb_at ''a-b'' ''c'') ''odh'' sample_ingress)]) = (Inr (), w') \<and>
    server w' = server (sample_world [OHTTPRoute (NewNotebookHTTPRoute (nb_at ''a-b'' ''c'') ''odh'' sample_ingress)])"
proof (rule taken_route_name_reported_as_success)
  show "run_state (notebookIngress sample_env sample_odh (nb_ns (nb_at ''a'' ''b-c'')) None) w = (Inr sample_ingress, w)" for w
    by (simp add: notebookIngress_def configured_ingresses_def)
  show "stored KHTTPRoute (od_namespace sample_odh, httpRouteName (nb_at ''a'' ''b-c''))
      (server (sample_world [OHTTPRoute (NewNotebookHTTPRoute (nb_at ''a-b'' ''c'') ''odh'' sample_ingress)])) =
    Some (OHTTPRoute (NewNotebookHTTPRoute (nb_at ''a-b'' ''c'') ''odh'' sample_ingress))"
    by (simp add: stored_Cons NewNotebookHTTPRoute_def route_to_def route_meta_def httpRouteName_def obj_key_def meta_key_def
        HTTPRouteSubDomainMaxLen_def)
  show "find (\<lambda>x. obj_kind x = KHTTPRoute \<and> m_namespace (obj_meta x) = od_namespace sample_odh \<and>
      mall (\<lambda>l v. mlookup (m_labels (obj_meta x)) l = Some v) (route_labels (nb_at ''a'' ''b-c'')))
     (server (sample_world [OHTTPRoute (NewNotebookHTTPRoute (nb_at ''a-b'' ''c'') ''odh'' sample_ingress)])) = None"
    by (simp add: NewNotebookHTTPRoute_def other_labels)
qed (simp_all add: httpRouteName_def)

text \<open>
  The route a reconciliation makes in one mode is a route the other mode deletes, and never
  one its own mode deletes: the plain route conflicts exactly with the mode with the sidecar, the
  sidecar's route exactly with the mode without.
\<close>

theorem route_conflicts_with_other_mode:
  "conflicting_route nb auth (NewNotebookHTTPRoute nb ns i) = auth \<and>
   conflicting_route nb auth (NewNotebookKubeRbacProxyHTTPRoute nb ns i) = (\<not> auth)"
  by (simp add: conflicting_route_def first_backend_def NewNotebookHTTPRoute_def NewNotebookKubeRbacProxyHTTPRoute_def
      route_to_def KubeRbacProxyServiceSuffix_def)

text \<open>
  C24. The shared ReferenceGrant goes with the last Notebook only: the cleanup deletes nothing but
  the grant of the Notebook's namespace, and only after it listed the Notebooks of the namespace and
  found every other one being deleted.
\<close>

theorem grant_deleted_with_last_notebook:
  assumes "run_state (DeleteReferenceGrantIfLastNotebook E nb) w = (r, w')" "trace w' = trace w @ es"
    and "Call q resp \<in> set es" "is_write q"
  shows "q = RDelete KReferenceGrant (nb_ns nb, ReferenceGrantName) \<and>
    (\<exists>resp nbs. Call (RList KNotebook (Some (nb_ns nb)) None) resp \<in> set es \<and>
       as_list to_notebook resp = Inr nbs \<and> filter (other_active nb) nbs = [])"
  using justifies_trace[OF DeleteReferenceGrant_writes assms] by (simp add: last_grant_def)

theorem grant_deleted_with_last_notebook_witness:
  "RDelete KReferenceGrant (''ns'', ReferenceGrantName) = RDelete KReferenceGrant (nb_ns sample_notebook, ReferenceGrantName) \<and>
    (\<exists>resp nbs. Call (RList KNotebook (Some (nb_ns sample_notebook)) None) resp \<in>
        set (trace (snd (run_state (DeleteReferenceGrantIfLastNotebook sample_env sample_notebook) (sample_world [ONotebook sample_notebook])))) \<and>
       as_list to_notebook resp = Inr nbs \<and> filter (other_active sample_notebook) nbs = [])"
proof (rule grant_deleted_with_last_notebook[OF prod.collapse[symmetric], where E = sample_env and
      w = "sample_world [ONotebook sample_notebook]"])
  let ?t = "trace (snd (run_state (DeleteReferenceGrantIfLastNotebook sample_env sample_notebook) (sample_world [ONotebook sample_notebook])))"
  have "mall P None" for P by (simp add: mall_def)
  then show "Call (RDelete KReferenceGrant (''ns'', ReferenceGrantName)) (RespErr (ApiErr NotFound)) \<in> set ?t"
    by (simp add: DeleteReferenceGrantIfLastNotebook_def isLastNotebookInNamespace_def client_defs delete_tolerant_def
        plain_sample other_active_def same_obj_def IsNotFound_def)
qed (simp_all only: world.simps append_Nil is_write.simps)

text \<open>
  When the ReferenceGrant reconciliation reports success, on a server that keeps what it
  is given, the namespace's grant is stored with the desired labels, and lets exactly the routes of
  the controller's namespace reach its services.
\<close>

theorem reference_grant_in_place:
  assumes "env_api E = mem_api" "run_state (ReconcileReferenceGrant E R nb) w = (Inr (), w')"
  shows "\<exists>g. stored KReferenceGrant (nb_ns nb, ReferenceGrantName) (server w') = Some (OReferenceGrant g) \<and>
    CompareNotebookReferenceGrants (NewNotebookReferenceGrant (nb_ns nb) (od_namespace R)) g"
  using tripleD[OF grant.in_place[OF assms(1)] assms(2)[unfolded ReconcileReferenceGrant_ensures]] by simp

lemma sample_grant_run:
  "fst (run_state (ReconcileReferenceGrant sample_env sample_odh sample_notebook) (sample_world [])) = Inr ()"
  by (simp add: ReconcileReferenceGrant_def get_or_def client_defs IsNotFound_def create_tolerant_def Let_def)

theorem reference_grant_in_place_witness:
  "\<exists>g. stored KReferenceGrant (nb_ns sample_notebook, ReferenceGrantName)
      (server (snd (run_state (ReconcileReferenceGrant sample_env sample_odh sample_notebook) (sample_world [])))) =
      Some (OReferenceGrant g) \<and>
    CompareNotebookReferenceGrants (NewNotebookReferenceGrant (nb_ns sample_notebook) (od_namespace sample_odh)) g"
  by (rule reference_grant_in_place[OF _ run_fst[OF sample_grant_run]]) simp

section \<open>Properties: the sidecar's objects\<close>

text \<open>
  When the reconciliation of the sidecar's configuration reports success, on a server that
  keeps what it is given, the ConfigMap is stored with exactly the desired file and labels: the
  code's comparison by length and lookups misses no difference, since the desired entries are
  not empty.
\<close>

theorem proxy_config_in_place:
  assumes "env_api E = mem_api" "setref_keeps E" "nb_name nb \<noteq> []"
    and "run_state (ReconcileKubeRbacProxyConfigMap E nb) w = (Inr (), w')"
  shows "\<exists>cm. stored KConfigMap (nb_ns nb, nb_name nb @ KubeRbacProxyConfigSuffix) (server w') = Some (OConfigMap cm) \<and>
    cm_data cm = mlit [(KubeRbacProxyConfigFileName, proxy_config_file nb)] \<and>
    m_labels (cm_meta cm) = mlit [(''notebook-name'', nb_name nb)]"
  using tripleD[OF repairable.in_place[OF proxy_config_repairable[OF assms(2)] assms(1)]
      assms(4)[unfolded ReconcileKubeRbacProxyConfigMap_ensures[OF assms(3)]]]
  by (simp add: config_as_desired_def NewNotebookKubeRbacProxyConfigMap_def)

lemma sample_config_run:
  "fst (run_state (ReconcileKubeRbacProxyConfigMap sample_env sample_notebook) (sample_world [])) = Inr ()"
  by (simp add: ReconcileKubeRbacProxyConfigMap_def get_or_def client_defs IsNotFound_def create_tolerant_def Let_def
      SetControllerReference_def mem_setref_def)

theorem proxy_config_in_place_witness:
  "\<exists>cm. stored KConfigMap (nb_ns sample_notebook, nb_name sample_notebook @ KubeRbacProxyConfigSuffix)
      (server (snd (run_state (ReconcileKubeRbacProxyConfigMap sample_env sample_notebook) (sample_world [])))) = Some (OConfigMap cm) \<and>
    cm_data cm = mlit [(KubeRbacProxyConfigFileName, proxy_config_file sample_notebook)] \<and>
    m_labels (cm_meta cm) = mlit [(''notebook-name'', nb_name sample_notebook)]"
  by (rule proxy_config_in_place[OF _ _ _ run_fst[OF sample_config_run]]) (simp_all add: plain_sample)

text \<open>
  The binding that lets a sidecar review tokens is looked up by a name that two Notebooks
  can share, and is never compared: when any binding of that name exists, whoever its subjects are,
  the reconciliation reports success after the lookup, and the Notebook's own service account is
  bound to nothing; the cleanup of either Notebook deletes the binding of the other.
\<close>

theorem binding_name_shared:
  assumes "env_api E (RGet KClusterRoleBinding ([], auth_delegator_name nb)) (server w) = (RespObj (OClusterRoleBinding b), s)"
    and "auth_delegator_name nb' = auth_delegator_name nb"
  shows "run_state (ReconcileKubeRbacProxyClusterRoleBinding E nb) w =
      (Inr (), \<lparr>server = s, trace = trace w @
         [Call (RGet KClusterRoleBinding ([], auth_delegator_name nb)) (RespObj (OClusterRoleBinding b))]\<rparr>) \<and>
    CleanupKubeRbacProxyClusterRoleBinding E nb' = CleanupKubeRbacProxyClusterRoleBinding E nb"
  using assms
  by (simp add: ReconcileKubeRbacProxyClusterRoleBinding_def NewNotebookKubeRbacProxyClusterRoleBinding_def get_or_def Get_def
      CleanupKubeRbacProxyClusterRoleBinding_def)

theorem binding_name_shared_witness:
  "let nb = nb_at ''c'' ''a-rbac-b''; nb' = nb_at ''b-rbac-c'' ''a'';
       b = NewNotebookKubeRbacProxyClusterRoleBinding nb' in
   run_state (ReconcileKubeRbacProxyClusterRoleBinding sample_env nb) (sample_world [OClusterRoleBinding b]) =
      (Inr (), \<lparr>server = [OClusterRoleBinding b], trace = trace (sample_world [OClusterRoleBinding b]) @
         [Call (RGet KClusterRoleBinding ([], auth_delegator_name nb)) (RespObj (OClusterRoleBinding b))]\<rparr>) \<and>
    CleanupKubeRbacProxyClusterRoleBinding sample_env nb' = CleanupKubeRbacProxyClusterRoleBinding sample_env nb"
  unfolding Let_def
  by (rule binding_name_shared)
    (simp_all add: auth_delegator_name_def same_obj_def obj_key_def meta_key_def NewNotebookKubeRbacProxyClusterRoleBinding_def empty_meta_def)

end
