(* ===== verification/OdhProps.thy ===== *)
theory OdhProps
  imports RouteProps OdhReconciler
begin

text \<open>
  The properties of the ODH controller's \<open>Reconcile\<close>: a finalizer goes only after its
  cleanup, and the lock of a new Notebook only after the objects around it are there, for every
  server and every interleaving.
\<close>

section \<open>What a trace has established\<close>

text \<open>Conditions on the effects so far that later effects do not undo.\<close>

definition lasting :: "(effect set \<Rightarrow> bool) \<Rightarrow> bool" where
  "lasting P \<longleftrightarrow> (\<forall>A B. P A \<longrightarrow> A \<subseteq> B \<longrightarrow> P B)"

lemma lastingD: "lasting P \<Longrightarrow> P A \<Longrightarrow> A \<subseteq> B \<Longrightarrow> P B"
  by (auto simp: lasting_def)

text \<open>
  \<open>reached N P m\<close>: all effects of \<open>m\<close> satisfy \<open>N\<close>, and if \<open>m\<close> returns without an error, its
  effects establish \<open>P\<close> of the result.
\<close>

definition reached :: "(effect \<Rightarrow> bool) \<Rightarrow> ('a \<Rightarrow> effect set \<Rightarrow> bool) \<Rightarrow> ('s, 'a) ehandler \<Rightarrow> bool" where
  "reached N P m \<longleftrightarrow> does m (\<lambda>r es. list_all N es \<and> (\<forall>x. r = Inr x \<longrightarrow> P x (set es)))"

lemma reached_emits: "reached N P m \<Longrightarrow> emits N m"
  unfolding reached_def emits_def by (erule does_mono) simp

lemma emits_reached: "emits N m \<Longrightarrow> reached N (\<lambda>_ _. True) m"
  unfolding reached_def emits_def by (erule does_mono) simp

lemma reached_mono: "reached N P m \<Longrightarrow> (\<And>x A. P x A \<Longrightarrow> Q x A) \<Longrightarrow> reached N Q m"
  unfolding reached_def by (erule does_mono) blast

lemma reached_ok: "P x {} \<Longrightarrow> reached N P (ok x)"
  by (simp add: reached_def does_return)

lemma reached_fail: "reached N P (fail e)"
  by (simp add: reached_def does_return)

lemma reached_check:
  assumes m: "reached N P m" and f: "\<And>x. reached N (Q x) (f x)"
    and P: "\<And>x. lasting (P x)" and Q: "\<And>x y. lasting (Q x y)"
  shows "reached N (\<lambda>y A. \<exists>x. P x A \<and> Q x y A) (check m f)"
  unfolding reached_def
proof (rule does_check, rule does_mono[OF m[unfolded reached_def]])
  fix r es assume r: "list_all N es \<and> (\<forall>x. r = Inr x \<longrightarrow> P x (set es))"
  let ?R = "\<lambda>y A. \<exists>x. P x A \<and> Q x y A"
  show "case r of Inl e \<Rightarrow> list_all N es \<and> (\<forall>x. Inl e = Inr x \<longrightarrow> ?R x (set es))
    | Inr x \<Rightarrow> does (f x) (\<lambda>y es'. list_all N (es @ es') \<and> (\<forall>z. y = Inr z \<longrightarrow> ?R z (set (es @ es'))))"
  proof (cases r)
    case (Inr x)
    have "does (f x) (\<lambda>y es'. list_all N (es @ es') \<and> (\<forall>z. y = Inr z \<longrightarrow> ?R z (set (es @ es'))))"
      by (rule does_mono[OF f[of x, unfolded reached_def]])
        (use r Inr lastingD[OF P] lastingD[OF Q] in \<open>auto intro!: exI[of _ x]\<close>)
    with Inr show ?thesis by simp
  qed (use r in auto)
qed

lemma reached_first:
  assumes "reached N P m" "\<And>x. emits N (f x)" "\<And>x. lasting (P x)"
  shows "reached N (\<lambda>_ A. \<exists>x. P x A) (check m f)"
  by (rule reached_mono[OF reached_check[OF assms(1) emits_reached[OF assms(2)] assms(3)]]) (auto simp: lasting_def)

lemma reached_second:
  assumes "emits N m" "\<And>x. reached N P (f x)" "\<And>x. lasting (P x)"
  shows "reached N P (check m f)"
  by (rule reached_mono[OF reached_check[OF emits_reached[OF assms(1)] assms(2)]]) (use assms(3) in \<open>auto simp: lasting_def\<close>)

context read_based begin

lemma write_check:
  assumes q: "\<And>resp. J (insert (Call q resp) A) q"
    and f: "\<And>resp x. p resp = Inr x \<Longrightarrow> justifies J (insert (Call q resp) A) (f x)"
  shows "justifies J A (check (call_as E p q) f)"
  unfolding justifies_def
proof (rule does_check, rule does_call_as)
  fix resp
  let ?Q = "\<lambda>es. \<forall>q resp. Call q resp \<in> set es \<longrightarrow> is_write q \<longrightarrow> J (A \<union> set es) q"
  show "case p resp of Inl e \<Rightarrow> ?Q [Call q resp] | Inr x \<Rightarrow> does (f x) (\<lambda>y es'. ?Q ([Call q resp] @ es'))"
  proof (cases "p resp")
    case (Inr x)
    have "does (f x) (\<lambda>y es'. ?Q ([Call q resp] @ es'))"
      using f[OF Inr] unfolding justifies_def
      by (rule does_mono) (use q[of resp] in \<open>auto elim: keeps\<close>)
    with Inr show ?thesis by simp
  qed (use q in auto)
qed

end

section \<open>Cleanups\<close>

lemma remove_finalizers_filter:
  "fst (remove_finalizers fs m) = m\<lparr>m_finalizers := filter (\<lambda>g. g \<notin> set fs) (m_finalizers m)\<rparr>"
proof (induction fs m rule: remove_finalizers.induct)
  case (2 f fs m)
  have split: "filter (\<lambda>g. g \<notin> set (f # fs)) xs = filter (\<lambda>g. g \<notin> set fs) (filter (\<lambda>g. g \<noteq> f) xs)" for xs
    by (induction xs) auto
  show ?case
  proof (cases "ContainsFinalizer m f")
    case True
    then show ?thesis
      unfolding split by (simp add: "2.IH"(1)[OF True] del: filter_filter) (simp add: RemoveFinalizer_def del: filter_filter)
  next
    case False
    then have "filter (\<lambda>g. g \<noteq> f) (m_finalizers m) = m_finalizers m"
      by (auto simp: ContainsFinalizer_def filter_id_conv)
    with False show ?thesis
      unfolding split by (simp add: "2.IH" del: filter_filter)
  qed
qed simp

definition client_gone :: "notebook \<Rightarrow> effect set \<Rightarrow> bool" where
  "client_gone nb A \<longleftrightarrow> (\<exists>e. Call (RGet KOAuthClient ([], oauthClientName nb)) (RespErr e) \<in> A \<and> IsNotFound e) \<or>
     (\<exists>c. Call (RGet KOAuthClient ([], oauthClientName nb)) (RespObj c) \<in> A \<and> deleted_in A KOAuthClient (obj_key c))"

definition grant_settled :: "notebook \<Rightarrow> effect set \<Rightarrow> bool" where
  "grant_settled nb A \<longleftrightarrow> (\<exists>resp nbs. Call (RList KNotebook (Some (nb_ns nb)) None) resp \<in> A \<and>
     as_list to_notebook resp = Inr nbs \<and>
     (filter (other_active nb) nbs \<noteq> [] \<or> deleted_in A KReferenceGrant (nb_ns nb, ReferenceGrantName)))"

text \<open>What must have happened before the finalizer \<open>f\<close> of a Notebook goes.\<close>

definition cleaned :: "'s odh \<Rightarrow> notebook \<Rightarrow> effect set \<Rightarrow> string \<Rightarrow> bool" where
  "cleaned R nb A f \<longleftrightarrow>
     f = HTTPRouteFinalizerName \<and> routes_deleted R nb A \<or>
     f = ReferenceGrantFinalizerName \<and> grant_settled nb A \<or>
     f = KubeRbacProxyFinalizerName \<and>
       (\<not> KubeRbacProxyInjectionIsEnabled (nb_meta nb) \<or> deleted_in A KClusterRoleBinding ([], auth_delegator_name nb)) \<or>
     f = NotebookOAuthClientFinalizer \<and> client_gone nb A"

lemma routes_deleted_lasting: "lasting (routes_deleted R nb)"
  by (auto simp: lasting_def routes_deleted_def list_all_iff intro!: exI intro: deleted_in_mono)

lemma cleaned_mono: "cleaned R nb A f \<Longrightarrow> A \<subseteq> B \<Longrightarrow> cleaned R nb B f"
  unfolding cleaned_def client_gone_def grant_settled_def
  by (elim disj_forward conj_forward ex_forward imp_forward)
    (assumption | erule deleted_in_mono | erule lastingD[OF routes_deleted_lasting] | erule (1) subsetD[rotated])+

text \<open>No Notebook is updated.\<close>

definition no_update :: "effect \<Rightarrow> bool" where
  "no_update e \<longleftrightarrow> (\<forall>n resp. e \<noteq> Call (RUpdate (ONotebook n)) resp)"

lemma no_update_simps [simp]:
  "no_update (Call (RGet k key) resp)" "no_update (Call (RList k ns ls) resp)" "no_update (Call (RDelete k key) resp)"
  "no_update (Call (RCreate x) resp)" "no_update (Emitted a b c d)"
  by (simp_all add: no_update_def)

lemma deletes_no_update:
  assumes "list_all (wr (\<lambda>q. \<exists>key. q = RDelete KHTTPRoute key)) es"
  shows "list_all no_update es"
proof -
  have "no_update e" if "wr (\<lambda>q. \<exists>key. q = RDelete KHTTPRoute key) e" for e
    using that by (cases e) (auto simp: no_update_def)
  with assms show ?thesis by (simp add: list_all_iff)
qed

section \<open>Cleanups have done their work\<close>

lemma delete_tolerant_reached:
  "reached no_update (\<lambda>_ A. deleted_in A k key) (delete_tolerant E k key)"
  unfolding reached_def delete_tolerant_def Delete_def
  by (intro wp_rules) (auto simp: deleted_in_def)

lemma DeleteHTTPRoute_reached:
  "reached no_update (\<lambda>_. routes_deleted R nb) (DeleteHTTPRouteForNotebook E R nb)"
  unfolding reached_def
  by (rule does_mono[OF DeleteHTTPRoute_does]) (auto intro: deletes_no_update)

lemma DeleteReferenceGrant_reached:
  "reached no_update (\<lambda>_. grant_settled nb) (DeleteReferenceGrantIfLastNotebook E nb)"
  unfolding DeleteReferenceGrantIfLastNotebook_def isLastNotebookInNamespace_def check_assoc check_ok reached_def ListIn_def
proof (rule does_check, rule does_call_as)
  fix resp
  let ?c = "Call (RList KNotebook (Some (nb_ns nb)) None) resp"
  let ?Q = "\<lambda>r es. list_all no_update es \<and> (\<forall>x. r = Inr x \<longrightarrow> grant_settled nb (set es))"
  show "case as_list to_notebook resp of Inl e \<Rightarrow> ?Q (Inl e) [?c]
    | Inr nbs \<Rightarrow> does (if \<not> length (filter (other_active nb) nbs) = 0 then ok ()
        else delete_tolerant E KReferenceGrant (nb_ns nb, ReferenceGrantName)) (\<lambda>y es'. ?Q y ([?c] @ es'))"
  proof (cases "as_list to_notebook resp")
    case (Inr nbs)
    have "grant_settled nb (set ([?c] @ es))"
      if "deleted_in (set es) KReferenceGrant (nb_ns nb, ReferenceGrantName)" for es
      using Inr deleted_in_mono[OF that, of "set ([?c] @ es)"] by (auto simp: grant_settled_def)
    moreover have "grant_settled nb {?c}" if "filter (other_active nb) nbs \<noteq> []"
      using that Inr by (auto simp: grant_settled_def)
    ultimately show ?thesis
      unfolding Inr sum.case
      by (intro does_if does_return does_mono[OF delete_tolerant_reached[unfolded reached_def]]) simp_all
  qed simp
qed

lemma deleteOAuthClient_reached: "reached no_update (\<lambda>_. client_gone nb) (deleteOAuthClient E nb)"
  unfolding deleteOAuthClient_def get_or_def reached_def
proof (rule does_bind, rule Get_does)
  fix resp
  let ?c = "Call (RGet KOAuthClient ([], oauthClientName nb)) resp"
  let ?Q = "\<lambda>r es. list_all no_update es \<and> (\<forall>x. r = Inr x \<longrightarrow> client_gone nb (set es))"
  have gone: "client_gone nb (insert ?c (set es))" if "resp = RespObj c" "deleted_in (set es) KOAuthClient (obj_key c)" for es c
    using that deleted_in_mono[OF that(2), of "insert ?c (set es)"] unfolding client_gone_def by auto
  show "does (case as_obj to_any resp of Inl e \<Rightarrow> if IsNotFound e then ok () else fail e
      | Inr x \<Rightarrow> delete_tolerant E KOAuthClient (obj_key x)) (\<lambda>y es'. ?Q y ([?c] @ es'))"
  proof (cases resp)
    case (RespObj c)
    then show ?thesis
      using gone[OF RespObj] by (auto intro!: does_mono[OF delete_tolerant_reached[unfolded reached_def]])
  qed (auto intro!: does_return simp: client_gone_def)
qed

text \<open>Each cleanup is run if it is wanted, and its error says whether its finalizer may go.\<close>

lemma run_cleanup_does:
  assumes "reached no_update (\<lambda>_. P) h" "lasting P"
  shows "does (run_cleanup b h) (\<lambda>e es. list_all no_update es \<and> (e = None \<longrightarrow> \<not> b \<or> P (set es)))"
  unfolding run_cleanup_def
  by (intro does_if does_bind does_mono[OF assms(1)[unfolded reached_def]] does_return) (auto split: sum.splits)

lemma grant_settled_lasting: "lasting (grant_settled nb)"
  unfolding lasting_def grant_settled_def by (meson deleted_in_mono subsetD)

lemma deleted_in_lasting: "lasting (\<lambda>A. deleted_in A k key)"
  unfolding lasting_def by (meson deleted_in_mono)

lemma cleanup_all_does:
  "does (cleanup_all E R nb) (\<lambda>(fs, errs) es. list_all no_update es \<and> list_all (cleaned R nb (set es)) fs)"
  unfolding cleanup_all_def Let_def CleanupKubeRbacProxyClusterRoleBinding_def
proof (rule does_bind, rule does_mono[OF run_cleanup_does[OF DeleteHTTPRoute_reached routes_deleted_lasting]],
    rule does_bind, rule does_mono[OF run_cleanup_does[OF DeleteReferenceGrant_reached grant_settled_lasting]],
    rule does_bind, rule does_mono[OF run_cleanup_does[OF delete_tolerant_reached deleted_in_lasting]], rule does_return, goal_cases)
  case (1 e1 es1 e2 es2 e3 es3)
  let ?has = "ContainsFinalizer (nb_meta nb)" and ?auth = "KubeRbacProxyInjectionIsEnabled (nb_meta nb)"
  have 1: "list_all no_update es1 \<and> (e1 = None \<longrightarrow> \<not> ?has HTTPRouteFinalizerName \<or> routes_deleted R nb (set es1))"
    and 2: "list_all no_update es2 \<and> (e2 = None \<longrightarrow> \<not> ?has ReferenceGrantFinalizerName \<or> grant_settled nb (set es2))"
    and 3: "list_all no_update es3 \<and> (e3 = None \<longrightarrow> \<not> ?auth \<or> deleted_in (set es3) KClusterRoleBinding ([], auth_delegator_name nb))"
    using 1 by blast+
  let ?es = "es1 @ es2 @ es3 @ []"
  have sub: "set es1 \<subseteq> set ?es" "set es2 \<subseteq> set ?es" "set es3 \<subseteq> set ?es" by auto
  have "cleaned R nb (set ?es) HTTPRouteFinalizerName" if "?has HTTPRouteFinalizerName" "e1 = None"
    using that 1 lastingD[OF routes_deleted_lasting _ sub(1)] by (auto simp: cleaned_def)
  moreover have "cleaned R nb (set ?es) ReferenceGrantFinalizerName" if "?has ReferenceGrantFinalizerName" "e2 = None"
    using that 2 lastingD[OF grant_settled_lasting _ sub(2)] by (auto simp: cleaned_def)
  moreover have "cleaned R nb (set ?es) KubeRbacProxyFinalizerName" if "e3 = None"
    using that 3 deleted_in_mono[OF _ sub(3)] by (auto simp: cleaned_def)
  ultimately show ?case
    using 1 2 3 by auto
qed

section \<open>Updates of a Notebook that is being deleted\<close>

text \<open>
  An update that only removes finalizers from a Notebook, after their cleanup; \<open>x\<close> is the Notebook
  the run works on, the one fetched or, after the OAuth finalizer, the one the server sent back.
\<close>

definition finalizer_update :: "'s odh \<Rightarrow> notebook \<Rightarrow> effect set \<Rightarrow> notebook \<Rightarrow> bool" where
  "finalizer_update R x A n \<longleftrightarrow> (\<exists>cur fs. n = cur\<lparr>nb_meta := (nb_meta cur)\<lparr>m_finalizers :=
     filter (\<lambda>g. g \<notin> set fs) (m_finalizers (nb_meta cur))\<rparr>\<rparr> \<and> list_all (cleaned R x A) fs \<and>
     (cur = x \<or> Call (RGet KNotebook (nb_key x)) (RespObj (ONotebook cur)) \<in> A))"

definition works_on :: "notebook \<Rightarrow> effect set \<Rightarrow> notebook \<Rightarrow> bool" where
  "works_on nb A x \<longleftrightarrow> x = nb \<or> (\<exists>y. Call (RUpdate (ONotebook y)) (RespObj (ONotebook x)) \<in> A)"

definition finalizer_write :: "'s odh \<Rightarrow> notebook \<Rightarrow> effect set \<Rightarrow> request \<Rightarrow> bool" where
  "finalizer_write R nb A q \<longleftrightarrow> (\<forall>n. q = RUpdate (ONotebook n) \<longrightarrow> (\<exists>x. works_on nb A x \<and> finalizer_update R x A n))"

interpretation fw: read_based "finalizer_write R nb"
proof
  fix A B :: "effect set" and q assume q: "finalizer_write R nb A q" and "A \<subseteq> B"
  then have "works_on nb A x \<Longrightarrow> works_on nb B x" "finalizer_update R x A n \<Longrightarrow> finalizer_update R x B n" for x n
    unfolding works_on_def finalizer_update_def list_all_iff by (blast intro: cleaned_mono)+
  with q show "finalizer_write R nb B q" unfolding finalizer_write_def by blast
qed

lemma get_notebook_resp: "as_obj to_notebook resp = Inr nb \<Longrightarrow> resp = RespObj (ONotebook nb)"
  by (auto simp: as_obj_Inr elim: to_notebook.elims)

lemma update_finalizers_writes:
  assumes "works_on nb A x" "list_all (cleaned R x A) fs"
  shows "justifies (finalizer_write R nb) A (update_finalizers E (nb_key x) (remove_finalizers fs))"
  unfolding update_finalizers_def
proof (intro fw.retried_on_conflict fw.get_check)
  fix resp cur assume "as_obj to_notebook resp = Inr cur"
  then have resp: "resp = RespObj (ONotebook cur)" by (rule get_notebook_resp)
  let ?A = "insert (Call (RGet KNotebook (nb_key x)) resp) A"
  let ?n = "cur\<lparr>nb_meta := fst (remove_finalizers fs (nb_meta cur))\<rparr>"
  have "finalizer_update R x (insert c ?A) ?n" for c
    using assms(2) unfolding finalizer_update_def remove_finalizers_filter resp
    by (intro exI[of _ cur] exI[of _ fs]) (auto simp: list_all_iff intro: cleaned_mono)
  moreover have "works_on nb (insert c ?A) x" for c using assms(1) by (auto simp: works_on_def)
  ultimately have W: "finalizer_write R nb (insert c ?A) (RUpdate (ONotebook ?n))" for c
    by (auto simp: finalizer_write_def)
  show "justifies (finalizer_write R nb) ?A (case remove_finalizers fs (nb_meta cur) of (m, modified) \<Rightarrow>
      if modified then check (Update E to_notebook (ONotebook (cur\<lparr>nb_meta := m\<rparr>))) (\<lambda>_. ok ()) else ok ())"
    using W by (cases "remove_finalizers fs (nb_meta cur)") (auto intro!: fw.cases fw.checked fw.client fw.return)
qed

lemma no_update_write: "no_update e \<Longrightarrow> e = Call q resp \<Longrightarrow> finalizer_write R nb A q"
  by (auto simp: no_update_def finalizer_write_def)

text \<open>After a part that updates no Notebook and has established what the rest relies on.\<close>

lemma after_reached:
  assumes m: "does m (\<lambda>x es. list_all no_update es \<and> P x (set es))"
    and f: "\<And>x B. A \<subseteq> B \<Longrightarrow> P x B \<Longrightarrow> justifies (finalizer_write R nb) B (f x)"
    and P: "\<And>x. lasting (P x)"
  shows "justifies (finalizer_write R nb) A (State_Monad.bind m f)"
  unfolding justifies_def
proof (rule does_bind, rule does_mono[OF m])
  fix x es assume 1: "list_all no_update es \<and> P x (set es)"
  then have "justifies (finalizer_write R nb) (A \<union> set es) (f x)"
    using lastingD[OF P] by (intro f) auto
  then show "does (f x) (\<lambda>y es'. \<forall>q resp. Call q resp \<in> set (es @ es') \<longrightarrow> is_write q \<longrightarrow>
      finalizer_write R nb (A \<union> set (es @ es')) q)"
    unfolding justifies_def
    by (rule does_mono) (use 1 in \<open>auto simp: list_all_iff Un_assoc intro: no_update_write\<close>)
qed

lemma after_reached_check:
  assumes m: "reached no_update P m"
    and f: "\<And>x B. A \<subseteq> B \<Longrightarrow> P x B \<Longrightarrow> justifies (finalizer_write R nb) B (f x)"
    and P: "\<And>x. lasting (P x)"
  shows "justifies (finalizer_write R nb) A (check m f)"
  unfolding check_def
proof (rule after_reached[where P = "\<lambda>r B. \<forall>x. r = Inr x \<longrightarrow> P x B"])
  show "does m (\<lambda>x es. list_all no_update es \<and> (\<forall>y. x = Inr y \<longrightarrow> P y (set es)))" using m by (simp add: reached_def)
  show "lasting (\<lambda>B. \<forall>x. r = Inr x \<longrightarrow> P x B)" for r using P by (auto simp: lasting_def)
  show "justifies (finalizer_write R nb) B (case r of Inl e \<Rightarrow> fail e | Inr x \<Rightarrow> f x)"
    if "A \<subseteq> B" "\<forall>x. r = Inr x \<longrightarrow> P x B" for r B
    using that f by (cases r) (auto intro: fw.return)
qed

lemma cleanup_then_finalizers:
  assumes "works_on nb A x"
  shows "justifies (finalizer_write R nb) A (do {
       (done, errors) \<leftarrow> cleanup_all E R x;
       check (if done = [] then ok () else update_finalizers E (nb_key x) (remove_finalizers done)) (\<lambda>_.
         if errors = [] then ok Finished else fail (combined_error R errors))
     })"
proof (rule after_reached[where P = "\<lambda>r B. list_all (cleaned R x B) (fst r)"])
  show "does (cleanup_all E R x) (\<lambda>r es. list_all no_update es \<and> list_all (cleaned R x (set es)) (fst r))"
    by (rule does_mono[OF cleanup_all_does]) auto
  show "lasting (\<lambda>B. list_all (cleaned R x B) (fst r))" for r :: "string list \<times> goerr list"
    by (auto simp: lasting_def list_all_iff intro: cleaned_mono)
  fix r :: "string list \<times> goerr list" and B
  assume B: "A \<subseteq> B" "list_all (cleaned R x B) (fst r)"
  with assms have "works_on nb B x" by (auto simp: works_on_def)
  with B show "justifies (finalizer_write R nb) B (case r of (done, errors) \<Rightarrow>
      check (if done = [] then ok () else update_finalizers E (nb_key x) (remove_finalizers done)) (\<lambda>_.
        if errors = [] then ok Finished else fail (combined_error R errors)))"
  proof -
    obtain fs errs where r: "r = (fs, errs)" by (cases r)
    have "justifies (finalizer_write R nb) B
        (if fs = [] then ok () else update_finalizers E (nb_key x) (remove_finalizers fs))"
      using B(2) \<open>works_on nb B x\<close> by (auto intro: fw.return update_finalizers_writes simp: r)
    then show ?thesis unfolding r prod.case
      by (rule fw.checked) (simp add: fw.return)
  qed
qed

lemma reconcile_deleted_writes: "justifies (finalizer_write R nb) A (reconcile_deleted E R nb)"
proof -
  let ?then = "\<lambda>x. do {
       (done, errors) \<leftarrow> cleanup_all E R x;
       check (if done = [] then ok () else update_finalizers E (nb_key x) (remove_finalizers done)) (\<lambda>_.
         if errors = [] then ok Finished else fail (combined_error R errors))
     }"
  have plain: "justifies (finalizer_write R nb) B (?then nb)" for B
    by (rule cleanup_then_finalizers) (simp add: works_on_def)
  let ?n = "map_meta (RemoveFinalizer NotebookOAuthClientFinalizer) nb"
  have oauth: "justifies (finalizer_write R nb) B (check (removeOAuthClientFinalizer E nb) ?then)"
    if gone: "client_gone nb B" for B
  proof -
    have W: "finalizer_write R nb (insert c B) (RUpdate (ONotebook ?n))" for c
    proof -
      have "cleaned R nb (insert c B) NotebookOAuthClientFinalizer"
        by (rule cleaned_mono[of R nb B]) (use gone in \<open>auto simp: cleaned_def\<close>)
      then have "finalizer_update R nb (insert c B) ?n"
        unfolding finalizer_update_def
        by (intro exI[of _ nb] exI[of _ "[NotebookOAuthClientFinalizer]"]) (simp add: map_meta_def RemoveFinalizer_def)
      then show ?thesis by (auto simp: finalizer_write_def works_on_def)
    qed
    have "justifies (finalizer_write R nb) B (check (Update E to_notebook (ONotebook ?n)) ?then)"
      unfolding Update_def
    proof (rule fw.write_check[OF W])
      fix resp x assume "as_obj to_notebook resp = Inr x"
      then have "resp = RespObj (ONotebook x)" by (rule get_notebook_resp)
      then show "justifies (finalizer_write R nb) (insert (Call (RUpdate (ONotebook ?n)) resp) B) (?then x)"
        by (intro cleanup_then_finalizers) (auto simp: works_on_def)
    qed
    with plain show ?thesis by (simp add: removeOAuthClientFinalizer_def)
  qed
  have "justifies (finalizer_write R nb) A (check (deleteOAuthClient E nb) (\<lambda>_. check (removeOAuthClientFinalizer E nb) ?then))"
    by (rule after_reached_check[OF deleteOAuthClient_reached oauth])
      (auto simp: lasting_def client_gone_def intro: deleted_in_mono)
  with plain show ?thesis
    unfolding reconcile_deleted_def oauth_cleanup_def by (cases "hasOAuthClientFinalizer nb") (simp_all add: check_assoc)
qed

section \<open>Properties\<close>

text \<open>
  C7. A finalizer goes only after its cleanup: whatever the server answers and whoever else
  writes, each update a reconciliation of a deleted Notebook makes to a Notebook only removes
  finalizers, and for each of them the same run has before deleted (or found gone) every route
  listed for the Notebook, the shared grant unless other Notebooks of the namespace live, the
  sidecar's binding if there is one, or the OAuth client.
\<close>

theorem finalizer_removed_after_cleanup:
  assumes "env_api E (RGet KNotebook req) (server w) = (RespObj (ONotebook nb), s)"
    and "m_deletionTimestamp (nb_meta nb) = Some t"
    and "run_state (OdhReconcile E R req) w = (r, w')" "trace w' = trace w @ es"
    and "Call (RUpdate (ONotebook n)) resp \<in> set es"
  shows "\<exists>x. works_on nb (set es) x \<and> finalizer_update R x (set es) n"
proof -
  let ?c = "Call (RGet KNotebook req) (RespObj (ONotebook nb))"
  let ?w = "w\<lparr>server := s, trace := trace w @ [?c]\<rparr>"
  have run: "run_state (reconcile_deleted E R nb) ?w = (r, w')"
    using assms(1-3) by (simp add: OdhReconcile_def Get_def)
  obtain es' where es': "trace w' = trace ?w @ es'"
      "\<forall>q resp. Call q resp \<in> set es' \<longrightarrow> is_write q \<longrightarrow> finalizer_write R nb ({?c} \<union> set es') q"
    using does_run[OF reconcile_deleted_writes[unfolded justifies_def] run] by blast
  with assms(4) have "es = ?c # es'" by simp
  with es'(2) assms(5) have "finalizer_write R nb (set es) (RUpdate (ONotebook n))" by force
  then show ?thesis by (simp add: finalizer_write_def)
qed

abbreviation leaving_notebook :: notebook where
  "leaving_notebook \<equiv> map_meta (\<lambda>m. m\<lparr>m_deletionTimestamp := Some zero_time, m_finalizers := [HTTPRouteFinalizerName]\<rparr>) sample_notebook"

theorem finalizer_removed_after_cleanup_witness:
  "let es = trace (snd (run_state (OdhReconcile sample_env sample_odh (''ns'', ''nb'')) (sample_world [ONotebook leaving_notebook])))
   in \<exists>x. works_on leaving_notebook (set es) x \<and>
     finalizer_update sample_odh x (set es) (map_meta (\<lambda>m. m\<lparr>m_finalizers := []\<rparr>) leaving_notebook)"
  unfolding Let_def
proof (rule finalizer_removed_after_cleanup[OF _ _ prod.collapse[symmetric], where w = "sample_world [ONotebook leaving_notebook]" and
      s = "[ONotebook leaving_notebook]" and resp = "RespObj (ONotebook (map_meta (\<lambda>m. m\<lparr>m_finalizers := []\<rparr>) leaving_notebook))"])
  let ?t = "trace (snd (run_state (OdhReconcile sample_env sample_odh (''ns'', ''nb'')) (sample_world [ONotebook leaving_notebook])))"
  show "Call (RUpdate (ONotebook (map_meta (\<lambda>m. m\<lparr>m_finalizers := []\<rparr>) leaving_notebook)))
     (RespObj (ONotebook (map_meta (\<lambda>m. m\<lparr>m_finalizers := []\<rparr>) leaving_notebook))) \<in> set ?t"
    by (simp add: OdhReconcile_def reconcile_deleted_def oauth_cleanup_def hasOAuthClientFinalizer_def client_defs
        sample_defs map_meta_def obj_key_def meta_key_def go_consts cleanup_all_def run_cleanup_def same_obj_def
        DeleteHTTPRouteForNotebook_def update_finalizers_def ContainsFinalizer_def RemoveFinalizer_def
        KubeRbacProxyInjectionIsEnabled_def mget_def list_routes_def mall_def RetryOnConflict_def RetryOnError_def)
qed (simp_all add: plain_sample map_meta_def obj_key_def meta_key_def same_obj_def)

end
