(* ===== verification/LockProps.thy ===== *)
theory LockProps
  imports OdhProps
begin

text \<open>
  The lock of a new Notebook: a reconciliation removes it only after the network policies, the
  grant and, with the sidecar, the sidecar's objects are there, whatever the server answers.
\<close>

section \<open>What precedes a patch\<close>

fun not_raw :: "request \<Rightarrow> bool" where
  "not_raw (RPatchRaw k key body) = False"
| "not_raw q = True"

abbreviation no_patch :: "effect \<Rightarrow> bool" where
  "no_patch \<equiv> wr not_raw"

text \<open>In every run of \<open>m\<close> after the effects \<open>A\<close>, a patch comes only once \<open>R\<close> is established.\<close>

definition guarded :: "(effect set \<Rightarrow> bool) \<Rightarrow> effect set \<Rightarrow> ('s, 'a) handler \<Rightarrow> bool" where
  "guarded R A m \<longleftrightarrow> does m (\<lambda>_ es. \<forall>pre c post. es = pre @ c # post \<longrightarrow> \<not> no_patch c \<longrightarrow> R (A \<union> set pre))"

lemma does_True: "does m Q \<Longrightarrow> does m (\<lambda>_ _. True)"
  by (erule does_mono) simp

lemma guarded_ready:
  assumes "does m Q" "lasting R" "R A"
  shows "guarded R A m"
  unfolding guarded_def by (rule does_mono[OF assms(1)]) (use assms(2,3) in \<open>auto simp: lasting_def\<close>)

lemma guarded_none: "emits no_patch m \<Longrightarrow> guarded R A m"
  unfolding guarded_def emits_def by (erule does_mono) auto

lemma guarded_check:
  assumes m: "reached no_patch P m" and P: "\<And>x. lasting (P x)"
    and f: "\<And>x B. A \<subseteq> B \<Longrightarrow> P x B \<Longrightarrow> guarded R B (f x)"
  shows "guarded R A (check m f)"
  unfolding guarded_def
proof (rule does_check, rule does_mono[OF m[unfolded reached_def]])
  fix r es assume r: "list_all no_patch es \<and> (\<forall>x. r = Inr x \<longrightarrow> P x (set es))"
  have split: "c \<in> set es \<or> (\<exists>q. pre = es @ q \<and> es' = q @ c # post)" if "es @ es' = pre @ c # post" for es' pre c post
    using that by (auto simp: append_eq_append_conv2 append_eq_Cons_conv)
  show "case r of Inl e \<Rightarrow> \<forall>pre c post. es = pre @ c # post \<longrightarrow> \<not> no_patch c \<longrightarrow> R (A \<union> set pre)
    | Inr x \<Rightarrow> does (f x) (\<lambda>_ es'. \<forall>pre c post. es @ es' = pre @ c # post \<longrightarrow> \<not> no_patch c \<longrightarrow> R (A \<union> set pre))"
  proof (cases r)
    case (Inr x)
    have "guarded R (A \<union> set es) (f x)"
      by (rule f) (use r Inr lastingD[OF P, of x "set es" "A \<union> set es"] in auto)
    then have "does (f x) (\<lambda>_ es'. \<forall>pre c post. es @ es' = pre @ c # post \<longrightarrow> \<not> no_patch c \<longrightarrow> R (A \<union> set pre))"
      unfolding guarded_def
    proof (rule does_mono, intro allI impI)
      fix es' pre c post
      assume g: "\<forall>pre c post. es' = pre @ c # post \<longrightarrow> \<not> no_patch c \<longrightarrow> R (A \<union> set es \<union> set pre)"
        and e: "es @ es' = pre @ c # post" and c: "\<not> no_patch c"
      from split[OF e] c r obtain q where "pre = es @ q" "es' = q @ c # post" by (auto simp: list_all_iff)
      with g c show "R (A \<union> set pre)" by (auto simp: Un_assoc)
    qed
    with Inr show ?thesis by simp
  qed (use r in \<open>auto simp: list_all_iff\<close>)
qed

lemma guarded_after:
  assumes "emits no_patch m" "\<And>x B. A \<subseteq> B \<Longrightarrow> guarded R B (f x)"
  shows "guarded R A (check m f)"
  by (rule guarded_check[OF emits_reached[OF assms(1)]]) (auto simp: lasting_def assms(2))

section \<open>Objects that are there\<close>

text \<open>A lookup found the object, or its creation was answered by success or \<open>AlreadyExists\<close>.\<close>

definition there :: "kind \<Rightarrow> nsname \<Rightarrow> effect set \<Rightarrow> bool" where
  "there k key A \<longleftrightarrow> (\<exists>x. Call (RGet k key) (RespObj x) \<in> A) \<or>
     (\<exists>x resp. obj_kind x = k \<and> obj_key x = key \<and> Call (RCreate x) resp \<in> A \<and>
        (\<forall>e. resp = RespErr e \<longrightarrow> IsAlreadyExists e))"

lemma there_lasting: "lasting (there k key)"
  unfolding lasting_def there_def by blast

lemma create_tolerant_reached:
  assumes "obj_kind x = k" "obj_key x = key"
  shows "reached no_patch (\<lambda>_. there k key) (create_tolerant E f x)"
  unfolding reached_def create_tolerant_def Create_def
  by (intro wp_rules) (use assms in \<open>auto simp: there_def as_obj_def split: response.splits option.splits\<close>)

lemma get_or_reached:
  assumes "reached no_patch (\<lambda>_. there k key) m" "\<And>x. emits no_patch (f x)"
  shows "reached no_patch (\<lambda>_. there k key) (get_or E k p key m f)"
  unfolding reached_def get_or_def
proof (rule does_bind, rule Get_does)
  fix resp
  let ?c = "Call (RGet k key) resp"
  let ?Q = "\<lambda>r es. list_all no_patch es \<and> (\<forall>x. r = Inr x \<longrightarrow> there k key (set es))"
  have found: "there k key (set ([?c] @ es))" if "as_obj p resp = Inr x" for es x
    using that by (auto simp: there_def as_obj_Inr)
  have missing: "there k key (set ([?c] @ es))" if "there k key (set es)" for es
    by (rule lastingD[OF there_lasting that]) auto
  show "does (case as_obj p resp of Inl e \<Rightarrow> if IsNotFound e then m else fail e | Inr x \<Rightarrow> f x)
      (\<lambda>y es'. ?Q y ([?c] @ es'))"
  proof (cases "as_obj p resp")
    case (Inl e)
    then show ?thesis
      using missing by (auto intro!: does_return does_mono[OF assms(1)[unfolded reached_def]])
  next
    case (Inr x)
    show ?thesis unfolding Inr sum.case
      by (rule does_mono[OF assms(2)[unfolded emits_def]]) (use found[OF Inr] in simp)
  qed
qed

lemma lift_check_reached:
  "(\<And>x. r = Inr x \<Longrightarrow> reached N P (f x)) \<Longrightarrow> reached N P (check (lift r) f)"
  unfolding reached_def by (rule does_check_lift) auto

section \<open>The objects of a Notebook\<close>

lemma setref_key:
  "setref_keeps E \<Longrightarrow> SetControllerReference E owner m = Inr m' \<Longrightarrow> m_namespace m' = m_namespace m \<and> m_name m' = m_name m"
  by (auto simp: setref_keeps_meta)

lemma sidecar_objects_reached:
  assumes "setref_keeps E"
  shows "reached no_patch (\<lambda>_. there KServiceAccount (nb_ns nb, nb_name nb)) (ReconcileNotebookServiceAccount E nb)"
    and "reached no_patch (\<lambda>_. there KService (nb_ns nb, nb_name nb @ KubeRbacProxyServiceSuffix)) (ReconcileKubeRbacProxyService E nb)"
    and "reached no_patch (\<lambda>_. there KConfigMap (nb_ns nb, nb_name nb @ KubeRbacProxyConfigSuffix)) (ReconcileKubeRbacProxyConfigMap E nb)"
    and "reached no_patch (\<lambda>_. there KClusterRoleBinding ([], auth_delegator_name nb)) (ReconcileKubeRbacProxyClusterRoleBinding E nb)"
    and "reached no_patch (\<lambda>_. there KReferenceGrant (nb_ns nb, ReferenceGrantName)) (ReconcileReferenceGrant E R nb)"
  unfolding ReconcileNotebookServiceAccount_def ReconcileKubeRbacProxyService_def ReconcileKubeRbacProxyConfigMap_def
    ReconcileKubeRbacProxyClusterRoleBinding_def ReconcileReferenceGrant_def Let_def
    NewNotebookServiceAccount_def NewNotebookKubeRbacProxyService_def NewNotebookKubeRbacProxyConfigMap_def
    NewNotebookKubeRbacProxyClusterRoleBinding_def NewNotebookReferenceGrant_def
  by (simp?; (intro get_or_reached lift_check_reached create_tolerant_reached emit_rules)?;
    simp add: setref_key[OF assms] obj_key_def meta_key_def empty_meta_def)+

lemma collect_reached:
  assumes "\<And>d. d \<in> set ds \<Longrightarrow> reached N (\<lambda>_. P d) (h d)" "\<And>d. lasting (P d)"
  shows "does (collect_errors (map h ds)) (\<lambda>errs es. list_all N es \<and> (errs = [] \<longrightarrow> list_all (\<lambda>d. P d (set es)) ds))"
  using assms(1)
proof (induction ds)
  case (Cons d ds)
  have hd: "does (h d) (\<lambda>r es. list_all N es \<and> (\<forall>x. r = Inr x \<longrightarrow> P d (set es)))"
    using Cons.prems[of d] by (simp add: reached_def)
  have tl: "does (collect_errors (map h ds)) (\<lambda>errs es. list_all N es \<and> (errs = [] \<longrightarrow> list_all (\<lambda>d. P d (set es)) ds))"
    by (rule Cons.IH) (simp add: Cons.prems)
  have up: "P d A \<Longrightarrow> A \<subseteq> B \<Longrightarrow> P d B" for d A B by (rule lastingD[OF assms(2)])
  show ?case
    by (simp, intro does_bind does_mono[OF hd] does_mono[OF tl] does_return)
      (auto simp: list_all_iff split: sum.splits intro: up)
qed (simp add: does_return)

definition policies_there :: "'s odh \<Rightarrow> notebook \<Rightarrow> effect set \<Rightarrow> bool" where
  "policies_there R nb A \<longleftrightarrow> list_all (\<lambda>d. there KNetworkPolicy (nb_ns nb, m_name (npol_meta d)) A) (desired_policies R nb)"

lemma reconcileExisting_no_patch: "emits no_patch (reconcileExistingNetworkPolicy E R nb d)"
  unfolding reconcileExistingNetworkPolicy_def repair_policy_def repair_found_def write_policy_def policy_failed_def
    recordNetworkPolicyEvent_def Let_def
  by (intro emit_rules) simp_all

lemma policy_reached:
  assumes "setref_keeps E" "m_namespace (npol_meta d) = nb_ns nb"
  shows "reached no_patch (\<lambda>_. there KNetworkPolicy (nb_ns nb, m_name (npol_meta d))) (reconcileNetworkPolicy E R nb d)"
proof -
  let ?there = "there KNetworkPolicy (nb_ns nb, m_name (npol_meta d))"
  have existing: "does (reconcileExistingNetworkPolicy E R nb x) (\<lambda>_ es. list_all no_patch es)" for x
    using reconcileExisting_no_patch by (simp add: emits_def)
  have create: "reached no_patch (\<lambda>_. ?there) (create_policy E R nb (d\<lparr>npol_meta := m\<rparr>))"
    if m: "SetControllerReference E (nb_meta nb) (npol_meta d) = Inr m" for m
  proof -
    have created: "?there A" if "Call (RCreate (ONetworkPolicy (d\<lparr>npol_meta := m\<rparr>))) resp \<in> A"
      "\<forall>e. resp = RespErr e \<longrightarrow> IsAlreadyExists e" for A resp
      using that setref_key[OF assms(1) m] assms(2) unfolding there_def
      by (intro disjI2 exI[of _ "ONetworkPolicy (d\<lparr>npol_meta := m\<rparr>)"] exI[of _ resp]) (simp add: obj_key_def meta_key_def)
    show ?thesis
    unfolding reached_def create_policy_def policy_failed_def recordNetworkPolicyEvent_def Create_def
    by (intro wp_rules does_mono[OF existing])
      (use created[OF insertI1] in \<open>auto simp: as_obj_def split: response.splits option.splits\<close>)
  qed
  show ?thesis
    unfolding reconcileNetworkPolicy_def reached_def
  proof (rule does_bind, rule Get_does)
    fix resp
    let ?c = "Call (RGet KNetworkPolicy (nb_ns nb, m_name (npol_meta d))) resp"
    let ?Q = "\<lambda>r es. list_all no_patch es \<and> (\<forall>x. r = Inr x \<longrightarrow> ?there (set es))"
    have missing: "?there (set ([?c] @ es))" if "?there (set es)" for es
      by (rule lastingD[OF there_lasting that]) auto
    show "does (case as_obj to_netpolicy resp of
          Inl e \<Rightarrow> if \<not> IsNotFound e then fail e
            else (case SetControllerReference E (nb_meta nb) (npol_meta d) of
                Inl e \<Rightarrow> policy_failed R nb ''set owner reference on'' d e
              | Inr m \<Rightarrow> create_policy E R nb (d\<lparr>npol_meta := m\<rparr>))
        | Inr _ \<Rightarrow> reconcileExistingNetworkPolicy E R nb d) (\<lambda>y es'. ?Q y ([?c] @ es'))"
    proof (cases "as_obj to_netpolicy resp")
      case (Inl e)
      have "does (create_policy E R nb (d\<lparr>npol_meta := m\<rparr>)) (\<lambda>y es'. ?Q y ([?c] @ es'))"
        if "SetControllerReference E (nb_meta nb) (npol_meta d) = Inr m" for m
        by (rule does_mono[OF create[OF that, unfolded reached_def]]) (use missing in auto)
      with Inl show ?thesis unfolding policy_failed_def recordNetworkPolicyEvent_def
        by (auto intro!: wp_rules split: sum.splits)
    next
      case (Inr x)
      then have "?there (set ([?c] @ es))" for es by (auto simp: there_def as_obj_Inr)
      then show ?thesis unfolding Inr sum.case by (intro does_mono[OF existing]) simp
    qed
  qed
qed

lemma policies_reached:
  assumes "setref_keeps E"
  shows "reached no_patch (\<lambda>_. policies_there R nb) (ReconcileAllNetworkPolicies E R nb)"
proof -
  have "reached no_patch (\<lambda>_. there KNetworkPolicy (nb_ns nb, m_name (npol_meta d))) (reconcileNetworkPolicy E R nb d)"
    if "d \<in> set (desired_policies R nb)" for d
    using that by (intro policy_reached assms) (auto simp: desired_policies_def NewNotebookNetworkPolicy_def
        NewKubeRbacProxyNetworkPolicy_def NewEgressNetworkPolicy_def policy_def)
  note all = collect_reached[where P = "\<lambda>d. there KNetworkPolicy (nb_ns nb, m_name (npol_meta d))" and h = "reconcileNetworkPolicy E R nb" and ds = "desired_policies R nb",
      OF this there_lasting]
  show ?thesis
    unfolding ReconcileAllNetworkPolicies_def reached_def policies_there_def
    by (rule does_bind, rule does_mono[OF all]) (auto intro!: does_return simp: errors_Join_def)
qed

section \<open>No other part patches\<close>

lemmas role_bindings = reconcile_pipelines_def ReconcileRoleBindings_def reconcileRoleBinding_def Let_def
  ReconcileElyraRuntimeConfigSecret_def SyncElyraRuntimeConfigSecret_def sync_elyra_secret_def

lemma no_patch_pipelines: "emits no_patch (reconcile_pipelines E nb)"
  unfolding role_bindings by (intro emit_rules) simp_all

lemma no_patch_route: "emits no_patch (reconcileHTTPRoute E R nb config new)"
  unfolding reconcileHTTPRoute_def notebookIngress_def DeleteHTTPRouteForNotebook_def list_routes_def delete_route_def
    ensure_route_def repair_route_def
  by (intro emit_rules) (auto split: list.splits intro!: emit_rules)

lemma no_patch_tls: "emits no_patch (reconcileKubeRbacProxyTLS E L nb)"
  unfolding reconcileKubeRbacProxyTLS_def apply_tls_def deferRunningNotebookTLS_def update_and_sync_def by (intro emit_rules) simp_all

lemma no_patch_mlflow: "emits no_patch (ReconcileMLflowIntegration E nb)"
  unfolding ReconcileMLflowIntegration_def CleanupMLflowRoleBinding_def ReconcileMLflowRoleBinding_def Let_def
  by (intro emit_rules) simp_all

lemma no_patch_delete_routes: "emits no_patch (delete_routes E hs)"
  by (induction hs) (auto intro!: emit_rules)

lemma no_patch_parts:
  "emits no_patch (notebookControllerConfig E R)"
  "emits no_patch (CleanupKubeRbacProxyClusterRoleBinding E nb)"
  "emits no_patch (EnsureConflictingHTTPRouteAbsent E R nb auth)"
  unfolding notebookControllerConfig_def CleanupKubeRbacProxyClusterRoleBinding_def
    EnsureConflictingHTTPRouteAbsent_def list_routes_def
  by ((intro emit_rules no_patch_delete_routes; simp); fail)+

lemma no_patch_images: "emits no_patch (EnsureNotebookConfigMap E ns nb)"
  unfolding EnsureNotebookConfigMap_def SyncRuntimeImagesConfigMap_def getRuntimeConfigMap_def Let_def
  by (intro emit_rules) simp_all

lemma no_patch_scan: "emits no_patch (scan_configmaps E R ns names pool)"
  by (induction names arbitrary: pool) (auto intro!: emit_rules)

lemma no_patch_certs: "emits no_patch (reconcile_certs E R nb)"
  unfolding reconcile_certs_def CreateNotebookCertConfigMap_def IsConfigMapDeleted_def UnsetNotebookCertConfig_def Let_def
  by (intro emit_rules no_patch_scan) simp_all

section \<open>Reconciliation\<close>

definition sidecar_there :: "notebook \<Rightarrow> effect set \<Rightarrow> bool" where
  "sidecar_there nb A \<longleftrightarrow> there KServiceAccount (nb_ns nb, nb_name nb) A \<and>
     there KClusterRoleBinding ([], auth_delegator_name nb) A \<and>
     there KConfigMap (nb_ns nb, nb_name nb @ KubeRbacProxyConfigSuffix) A \<and>
     there KService (nb_ns nb, nb_name nb @ KubeRbacProxyServiceSuffix) A"

text \<open>What the Notebook needs to be reached, and to be reached by nobody else.\<close>

definition surrounded :: "'s odh \<Rightarrow> notebook \<Rightarrow> effect set \<Rightarrow> bool" where
  "surrounded R nb A \<longleftrightarrow> policies_there R nb A \<and> there KReferenceGrant (nb_ns nb, ReferenceGrantName) A \<and>
     (if KubeRbacProxyInjectionIsEnabled (nb_meta nb) then sidecar_there nb A else True)"

lemma policies_lasting: "lasting (policies_there R nb)"
  unfolding lasting_def policies_there_def list_all_iff by (blast intro: lastingD[OF there_lasting])

lemma sidecar_lasting: "lasting (sidecar_there nb)"
  unfolding lasting_def sidecar_there_def by (blast intro: lastingD[OF there_lasting])

lemma surrounded_lasting: "lasting (surrounded R nb)"
  unfolding lasting_def surrounded_def
  by (auto intro: lastingD[OF there_lasting] lastingD[OF policies_lasting] lastingD[OF sidecar_lasting])

lemma lasting_conj: "lasting P \<Longrightarrow> lasting Q \<Longrightarrow> lasting (\<lambda>A. P A \<and> Q A)"
  unfolding lasting_def by blast

lemma reached_and:
  assumes "reached N (\<lambda>_. P) m" "reached N (\<lambda>_. Q) n" "lasting P" "lasting Q"
  shows "reached N (\<lambda>_ A. P A \<and> Q A) (check m (\<lambda>_. n))"
  by (rule reached_mono[OF reached_check[OF assms(1,2)]]) (use assms(3,4) in auto)

lemma reconcile_auth_reached:
  assumes "setref_keeps E"
  shows "reached no_patch (\<lambda>_. sidecar_there nb) (reconcile_auth E R config nb)"
proof -
  note objs = sidecar_objects_reached[OF assms, of nb]
  have "reached no_patch (\<lambda>_. there KService (nb_ns nb, nb_name nb @ KubeRbacProxyServiceSuffix))
      (check (ReconcileKubeRbacProxyService E nb) (\<lambda>_. check (ReconcileKubeRbacProxyHTTPRoute E R nb config) (\<lambda>_.
         reconcileKubeRbacProxyTLS E (od_tls R) nb)))"
    unfolding ReconcileKubeRbacProxyHTTPRoute_def
    by (rule reached_mono[OF reached_first[OF objs(2) _ there_lasting]])
      (auto intro: emits_check no_patch_route no_patch_tls)
  note tail = reached_and[OF objs(3) this there_lasting there_lasting]
  note tail = reached_and[OF objs(4) tail there_lasting lasting_conj[OF there_lasting there_lasting]]
  note tail = reached_and[OF objs(1) tail there_lasting lasting_conj[OF there_lasting lasting_conj[OF there_lasting there_lasting]]]
  show ?thesis
    unfolding reconcile_auth_def sidecar_there_def
    by (rule reached_second[OF no_patch_parts(3) tail]) (intro lasting_conj there_lasting)
qed

lemma reconcile_plain_no_patch: "emits no_patch (reconcile_plain E R config nb)"
  unfolding reconcile_plain_def ReconcileHTTPRoute_def
  by (intro emit_rules no_patch_parts no_patch_route)

lemma finish_runs: "emits (\<lambda>_. True) (finish_reconcile E nb)"
  unfolding finish_reconcile_def RemoveReconciliationLock_def wait_for_pull_secret_def
  by (intro emit_rules TrueI)

lemma mode_guarded:
  assumes E: "setref_keeps E" and A: "policies_there R nb A" "there KReferenceGrant (nb_ns nb, ReferenceGrantName) A"
  shows "guarded (surrounded R nb) A (check (if KubeRbacProxyInjectionIsEnabled (nb_meta nb) then reconcile_auth E R config nb
            else reconcile_plain E R config nb) (\<lambda>x.
     check (if od_mlflowEnabled R then ReconcileMLflowIntegration E x else ok 0) (\<lambda>after.
       if after > 0 then ok (RequeueAfter after) else finish_reconcile E x)))"
proof (rule guarded_check)
  let ?P = "\<lambda>A. if KubeRbacProxyInjectionIsEnabled (nb_meta nb) then sidecar_there nb A else True"
  show "reached no_patch (\<lambda>_. ?P) (if KubeRbacProxyInjectionIsEnabled (nb_meta nb) then reconcile_auth E R config nb
            else reconcile_plain E R config nb)"
    using reconcile_auth_reached[OF E] emits_reached[OF reconcile_plain_no_patch] by auto
  show "lasting ?P" using sidecar_lasting[of nb] by (auto simp: lasting_def)
  fix x B assume B: "A \<subseteq> B" "?P B"
  with A have R: "surrounded R nb B"
    unfolding surrounded_def by (blast intro: lastingD[OF there_lasting] lastingD[OF policies_lasting])
  show "guarded (surrounded R nb) B (check (if od_mlflowEnabled R then ReconcileMLflowIntegration E x else ok 0) (\<lambda>after.
       if after > 0 then ok (RequeueAfter after) else finish_reconcile E x))"
    by (rule guarded_after)
      (use lastingD[OF surrounded_lasting R] in \<open>auto intro!: emit_rules no_patch_mlflow guarded_none
        guarded_ready[OF finish_runs[unfolded emits_def] surrounded_lasting]\<close>)
qed

lemma reconcile_objects_guarded:
  assumes "setref_keeps E"
  shows "guarded (surrounded R nb) A (reconcile_objects E R nb)"
  unfolding reconcile_objects_def
  by (rule guarded_after[OF no_patch_parts(1)], rule guarded_after[OF no_patch_certs],
      rule guarded_check[OF policies_reached[OF assms] policies_lasting], rule guarded_after[OF no_patch_images],
      rule guarded_after[OF no_patch_pipelines],
      rule guarded_check[OF sidecar_objects_reached(5)[OF assms] there_lasting], rule mode_guarded[OF assms])
    (blast intro: lastingD[OF policies_lasting])+

lemma update_finalizers_no_patch: "emits no_patch (update_finalizers E key f)"
  unfolding update_finalizers_def by (intro emit_rules) simp_all

lemma deleted_no_patch: "emits no_patch (reconcile_deleted E R nb)"
  unfolding reconcile_deleted_def oauth_cleanup_def deleteOAuthClient_def removeOAuthClientFinalizer_def cleanup_all_def
    run_cleanup_def DeleteHTTPRouteForNotebook_def list_routes_def delete_route_def DeleteReferenceGrantIfLastNotebook_def
    isLastNotebookInNamespace_def Let_def
  by (intro emit_rules no_patch_parts update_finalizers_no_patch) (auto intro!: emit_rules)

lemma OdhReconcile_guarded:
  assumes "setref_keeps E"
  shows "does (OdhReconcile E R req) (\<lambda>_ es. \<forall>pre c post. es = pre @ c # post \<longrightarrow> \<not> no_patch c \<longrightarrow>
    (\<exists>nb. hd pre = Call (RGet KNotebook req) (RespObj (ONotebook nb)) \<and> m_deletionTimestamp (nb_meta nb) = None \<and>
      finalizers_to_add nb = [] \<and> surrounded R nb (set pre)))"
    (is "does _ (\<lambda>_. ?Q)")
  unfolding OdhReconcile_def
proof (rule does_bind, rule Get_does)
  fix resp
  let ?c = "Call (RGet KNotebook req) resp"
  have none: "does m (\<lambda>_ es. ?Q ([?c] @ es))" if "emits no_patch m" for m :: "('s, goerr + reconcile_result) handler"
    by (rule does_mono[OF that[unfolded emits_def]]) (auto simp: Cons_eq_append_conv list_all_iff)
  show "does (case as_obj to_notebook resp of Inl e \<Rightarrow> if IsNotFound e then ok Finished else fail e
      | Inr nb \<Rightarrow> if m_deletionTimestamp (nb_meta nb) \<noteq> None then reconcile_deleted E R nb
          else if finalizers_to_add nb \<noteq> []
          then check (update_finalizers E (nb_key nb) (add_finalizers (finalizers_to_add nb))) (\<lambda>_. ok Requeue)
          else reconcile_objects E R nb) (\<lambda>_ es. ?Q ([?c] @ es))"
  proof (cases "as_obj to_notebook resp")
    case (Inl e)
    show ?thesis unfolding Inl sum.case by (intro does_if none emits_return)
  next
    case (Inr nb)
    then have resp: "resp = RespObj (ONotebook nb)" by (rule get_notebook_resp)
    have "does (reconcile_objects E R nb) (\<lambda>_ es. ?Q ([?c] @ es))"
      if "m_deletionTimestamp (nb_meta nb) = None" "finalizers_to_add nb = []"
      by (rule does_mono[OF reconcile_objects_guarded[OF assms, of R nb "{?c}", unfolded guarded_def]])
        (use that resp in \<open>auto simp: Cons_eq_append_conv\<close>)
    then show ?thesis unfolding Inr sum.case
      by (intro does_if) (blast intro: none deleted_no_patch emits_check update_finalizers_no_patch emits_return)+
  qed
qed

section \<open>Properties\<close>

text \<open>
  C1. The lock that keeps a new Notebook from starting goes last: whatever the server answers,
  when a reconciliation sends the patch that removes it, the Notebook is not being deleted, has its
  finalizers, and the same run has before seen or created the three network policies, the
  namespace's grant and, if the Notebook asks for the sidecar, the service account, binding,
  configuration and service of the sidecar.
\<close>

theorem unlocked_when_surrounded:
  assumes "setref_keeps E" "run_state (OdhReconcile E R req) w = (r, w')"
    and "trace w' = trace w @ pre @ Call (RPatchRaw KNotebook key body) resp # post"
  shows "\<exists>nb. hd pre = Call (RGet KNotebook req) (RespObj (ONotebook nb)) \<and> m_deletionTimestamp (nb_meta nb) = None \<and>
    finalizers_to_add nb = [] \<and> surrounded R nb (set pre)"
  using does_run[OF OdhReconcile_guarded[OF assms(1)] assms(2)] assms(3) by auto

text \<open>A server with one locked Notebook and nothing else, that accepts what it is given and keeps nothing.\<close>

fun locked_api :: "request \<Rightarrow> kobj list \<Rightarrow> response \<times> kobj list" where
  "locked_api (RGet k key) s = (if k = KNotebook then RespObj (hd s) else RespErr (ApiErr NotFound), s)"
| "locked_api (RList k ns ls) s = (RespList [], s)"
| "locked_api (RCreate x) s = (RespObj x, s)"
| "locked_api (RPatchRaw k key body) s = (RespObj (hd s), s)"
| "locked_api q s = (RespErr (ApiErr NotFound), s)"

abbreviation locked_env :: "(kobj list) env" where
  "locked_env \<equiv> sample_env\<lparr>env_api := locked_api\<rparr>"

definition locked_notebook :: notebook where
  "locked_notebook = map_meta (\<lambda>m. m\<lparr>m_annotations := mlit [(StoppedAnnotation, AnnotationValueReconciliationLock)],
     m_finalizers := [HTTPRouteFinalizerName, ReferenceGrantFinalizerName]\<rparr>) sample_notebook"

lemma locked_simps:
  "nb_name locked_notebook = ''nb''" "nb_ns locked_notebook = ''ns''" "nb_key locked_notebook = (''ns'', ''nb'')"
  "\<not> KubeRbacProxyInjectionIsEnabled (nb_meta locked_notebook)" "m_deletionTimestamp (nb_meta locked_notebook) = None"
  "ContainsFinalizer (nb_meta locked_notebook) HTTPRouteFinalizerName" "ContainsFinalizer (nb_meta locked_notebook) ReferenceGrantFinalizerName"
  "ReconciliationLockIsEnabled (nb_meta locked_notebook)" "ps_volumes (nb_podspec locked_notebook) = []"
  by (simp_all add: locked_notebook_def map_meta_def sample_defs KubeRbacProxyInjectionIsEnabled_def mget_def go_consts
      ContainsFinalizer_def ReconciliationLockIsEnabled_def mlit_def meta_key_def)

definition quiet :: "(kobj list, 'a) ehandler \<Rightarrow> 'a \<Rightarrow> bool" where
  "quiet m x \<longleftrightarrow> (\<forall>t. \<exists>es. run_state m \<lparr>server = [ONotebook locked_notebook], trace = t\<rparr> =
     (Inr x, \<lparr>server = [ONotebook locked_notebook], trace = t @ es\<rparr>))"

lemma quiet_then:
  assumes "quiet m x" "\<And>t. \<exists>es. trace (snd (run_state (f x) \<lparr>server = [ONotebook locked_notebook], trace = t\<rparr>)) = t @ es @ [e]"
  shows "\<exists>es. trace (snd (run_state (check m f) \<lparr>server = [ONotebook locked_notebook], trace = t\<rparr>)) = t @ es @ [e]"
proof -
  from assms(1) obtain es where "run_state m \<lparr>server = [ONotebook locked_notebook], trace = t\<rparr> =
     (Inr x, \<lparr>server = [ONotebook locked_notebook], trace = t @ es\<rparr>)" by (auto simp: quiet_def)
  with assms(2)[of "t @ es"] show ?thesis by auto
qed

lemma quiet_policy:
  assumes "m_ownerRefs (npol_meta d) = []"
  shows "quiet (reconcileNetworkPolicy locked_env sample_odh locked_notebook d) ()"
  by (simp add: quiet_def reconcileNetworkPolicy_def client_defs IsNotFound_def create_policy_def assms
      SetControllerReference_def mem_setref_def GetControllerOf_def)

lemma quiet_collect: "list_all (\<lambda>h. quiet h ()) hs \<Longrightarrow>
  \<exists>es. run_state (collect_errors hs) \<lparr>server = [ONotebook locked_notebook], trace = t\<rparr> =
     ([], \<lparr>server = [ONotebook locked_notebook], trace = t @ es\<rparr>)"
proof (induction hs arbitrary: t)
  case (Cons h hs)
  then obtain es where es: "run_state h \<lparr>server = [ONotebook locked_notebook], trace = t\<rparr> =
     (Inr (), \<lparr>server = [ONotebook locked_notebook], trace = t @ es\<rparr>)"
    unfolding quiet_def by auto
  with Cons.IH[of "t @ es"] Cons.prems show ?case by auto
qed simp

lemma blank: "ToLower (TrimSpace []) = []"
  by code_simp

lemma quiet_parts:
  "quiet (notebookControllerConfig locked_env sample_odh) None"
  "quiet (reconcile_certs locked_env sample_odh locked_notebook) ()"
  "quiet (ReconcileAllNetworkPolicies locked_env sample_odh locked_notebook) ()"
  "quiet (EnsureNotebookConfigMap locked_env ns locked_notebook) ()"
  "quiet (reconcile_pipelines locked_env locked_notebook) ()"
  "quiet (ReconcileReferenceGrant locked_env sample_odh locked_notebook) ()"
  "quiet (reconcile_plain locked_env sample_odh None locked_notebook) locked_notebook"
  subgoal by (simp add: quiet_def notebookControllerConfig_def client_defs IsNotFound_def)
  subgoal by (simp add: quiet_def reconcile_certs_def CreateNotebookCertConfigMap_def client_defs IsNotFound_def IsConfigMapDeleted_def
    locked_simps nb_volumes_def)
  subgoal unfolding quiet_def
  proof
    fix t
    have "list_all (\<lambda>h. quiet h ()) (map (reconcileNetworkPolicy locked_env sample_odh locked_notebook)
        (desired_policies sample_odh locked_notebook))"
      by (simp add: desired_policies_def quiet_policy NewNotebookNetworkPolicy_def NewKubeRbacProxyNetworkPolicy_def
          NewEgressNetworkPolicy_def policy_def empty_meta_def)
    from quiet_collect[OF this, of t] show "\<exists>es. run_state (ReconcileAllNetworkPolicies locked_env sample_odh locked_notebook)
        \<lparr>server = [ONotebook locked_notebook], trace = t\<rparr> = (Inr (), \<lparr>server = [ONotebook locked_notebook], trace = t @ es\<rparr>)"
      unfolding ReconcileAllNetworkPolicies_def by (auto simp: errors_Join_def)
  qed
  subgoal by (simp add: quiet_def EnsureNotebookConfigMap_def SyncRuntimeImagesConfigMap_def client_defs IsNotFound_def getRuntimeConfigMap_def
    runtime_data_def runtime_entries_def Let_def)
  subgoal by (simp add: quiet_def reconcile_pipelines_def env_true_def Getenv_def blank trueString_def)
  subgoal by (simp add: quiet_def ReconcileReferenceGrant_def client_defs IsNotFound_def get_or_def create_tolerant_def Let_def)
  subgoal by (simp add: quiet_def reconcile_plain_def client_defs IsNotFound_def EnsureConflictingHTTPRouteAbsent_def list_routes_def
    CleanupKubeRbacProxyClusterRoleBinding_def delete_tolerant_def ReconcileHTTPRoute_def reconcileHTTPRoute_def
    notebookIngress_def configured_ingresses_def ensure_route_def create_tolerant_def)
  done

abbreviation unlocking :: "effect list" where
  "unlocking \<equiv> trace (snd (run_state (OdhReconcile locked_env sample_odh (''ns'', ''nb'')) (sample_world [ONotebook locked_notebook])))"

lemma unlocking_last: "\<exists>es. unlocking = es @ [Call (RPatchRaw KNotebook (''ns'', ''nb'') lock_patch) (RespObj (ONotebook locked_notebook))]"
proof -
  let ?e = "Call (RPatchRaw KNotebook (''ns'', ''nb'') lock_patch) (RespObj (ONotebook locked_notebook))"
  have "\<exists>es. trace (snd (run_state (finish_reconcile locked_env locked_notebook)
      \<lparr>server = [ONotebook locked_notebook], trace = t\<rparr>)) = t @ es @ [?e]" for t
    by (simp add: finish_reconcile_def locked_simps RemoveReconciliationLock_def wait_for_pull_secret_def client_defs numeral_2_eq_2)
  then have "\<exists>es. trace (snd (run_state (reconcile_objects locked_env sample_odh locked_notebook)
      \<lparr>server = [ONotebook locked_notebook], trace = t\<rparr>)) = t @ es @ [?e]" for t
    unfolding reconcile_objects_def
    by (intro quiet_then[OF quiet_parts(1)] quiet_then[OF quiet_parts(2)] quiet_then[OF quiet_parts(3)]
        quiet_then[OF quiet_parts(4)] quiet_then[OF quiet_parts(5)] quiet_then[OF quiet_parts(6)])
      (simp only: locked_simps if_False, rule quiet_then[OF quiet_parts(7)], simp)
  from this[of "[Call (RGet KNotebook (''ns'', ''nb'')) (RespObj (ONotebook locked_notebook))]"] show ?thesis
    by (auto simp: OdhReconcile_def client_defs locked_simps finalizers_to_add_def)
qed

theorem unlocked_when_surrounded_witness:
  "\<exists>nb. hd (butlast unlocking) = Call (RGet KNotebook (''ns'', ''nb'')) (RespObj (ONotebook nb)) \<and>
    m_deletionTimestamp (nb_meta nb) = None \<and> finalizers_to_add nb = [] \<and> surrounded sample_odh nb (set (butlast unlocking))"
proof -
  obtain es where es: "unlocking = es @ [Call (RPatchRaw KNotebook (''ns'', ''nb'') lock_patch) (RespObj (ONotebook locked_notebook))]"
    using unlocking_last by blast
  have "setref_keeps locked_env" by (simp add: setref_keeps_def mem_setref_def)
  from unlocked_when_surrounded[OF this prod.collapse[symmetric], where w = "sample_world [ONotebook locked_notebook]" and pre = es and post = "[]"]
  show ?thesis using es by simp
qed

end
