(* ===== verification/OdhWatches.thy ===== *)
theory OdhWatches
  imports OdhReconciler
begin

text \<open>
  The watches of the ODH controller (\<open>SetupWithManager\<close> and its handlers in
  \<open>notebook_controller.go\<close>): which Notebooks an event of an HTTPRoute, a ReferenceGrant, a
  ConfigMap or a Namespace queues.
\<close>

section \<open>Requests\<close>

text \<open>\<open>notebookRequests\<close>: all Notebooks, of a namespace if one is given; none if the list fails.\<close>

definition notebookRequests :: "'s env \<Rightarrow> string \<Rightarrow> ('s, nsname list) handler" where
  "notebookRequests E ns = do {
     r \<leftarrow> ListIn E KNotebook to_notebook (if ns = [] then None else Some ns) None;
     return_h (case r of Inl _ \<Rightarrow> [] | Inr nbs \<Rightarrow> map nb_key nbs)
   }"

text \<open>The watch of HTTPRoutes: the Notebook the labels name, for routes of the controller's namespace.\<close>

definition httpRouteRequests :: "'s odh \<Rightarrow> kobj \<Rightarrow> nsname list" where
  "httpRouteRequests R x = (
     let name = mget (m_labels (obj_meta x)) ''notebook-name'';
         ns = mget (m_labels (obj_meta x)) ''notebook-namespace''
     in if m_namespace (obj_meta x) \<noteq> od_namespace R then []
        else if name = [] \<or> ns = [] then []
        else [(ns, name)])"

text \<open>The watch of ReferenceGrants: the first Notebook of the namespace.\<close>

definition referenceGrantRequests :: "'s env \<Rightarrow> 's odh \<Rightarrow> kobj \<Rightarrow> ('s, nsname list) handler" where
  "referenceGrantRequests E R x = (
     if m_name (obj_meta x) \<noteq> ReferenceGrantName then return_h []
     else if m_namespace (obj_meta x) = od_namespace R then return_h []
     else do {
       r \<leftarrow> ListIn E KNotebook to_notebook (Some (m_namespace (obj_meta x))) None;
       return_h (case r of Inr (nb # _) \<Rightarrow> [nb_key nb] | _ \<Rightarrow> [])
     })"

definition caBundleRequests :: "'s env \<Rightarrow> kobj \<Rightarrow> ('s, nsname list) handler" where
  "caBundleRequests E x = (
     let name = m_name (obj_meta x); ns = m_namespace (obj_meta x) in
     if name = OdhConfigMapName \<or> name = SelfSignedConfigMapName \<or> name = ServiceCAConfigMapName then do {
       r \<leftarrow> ListIn E KNotebook to_notebook (Some ns) None;
       return_h (case r of Inr (nb # _) \<Rightarrow> [(ns, nb_name nb)] | _ \<Rightarrow> [])
     }
     else if name = WorkbenchTrustedCABundleName then do {
       r \<leftarrow> ListIn E KNotebook to_notebook (Some ns) None;
       return_h (case r of Inl _ \<Rightarrow> []
         | Inr nbs \<Rightarrow> concat (map (\<lambda>nb. map (\<lambda>_. (ns, nb_name nb)) (filter bundle_volume (nb_volumes nb))) nbs))
     }
     else return_h [])"

section \<open>Changes of the ingress configuration\<close>

text \<open>\<open>ingressNamespacePredicate\<close>: only updates that change the annotation pass.\<close>

definition ingressNamespacePredicate :: "string \<Rightarrow> watch_event \<Rightarrow> kobj \<Rightarrow> kobj \<Rightarrow> bool" where
  "ingressNamespacePredicate annotation kd old new \<longleftrightarrow> kd = WUpdate \<and>
     mlookup (m_annotations (obj_meta old)) annotation \<noteq> mlookup (m_annotations (obj_meta new)) annotation"

text \<open>
  Whether a namespace's ingress changed: \<open>None\<close> where an error other than an unresolvable
  assignment makes the comparison impossible.
\<close>

definition ingress_changed :: "goerr + ingress \<Rightarrow> goerr + ingress \<Rightarrow> bool option" where
  "ingress_changed before after = (
     let unknown = (\<lambda>r. case r of Inl e \<Rightarrow> unresolvable e | Inr _ \<Rightarrow> False);
         failed = (\<lambda>r. case r of Inl e \<Rightarrow> \<not> unresolvable e | Inr _ \<Rightarrow> False)
     in if failed before \<or> failed after then None
        else Some (unknown before \<noteq> unknown after \<or> (case (before, after) of
          (Inr b, Inr a) \<Rightarrow> in_gatewayName b \<noteq> in_gatewayName a \<or> in_gatewayNamespace b \<noteq> in_gatewayNamespace a
        | _ \<Rightarrow> False)))"

text \<open>The loop, with the namespaces already compared; \<open>None\<close> where the code returns all requests.\<close>

fun changed_requests :: "'s env \<Rightarrow> 's odh \<Rightarrow> smap \<Rightarrow> smap \<Rightarrow> (string, bool) fmap \<Rightarrow> nsname list \<Rightarrow>
    ('s, nsname list option) handler" where
  "changed_requests E R old updated seen [] = return_h (Some [])"
| "changed_requests E R old updated seen (q # qs) = (
     let go = (\<lambda>changed seen'. do {
           rest \<leftarrow> changed_requests E R old updated seen' qs;
           return_h (map_option (\<lambda>rs. if changed then q # rs else rs) rest)
         })
     in case fmlookup seen (fst q) of
       Some changed \<Rightarrow> go changed seen
     | None \<Rightarrow> do {
         before \<leftarrow> notebookIngress E R (fst q) old;
         after \<leftarrow> notebookIngress E R (fst q) updated;
         (case ingress_changed before after of
            None \<Rightarrow> return_h None
          | Some changed \<Rightarrow> go changed (fmupd (fst q) changed seen))
       })"

definition ingressConfigRequests :: "'s env \<Rightarrow> 's odh \<Rightarrow> smap \<Rightarrow> smap \<Rightarrow> ('s, nsname list) handler" where
  "ingressConfigRequests E R old updated = (
     if mlookup old IngressesKey = mlookup updated IngressesKey then return_h []
     else do {
       requests \<leftarrow> notebookRequests E [];
       changed \<leftarrow> changed_requests E R old updated fmempty requests;
       return_h (case changed of None \<Rightarrow> requests | Some rs \<Rightarrow> rs)
     })"

section \<open>The ConfigMap handler\<close>

definition isIngressConfig :: "'s odh \<Rightarrow> kobj \<Rightarrow> bool" where
  "isIngressConfig R x \<longleftrightarrow> m_namespace (obj_meta x) = od_namespace R \<and> m_name (obj_meta x) = NotebookControllerConfigMap"

text \<open>
  A created or deleted ConfigMap, or an updated one with its old version. For an update of
  another ConfigMap the mapping function runs on the old and on the new object; the queue keeps
  one of equal requests.
\<close>

datatype configmap_event = CMCreated configmap | CMUpdated configmap configmap | CMDeleted configmap

definition configMapHandler :: "'s env \<Rightarrow> 's odh \<Rightarrow> configmap_event \<Rightarrow> ('s, nsname list) handler" where
  "configMapHandler E R ev = (
     let one = (\<lambda>cm. if isIngressConfig R (OConfigMap cm) then notebookRequests E [] else caBundleRequests E (OConfigMap cm))
     in case ev of
       CMCreated cm \<Rightarrow> one cm
     | CMDeleted cm \<Rightarrow> one cm
     | CMUpdated old new \<Rightarrow>
         if isIngressConfig R (OConfigMap new) then ingressConfigRequests E R (cm_data old) (cm_data new)
         else do {
           a \<leftarrow> caBundleRequests E (OConfigMap old);
           b \<leftarrow> caBundleRequests E (OConfigMap new);
           return_h (a @ b)
         })"

end
