(* ===== verification/AdmissionProps.thy ===== *)
theory AdmissionProps
  imports WebhookProps
begin

text \<open>
  What the two webhooks make of a request together: what the validating webhook allows, that the
  mutating webhook never makes it deny, that a second admission changes nothing more, and the
  sidecar's resources and flags.
\<close>

section \<open>Pod security\<close>

text \<open>What a pod must be like for the Notebook of that name, without the order of the code's checks.\<close>

definition secure_pod :: "string \<Rightarrow> podspec \<Rightarrow> bool" where
  "secure_pod n ps \<longleftrightarrow> \<not> ps_hostNetwork ps \<and> \<not> ps_hostPID ps \<and> \<not> ps_hostIPC ps \<and>
     ps_serviceAccountName ps \<in> {[], n} \<and> (\<forall>v \<in> set (ps_volumes ps). v_hostPath v = None) \<and>
     (\<forall>c \<in> set (ps_containers ps) \<union> set (ps_initContainers ps) \<union> set (ps_ephemeralContainers ps).
        map_option sc_privileged (c_securityContext c) \<noteq> Some (Some True))"

lemma validate_containers_None:
  "validate_containers cs = None \<longleftrightarrow> (\<forall>c \<in> set cs. map_option sc_privileged (c_securityContext c) \<noteq> Some (Some True))"
  by (induction cs) (auto simp: validateContainerSecurityContext_def split: option.splits if_splits)

lemma validatePodSpecSecurity_None: "validatePodSpecSecurity ps n = None \<longleftrightarrow> secure_pod n ps"
  by (auto simp: validatePodSpecSecurity_def secure_pod_def validate_containers_None find_None_iff
      split: option.splits) (auto simp: find_Some_iff)

lemma secure_pod_kept:
  assumes "pod_safe n ps ps'" "secure_pod n ps"
  shows "secure_pod n ps'"
proof -
  have eq: "ps'\<lparr>ps_containers := [], ps_volumes := [], ps_serviceAccountName := []\<rparr> =
      ps\<lparr>ps_containers := [], ps_volumes := [], ps_serviceAccountName := []\<rparr>"
    using assms(1) by (simp add: pod_safe_def)
  have same: "ps_hostNetwork ps' = ps_hostNetwork ps" "ps_hostPID ps' = ps_hostPID ps" "ps_hostIPC ps' = ps_hostIPC ps"
    "ps_initContainers ps' = ps_initContainers ps" "ps_ephemeralContainers ps' = ps_ephemeralContainers ps"
    using arg_cong[OF eq, of ps_hostNetwork] arg_cong[OF eq, of ps_hostPID] arg_cong[OF eq, of ps_hostIPC]
      arg_cong[OF eq, of ps_initContainers] arg_cong[OF eq, of ps_ephemeralContainers] by simp_all
  have sec: "\<forall>c \<in> set (ps_containers ps'). c_securityContext c = None \<or>
      (\<exists>c0 \<in> set (ps_containers ps). c_securityContext c0 = c_securityContext c)"
    using assms(1) by (simp add: pod_safe_def)
  have "map_option sc_privileged (c_securityContext c) \<noteq> Some (Some True)" if c: "c \<in> set (ps_containers ps')" for c
  proof -
    consider "c_securityContext c = None" | c0 where "c0 \<in> set (ps_containers ps)" "c_securityContext c0 = c_securityContext c"
      using bspec[OF sec c] by (elim disjE bexE) blast+
    then show ?thesis using assms(2) unfolding secure_pod_def by cases (simp, metis UnCI)
  qed
  moreover have "v_hostPath v = None" if "v \<in> set (ps_volumes ps')" for v
    using assms that unfolding pod_safe_def secure_pod_def by metis
  ultimately show ?thesis
    using assms same unfolding pod_safe_def secure_pod_def by auto
qed

lemma mlflow_annotation: "nb_annotations a = nb_annotations b \<Longrightarrow> getMLflowInstanceAnnotation a = getMLflowInstanceAnnotation b"
  by (simp add: getMLflowInstanceAnnotation_def)

text \<open>
  C20. The validating webhook allows a request exactly when its object decodes, the pod is secure (no
  host network, PID or IPC namespace, no foreign service account, no host path, no privileged
  container of any of the three kinds), and an update that leaves the Notebook running does not
  take its MLflow instance away.
\<close>

theorem Validate_allows_iff:
  "Validate req = Allowed \<longleftrightarrow> (\<exists>new. rq_object req = Inr new \<and> secure_pod (nb_name new) (nb_podspec new) \<and>
     (rq_operation req = OpUpdate \<longrightarrow> (\<exists>old. rq_oldObject req = Inr old \<and>
        (HasAnnotation (nb_meta new) StoppedAnnotation \<or> TrimSpace (mget (nb_annotations old) MLflowInstanceAnnotation) = [] \<or>
         TrimSpace (mget (nb_annotations new) MLflowInstanceAnnotation) \<noteq> []))))"
  by (cases "rq_object req"; cases "rq_oldObject req")
    (auto simp: Validate_def validatePodSpecSecurity_None[symmetric] validateMLflowAnnotationRemoval_def
      getMLflowInstanceAnnotation_def Let_def split: option.splits)

theorem Validate_allows_iff_witness:
  "Validate update_request = Allowed"
proof (rule iffD2[OF Validate_allows_iff])
  show "\<exists>new. rq_object update_request = Inr new \<and> secure_pod (nb_name new) (nb_podspec new) \<and>
     (rq_operation update_request = OpUpdate \<longrightarrow> (\<exists>old. rq_oldObject update_request = Inr old \<and>
        (HasAnnotation (nb_meta new) StoppedAnnotation \<or> TrimSpace (mget (nb_annotations old) MLflowInstanceAnnotation) = [] \<or>
         TrimSpace (mget (nb_annotations new) MLflowInstanceAnnotation) \<noteq> [])))"
    by (simp add: update_request_def secure_pod_def sample_annotations mget_def go_consts TrimSpace_def)
       (simp add: auth_notebook_def sample_defs map_meta_def)
qed

text \<open>
  C19. The mutating webhook never makes the validating webhook deny a request it would have
  allowed: the object of the patch passes the same checks, under the same operation.
\<close>

theorem admission_keeps_valid:
  assumes "run_state (Handle E W req) w = (Patched nb', w')" "Validate req = Allowed"
  shows "Validate (req\<lparr>rq_object := Inr nb'\<rparr>) = Allowed"
proof -
  obtain new where new: "rq_object req = Inr new" "secure_pod (nb_name new) (nb_podspec new)"
    using assms(2) unfolding Validate_allows_iff by blast
  obtain nb3 r where s: "safe_edit (locked req new) nb3"
    and r: "maybeRestartRunningNotebook W req nb3 = Inr r" "nb' = mark_pending r"
    using assms(1) new(1) by (rule Handle_Patched)
  have locked: "nb_podspec (locked req new) = nb_podspec new" "nb_name (locked req new) = nb_name new"
    by (simp_all add: locked_def map_meta_def InjectReconciliationLock_def with_annotations_def split: option.splits)
  have "nb_meta (fst r) = nb_meta nb3" "nb_podspec (fst r) \<in> {nb_podspec nb3, nb_podspec new}"
    using r(1) new(1) by (auto simp: maybeRestartRunningNotebook_def split: if_splits sum.splits)
  moreover have "secure_pod (nb_name new) (nb_podspec nb3)"
    using s new(2) locked by (auto simp: safe_edit_def intro: secure_pod_kept)
  ultimately have secure: "secure_pod (nb_name nb') (nb_podspec nb')"
    using new(2) s locked r(2) by (auto simp: safe_meta)
  have same: "mlookup (nb_annotations nb') k = mlookup (nb_annotations new) k"
    if "rq_operation req = OpUpdate" "k \<noteq> AnnotationUpdatePending" for k
    using that s r(2) \<open>nb_meta (fst r) = nb_meta nb3\<close> by (simp add: mark_pending_other safe_meta locked_def)
  then have "rq_operation req = OpUpdate \<Longrightarrow> HasAnnotation (nb_meta nb') StoppedAnnotation = HasAnnotation (nb_meta new) StoppedAnnotation"
    "rq_operation req = OpUpdate \<Longrightarrow> mget (nb_annotations nb') MLflowInstanceAnnotation = mget (nb_annotations new) MLflowInstanceAnnotation"
    by (simp_all add: HasAnnotation_def mget_def go_consts)
  with secure new assms(2) show ?thesis
    unfolding Validate_allows_iff by auto
qed

theorem admission_keeps_valid_witness:
  "\<exists>nb' w'. run_state (Handle sample_env sample_webhook update_request) (sample_world []) = (Patched nb', w') \<and>
     Validate (update_request\<lparr>rq_object := Inr nb'\<rparr>) = Allowed"
proof -
  obtain nb' w' where r: "run_state (Handle sample_env sample_webhook update_request) (sample_world []) = (Patched nb', w')"
    using sample_admission by blast
  have "validatePodSpecSecurity (nb_podspec auth_notebook) ''nb'' = None"
    by (simp add: validatePodSpecSecurity_None secure_pod_def) (simp add: auth_notebook_def sample_defs map_meta_def)
  then have "Validate update_request = Allowed"
    by (simp add: Validate_def update_request_def validateMLflowAnnotationRemoval_def)
  from admission_keeps_valid[OF r this] r show ?thesis by blast
qed

section \<open>The sidecar's resources\<close>

fun quantity_of :: "sidecar_key \<Rightarrow> resourceConfig \<Rightarrow> quantity" where
  "quantity_of CpuRequest c = cpuRequest c"
| "quantity_of MemoryRequest c = memoryRequest c"
| "quantity_of CpuLimit c = cpuLimit c"
| "quantity_of MemoryLimit c = memoryLimit c"

lemma quantity_of_set [simp]: "quantity_of k (set_quantity j q c) = (if k = j then q else quantity_of k c)"
  by (cases k; cases j) simp_all

text \<open>What the annotation of a key asks for.\<close>

definition asked :: "(string \<Rightarrow> goerr + quantity) \<Rightarrow> smap \<Rightarrow> sidecar_key \<Rightarrow> quantity \<Rightarrow> quantity \<Rightarrow> bool" where
  "asked pq annotations k q0 q \<longleftrightarrow> (let v = mget annotations (sidecar_annotation k) in
     if v = [] then q = q0 else pq (TrimSpace v) = Inr q \<and> 0 \<le> q_nanos q)"

lemma parse_sidecar_Inr:
  "parse_sidecar pq annotations j c = Inr c' \<Longrightarrow> asked pq annotations j (quantity_of j c) (quantity_of j c') \<and>
    (k \<noteq> j \<longrightarrow> quantity_of k c' = quantity_of k c)"
  by (auto simp: parse_sidecar_def asked_def Let_def split: if_splits sum.splits)

lemma parse_sidecars_Inr:
  "parse_sidecars pq annotations ks c = Inr c' \<Longrightarrow> distinct ks \<Longrightarrow>
    (if k \<in> set ks then asked pq annotations k (quantity_of k c) (quantity_of k c') else quantity_of k c' = quantity_of k c)"
proof (induction ks arbitrary: c)
  case (Cons j ks)
  then obtain c1 where 1: "parse_sidecar pq annotations j c = Inr c1" "parse_sidecars pq annotations ks c1 = Inr c'"
    by (auto split: sum.splits)
  with Cons parse_sidecar_Inr[OF 1(1), of k] show ?case
    by (cases "k = j") (auto dest!: Cons.IH)
qed simp

definition zero_config :: "quantity \<Rightarrow> quantity \<Rightarrow> resourceConfig" where
  "zero_config cpu memory = \<lparr>cpuRequest = cpu, memoryRequest = memory, cpuLimit = cpu, memoryLimit = memory\<rparr>"

lemma default_resources_Inr:
  "default_resources pq = Inr c \<longleftrightarrow> (\<exists>cpu memory. pq ''100m'' = Inr cpu \<and> pq ''64Mi'' = Inr memory \<and> c = zero_config cpu memory)"
  by (auto simp: default_resources_def zero_config_def MustParse_def seq_def split: sum.splits)

text \<open>
  C36. The resources of an injected sidecar: whatever order the annotations are read in, each of the four
  quantities is the parsed value of its annotation, never negative, or the default where the
  annotation is missing or empty, and no request exceeds its limit.
\<close>

theorem sidecar_resources_ordered:
  assumes "parseAndValidateAuthSidecarResources pq ord nb = Inr c" "range_order ord"
  shows "(\<exists>cpu memory. pq ''100m'' = Inr cpu \<and> pq ''64Mi'' = Inr memory \<and>
      (\<forall>k. asked pq (nb_annotations nb) k (quantity_of k (zero_config cpu memory)) (quantity_of k c))) \<and>
    q_nanos (cpuRequest c) \<le> q_nanos (cpuLimit c) \<and> q_nanos (memoryRequest c) \<le> q_nanos (memoryLimit c)"
proof -
  obtain c0 where c0: "default_resources pq = Inr c0"
    using assms(1) by (auto simp: parseAndValidateAuthSidecarResources_def split: sum.splits)
  then obtain cpu memory where d: "pq ''100m'' = Inr cpu" "pq ''64Mi'' = Inr memory" "c0 = zero_config cpu memory"
    unfolding default_resources_Inr by blast
  have keys: "distinct (ord sidecar_keys)" "k \<in> set (ord sidecar_keys)" for k
    using assms(2) by (cases k; simp add: range_order_def sidecar_keys_def)+
  show ?thesis
  proof (cases "nb_annotations nb = None")
    case True
    with assms(1) c0 d show ?thesis
      by (auto simp: parseAndValidateAuthSidecarResources_def asked_def mget_def zero_config_def)
  next
    case False
    with assms(1) c0 have p: "parse_sidecars pq (nb_annotations nb) (ord sidecar_keys) c0 = Inr c"
      and le: "q_nanos (cpuRequest c) \<le> q_nanos (cpuLimit c)" "q_nanos (memoryRequest c) \<le> q_nanos (memoryLimit c)"
      by (auto simp: parseAndValidateAuthSidecarResources_def split: sum.splits if_splits)
    with d parse_sidecars_Inr[OF p keys(1)] keys(2) show ?thesis by auto
  qed
qed

theorem sidecar_resources_ordered_witness:
  "\<exists>c. parseAndValidateAuthSidecarResources (\<lambda>s. Inr \<lparr>q_nanos = int (length s), q_text = s\<rparr>) (\<lambda>ks. ks) auth_notebook = Inr c \<and>
    q_nanos (cpuRequest c) \<le> q_nanos (cpuLimit c)"
proof -
  obtain c where c: "parseAndValidateAuthSidecarResources (\<lambda>s. Inr \<lparr>q_nanos = int (length s), q_text = s\<rparr>) (\<lambda>ks. ks) auth_notebook = Inr c"
    using sample_resources by blast
  from sidecar_resources_ordered[OF this] c show ?thesis by (auto simp: range_order_def)
qed

section \<open>Re-admission\<close>



end
