(* ===== verification/Lifecycle.thy ===== *)
theory Lifecycle
  imports AdmissionProps NotebookProps CullingProps OdhReconciler
begin

text \<open>
  The components together: what the webhooks, the culling controller and the notebook controller
  make of one Notebook over its life. The API server stores a Notebook only as the mutating webhook
  returned it, once the validating webhook allowed it; every writer, the controllers included, goes
  through this.
\<close>

section \<open>Stopped by admission\<close>

lemma locked_stopped:
  "rq_operation req = OpCreate \<Longrightarrow> mlookup (nb_annotations (locked req nb)) StoppedAnnotation = Some AnnotationValueReconciliationLock"
  by (auto simp: locked_def map_meta_def InjectReconciliationLock_def with_annotations_def mlookup_def mlit_def split: option.splits)

lemma locked_other: "k \<noteq> StoppedAnnotation \<Longrightarrow> mlookup (nb_annotations (locked req nb)) k = mlookup (nb_annotations nb) k"
  by (auto simp: locked_def map_meta_def InjectReconciliationLock_def with_annotations_def mlookup_def mlit_def split: option.splits)

lemma locked_auth: "KubeRbacProxyInjectionIsEnabled (nb_meta (locked req nb)) = KubeRbacProxyInjectionIsEnabled (nb_meta nb)"
proof -
  have "mget (nb_annotations (locked req nb)) AnnotationInjectAuth = mget (nb_annotations nb) AnnotationInjectAuth"
    using locked_other[of AnnotationInjectAuth req nb] by (simp add: mget_def go_consts)
  then show ?thesis by (simp add: KubeRbacProxyInjectionIsEnabled_def)
qed

lemma locked_keeps [simp]: "nb_podspec (locked req nb) = nb_podspec nb" "nb_name (locked req nb) = nb_name nb"
  by (simp_all add: locked_def map_meta_def InjectReconciliationLock_def with_annotations_def split: option.splits)


definition create_request :: admission_request where
  "create_request = \<lparr>rq_operation = OpCreate, rq_object = Inr sample_notebook, rq_oldObject = Inl (Errorf ''no old object'')\<rparr>"

definition new_notebook :: notebook where
  "new_notebook = map_meta (with_annotations (mlit [(StoppedAnnotation, AnnotationValueReconciliationLock)])) sample_notebook"

lemma new_simps [simp]:
  "nb_name new_notebook = ''nb''" "nb_ns new_notebook = ''ns''" "m_labels (nb_meta new_notebook) = None"
  "nb_annotations new_notebook = mlit [(StoppedAnnotation, AnnotationValueReconciliationLock)]"
  "nb_containers new_notebook = [sample_container]" "nb_volumes new_notebook = []"
  by (simp_all add: new_notebook_def sample_defs map_meta_def nb_containers_def nb_volumes_def)

lemma new_annotations:
  "mlookup (mlit [(StoppedAnnotation, AnnotationValueReconciliationLock)]) k =
     (if k = StoppedAnnotation then Some AnnotationValueReconciliationLock else None)"
  by (simp add: mlookup_def mlit_def)

lemma mutate_new:
  "\<exists>w1. run_state (mutate_pod sample_env sample_webhook new_notebook) (sample_world []) = (Inr new_notebook, w1) \<and> server w1 = []"
proof -
  have e: "edit_container ''nb'' (drop_first_env n) new_notebook = new_notebook" for n
    by (rule edit_container_fixed) (auto simp: drop_first_env_def sample_container_def split: if_splits)
  have c: "CleanupMLflowEnvVars new_notebook = new_notebook"
    unfolding CleanupMLflowEnvVars_def removeNotebookContainerEnvVar_def by (simp add: e)
  show ?thesis
    by (simp add: mutate_pod_def SetContainerImageFromRegistry_def mlookup_def mlit_def go_consts client_defs
        CheckAndMountCACertBundle_def SyncRuntimeImagesConfigMap_def getRuntimeConfigMap_def
        MountPipelineRuntimeImages_def elyra_stage_def env_true_def Getenv_def feast_stage_def isFeastEnabled_def
        isFeastMounted_def HandleMLflowEnvVars_def getMLflowInstanceAnnotation_def mget_def c[unfolded go_consts]
        runtime_data_def runtime_entries_def IsNotFound_def)
qed

lemma create_admission:
  "\<exists>w'. run_state (Handle sample_env sample_webhook create_request) (sample_world []) = (Patched new_notebook, w')"
proof -
  obtain w1 where m: "run_state (mutate_pod sample_env sample_webhook new_notebook) (sample_world []) = (Inr new_notebook, w1)"
    and s1: "server w1 = []" using mutate_new by blast
  have lock: "map_meta InjectReconciliationLock sample_notebook = new_notebook"
    by (simp add: new_notebook_def map_meta_def InjectReconciliationLock_def sample_defs)
  have auth: "\<not> KubeRbacProxyInjectionIsEnabled (nb_meta new_notebook)"
    by (simp add: KubeRbacProxyInjectionIsEnabled_def new_annotations mget_def) (simp add: go_consts)
  have "fmdrop AnnotationUpdatePending (fmupd StoppedAnnotation v fmempty) = fmupd StoppedAnnotation v fmempty" for v :: string
    by (rule fmap_ext) (simp add: go_consts)
  then have unmarked: "mark_pending (new_notebook, None) = new_notebook"
    by (simp add: mark_pending_def new_notebook_def map_meta_def with_annotations_def mlit_def)
  show ?thesis
    by (simp add: Handle_def mutate_notebook_def create_request_def lock m auth readWorkbenchProbeTimeout_def client_defs s1
        probe_stage_def cluster_proxy_stage_def injectClusterProxy_def numeral_2_eq_2 maybeRestartRunningNotebook_def
        IsNotFound_def unmarked)
qed


section \<open>The stored Notebook\<close>

text \<open>
  One write to the API server: the object is admitted, the mutated object is allowed, and is
  stored. An update may send anything under the same name; the webhooks see the object stored
  before.
\<close>

inductive admits :: "'s env \<Rightarrow> webhook \<Rightarrow> notebook option \<Rightarrow> notebook \<Rightarrow> bool" for E W where
  create: "run_state (Handle E W \<lparr>rq_operation = OpCreate, rq_object = Inr new, rq_oldObject = Inl e\<rparr>) w = (Patched nb, w') \<Longrightarrow>
     Validate \<lparr>rq_operation = OpCreate, rq_object = Inr nb, rq_oldObject = Inl e\<rparr> = Allowed \<Longrightarrow> admits E W None nb"
| update: "nb_name new = nb_name old \<Longrightarrow>
     run_state (Handle E W \<lparr>rq_operation = OpUpdate, rq_object = Inr new, rq_oldObject = Inr old\<rparr>) w = (Patched nb, w') \<Longrightarrow>
     Validate \<lparr>rq_operation = OpUpdate, rq_object = Inr nb, rq_oldObject = Inr old\<rparr> = Allowed \<Longrightarrow> admits E W (Some old) nb"

inductive_cases admits_cases: "admits E W o1 nb"

inductive stored_notebook :: "'s env \<Rightarrow> webhook \<Rightarrow> notebook \<Rightarrow> bool" for E W where
  created: "admits E W None nb \<Longrightarrow> stored_notebook E W nb"
| updated: "stored_notebook E W old \<Longrightarrow> admits E W (Some old) nb \<Longrightarrow> stored_notebook E W nb"

lemma Handle_sidecar:
  assumes "run_state (Handle E W req) w = (Patched nb', w')" "rq_object req = Inr new"
    and "KubeRbacProxyInjectionIsEnabled (nb_meta nb')" "mlookup (nb_annotations nb') AnnotationUpdatePending = None"
  shows "has_sidecar nb'"
proof -
  obtain nb3 r where s: "safe_edit (locked req new) nb3"
    and side: "KubeRbacProxyInjectionIsEnabled (nb_meta (locked req new)) \<longrightarrow> has_sidecar nb3"
    and r: "maybeRestartRunningNotebook W req nb3 = Inr r" "nb' = mark_pending r"
    using assms(1,2) by (rule Handle_Patched) (erule that, rule impI, assumption)
  have "r = (nb3, None)"
    using r assms(4) by (auto simp: maybeRestartRunningNotebook_def mark_pending_annotation split: if_splits sum.splits)
  then have nb': "nb' = mark_pending (nb3, None)" using r(2) by simp
  have "AnnotationInjectAuth \<noteq> AnnotationUpdatePending" by (simp add: go_consts)
  then have same: "mget (nb_annotations nb') AnnotationInjectAuth = mget (nb_annotations (locked req new)) AnnotationInjectAuth"
    unfolding nb' by (simp add: mget_def mark_pending_other safe_meta[OF s])
  have "KubeRbacProxyInjectionIsEnabled (nb_meta (locked req new))"
    using assms(3) unfolding KubeRbacProxyInjectionIsEnabled_def same .
  with side show ?thesis by (simp add: nb' has_sidecar_def nb_containers_def)
qed

text \<open>
  C3. Every Notebook the API server ever stores, after any sequence of creations and updates by anyone:
  its pod is secure, and where authentication is asked for, the sidecar is in its pod and the pod
  runs under the Notebook's own service account, unless a pending update is noted on it.
\<close>

theorem stored_notebook_protected:
  assumes "stored_notebook E W nb"
  shows "secure_pod (nb_name nb) (nb_podspec nb) \<and>
    (KubeRbacProxyInjectionIsEnabled (nb_meta nb) \<and> mlookup (nb_annotations nb) AnnotationUpdatePending = None \<longrightarrow> has_sidecar nb)"
proof -
  have "secure_pod (nb_name nb) (nb_podspec nb) \<and>
    (KubeRbacProxyInjectionIsEnabled (nb_meta nb) \<and> mlookup (nb_annotations nb) AnnotationUpdatePending = None \<longrightarrow> has_sidecar nb)"
    if "admits E W old nb" for old
    using that by cases (auto simp: Validate_def validatePodSpecSecurity_None intro: Handle_sidecar split: option.splits)
  with assms show ?thesis by (cases rule: stored_notebook.cases) blast+
qed

theorem stored_notebook_protected_witness:
  "secure_pod (nb_name new_notebook) (nb_podspec new_notebook)"
proof -
  obtain w' where r: "run_state (Handle sample_env sample_webhook create_request) (sample_world []) = (Patched new_notebook, w')"
    using create_admission by blast
  have "secure_pod ''nb'' (nb_podspec new_notebook)"
    by (simp add: secure_pod_def new_notebook_def sample_defs map_meta_def)
  then have "Validate \<lparr>rq_operation = OpCreate, rq_object = Inr new_notebook, rq_oldObject = Inl (Errorf ''no old object'')\<rparr> = Allowed"
    by (simp add: Validate_def flip: validatePodSpecSecurity_None)
  then have "stored_notebook sample_env sample_webhook new_notebook"
    by (intro stored_notebook.created admits.create) (use r in \<open>simp add: create_request_def\<close>)
  from stored_notebook_protected[OF this] show ?thesis by simp
qed

text \<open>
  An update of a running Notebook that leaves its pod as it was, under whatever configuration of the
  webhook: of a user who changes an annotation, of a controller, of an upgraded webhook.
\<close>

definition quiet_update :: "'s env \<Rightarrow> notebook \<Rightarrow> notebook \<Rightarrow> bool" where
  "quiet_update E old nb \<longleftrightarrow> (\<exists>W new w w'.
     run_state (Handle E W \<lparr>rq_operation = OpUpdate, rq_object = Inr new, rq_oldObject = Inr old\<rparr>) w = (Patched nb, w') \<and>
     podspec_eq (nb_podspec old) (nb_podspec new) \<and>
     \<not> HasAnnotation (nb_meta new) StoppedAnnotation \<and> \<not> HasAnnotation (nb_meta new) AnnotationNotebookRestart)"

text \<open>
  C11. No sequence of such updates ever restarts a running Notebook: however many there are, and however
  the webhook's configuration, the sidecar's image or the cluster's settings change in between, the
  stored pod stays what it was.
\<close>

theorem quiet_updates_keep_pod:
  assumes "(quiet_update E)\<^sup>*\<^sup>* nb nb'"
  shows "podspec_eq (nb_podspec nb) (nb_podspec nb')"
  using assms
proof (induction rule: rtranclp_induct)
  case (step nb1 nb2)
  have "podspec_eq (nb_podspec nb1) (nb_podspec nb2)"
    using step.hyps(2) Handle_running unfolding quiet_update_def by fastforce
  with step.IH show ?case by (simp add: podspec_eq_def)
qed simp

theorem quiet_updates_keep_pod_witness:
  "\<exists>nb'. quiet_update sample_env auth_notebook nb' \<and> podspec_eq (nb_podspec auth_notebook) (nb_podspec nb')"
proof -
  obtain nb' w' where r: "run_state (Handle sample_env sample_webhook update_request) (sample_world []) = (Patched nb', w')"
    using sample_admission by blast
  then have "quiet_update sample_env auth_notebook nb'"
    unfolding quiet_update_def update_request_def
    by (intro exI[of _ sample_webhook] exI[of _ auth_notebook] exI[of _ "sample_world []"] exI[of _ w']) simp
  with quiet_updates_keep_pod[OF r_into_rtranclp[of "quiet_update sample_env", OF this]] show ?thesis by blast
qed

section \<open>Culling\<close>

text \<open>A timestamp that parses to a time not after \<open>T\<close>, of a year RFC 3339 can write.\<close>

definition stale :: "int \<Rightarrow> string \<Rightarrow> bool" where
  "stale T s \<longleftrightarrow> (\<exists>t. time_Parse s = Some t \<and> instant t \<le> T \<and> zone t mod 60 = 0 \<and> \<bar>zone t\<bar> < 90000 \<and>
     0 \<le> format_year t \<and> format_year t < 10000)"

lemma stale_formatted:
  assumes "instant t \<le> T" "zone t mod 60 = 0" "\<bar>zone t\<bar> < 90000" "0 \<le> format_year t" "format_year t < 10000"
  shows "\<exists>u. time_Parse (time_Format t) = Some u \<and> instant u \<le> T"
proof -
  have "time_Parse (time_Format t) = Some (GoTime (time_Unix t * 10 ^ 9) (zone t))"
    using assms by (intro time_Parse_Format) auto
  moreover have "instant t div 10 ^ 9 * 10 ^ 9 \<le> instant t"
    using pos_mod_sign[of "10 ^ 9" "instant t"] div_mult_mod_eq[of "instant t" "10 ^ 9"] by simp
  ultimately show ?thesis using assms(1) by (simp add: time_Unix_def)
qed

lemma recent_loop_stale:
  "list_all (stale T) xs \<Longrightarrow> instant t0 \<le> T \<and> zone t0 mod 60 = 0 \<and> \<bar>zone t0\<bar> < 90000 \<and> 0 \<le> format_year t0 \<and> format_year t0 < 10000 \<Longrightarrow>
    \<exists>t. recent_loop t0 xs = Some t \<and> instant t \<le> T \<and> zone t mod 60 = 0 \<and> \<bar>zone t\<bar> < 90000 \<and> 0 \<le> format_year t \<and> format_year t < 10000"
  by (induction xs arbitrary: t0) (auto simp: stale_def)

text \<open>The last activity of the metadata is stale, and it has no stop annotation.\<close>

definition forgotten :: "int \<Rightarrow> objmeta \<Rightarrow> bool" where
  "forgotten T m \<longleftrightarrow> (\<exists>f v u. m_annotations m = Some f \<and> fmlookup f LAST_ACTIVITY_ANNOTATION = Some v \<and>
     time_Parse v = Some u \<and> instant u \<le> T \<and> fmlookup f STOP_ANNOTATION = None)"

lemma update_from_times_forgotten:
  assumes "list_all (stale T) arr" "arr \<noteq> []" "forgotten T m"
  shows "\<exists>b m'. update_from_times arr m = Inr (b, m') \<and> forgotten T m'"
proof -
  obtain x xs t where arr: "arr = x # xs" "time_Parse x = Some t" "stale T x" "list_all (stale T) xs"
    using assms(1,2) by (cases arr) (auto simp: stale_def)
  then obtain r where r: "getNotebookRecentTime arr = Inr (time_Format r)" "\<exists>u. time_Parse (time_Format r) = Some u \<and> instant u \<le> T"
    using recent_loop_stale[OF arr(4), of t] stale_formatted by (auto simp: stale_def)
  obtain f where f: "m_annotations m = Some f" "fmlookup f STOP_ANNOTATION = None" using assms(3) by (auto simp: forgotten_def)
  have "forgotten T (with_annotations (Some (fmupd LAST_ACTIVITY_ANNOTATION (time_Format r) f)) m)"
    using r(2) f by (auto simp: forgotten_def with_annotations_def LAST_ACTIVITY_ANNOTATION_def STOP_ANNOTATION_def)
  then show ?thesis
    using r(1) f(1) assms(3) by (auto simp: update_from_times_def set_annotation_def intro: exI[of _ True] exI[of _ False])
qed

lemma kernels_forgotten:
  assumes "allKernelsAreIdle ks" "list_all (stale T) (map ks_lastActivity ks)" "forgotten T m"
  shows "\<exists>b m'. updateTimestampFromKernelsActivity E ks m = ok (b, m') \<and> forgotten T m'"
proof (cases "ks = []")
  case False
  then obtain b m' where u: "update_from_times (map ks_lastActivity ks) m = Inr (b, m')" "forgotten T m'"
    using update_from_times_forgotten[OF assms(2) _ assms(3)] by auto
  then have "updateTimestampFromKernelsActivity E ks m = ok (b, m')"
    using False assms(1) by (simp add: updateTimestampFromKernelsActivity_def lift_def)
  with u(2) show ?thesis by (intro exI conjI)
qed (use assms(3) in \<open>auto simp: updateTimestampFromKernelsActivity_def\<close>)

lemma terminals_forgotten:
  assumes "list_all (stale T) (map ts_lastActivity ts)" "forgotten T m"
  shows "\<exists>b m'. updateTimestampFromTerminalsActivity ts m = Inr (b, m') \<and> forgotten T m'"
  using update_from_times_forgotten[OF assms(1) _ assms(2)] assms
  by (auto simp: updateTimestampFromTerminalsActivity_def)

text \<open>
  C15. An idle Notebook is scaled down: when its kernels are idle and no activity of the annotation, of a
  kernel or of a terminal is younger than the idle time at any reading of the clock, the run sends
  an update with the stop annotation set, and the StatefulSet generated from that Notebook asks
  for no replica.
\<close>

theorem idle_notebook_scaled_down:
  assumes "\<And>s. T + sint (CULL_IDLE_TIME C * Minute) < instant (fst (env_clock E s))"
    and "allKernelsAreIdle ks" "list_all (stale T) (map ks_lastActivity ks @ map ts_lastActivity ts)"
    and "env_api E (RGet KNotebook req) (server w) = (RespObj (ONotebook nb), srv)"
    and "mlookup (nb_annotations nb) LAST_ACTIVITY_ANNOTATION = Some v" "stale T v"
    and "mlookup (nb_annotations nb) STOP_ANNOTATION = None"
  shows "\<exists>m resp. Call (RUpdate (ONotebook (set_meta m nb))) resp \<in> set (trace (snd (run_state (refresh_body E C req ks ts) w))) \<and>
    (\<forall>E' g ss. generateStatefulSet E' (set_meta m nb) g = Inr ss \<longrightarrow> sts_replicas ss = Some 0)"
proof -
  have l: "list_all (stale T) (map ks_lastActivity ks)" "list_all (stale T) (map ts_lastActivity ts)"
    using assms(3) by simp_all
  have "forgotten T (nb_meta nb)"
    using assms(5-7) by (auto simp: forgotten_def stale_def mlookup_def split: option.splits)
  from kernels_forgotten[OF assms(2) l(1) this, of E]
  obtain b1 m1 where k: "updateTimestampFromKernelsActivity E ks (nb_meta nb) = ok (b1, m1)" "forgotten T m1"
    by (elim exE conjE) (rule that)
  from terminals_forgotten[OF l(2) k(2)]
  obtain b2 m2 where t: "updateTimestampFromTerminalsActivity ts m1 = Inr (b2, m2)" "forgotten T m2"
    by (elim exE conjE) (rule that)
  then obtain f v' u where f: "m_annotations m2 = Some f" "fmlookup f LAST_ACTIVITY_ANNOTATION = Some v'"
    "time_Parse v' = Some u" "instant u \<le> T" "fmlookup f STOP_ANNOTATION = None" by (auto simp: forgotten_def)
  obtain t1 s1 t2 s2 t3 s3 where c: "env_clock E srv = (t1, s1)" "env_clock E s1 = (t2, s2)" "env_clock E s2 = (t3, s3)"
    by (metis surj_pair)
  define m where "m = with_annotations (Some (fmupd STOP_ANNOTATION (time_Format t3)
     (fmupd LAST_ACTIVITY_CHECK_TIMESTAMP_ANNOTATION (time_Format t1) f))) m2"
  have late: "instant u + sint (CULL_IDLE_TIME C * Minute) < instant t2"
    using assms(1)[of s1] c(2) f(4) by simp
  have neqs: "LAST_ACTIVITY_ANNOTATION \<noteq> LAST_ACTIVITY_CHECK_TIMESTAMP_ANNOTATION" "STOP_ANNOTATION \<noteq> LAST_ACTIVITY_CHECK_TIMESTAMP_ANNOTATION"
    by (simp_all add: LAST_ACTIVITY_ANNOTATION_def LAST_ACTIVITY_CHECK_TIMESTAMP_ANNOTATION_def STOP_ANNOTATION_def)
  obtain resp s4 where u: "env_api E (RUpdate (ONotebook (set_meta m nb))) s3 = (resp, s4)"
    by (cases "env_api E (RUpdate (ONotebook (set_meta m nb))) s3")
  have "Call (RUpdate (ONotebook (set_meta m nb))) resp \<in> set (trace (snd (run_state (refresh_body E C req ks ts) w)))"
    using assms(4) late neqs u[unfolded m_def with_annotations_def]
    by (simp add: refresh_body_def client_defs k(1) t(1) updateLastCullingCheckTimestampAnnotation_def createTimestamp_def c
        set_annotation_def f with_annotations_def notebookIsIdle_def StopAnnotationIsSet_def HasAnnotation_def mget_def
        After_def time_Add_def setStopAnnotation_def nonempty_map_def mempty_def m_def split: prod.splits)
  moreover have "STOP_ANNOTATION = StoppedAnnotation" by (simp add: STOP_ANNOTATION_def go_consts)
  then have "mlookup (nb_annotations (set_meta m nb)) StoppedAnnotation \<noteq> None"
    by (simp add: m_def set_meta_def with_annotations_def)
  then have "\<forall>E' g ss. generateStatefulSet E' (set_meta m nb) g = Inr ss \<longrightarrow> sts_replicas ss = Some 0"
    using generated_facts(1)[where nb = "set_meta m nb"] by auto
  ultimately show ?thesis by (intro exI[of _ m] exI[of _ resp] conjI)
qed

theorem idle_notebook_scaled_down_witness:
  "\<exists>m resp. Call (RUpdate (ONotebook (set_meta m culling_notebook))) resp \<in> set (trace (snd
     (run_state (refresh_body cull_env sample_culler (''ns'', ''nb'') [] []) \<lparr>server = [ONotebook culling_notebook], trace = []\<rparr>)))"
proof -
  have year: "format_year (GoTime (1704067200 * 10 ^ 9) 0) = 2024" by code_simp
  have "stale (1704067200 * 10 ^ 9) ''2024-01-01T00:00:00Z''"
    using year by (simp add: stale_def last_parsed)
  then have "\<exists>m resp. Call (RUpdate (ONotebook (set_meta m culling_notebook))) resp \<in> set (trace (snd
     (run_state (refresh_body cull_env sample_culler (''ns'', ''nb'') [] []) \<lparr>server = [ONotebook culling_notebook], trace = []\<rparr>))) \<and>
     (\<forall>E' g ss. generateStatefulSet E' (set_meta m culling_notebook) g = Inr ss \<longrightarrow> sts_replicas ss = Some 0)"
    by (intro idle_notebook_scaled_down[where T = "1704067200 * 10 ^ 9" and srv = "[ONotebook culling_notebook]" and
        v = "''2024-01-01T00:00:00Z''"])
      (simp_all add: sample_culler_def Minute_def allKernelsAreIdle_def same_obj_def obj_key_def meta_key_def culling_notebook_def
       empty_meta_def mlit_def mlookup_def LAST_ACTIVITY_ANNOTATION_def LAST_ACTIVITY_CHECK_TIMESTAMP_ANNOTATION_def STOP_ANNOTATION_def)
  then show ?thesis by blast
qed

end
