(* ===== verification/SidecarTlsProps.thy ===== *)
theory SidecarTlsProps
  imports AdmissionProps OdhBase
begin

text \<open>
  The TLS settings of the sidecar: what the flags the controllers give it allow, and how the
  reconciler brings them to a Notebook that runs.
\<close>

section \<open>The flags\<close>

lemma curve_id_fips: "curve_id L g = Some i \<Longrightarrow> tl_fips L \<Longrightarrow> i \<in> {Itoa 23, Itoa 24, Itoa 25}"
  by (cases g) (auto simp: curve_id_def fipsTLSGroups_def split: if_splits)

lemma curvePreferenceIDs_fips:
  assumes "curvePreferenceIDs L groups strict = Inr ids" "tl_fips L"
  shows "set ids \<subseteq> {Itoa 23, Itoa 24, Itoa 25}"
proof -
  have "ids = [] \<or> ids = List.map_filter (curve_id L) groups"
    using assms(1) by (auto simp: curvePreferenceIDs_def Let_def split: if_splits)
  then have "\<exists>g. curve_id L g = Some i" if "i \<in> set ids" for i
    using that by (auto simp: List.map_filter_def) (rule exI, assumption)
  then show ?thesis using curve_id_fips[OF _ assms(2)] by blast
qed

text \<open>The name of a suite of the runtime, not RC4's, that a handshake below TLS 1.3 can negotiate.\<close>

definition tls12_suite :: "string \<Rightarrow> bool" where
  "tls12_suite name \<longleftrightarrow> (\<exists>i. (name, i) \<in> set (CipherSuites @ InsecureCipherSuites) \<and> \<not> Contains name ''RC4'' \<and>
     \<not> (0x1300 \<le> i \<and> i \<le> 0x13ff))"

lemma suite_names:
  "list_all (\<lambda>(n, i). CipherSuiteName i = n \<and> (proxyRuntimeCipherIDs i \<longrightarrow> \<not> Contains n ''RC4'')) (CipherSuites @ InsecureCipherSuites)"
  by code_simp

lemma usable_is_suite: "cipherIDUsableForTLS12 i \<Longrightarrow> tls12_suite (CipherSuiteName i)"
proof -
  assume u: "cipherIDUsableForTLS12 i"
  then obtain n where n: "(n, i) \<in> set (CipherSuites @ InsecureCipherSuites)"
    by (auto simp: cipherIDUsableForTLS12_def proxyRuntimeCipherIDs_def list_ex_iff split: if_splits)
  with suite_names u have "CipherSuiteName i = n" "\<not> Contains n ''RC4''"
    by (auto simp: list_all_iff cipherIDUsableForTLS12_def split: if_splits)
  with n u show ?thesis by (auto simp: tls12_suite_def cipherIDUsableForTLS12_def split: if_splits)
qed

lemma ianaCipher_usable: "ianaCipherForTLS12 L n = Some c \<Longrightarrow> tls12_suite c"
  by (auto simp: ianaCipherForTLS12_def Let_def usable_is_suite split: option.splits if_splits)

lemma tls12CipherNames_Inr:
  assumes "tls12CipherNames L names = Inr ciphers"
  shows "hasHTTP2RequiredCipher ciphers \<and> (\<forall>c \<in> set ciphers. tls12_suite c)"
proof -
  have "ciphers = List.map_filter (\<lambda>n. if TrimSpace n = [] then None else ianaCipherForTLS12 L (TrimSpace n)) names"
    "hasHTTP2RequiredCipher ciphers"
    using assms by (auto simp: tls12CipherNames_def Let_def split: if_splits)
  then show ?thesis using ianaCipher_usable by (auto simp: List.map_filter_def split: if_splits)
qed

text \<open>What the resolved settings allow, and what they replace of a container's arguments.\<close>

lemma profile_tls12:
  assumes "tlsProfileSpecToProxyTLS L spec strict = Inr t"
  shows "\<exists>version v rest. ptls_Args t = (tlsMinVersionFlag @ version) # rest \<and> tl_version L version = Inr v \<and> VersionTLS12 \<le> v \<and>
    (v < VersionTLS13 \<longrightarrow> (\<exists>ciphers. tlsCipherSuitesFlag @ string_join '','' ciphers \<in> set rest \<and> hasHTTP2RequiredCipher ciphers \<and>
       (\<forall>c \<in> set ciphers. tls12_suite c))) \<and>
    (tl_fips L \<longrightarrow> set (ptls_CurvePreferences t) \<subseteq> {Itoa 23, Itoa 24, Itoa 25})"
proof -
  obtain v where v: "tl_version L (tps_minVersion spec) = Inr v" "VersionTLS12 \<le> v"
    using assms by (auto simp: tlsProfileSpecToProxyTLS_def Let_def split: if_splits sum.splits)
  then obtain curves where curves: "curvePreferenceIDs L (tps_groups spec) strict = Inr curves"
    using assms by (auto simp: tlsProfileSpecToProxyTLS_def Let_def split: if_splits sum.splits)
  show ?thesis
  proof (cases "v < VersionTLS13")
    case True
    with v curves assms obtain ciphers where c: "tls12CipherNames L (tps_ciphers spec) = Inr ciphers"
      by (auto simp: tlsProfileSpecToProxyTLS_def Let_def split: if_splits sum.splits)
    with v curves assms True have t: "t = \<lparr>ptls_Args = (tlsMinVersionFlag @ tps_minVersion spec) # (tlsCipherSuitesFlag @ string_join '','' ciphers) #
        (if curves = [] then [] else [curvePreferenceFlag curves]), ptls_CurvePreferences = curves\<rparr>"
      by (simp add: tlsProfileSpecToProxyTLS_def Let_def split: if_splits)
    show ?thesis
      using v tls12CipherNames_Inr[OF c] curvePreferenceIDs_fips[OF curves] unfolding t by auto
  next
    case False
    with v curves assms have "t = \<lparr>ptls_Args = (tlsMinVersionFlag @ tps_minVersion spec) #
        (if curves = [] then [] else [curvePreferenceFlag curves]), ptls_CurvePreferences = curves\<rparr>"
      by (simp add: tlsProfileSpecToProxyTLS_def Let_def split: if_splits)
    then show ?thesis
      using v False curvePreferenceIDs_fips[OF curves] by auto
  qed
qed

text \<open>
  C22. Whatever security profile the cluster has, the flags of the sidecar ask for TLS 1.2 at least. Below
  1.3 they list cipher suites, each the name of a suite that the runtime can negotiate in TLS 1.2, one
  of which HTTP/2 requires; under FIPS the curves are NIST's. Put into a container's arguments
  they replace the TLS flags there and keep every other argument, and putting them in again
  changes nothing.
\<close>

theorem sidecar_flags_tls12:
  assumes "resolveKubeRbacProxyTLS L profile adherence = Inr t"
  shows "(\<exists>version v rest. ptls_Args t = (tlsMinVersionFlag @ version) # rest \<and> tl_version L version = Inr v \<and> VersionTLS12 \<le> v \<and>
    (v < VersionTLS13 \<longrightarrow> (\<exists>ciphers. tlsCipherSuitesFlag @ string_join '','' ciphers \<in> set rest \<and> hasHTTP2RequiredCipher ciphers \<and>
       (\<forall>c \<in> set ciphers. tls12_suite c))) \<and>
    (tl_fips L \<longrightarrow> set (ptls_CurvePreferences t) \<subseteq> {Itoa 23, Itoa 24, Itoa 25})) \<and>
   (let merged = mergeKubeRbacProxyTLSArgs args (ptls_Args t) in
      filter kubeRbacProxyTLSFlag merged = ptls_Args t \<and>
      filter (\<lambda>a. \<not> kubeRbacProxyTLSFlag a) merged = filter (\<lambda>a. \<not> kubeRbacProxyTLSFlag a) args \<and>
      mergeKubeRbacProxyTLSArgs merged (ptls_Args t) = merged)"
proof -
  obtain spec strict where t: "tlsProfileSpecToProxyTLS L spec strict = Inr t"
    using assms by (auto simp: resolveKubeRbacProxyTLS_def intermediateKubeRbacProxyTLS_def split: if_splits option.splits sum.splits)
  have "filter kubeRbacProxyTLSFlag (ptls_Args t) = ptls_Args t" "filter (\<lambda>a. \<not> kubeRbacProxyTLSFlag a) (ptls_Args t) = []"
    using resolved_are_flags[OF assms] by (auto simp: list_all_iff filter_empty_conv)
  with profile_tls12[OF t] show ?thesis by (simp add: mergeKubeRbacProxyTLSArgs_def)
qed

theorem sidecar_flags_tls12_witness:
  "\<exists>t. resolveKubeRbacProxyTLS sample_tls None [] = Inr t \<and>
    (let merged = mergeKubeRbacProxyTLSArgs [''--v=0'', tlsMinVersionFlag @ ''VersionTLS12''] (ptls_Args t) in
      filter (\<lambda>a. \<not> kubeRbacProxyTLSFlag a) merged = [''--v=0''])"
proof -
  obtain t where t: "resolveKubeRbacProxyTLS sample_tls None [] = Inr t"
    using sample_flags by (auto simp: resolveKubeRbacProxyTLS_def)
  have "filter (\<lambda>a. \<not> kubeRbacProxyTLSFlag a) [''--v=0'', tlsMinVersionFlag @ ''VersionTLS12''] = [''--v=0'']"
    by (simp add: kubeRbacProxyTLSFlag_def go_consts HasPrefix_def)
  with sidecar_flags_tls12[OF t, of "[''--v=0'', tlsMinVersionFlag @ ''VersionTLS12'']"] t show ?thesis
    by (auto simp: Let_def)
qed

section \<open>What the reconciler writes\<close>

text \<open>The settings the answer about the cluster's API server resolves to.\<close>

definition settings_of :: "tlslib \<Rightarrow> response \<Rightarrow> goerr + kubeRbacProxyTLS" where
  "settings_of L resp = (case as_obj to_apiserver resp of
     Inl e \<Rightarrow> if openShiftAPIServerUnavailable e then intermediateKubeRbacProxyTLS L else Inl (Wrap ''reading APIServer TLS profile'' e)
   | Inr a \<Rightarrow> resolveKubeRbacProxyTLS L (as_profile a) (as_adherence a))"

text \<open>
  The change of a stored Notebook: where it runs, its pod stays, and only the note that an update
  is pending comes or goes; where it may be changed, the sidecar's arguments are merged with the
  flags, and only the note the reconciler itself left may go.
\<close>

definition tls_change :: "string list \<Rightarrow> notebook \<Rightarrow> notebook \<Rightarrow> bool" where
  "tls_change args cur nb \<longleftrightarrow> nb_key nb = nb_key cur \<and> nb_status nb = nb_status cur \<and>
     nb_podspec nb = nb_podspec (if notebookDefersPodTemplateChange cur then cur
       else edit_container ContainerNameKubeRbacProxy (\<lambda>c. c\<lparr>c_args := mergeKubeRbacProxyTLSArgs (c_args c) args\<rparr>) cur) \<and>
     (\<forall>k. k \<noteq> AnnotationUpdatePending \<longrightarrow> mlookup (nb_annotations nb) k = mlookup (nb_annotations cur) k) \<and>
     (nb_annotations nb = nb_annotations cur \<or> mget (nb_annotations cur) AnnotationUpdatePending \<in> {[], tlsUpdatePendingReason})"

definition tls_write :: "tlslib \<Rightarrow> notebook \<Rightarrow> effect set \<Rightarrow> request \<Rightarrow> bool" where
  "tls_write L nb A q \<longleftrightarrow> (\<exists>resp t cur nb'. q = RUpdate (ONotebook nb') \<and>
     Call (RGet KAPIServer ([], ''cluster'')) resp \<in> A \<and> settings_of L resp = Inr t \<and>
     Call (RGet KNotebook (nb_key nb)) (RespObj (ONotebook cur)) \<in> A \<and> tls_change (ptls_Args t) cur nb')"

interpretation tls: read_based "tls_write L nb"
  by unfold_locales (unfold tls_write_def, blast)

lemma update_first_cong_find:
  "(\<And>x. find p xs = Some x \<Longrightarrow> f x = g x) \<Longrightarrow> update_first p f xs = update_first p g xs"
  by (induction xs) auto

lemma clear_change:
  "nb_podspec (clearTLSUpdatePending nb) = nb_podspec nb" "nb_key (clearTLSUpdatePending nb) = nb_key nb"
  "nb_status (clearTLSUpdatePending nb) = nb_status nb"
  "k \<noteq> AnnotationUpdatePending \<Longrightarrow> mlookup (nb_annotations (clearTLSUpdatePending nb)) k = mlookup (nb_annotations nb) k"
  "nb_annotations (clearTLSUpdatePending nb) = nb_annotations nb \<or> mget (nb_annotations nb) AnnotationUpdatePending = tlsUpdatePendingReason"
  by (auto simp: clearTLSUpdatePending_def map_meta_def with_annotations_def mdelete_def mlookup_def meta_key_def split: option.splits)

lemma update_and_sync_writes:
  assumes "Call (RGet KAPIServer ([], ''cluster'')) resp \<in> A" "settings_of L resp = Inr t"
    and "Call (RGet KNotebook (nb_key nb)) (RespObj (ONotebook cur)) \<in> A" "tls_change (ptls_Args t) cur nb'"
  shows "justifies (tls_write L nb) A (update_and_sync E nb0 nb')"
  unfolding update_and_sync_def
  by (intro tls.checked tls.client tls.return) (use assms in \<open>unfold tls_write_def, blast\<close>)

lemma apply_tls_writes:
  assumes "Call (RGet KAPIServer ([], ''cluster'')) resp \<in> A" "settings_of L resp = Inr t"
  shows "justifies (tls_write L nb) A (apply_tls E (ptls_Args t) nb)"
  unfolding apply_tls_def
proof (rule tls.get_check)
  fix resp' cur assume "as_obj to_notebook resp' = Inr cur"
  then have cur: "resp' = RespObj (ONotebook cur)" by (auto simp: as_obj_Inr elim: to_notebook.elims)
  let ?A = "insert (Call (RGet KNotebook (nb_key nb)) resp') A"
  have W: "justifies (tls_write L nb) ?A (update_and_sync E nb nb')" if "tls_change (ptls_Args t) cur nb'" for nb'
    by (rule update_and_sync_writes[OF _ assms(2) _ that]) (use assms(1) cur in auto)
  have clear: "tls_change (ptls_Args t) cur (clearTLSUpdatePending cur)" if "notebookDefersPodTemplateChange cur"
    using that clear_change(4)[of _ cur] clear_change(5)[of cur] by (simp add: tls_change_def clear_change(1-3)) blast
  have mark: "tls_change (ptls_Args t) cur (map_meta (\<lambda>m. with_annotations (case m_annotations m of
        None \<Rightarrow> mlit [(AnnotationUpdatePending, tlsUpdatePendingReason)]
      | Some f \<Rightarrow> Some (fmupd AnnotationUpdatePending tlsUpdatePendingReason f)) m) cur)"
    if "notebookDefersPodTemplateChange cur" "mget (nb_annotations cur) AnnotationUpdatePending = []"
    using that by (auto simp: tls_change_def map_meta_def with_annotations_def mlookup_def mlit_def meta_key_def split: option.splits)
  have merged: "tls_change (ptls_Args t) cur (clearTLSUpdatePending (edit_container ContainerNameKubeRbacProxy
        (\<lambda>c. c\<lparr>c_args := mergeKubeRbacProxyTLSArgs (c_args c0) (ptls_Args t)\<rparr>) cur))"
    if "\<not> notebookDefersPodTemplateChange cur" "find (named ContainerNameKubeRbacProxy) (nb_containers cur) = Some c0" for c0
  proof -
    let ?e = "edit_container ContainerNameKubeRbacProxy (\<lambda>c. c\<lparr>c_args := mergeKubeRbacProxyTLSArgs (c_args c0) (ptls_Args t)\<rparr>) cur"
    have "?e = edit_container ContainerNameKubeRbacProxy (\<lambda>c. c\<lparr>c_args := mergeKubeRbacProxyTLSArgs (c_args c) (ptls_Args t)\<rparr>) cur"
      unfolding edit_container_def
      by (intro arg_cong2[where f = with_containers] update_first_cong_find refl) (use that(2) in simp)
    moreover have "nb_status ?e = nb_status cur" by (simp add: edit_container_def)
    ultimately show ?thesis
      using that(1) clear_change(4)[of _ ?e] clear_change(5)[of ?e] by (simp add: tls_change_def clear_change(1-3)) blast
  qed
  show "justifies (tls_write L nb) ?A (case find (named ContainerNameKubeRbacProxy) (nb_containers cur) of
       None \<Rightarrow> ok nb
     | Some c \<Rightarrow> (let updated = mergeKubeRbacProxyTLSArgs (c_args c) (ptls_Args t); argsMatch = (c_args c = updated) in
         if notebookDefersPodTemplateChange cur then deferRunningNotebookTLS E nb cur argsMatch
         else if argsMatch \<and> mget (nb_annotations cur) AnnotationUpdatePending \<noteq> tlsUpdatePendingReason
         then ok (syncReconciledNotebook nb cur)
         else update_and_sync E nb (clearTLSUpdatePending (edit_container ContainerNameKubeRbacProxy (\<lambda>c. c\<lparr>c_args := updated\<rparr>) cur))))"
    unfolding Let_def deferRunningNotebookTLS_def
    by (intro tls.cases tls.return W clear mark merged) auto
qed

lemma reconcileKubeRbacProxyTLS_writes: "justifies (tls_write L nb) A (reconcileKubeRbacProxyTLS E L nb)"
proof -
  have "justifies (tls_write L nb) A (loadKubeRbacProxyTLS E L \<bind> (\<lambda>r. case r of
      Inl e \<Rightarrow> fail (Wrap ''resolving kube-rbac-proxy TLS settings'' e)
    | Inr resolved \<Rightarrow> RetryOnConflict E ''DefaultRetry'' (apply_tls E (ptls_Args resolved) nb)))"
    unfolding loadKubeRbacProxyTLS_def State_Monad.bind_assoc State_Monad.bind_left_identity
  proof (rule tls.get_bind)
    fix resp
    have "justifies (tls_write L nb) (insert (Call (RGet KAPIServer ([], ''cluster'')) resp) A) (case settings_of L resp of
        Inl e \<Rightarrow> fail (Wrap ''resolving kube-rbac-proxy TLS settings'' e)
      | Inr resolved \<Rightarrow> RetryOnConflict E ''DefaultRetry'' (apply_tls E (ptls_Args resolved) nb))"
      by (intro tls.cases tls.return tls.retried_on_conflict apply_tls_writes) simp_all
    then show "justifies (tls_write L nb) (insert (Call (RGet KAPIServer ([], ''cluster'')) resp) A) (case (case as_obj to_apiserver resp of
        Inl e \<Rightarrow> if openShiftAPIServerUnavailable e then intermediateKubeRbacProxyTLS L else Inl (Wrap ''reading APIServer TLS profile'' e)
      | Inr a \<Rightarrow> resolveKubeRbacProxyTLS L (as_profile a) (as_adherence a)) of
        Inl e \<Rightarrow> fail (Wrap ''resolving kube-rbac-proxy TLS settings'' e)
      | Inr resolved \<Rightarrow> RetryOnConflict E ''DefaultRetry'' (apply_tls E (ptls_Args resolved) nb))"
      unfolding settings_of_def .
  qed
  then show ?thesis
    unfolding reconcileKubeRbacProxyTLS_def by (intro tls.cases tls.return)
qed

text \<open>
  C21. The reconciler does not restart a sidecar to change its flags. All it writes is an update of the
  Notebook as it was read, with the settings the cluster's answer resolves to: of a Notebook that
  runs (neither stopped nor marked for a restart) the pod stays as it is, of another one only the
  sidecar's arguments change; of the annotations only the note of a pending update may change,
  and a note someone else left there stays.
\<close>

theorem running_sidecar_deferred:
  assumes "run_state (reconcileKubeRbacProxyTLS E L nb) w = (r, w')" "trace w' = trace w @ es"
    and "Call q resp \<in> set es" "is_write q"
  shows "tls_write L nb (set es) q"
  by (rule justifies_trace[OF reconcileKubeRbacProxyTLS_writes assms])

definition proxied_notebook :: notebook where
  "proxied_notebook = with_containers [sample_container\<lparr>c_name := ContainerNameKubeRbacProxy\<rparr>] auth_notebook"

lemma proxied_simps [simp]:
  "nb_meta proxied_notebook = nb_meta auth_notebook"
  "nb_containers proxied_notebook = [sample_container\<lparr>c_name := ContainerNameKubeRbacProxy\<rparr>]"
  by (simp_all add: proxied_notebook_def)

theorem running_sidecar_deferred_witness:
  "\<exists>q resp. Call q resp \<in> set (trace (snd (run_state (reconcileKubeRbacProxyTLS sample_env sample_tls proxied_notebook)
       (sample_world [ONotebook proxied_notebook])))) \<and> is_write q \<and>
     tls_write sample_tls proxied_notebook (set (trace (snd (run_state (reconcileKubeRbacProxyTLS sample_env sample_tls proxied_notebook)
       (sample_world [ONotebook proxied_notebook]))))) q"
proof -
  let ?r = "run_state (reconcileKubeRbacProxyTLS sample_env sample_tls proxied_notebook) (sample_world [ONotebook proxied_notebook])"
  have auth: "KubeRbacProxyInjectionIsEnabled (nb_meta auth_notebook)"
    by (simp add: KubeRbacProxyInjectionIsEnabled_def sample_annotations mget_def ParseBool_def)
  obtain t where t: "intermediateKubeRbacProxyTLS sample_tls = Inr t" using sample_flags by blast
  have "ptls_Args t \<noteq> []"
    using t profile_tls12[of sample_tls _ False t] by (auto simp: intermediateKubeRbacProxyTLS_def split: option.splits)
  then have merge: "[] \<noteq> mergeKubeRbacProxyTLSArgs [] (ptls_Args t)" by (simp add: mergeKubeRbacProxyTLSArgs_def)
  have key: "obj_key (ONotebook proxied_notebook) = nb_key proxied_notebook" by (simp add: obj_key_def)
  have pending: "mget (mlit [(AnnotationInjectAuth, ''true'')]) AnnotationUpdatePending = []"
    by (simp add: mget_def sample_annotations) (simp add: go_consts)
  have "\<exists>x resp. Call (RUpdate x) resp \<in> set (trace (snd ?r))"
    using merge by (auto simp: reconcileKubeRbacProxyTLS_def auth loadKubeRbacProxyTLS_def client_defs openShiftAPIServerUnavailable_def
        IsNotFound_def t RetryOnConflict_def RetryOnError_def apply_tls_def key same_obj_def named_def Let_def
        notebookDefersPodTemplateChange_def deferRunningNotebookTLS_def pending update_and_sync_def sample_container_def)
  then obtain x resp where c: "Call (RUpdate x) resp \<in> set (trace (snd ?r))" by blast
  have "tls_write sample_tls proxied_notebook (set (trace (snd ?r))) (RUpdate x)"
    by (rule running_sidecar_deferred[OF prod.collapse[symmetric, of ?r] _ c]) simp_all
  with c show ?thesis by (intro exI[of _ "RUpdate x"] exI[of _ resp]) simp
qed

end
