(* ===== verification/GrantProps.thy ===== *)
theory GrantProps
  imports RouteProps
begin

text \<open>
  What the Notebook's service account is given: the RoleBinding of the MLflow integration and the
  Secret with the Elyra configuration, as the reconciler leaves them on the server.
\<close>

section \<open>The MLflow binding\<close>

definition mlflow_binding :: "notebook \<Rightarrow> objmeta \<Rightarrow> rolebinding" where
  "mlflow_binding nb m = (NewRoleBinding nb (mlflowRoleBindingName nb) ''ClusterRole'' MLflowClusterRoleName)\<lparr>rb_meta := m\<rparr>"

definition binding_as_desired :: "rolebinding \<Rightarrow> rolebinding \<Rightarrow> bool" where
  "binding_as_desired d b \<longleftrightarrow> rb_subjects d = rb_subjects b \<and> semantic_eq (m_labels (rb_meta d)) (m_labels (rb_meta b)) \<and>
     m_ownerRefs (rb_meta d) = m_ownerRefs (rb_meta b)"

definition same_binding :: "rolebinding \<Rightarrow> rolebinding \<Rightarrow> rolebinding" where
  "same_binding d b = b\<lparr>rb_subjects := rb_subjects d,
     rb_meta := (rb_meta b)\<lparr>m_labels := m_labels (rb_meta d), m_ownerRefs := m_ownerRefs (rb_meta d)\<rparr>\<rparr>"

lemma semantic_eq_refl [simp]: "semantic_eq a a"
  by (simp add: semantic_eq_def)

interpretation binding: repairable to_rolebinding ORoleBinding KRoleBinding "meta_key (rb_meta d)" "Inr d" "binding_as_desired d" "same_binding d" for d
  by unfold_locales (auto simp: binding_as_desired_def same_binding_def obj_key_def meta_key_def elim: to_rolebinding.elims)

lemma ReconcileMLflowRoleBinding_ensures:
  assumes "SetControllerReference E (nb_meta nb) (rb_meta (NewRoleBinding nb (mlflowRoleBindingName nb) ''ClusterRole'' MLflowClusterRoleName)) = Inr m"
  shows "ReconcileMLflowRoleBinding E nb = ensure_object E to_rolebinding ORoleBinding KRoleBinding (meta_key m)
    (Inr (mlflow_binding nb m)) (binding_as_desired (mlflow_binding nb m)) (same_binding (mlflow_binding nb m))"
proof -
  have start: "check (lift (Inr x)) f = f x" for x and f :: "'x \<Rightarrow> ('y, 'z) ehandler" by (simp add: check_def lift_def)
  show ?thesis
    unfolding ReconcileMLflowRoleBinding_def ensure_object_def Let_def assms start mlflow_binding_def
    by (intro arg_cong2[where f = "get_or E KRoleBinding to_rolebinding _"] refl ext)
       (auto simp: binding_as_desired_def same_binding_def)
qed

text \<open>The binding that gives the Notebook's service account, and nobody else, its role.\<close>

definition bound :: "notebook \<Rightarrow> kobj list \<Rightarrow> bool" where
  "bound nb s \<longleftrightarrow> (\<exists>b. stored KRoleBinding (nb_ns nb, mlflowRoleBindingName nb) s = Some (ORoleBinding b) \<and>
     rb_subjects b = [\<lparr>sj_kind = ''ServiceAccount'', sj_name = nb_name nb, sj_namespace = nb_ns nb\<rparr>] \<and>
     m_labels (rb_meta b) = mlit [(''notebook-name'', nb_name nb)] \<and> IsControlledBy (rb_meta b) (nb_meta nb))"

lemma mlflow_binding_triple:
  assumes "env_api E = mem_api" "setref_keeps E" "setref_controls E"
  shows "triple (\<lambda>_. True) (ReconcileMLflowRoleBinding E nb) (\<lambda>r s. r = Inr () \<longrightarrow> bound nb s)"
proof (cases "SetControllerReference E (nb_meta nb) (rb_meta (NewRoleBinding nb (mlflowRoleBindingName nb) ''ClusterRole'' MLflowClusterRoleName))")
  case (Inl e)
  then show ?thesis
    unfolding ReconcileMLflowRoleBinding_def Let_def by (auto intro!: triple_rules)
next
  case (Inr m)
  have m: "meta_key m = (nb_ns nb, mlflowRoleBindingName nb)" "m_labels m = mlit [(''notebook-name'', nb_name nb)]"
    using setref_keeps_meta[OF assms(2) Inr] by (simp_all add: meta_key_def) (simp add: NewRoleBinding_def)
  have c: "IsControlledBy m (nb_meta nb)"
    using assms(3) Inr by (auto simp: setref_controls_def SetControllerReference_def split: if_splits)
  have key: "meta_key (rb_meta (mlflow_binding nb m)) = meta_key m" by (simp add: mlflow_binding_def)
  have "bound nb s" if "stored KRoleBinding (meta_key m) s = Some (ORoleBinding b)" "binding_as_desired (mlflow_binding nb m) b" for s b
    unfolding bound_def
    by (rule exI[of _ b]) (use that m c in \<open>auto simp: binding_as_desired_def mlflow_binding_def NewRoleBinding_def semantic_eq_def
        mempty_def mlit_def IsControlledBy_def GetControllerOf_def\<close>)
  then show ?thesis
    unfolding ReconcileMLflowRoleBinding_ensures[OF Inr]
    by (intro triple_mono[OF binding.in_place[OF assms(1), of "mlflow_binding nb m", unfolded key]]) auto
qed

lemma any_triple: "triple P m (\<lambda>_ _. True)"
  by (simp add: triple_def)

lemma mlflow_triple:
  assumes "env_api E = mem_api" "setref_keeps E" "setref_controls E" "snd (getMLflowInstanceAnnotation nb)"
  shows "triple (\<lambda>_. True) (ReconcileMLflowIntegration E nb) (\<lambda>r s. r = Inr 0 \<longrightarrow> bound nb s)"
proof -
  have "triple (\<lambda>_. True) (check (ReconcileMLflowRoleBinding E nb) (\<lambda>_. ok 0)) (\<lambda>r s. r = Inr (0 :: int) \<longrightarrow> bound nb s)"
    by (rule triple_check[OF mlflow_binding_triple[OF assms(1-3)]]) (auto intro: triple_return)
  then show ?thesis
    unfolding ReconcileMLflowIntegration_def
    using assms(4) by (auto intro!: triple_check[OF any_triple] triple_cases triple_bind[OF any_triple] triple_return)
qed

text \<open>
  When the MLflow reconciliation of a Notebook with an MLflow instance is done (it asks for no
  requeue), on a server that keeps what it is given, the binding of the Notebook's name is stored, its
  only subject is the Notebook's own service account, and the Notebook controls it, whatever
  subjects, labels and owners were stored before.
\<close>

theorem mlflow_binding_in_place:
  assumes "env_api E = mem_api" "setref_keeps E" "setref_controls E" "snd (getMLflowInstanceAnnotation nb)"
    and "run_state (ReconcileMLflowIntegration E nb) w = (Inr 0, w')"
  shows "bound nb (server w')"
  using tripleD[OF mlflow_triple[OF assms(1-4)] assms(5)] by simp

definition mlflow_notebook :: notebook where
  "mlflow_notebook = map_meta (with_annotations (mlit [(MLflowInstanceAnnotation, ''mlflow'')])) sample_notebook"

definition mlflow_role :: kobj where
  "mlflow_role = OClusterRole (empty_meta\<lparr>m_name := MLflowClusterRoleName\<rparr>)"

lemma trim_mlflow: "TrimSpace ''mlflow'' = ''mlflow''"
  by code_simp

theorem mlflow_binding_in_place_witness:
  "bound mlflow_notebook (server (snd (run_state (ReconcileMLflowIntegration sample_env mlflow_notebook) (sample_world [mlflow_role]))))"
proof (rule mlflow_binding_in_place[OF _ _ _ _ run_fst])
  show "snd (getMLflowInstanceAnnotation mlflow_notebook)"
    by (simp add: getMLflowInstanceAnnotation_def mlflow_notebook_def map_meta_def mget_def mlit_def trim_mlflow)
  show "fst (run_state (ReconcileMLflowIntegration sample_env mlflow_notebook) (sample_world [mlflow_role])) = Inr 0"
    by (simp add: ReconcileMLflowIntegration_def getMLflowInstanceAnnotation_def mlflow_notebook_def map_meta_def mget_def mlit_def
        trim_mlflow mlflow_role_def checkRoleExists_def get_or_def client_defs same_obj_def obj_key_def meta_key_def empty_meta_def
        ReconcileMLflowRoleBinding_def create_tolerant_def IsNotFound_def SetControllerReference_def mem_setref_def Let_def
        sample_notebook_def with_annotations_def)
qed simp_all

section \<open>The Elyra Secret\<close>

definition secret_as_desired :: "secret \<Rightarrow> secret \<Rightarrow> bool" where
  "secret_as_desired d b \<longleftrightarrow> sec_data b = sec_data d \<and> mget (m_labels (sec_meta b)) managedByKey = managedByValue"

definition same_secret :: "secret \<Rightarrow> secret \<Rightarrow> secret" where
  "same_secret d b = b\<lparr>sec_meta := (sec_meta b)\<lparr>m_labels := m_labels (sec_meta d)\<rparr>, sec_data := sec_data d\<rparr>"

interpretation elyra: repairable to_secret OSecret KSecret "(ns, elyraRuntimeSecretName)" "Inr (elyra_secret ns owner json)"
    "secret_as_desired (elyra_secret ns owner json)" "same_secret (elyra_secret ns owner json)" for ns owner json
  by unfold_locales (auto simp: secret_as_desired_def same_secret_def elyra_secret_def obj_key_def meta_key_def mget_def mlit_def
      elim: to_secret.elims)

lemma sync_elyra_secret_ensures:
  "sync_elyra_secret E (elyra_secret ns owner json) = ensure_object E to_secret OSecret KSecret (ns, elyraRuntimeSecretName)
     (Inr (elyra_secret ns owner json)) (secret_as_desired (elyra_secret ns owner json)) (same_secret (elyra_secret ns owner json))"
proof -
  have key: "meta_key (sec_meta (elyra_secret ns owner json)) = (ns, elyraRuntimeSecretName)"
    by (simp add: elyra_secret_def meta_key_def)
  have start: "check (lift (Inr x)) f = f x" for x and f :: "'x \<Rightarrow> ('y, 'z) ehandler" by (simp add: check_def lift_def)
  show ?thesis
    unfolding sync_elyra_secret_def ensure_object_def get_or_def create_tolerant_def key start
    by (intro arg_cong2[where f = State_Monad.bind] refl ext)
       (auto simp: secret_as_desired_def same_secret_def split: sum.splits)
qed

text \<open>
  When the Elyra configuration of a namespace is synchronized with success, on a server that keeps what
  it is given, the Secret is stored with exactly the generated configuration and carries the label
  by which the webhook knows it for its own, whatever was stored under that name before.
\<close>

theorem elyra_secret_in_place:
  assumes "env_api E = mem_api" "run_state (sync_elyra_secret E (elyra_secret ns owner json)) w = (Inr (), w')"
  shows "\<exists>b. stored KSecret (ns, elyraRuntimeSecretName) (server w') = Some (OSecret b) \<and>
    sec_data b = mlit [(''odh_dsp.json'', json)] \<and> mget (m_labels (sec_meta b)) managedByKey = managedByValue"
  using tripleD[OF elyra.in_place[OF assms(1)] assms(2)[unfolded sync_elyra_secret_ensures]]
  by (auto simp: secret_as_desired_def elyra_secret_def)

theorem elyra_secret_in_place_witness:
  "\<exists>b. stored KSecret (''ns'', elyraRuntimeSecretName) (server (snd (run_state
      (sync_elyra_secret sample_env (elyra_secret ''ns'' empty_meta ''{}'')) (sample_world [])))) = Some (OSecret b) \<and>
    sec_data b = mlit [(''odh_dsp.json'', ''{}'')] \<and> mget (m_labels (sec_meta b)) managedByKey = managedByValue"
proof (rule elyra_secret_in_place[OF _ run_fst])
  show "fst (run_state (sync_elyra_secret sample_env (elyra_secret ''ns'' empty_meta ''{}'')) (sample_world [])) = Inr ()"
    by (simp add: sync_elyra_secret_def client_defs IsNotFound_def)
qed simp

end
