(* ===== verification/LegacyCuller.thy ===== *)
theory LegacyCuller
  imports Culling Samples
begin

text \<open>
  \<open>notebook-controller/pkg/culler/culler.go\<close>: the culling package from before the culling
  controller, kept as a library. It reads its settings from the environment at each call, and keeps
  one annotation only. The ODH controller takes the name of the stop annotation from here. JSON
  decoding of the two Jupyter answers is a parameter; \<open>None\<close> is the nil slice, of an error or of
  \<open>null\<close>. The names are prefixed with \<open>legacy\<close> where the culling controller has its own.
\<close>

record jupyter =
  jp_kernels :: "string \<Rightarrow> KernelStatus list option"
  jp_terminals :: "string \<Rightarrow> TerminalStatus list option"

section \<open>Settings\<close>

definition legacyEnvDefault :: "'s env \<Rightarrow> string \<Rightarrow> string \<Rightarrow> string" where
  "legacyEnvDefault E variable defaultVal =
     (let envVar = Getenv E variable in if length envVar = 0 then defaultVal else envVar)"

definition legacyCreateTimestamp :: "'s env \<Rightarrow> ('s, string) handler" where
  "legacyCreateTimestamp E = do { now \<leftarrow> Now E; return_h (time_Format now) }"

definition env_minutes :: "'s env \<Rightarrow> string \<Rightarrow> string \<Rightarrow> int64" where
  "env_minutes E variable defaultVal = (case Atoi (legacyEnvDefault E variable defaultVal) of
     Some n \<Rightarrow> word_of_int n
   | None \<Rightarrow> (case Atoi defaultVal of Some n \<Rightarrow> word_of_int n | None \<Rightarrow> 0))"

definition GetRequeueTime :: "'s env \<Rightarrow> int64" where
  "GetRequeueTime E = env_minutes E ''IDLENESS_CHECK_PERIOD'' DEFAULT_IDLENESS_CHECK_PERIOD * Minute"

definition getMaxIdleTime :: "'s env \<Rightarrow> int64" where
  "getMaxIdleTime E = Minute * env_minutes E ''CULL_IDLE_TIME'' DEFAULT_CULL_IDLE_TIME"

section \<open>The stop annotation\<close>

text \<open>\<open>meta\<close> is \<open>None\<close> for a nil pointer; \<open>metrics\<close> says whether there are metrics.\<close>

definition stamped :: "string \<Rightarrow> objmeta \<Rightarrow> objmeta" where
  "stamped t m = with_annotations (case m_annotations m of
     None \<Rightarrow> mlit [(STOP_ANNOTATION, t)] | Some a \<Rightarrow> Some (fmupd STOP_ANNOTATION t a)) m"

definition SetStopAnnotation :: "'s env \<Rightarrow> bool \<Rightarrow> objmeta option \<Rightarrow> ('s, objmeta option) handler" where
  "SetStopAnnotation E metrics meta = (case meta of
     None \<Rightarrow> return_h None
   | Some m \<Rightarrow> do {
       t \<leftarrow> Now E;
       let m1 = stamped (time_Format t) m;
       _ \<leftarrow> (if metrics then do {
         emit (Metric ''notebook_culling_total'' [m_namespace m, m_name m]);
         emit (Metric ''last_notebook_culling_timestamp_seconds'' [m_namespace m, m_name m])
       } else return_h ());
       return_h (Some (with_annotations (mdelete LAST_ACTIVITY_ANNOTATION (m_annotations m1)) m1))
     })"

definition legacyStopAnnotationIsSet :: "objmeta \<Rightarrow> bool" where
  "legacyStopAnnotationIsSet m \<longleftrightarrow> (case m_annotations m of
     None \<Rightarrow> False | Some a \<Rightarrow> (case fmlookup a STOP_ANNOTATION of Some _ \<Rightarrow> True | None \<Rightarrow> False))"

section \<open>The Jupyter API\<close>

definition legacy_url :: "'s env \<Rightarrow> string \<Rightarrow> string \<Rightarrow> string \<Rightarrow> string" where
  "legacy_url E nm ns resource = (
     let domain = legacyEnvDefault E ''CLUSTER_DOMAIN'' DEFAULT_CLUSTER_DOMAIN;
         url = ''http://'' @ nm @ ''.'' @ ns @ ''.svc.'' @ domain @ ''/notebook/'' @ ns @ ''/'' @ nm @ ''/api/'' @ resource
     in if legacyEnvDefault E ''DEV'' DEFAULT_DEV \<noteq> ''false''
        then ''http://localhost:8001/api/v1/namespaces/'' @ ns @ ''/services/'' @ nm @ '':http-'' @ nm @
             ''/proxy/notebook/'' @ ns @ ''/'' @ nm @ ''/api/'' @ resource
        else url)"

definition legacyResourceResponse :: "'s env \<Rightarrow> string \<Rightarrow> string \<Rightarrow> string \<Rightarrow> ('s, string option) handler" where
  "legacyResourceResponse E nm ns resource = do {
     resp \<leftarrow> http_get E (legacy_url E nm ns resource);
     return_h (case resp of None \<Rightarrow> None | Some (status, body) \<Rightarrow> if status \<noteq> 200 then None else Some body)
   }"

definition legacyApiKernels :: "'s env \<Rightarrow> jupyter \<Rightarrow> string \<Rightarrow> string \<Rightarrow> ('s, KernelStatus list option) handler" where
  "legacyApiKernels E J nm ns = do {
     resp \<leftarrow> legacyResourceResponse E nm ns ''kernels'';
     return_h (case resp of None \<Rightarrow> None | Some body \<Rightarrow> jp_kernels J (take (2 ^ 20) body))
   }"

definition legacyApiTerminals :: "'s env \<Rightarrow> jupyter \<Rightarrow> string \<Rightarrow> string \<Rightarrow> ('s, TerminalStatus list option) handler" where
  "legacyApiTerminals E J nm ns = do {
     resp \<leftarrow> legacyResourceResponse E nm ns ''terminals'';
     return_h (case resp of None \<Rightarrow> None | Some body \<Rightarrow> jp_terminals J (take (2 ^ 20) body))
   }"

section \<open>The last activity\<close>

text \<open>A nil slice is not idle; of a slice, every kernel is looked at until one is not idle.\<close>

fun kernels_idle :: "KernelStatus list \<Rightarrow> bool" where
  "kernels_idle [] = True"
| "kernels_idle (k # ks) = (if ks_executionState k \<noteq> KERNEL_EXECUTION_STATE_IDLE then False else kernels_idle ks)"

definition legacyAllKernelsAreIdle :: "KernelStatus list option \<Rightarrow> bool" where
  "legacyAllKernelsAreIdle kernels = (case kernels of None \<Rightarrow> False | Some ks \<Rightarrow> kernels_idle ks)"

fun later_of :: "string list \<Rightarrow> gotime \<Rightarrow> gotime option" where
  "later_of [] recentTime = Some recentTime"
| "later_of (x # xs) recentTime = (case time_Parse x of
     None \<Rightarrow> None
   | Some t \<Rightarrow> if After t recentTime then later_of xs t else later_of xs recentTime)"

definition legacyRecentTime :: "string list \<Rightarrow> goerr + string" where
  "legacyRecentTime t = (case t of
     [] \<Rightarrow> Inl (Panic ''index out of range'')
   | x # xs \<Rightarrow> Inr (case time_Parse x of None \<Rightarrow> []
       | Some recentTime \<Rightarrow> (case later_of xs recentTime of None \<Rightarrow> [] | Some r \<Rightarrow> time_Format r)))"

definition legacyCompare :: "objmeta \<Rightarrow> string \<Rightarrow> bool" where
  "legacyCompare m resourceTime = (
     case time_Parse (mget (m_annotations m) LAST_ACTIVITY_ANNOTATION) of None \<Rightarrow> False
   | Some annotationTime \<Rightarrow> (case time_Parse resourceTime of None \<Rightarrow> False
     | Some t \<Rightarrow> if After annotationTime t then False else True))"

text \<open>The end of both updates: whether the annotation was updated, and the metadata.\<close>

definition legacy_recent :: "string list \<Rightarrow> objmeta \<Rightarrow> goerr + bool \<times> objmeta" where
  "legacy_recent arr m = (case legacyRecentTime arr of
     Inl e \<Rightarrow> Inl e
   | Inr t \<Rightarrow>
       if t = [] \<or> \<not> legacyCompare m t then Inr (False, m)
       else map_sum id (\<lambda>m'. (True, m')) (set_annotation LAST_ACTIVITY_ANNOTATION t m))"

definition slice :: "'a list option \<Rightarrow> 'a list" where
  "slice xs = (case xs of None \<Rightarrow> [] | Some ys \<Rightarrow> ys)"

definition legacyKernelsActivity :: "'s env \<Rightarrow> KernelStatus list option \<Rightarrow> objmeta \<Rightarrow> ('s, bool \<times> objmeta) ehandler" where
  "legacyKernelsActivity E kernels m = (
     if length (slice kernels) = 0 then ok (False, m)
     else if \<not> legacyAllKernelsAreIdle kernels then do {
       t \<leftarrow> legacyCreateTimestamp E;
       check (lift (set_annotation LAST_ACTIVITY_ANNOTATION t m)) (\<lambda>m'. ok (True, m'))
     } else lift (legacy_recent (map ks_lastActivity (slice kernels)) m))"

definition legacyTerminalsActivity :: "TerminalStatus list option \<Rightarrow> objmeta \<Rightarrow> goerr + bool \<times> objmeta" where
  "legacyTerminalsActivity terminals m = (
     if length (slice terminals) = 0 then Inr (False, m)
     else legacy_recent (map ts_lastActivity (slice terminals)) m)"

definition UpdateNotebookLastActivityAnnotation ::
  "'s env \<Rightarrow> jupyter \<Rightarrow> objmeta option \<Rightarrow> ('s, bool \<times> objmeta option) ehandler" where
  "UpdateNotebookLastActivityAnnotation E J meta = (case meta of
     None \<Rightarrow> ok (False, None)
   | Some m \<Rightarrow>
       if mlookup (m_annotations m) LAST_ACTIVITY_ANNOTATION = None then do {
         t \<leftarrow> legacyCreateTimestamp E;
         check (lift (set_annotation LAST_ACTIVITY_ANNOTATION t (with_annotations (nonempty_map (m_annotations m)) m)))
           (\<lambda>m'. ok (True, Some m'))
       }
       else do {
         kernels \<leftarrow> legacyApiKernels E J (m_name m) (m_namespace m);
         terminals \<leftarrow> legacyApiTerminals E J (m_name m) (m_namespace m);
         (if kernels = None \<and> terminals = None then ok (False, Some m)
          else check (legacyKernelsActivity E kernels m) (\<lambda>(kernelsBool, m1).
               check (lift (legacyTerminalsActivity terminals m1)) (\<lambda>(terminalsBool, m2).
               ok (kernelsBool \<or> terminalsBool, Some m2))))
       })"

section \<open>Culling\<close>

definition legacyNotebookIsIdle :: "'s env \<Rightarrow> objmeta \<Rightarrow> ('s, bool) handler" where
  "legacyNotebookIsIdle E m = (
     if m_annotations m = None then return_h False
     else case time_Parse (mget (m_annotations m) LAST_ACTIVITY_ANNOTATION) of
       None \<Rightarrow> return_h False
     | Some lastActivity \<Rightarrow> do {
         now \<leftarrow> Now E;
         return_h (After now (time_Add lastActivity (getMaxIdleTime E)))
       })"

definition NotebookNeedsCulling :: "'s env \<Rightarrow> objmeta \<Rightarrow> ('s, bool) handler" where
  "NotebookNeedsCulling E m = (
     if legacyEnvDefault E ''ENABLE_CULLING'' DEFAULT_ENABLE_CULLING \<noteq> ''true'' then return_h False
     else if legacyStopAnnotationIsSet m then return_h False
     else legacyNotebookIsIdle E m)"

section \<open>Against the culling controller\<close>

text \<open>The library's copies of the controller's functions compute the same.\<close>

named_theorems legacy_copies

lemma legacyEnvDefault [legacy_copies]: "legacyEnvDefault = GetEnvDefault"
  by (rule ext)+ (simp add: legacyEnvDefault_def GetEnvDefault_def Let_def)

lemma legacyCreateTimestamp [legacy_copies]: "legacyCreateTimestamp = createTimestamp"
  by (rule ext) (simp add: legacyCreateTimestamp_def createTimestamp_def)

lemma legacyStopAnnotationIsSet [legacy_copies]: "legacyStopAnnotationIsSet = StopAnnotationIsSet"
  by (rule ext) (auto simp: legacyStopAnnotationIsSet_def StopAnnotationIsSet_def HasAnnotation_def mlookup_def split: option.splits)

lemma legacyResourceResponse [legacy_copies]: "legacyResourceResponse = getNotebookResourceResponse"
  by (rule ext)+ (simp add: legacyResourceResponse_def getNotebookResourceResponse_def legacy_url_def resource_url_def legacyEnvDefault Let_def)

lemma kernels_idle [legacy_copies]: "kernels_idle = allKernelsAreIdle"
proof
  show "kernels_idle ks = allKernelsAreIdle ks" for ks by (induction ks) (simp_all add: allKernelsAreIdle_def)
qed

lemma later_of: "later_of xs t = recent_loop t xs"
  by (induction xs arbitrary: t) (simp_all split: option.split)

lemma legacyRecentTime [legacy_copies]: "legacyRecentTime = getNotebookRecentTime"
  by (rule ext) (auto simp: legacyRecentTime_def later_of split: list.split option.split)

lemma legacyCompare [legacy_copies]: "legacyCompare = compareAnnotationTimeToResource"
  by (rule ext)+ (simp add: legacyCompare_def compareAnnotationTimeToResource_def split: option.split)

lemma legacy_recent [legacy_copies]: "legacy_recent = update_from_times"
  by (rule ext)+ (simp add: legacy_recent_def update_from_times_def legacyRecentTime legacyCompare split: sum.split)

lemma legacyTerminalsActivity: "legacyTerminalsActivity ts = updateTimestampFromTerminalsActivity (slice ts)"
  by (rule ext) (simp add: legacyTerminalsActivity_def updateTimestampFromTerminalsActivity_def legacy_recent)

lemma legacyKernelsActivity:
  "legacyKernelsActivity E (Some ks) m = check (updateTimestampFromKernelsActivity E ks m)
     (\<lambda>(b, m'). ok (b \<or> ks \<noteq> [] \<and> \<not> allKernelsAreIdle ks, m'))"
  by (rule state.expand, rule ext)
    (auto simp: legacyKernelsActivity_def updateTimestampFromKernelsActivity_def legacyAllKernelsAreIdle_def slice_def
      legacy_copies split: prod.splits sum.splits)

lemma initGlobalVars_idle:
  "initGlobalVars E C0 = Inr C \<Longrightarrow> CULL_IDLE_TIME C = env_minutes E ''CULL_IDLE_TIME'' DEFAULT_CULL_IDLE_TIME"
  "initGlobalVars E C0 = Inr C \<Longrightarrow> IDLENESS_CHECK_PERIOD C = env_minutes E ''IDLENESS_CHECK_PERIOD'' DEFAULT_IDLENESS_CHECK_PERIOD"
  "initGlobalVars E C0 = Inr C \<Longrightarrow>
     ENABLE_CULLING C = (ENABLE_CULLING C0 \<or> GetEnvDefault E ''ENABLE_CULLING'' DEFAULT_ENABLE_CULLING = ''true'')"
  by (auto simp: initGlobalVars_def env_minutes_def legacyEnvDefault Let_def split: option.splits if_splits)

text \<open>
  The library decides as the culling controller does: with settings read from the same
  environment, a Notebook needs culling exactly when culling is enabled and the controller finds
  it idle, and both ask to look again after the same time.
\<close>

theorem legacy_culler_agrees:
  assumes "initGlobalVars E C0 = Inr C" "\<not> ENABLE_CULLING C0"
  shows "NotebookNeedsCulling E m = (if ENABLE_CULLING C then notebookIsIdle E C m else return_h False) \<and>
    GetRequeueTime E = getRequeueTime C"
  using initGlobalVars_idle[OF assms(1)] assms(2)
  by (simp add: NotebookNeedsCulling_def legacy_copies legacyNotebookIsIdle_def notebookIsIdle_def StopAnnotationIsSet_def
      GetRequeueTime_def getRequeueTime_def getMaxIdleTime_def mult.commute cong: option.case_cong)

definition legacy_globals :: culler where
  "legacy_globals = \<lparr>CULL_IDLE_TIME = 0, IDLENESS_CHECK_PERIOD = 0, ENABLE_CULLING = False, CLUSTER_DOMAIN = [], DEV = False,
     cull_metrics = False, decode_kernels = (\<lambda>_. None), decode_terminals = (\<lambda>_. None)\<rparr>"

theorem legacy_culler_agrees_witness:
  "let C = projr (initGlobalVars sample_env legacy_globals); m = nb_meta sample_notebook in
   NotebookNeedsCulling sample_env m = (if ENABLE_CULLING C then notebookIsIdle sample_env C m else return_h False) \<and>
    GetRequeueTime sample_env = getRequeueTime C"
  unfolding Let_def
proof (rule legacy_culler_agrees)
  have "Atoi DEFAULT_IDLENESS_CHECK_PERIOD = Some 1" by code_simp
  then show "initGlobalVars sample_env legacy_globals = Inr (projr (initGlobalVars sample_env legacy_globals))"
    by (simp add: initGlobalVars_def GetEnvDefault_def Getenv_def Let_def)
qed (simp add: legacy_globals_def)

text \<open>
  What the library calls stopped stays so: after \<open>SetStopAnnotation\<close> the metadata has the
  stop annotation and no last activity, every other annotation is as it was, and the Notebook needs
  no culling, whatever the environment.
\<close>

theorem legacy_stop_is_final:
  "\<exists>m'. fst (run_state (SetStopAnnotation E metrics (Some m)) w) = Some m' \<and>
    HasAnnotation m' STOP_ANNOTATION \<and> \<not> HasAnnotation m' LAST_ACTIVITY_ANNOTATION \<and>
    (\<forall>k. k = STOP_ANNOTATION \<or> k = LAST_ACTIVITY_ANNOTATION \<or> mlookup (m_annotations m') k = mlookup (m_annotations m) k) \<and>
    m'\<lparr>m_annotations := m_annotations m\<rparr> = m \<and> NotebookNeedsCulling E' m' = return_h False"
proof -
  obtain t s where t: "env_clock E (server w) = (t, s)" by (cases "env_clock E (server w)")
  let ?m1 = "stamped (time_Format t) m"
  let ?m' = "with_annotations (mdelete LAST_ACTIVITY_ANNOTATION (m_annotations ?m1)) ?m1"
  have "fst (run_state (SetStopAnnotation E metrics (Some m)) w) = Some ?m'"
    by (simp add: SetStopAnnotation_def Let_def t split: prod.splits)
  moreover have "mlookup (m_annotations ?m') STOP_ANNOTATION = Some (time_Format t)"
    "mlookup (m_annotations ?m') LAST_ACTIVITY_ANNOTATION = None"
    by (simp_all add: stamped_def with_annotations_def mdelete_def mlit_def go_consts split: option.splits)
  moreover have "mlookup (m_annotations ?m') k = mlookup (m_annotations m) k"
    if "k \<noteq> STOP_ANNOTATION" "k \<noteq> LAST_ACTIVITY_ANNOTATION" for k
    using that by (simp add: stamped_def with_annotations_def mdelete_def mlit_def split: option.splits)
  moreover have "?m'\<lparr>m_annotations := m_annotations m\<rparr> = m"
    by (simp add: stamped_def with_annotations_def)
  ultimately show ?thesis
    by (intro exI[of _ ?m']) (auto simp: HasAnnotation_def NotebookNeedsCulling_def legacy_copies StopAnnotationIsSet_def)
qed

end
