(* ===== verification/TlsProfile.thy ===== *)
theory TlsProfile
  imports Kube GoCrypto "HOL-Library.List_Lexorder" "HOL-Library.Char_ord"
begin

text \<open>
  \<open>notebook-controller/pkg/tls\<close>: the TLS options of the notebook controller's servers, resolved
  from the security profile of the cluster (\<open>tls.go\<close>), and the watch that restarts the controller
  when the profile changes (\<open>watcher.go\<close>). What the dynamic client answers is an argument.
\<close>

section \<open>Cipher suites\<close>

definition openSSLToGoCipher :: "(string \<times> uint16) list" where
  "openSSLToGoCipher = [
     (''ECDHE-ECDSA-AES128-GCM-SHA256'', 0xc02b), (''ECDHE-RSA-AES128-GCM-SHA256'', 0xc02f),
     (''ECDHE-ECDSA-AES256-GCM-SHA384'', 0xc02c), (''ECDHE-RSA-AES256-GCM-SHA384'', 0xc030),
     (''ECDHE-ECDSA-CHACHA20-POLY1305-SHA256'', 0xcca9), (''ECDHE-RSA-CHACHA20-POLY1305-SHA256'', 0xcca8),
     (''ECDHE-ECDSA-CHACHA20-POLY1305'', 0xcca9), (''ECDHE-RSA-CHACHA20-POLY1305'', 0xcca8),
     (''ECDHE-ECDSA-AES128-SHA256'', 0xc023), (''ECDHE-RSA-AES128-SHA256'', 0xc027),
     (''ECDHE-ECDSA-AES128-SHA'', 0xc009), (''ECDHE-RSA-AES128-SHA'', 0xc013),
     (''ECDHE-ECDSA-AES256-SHA'', 0xc00a), (''ECDHE-RSA-AES256-SHA'', 0xc014),
     (''AES128-GCM-SHA256'', 0x009c), (''AES256-GCM-SHA384'', 0x009d),
     (''AES128-SHA256'', 0x003c), (''AES128-SHA'', 0x002f), (''AES256-SHA'', 0x0035),
     (''DES-CBC3-SHA'', 0x000a), (''ECDHE-RSA-DES-CBC3-SHA'', 0xc012)]"

definition oldProfileCiphers :: "string list" where
  "oldProfileCiphers = [
     ''TLS_AES_128_GCM_SHA256'', ''TLS_AES_256_GCM_SHA384'', ''TLS_CHACHA20_POLY1305_SHA256'',
     ''ECDHE-ECDSA-AES128-GCM-SHA256'', ''ECDHE-RSA-AES128-GCM-SHA256'', ''ECDHE-ECDSA-AES256-GCM-SHA384'',
     ''ECDHE-RSA-AES256-GCM-SHA384'', ''ECDHE-ECDSA-CHACHA20-POLY1305'', ''ECDHE-RSA-CHACHA20-POLY1305'',
     ''ECDHE-ECDSA-AES128-SHA256'', ''ECDHE-RSA-AES128-SHA256'', ''ECDHE-ECDSA-AES128-SHA'', ''ECDHE-RSA-AES128-SHA'',
     ''ECDHE-ECDSA-AES256-SHA'', ''ECDHE-RSA-AES256-SHA'', ''AES128-GCM-SHA256'', ''AES256-GCM-SHA384'',
     ''AES128-SHA256'', ''AES128-SHA'', ''AES256-SHA'', ''DES-CBC3-SHA'']"

definition intermediateCiphers :: "uint16 list" where
  "intermediateCiphers = [0xc02b, 0xc02f, 0xc02c, 0xc030, 0xcca9, 0xcca8]"

definition tlsVersionMap :: "(string \<times> uint16) list" where
  "tlsVersionMap = [(''VersionTLS10'', VersionTLS10), (''VersionTLS11'', VersionTLS11),
     (''VersionTLS12'', VersionTLS12), (''VersionTLS13'', VersionTLS13)]"

definition nextProtos :: "string list" where
  "nextProtos = [''h2'', ''http/1.1'']"

text \<open>The IDs the runtime can negotiate, without RC4.\<close>

definition runtime_suites :: "(string \<times> uint16) list" where
  "runtime_suites = CipherSuites @ filter (\<lambda>(name, _). \<not> Contains name ''RC4'') InsecureCipherSuites"

definition runtimeCipherIDs :: "uint16 \<Rightarrow> bool" where
  "runtimeCipherIDs i \<longleftrightarrow> list_ex (\<lambda>(_, j). j = i) runtime_suites"

text \<open>The map by name: later entries overwrite earlier ones.\<close>

definition cipherIDByName :: "string \<Rightarrow> uint16 option" where
  "cipherIDByName = map_of (rev (openSSLToGoCipher @ CipherSuites @ filter (\<lambda>(_, i). runtimeCipherIDs i) InsecureCipherSuites))"

definition isTLS13CipherSuite :: "uint16 \<Rightarrow> bool" where
  "isTLS13CipherSuite i \<longleftrightarrow> i \<ge> 0x1300 \<and> i \<le> 0x13ff"

definition usable_cipher :: "uint16 \<Rightarrow> string \<Rightarrow> uint16 option" where
  "usable_cipher minVersion name = (case cipherIDByName name of
     None \<Rightarrow> None
   | Some i \<Rightarrow> if runtimeCipherIDs i \<and> (minVersion \<ge> VersionTLS13 \<or> \<not> isTLS13CipherSuite i) then Some i else None)"

definition resolveCiphers :: "string list \<Rightarrow> uint16 \<Rightarrow> goerr + uint16 list" where
  "resolveCiphers names minVersion = (
     let ciphers = List.map_filter (usable_cipher minVersion) names in
     if ciphers = [] then Inl (Errorf ''none of the specified ciphers are supported by Go'') else Inr ciphers)"

section \<open>The profile\<close>

record customProfile =
  cp_ciphers :: "string list"
  cp_minTLSVersion :: string

record tlsSecurityProfile =
  sp_type :: string
  sp_custom :: "customProfile option"

definition parseCustomProfile :: "customProfile \<Rightarrow> goerr + uint16 \<times> uint16 list" where
  "parseCustomProfile custom = (case map_of tlsVersionMap (cp_minTLSVersion custom) of
     None \<Rightarrow> Inl (Errorf (''unknown minTLSVersion '' @ dquoted (cp_minTLSVersion custom) @ '' in custom TLS profile''))
   | Some minVersion \<Rightarrow>
       if minVersion \<ge> VersionTLS13 then Inr (minVersion, [])
       else if cp_ciphers custom = []
       then Inl (Errorf ''custom TLS profile has no cipher suites for minimum TLS version below 1.3'')
       else map_sum id (\<lambda>ciphers. (minVersion, ciphers)) (resolveCiphers (cp_ciphers custom) minVersion))"

text \<open>The minimum version and the cipher suites; no suites is Go's nil, which leaves the choice to Go.\<close>

definition parseProfile :: "tlsSecurityProfile option \<Rightarrow> goerr + uint16 \<times> uint16 list" where
  "parseProfile profile = (
     let intermediate = Inr (VersionTLS12, intermediateCiphers) in
     case profile of
       None \<Rightarrow> intermediate
     | Some p \<Rightarrow>
         if sp_type p = [] then intermediate
         else if sp_type p = ''Intermediate'' then intermediate
         else if sp_type p = ''Modern'' then Inr (VersionTLS13, [])
         else if sp_type p = ''Old''
         then map_sum id (\<lambda>ciphers. (VersionTLS10, ciphers)) (resolveCiphers oldProfileCiphers VersionTLS10)
         else if sp_type p = ''Custom''
         then (case sp_custom p of
            None \<Rightarrow> Inl (Errorf ''custom TLS profile type specified but custom block is nil'')
          | Some c \<Rightarrow> parseCustomProfile c)
         else intermediate)"

section \<open>Decoding\<close>

text \<open>
  \<open>json.Unmarshal\<close> of the re-marshalled value into the struct: the keys come sorted, a key names a
  field up to case folding, null leaves a field as it is (nil for a pointer or a slice), other
  keys are ignored, and a value of the wrong type is an error.
\<close>

fun fold_case :: "string \<Rightarrow> string" where
  "fold_case [] = []"
| "fold_case (c # d # e # s) =
     (if [c, d] = [CHR 0xC5, CHR 0xBF] then CHR ''s'' # fold_case (e # s)
      else if [c, d, e] = [CHR 0xE2, CHR 0x84, CHR 0xAA] then CHR ''k'' # fold_case s
      else lower_char c # fold_case (d # e # s))"
| "fold_case [c, d] = (if [c, d] = [CHR 0xC5, CHR 0xBF] then ''s'' else [lower_char c, lower_char d])"
| "fold_case [c] = [lower_char c]"

definition field_of :: "string \<Rightarrow> string \<Rightarrow> bool" where
  "field_of name key \<longleftrightarrow> fold_case key = fold_case name"

definition decode_string :: "jvalue \<Rightarrow> string \<Rightarrow> goerr + string" where
  "decode_string v old = (case v of JStr s \<Rightarrow> Inr s | JNull \<Rightarrow> Inr old | _ \<Rightarrow> Inl (Errorf ''json: cannot unmarshal into string''))"

fun decode_strings :: "jvalue list \<Rightarrow> goerr + string list" where
  "decode_strings [] = Inr []"
| "decode_strings (v # vs) = (case decode_string v [] of Inl e \<Rightarrow> Inl e
     | Inr s \<Rightarrow> map_sum id (\<lambda>ss. s # ss) (decode_strings vs))"

text \<open>The entries of an object in the order they are decoded.\<close>

definition entries :: "(string, jvalue) fmap \<Rightarrow> (string \<times> jvalue) list" where
  "entries f = map (\<lambda>k. (k, case fmlookup f k of Some v \<Rightarrow> v | None \<Rightarrow> JNull)) (sorted_list_of_fset (fmdom f))"

fun decode_custom :: "(string \<times> jvalue) list \<Rightarrow> customProfile \<Rightarrow> goerr + customProfile" where
  "decode_custom [] c = Inr c"
| "decode_custom ((k, v) # kvs) c = (
     if field_of ''ciphers'' k then (case v of
         JNull \<Rightarrow> decode_custom kvs (c\<lparr>cp_ciphers := []\<rparr>)
       | JList vs \<Rightarrow> (case decode_strings vs of Inl e \<Rightarrow> Inl e | Inr ss \<Rightarrow> decode_custom kvs (c\<lparr>cp_ciphers := ss\<rparr>))
       | _ \<Rightarrow> Inl (Errorf ''json: cannot unmarshal into []string''))
     else if field_of ''minTLSVersion'' k then (case decode_string v (cp_minTLSVersion c) of
         Inl e \<Rightarrow> Inl e | Inr s \<Rightarrow> decode_custom kvs (c\<lparr>cp_minTLSVersion := s\<rparr>))
     else decode_custom kvs c)"

definition zero_custom :: customProfile where
  "zero_custom = \<lparr>cp_ciphers = [], cp_minTLSVersion = []\<rparr>"

fun decode_profile :: "(string \<times> jvalue) list \<Rightarrow> tlsSecurityProfile \<Rightarrow> goerr + tlsSecurityProfile" where
  "decode_profile [] p = Inr p"
| "decode_profile ((k, v) # kvs) p = (
     if field_of ''type'' k then (case decode_string v (sp_type p) of
         Inl e \<Rightarrow> Inl e | Inr s \<Rightarrow> decode_profile kvs (p\<lparr>sp_type := s\<rparr>))
     else if field_of ''custom'' k then (case v of
         JNull \<Rightarrow> decode_profile kvs (p\<lparr>sp_custom := None\<rparr>)
       | JMap f \<Rightarrow> (case decode_custom (entries f) (case sp_custom p of None \<Rightarrow> zero_custom | Some c \<Rightarrow> c) of
           Inl e \<Rightarrow> Inl e | Inr c \<Rightarrow> decode_profile kvs (p\<lparr>sp_custom := Some c\<rparr>))
       | _ \<Rightarrow> Inl (Errorf ''json: cannot unmarshal into struct''))
     else decode_profile kvs p)"

definition unmarshal_profile :: "jvalue \<Rightarrow> goerr + tlsSecurityProfile" where
  "unmarshal_profile v = (
     let zero = \<lparr>sp_type = [], sp_custom = None\<rparr> in
     case v of JNull \<Rightarrow> Inr zero
     | JMap f \<Rightarrow> decode_profile (entries f) zero
     | _ \<Rightarrow> Inl (Errorf ''json: cannot unmarshal into struct''))"

definition extractTLSProfile :: "(string, jvalue) fmap \<Rightarrow> goerr + tlsSecurityProfile option" where
  "extractTLSProfile obj = (case fmlookup obj ''spec'' of
     Some (JMap spec) \<Rightarrow> (case fmlookup spec ''tlsSecurityProfile'' of
         None \<Rightarrow> Inr None
       | Some JNull \<Rightarrow> Inr None
       | Some raw \<Rightarrow> (case unmarshal_profile raw of
           Inl e \<Rightarrow> Inl (Wrap ''unmarshaling tlsSecurityProfile'' e)
         | Inr p \<Rightarrow> Inr (Some p)))
   | _ \<Rightarrow> Inr None)"

section \<open>Resolving\<close>

record tls_config =
  MinVersion :: uint16
  tc_CipherSuites :: "uint16 list"
  tc_NextProtos :: "string list"

text \<open>
  An \<open>interface{}\<close> that holds a raw profile: \<open>None\<close> is the nil interface, \<open>Some None\<close> a nil
  map, which \<open>reflect.DeepEqual\<close> tells apart.
\<close>

type_synonym rawprofile = "(string, jvalue) fmap option option"

record tls_result =
  TLSOpts :: "(tls_config \<Rightarrow> tls_config) list"
  APIAvailable :: bool
  RawProfile :: rawprofile

text \<open>\<open>unstructured.NestedMap(obj, "spec", "tlsSecurityProfile")\<close>, the error dropped.\<close>

definition raw_profile :: "(string, jvalue) fmap \<Rightarrow> rawprofile" where
  "raw_profile obj = Some (case fmlookup obj ''spec'' of
     Some (JMap spec) \<Rightarrow> (case fmlookup spec ''tlsSecurityProfile'' of Some (JMap f) \<Rightarrow> Some f | _ \<Rightarrow> None)
   | _ \<Rightarrow> None)"

definition intermediateWithALPN :: "tls_config \<Rightarrow> tls_config" where
  "intermediateWithALPN c = c\<lparr>MinVersion := VersionTLS12, tc_CipherSuites := intermediateCiphers, tc_NextProtos := nextProtos\<rparr>"

definition profile_option :: "uint16 \<Rightarrow> uint16 list \<Rightarrow> tls_config \<Rightarrow> tls_config" where
  "profile_option minVersion ciphers c = (
     let c1 = c\<lparr>MinVersion := minVersion\<rparr>;
         c2 = (if ciphers \<noteq> [] then c1\<lparr>tc_CipherSuites := ciphers\<rparr> else c1)
     in c2\<lparr>tc_NextProtos := nextProtos\<rparr>)"

definition transient :: "goerr \<Rightarrow> bool" where
  "transient e \<longleftrightarrow> (case err_reason e of None \<Rightarrow> False
     | Some r \<Rightarrow> r \<in> {ServiceUnavailable, Timeout, ServerTimeout, TooManyRequests, DeadlineExceeded})"

definition resolveFrom :: "goerr + (string, jvalue) fmap \<Rightarrow> goerr + tls_result" where
  "resolveFrom resp = (case resp of
     Inl e \<Rightarrow>
       let defaults = (\<lambda>available. Inr \<lparr>TLSOpts = [intermediateWithALPN], APIAvailable = available, RawProfile = None\<rparr>) in
       if IsNoMatchError e then defaults False
       else if IsNotFound e then defaults False
       else if transient e then defaults True
       else Inl (Wrap ''reading APIServer TLS profile'' e)
   | Inr obj \<Rightarrow> (case extractTLSProfile obj of
         Inl e \<Rightarrow> Inl (Wrap ''parsing TLS profile from APIServer'' e)
       | Inr profile \<Rightarrow> (case parseProfile profile of
           Inl e \<Rightarrow> Inl (Wrap ''resolving TLS profile'' e)
         | Inr (minVersion, ciphers) \<Rightarrow> Inr \<lparr>TLSOpts = [profile_option minVersion ciphers],
             APIAvailable = True, RawProfile = raw_profile obj\<rparr>)))"

definition Resolve :: "goerr + unit \<Rightarrow> goerr + (string, jvalue) fmap \<Rightarrow> goerr + tls_result" where
  "Resolve dynClient resp = (case dynClient of
     Inl e \<Rightarrow> Inl (Wrap ''creating dynamic client for TLS profile'' e)
   | Inr _ \<Rightarrow> resolveFrom resp)"

section \<open>The watcher\<close>

record ProfileWatcher =
  lastProfile :: rawprofile
  has_onProfileChange :: bool

text \<open>\<open>main\<close> sets the watcher up where the API is available.\<close>

definition NewProfileWatcher :: "rawprofile \<Rightarrow> ProfileWatcher" where
  "NewProfileWatcher initial = \<lparr>lastProfile = initial, has_onProfileChange = True\<rparr>"

definition start_watcher :: "tls_result \<Rightarrow> ProfileWatcher option" where
  "start_watcher r = (if APIAvailable r then Some (NewProfileWatcher (RawProfile r)) else None)"

text \<open>Whether the callback ran, the seconds after which to look again, and the watcher.\<close>

definition ProfileReconcile :: "goerr + unit \<Rightarrow> goerr + (string, jvalue) fmap \<Rightarrow> ProfileWatcher \<Rightarrow>
    bool \<times> int option \<times> ProfileWatcher" where
  "ProfileReconcile dynClient resp w = (case dynClient of
     Inl _ \<Rightarrow> (False, Some 5, w)
   | Inr _ \<Rightarrow> (case resp of
       Inl _ \<Rightarrow> (False, Some 5, w)
     | Inr obj \<Rightarrow>
         if lastProfile w \<noteq> raw_profile obj
         then (has_onProfileChange w, None, w\<lparr>lastProfile := raw_profile obj\<rparr>)
         else (False, None, w)))"

definition apiserverName :: string where [go_consts]: "apiserverName = ''cluster''"

datatype profile_event = ProfileCreated string | ProfileUpdated string | ProfileDeleted string | ProfileGeneric string

fun watches_event :: "profile_event \<Rightarrow> bool" where
  "watches_event (ProfileCreated name) \<longleftrightarrow> name = apiserverName"
| "watches_event (ProfileUpdated name) \<longleftrightarrow> name = apiserverName"
| "watches_event _ \<longleftrightarrow> False"

end
