(* ===== verification/TlsBootstrap.thy ===== *)
theory TlsBootstrap
  imports TlsProfile ProxyTls
begin

text \<open>
  The start of the ODH controller (\<open>odh-notebook-controller/main.go\<close>): its namespace, its settings
  and the TLS policy of its servers. What the cluster answers, and \<open>library-go\<close> and the platform
  packages, are the parameters \<open>tlslib\<close> and \<open>bootlib\<close>.
\<close>

record bootlib =
  bl_profile :: "goerr + tlsprofilespec"
  bl_adherence :: "goerr + string"
  bl_honor :: "string \<Rightarrow> bool"
  bl_config :: "tlsprofilespec \<Rightarrow> tls_config \<Rightarrow> tls_config"

section \<open>Settings\<close>

text \<open>\<open>file\<close> is the content of the service account's namespace file, \<open>None\<close> if it cannot be read.\<close>

definition getControllerNamespace :: "'s env \<Rightarrow> string option \<Rightarrow> goerr + string" where
  "getControllerNamespace E file = (
     let unknown = Inl (Errorf ''unable to determine the namespace'') in
     case file of
       Some ns \<Rightarrow> if ns \<noteq> [] then Inr ns else unknown
     | None \<Rightarrow> if Getenv E ''K8S_NAMESPACE'' \<noteq> [] then Inr (Getenv E ''K8S_NAMESPACE'') else unknown)"

record settings =
  set_namespace :: string
  set_mlflowEnabled :: bool
  set_gatewayURL :: string
  set_proxyImage :: string

text \<open>What \<open>main\<close> hands to the reconciler and the webhook.\<close>

definition odh_settings :: "'s env \<Rightarrow> string \<Rightarrow> string \<Rightarrow> settings" where
  "odh_settings E ns img = \<lparr>set_namespace = ns,
     set_mlflowEnabled = (ToLower (TrimSpace (Getenv E ''MLFLOW_ENABLED'')) = ''true''),
     set_gatewayURL = TrimSpace (Getenv E ''GATEWAY_URL''), set_proxyImage = img\<rparr>"

section \<open>The profile\<close>

text \<open>The package's own tables.\<close>

definition odhIntermediateCiphers :: "uint16 list" where
  "odhIntermediateCiphers = [0xc02b, 0xc02f, 0xc02c, 0xc030, 0xcca9, 0xcca8]"

definition odhNextProtos :: "string list" where
  "odhNextProtos = [''h2'', ''http/1.1'']"

definition odhRuntimeCipherIDs :: "uint16 \<Rightarrow> bool" where
  "odhRuntimeCipherIDs i \<longleftrightarrow> list_ex (\<lambda>(_, j). j = i) CipherSuites \<or>
     list_ex (\<lambda>(name, j). \<not> Contains name ''RC4'' \<and> j = i) InsecureCipherSuites"

definition cipherUsableForTLS12 :: "tlslib \<Rightarrow> string \<Rightarrow> bool" where
  "cipherUsableForTLS12 L name = (
     let usable = (\<lambda>i. (i < 0x1300 \<or> i > 0x13ff) \<and> odhRuntimeCipherIDs i) in
     case tl_cipherSuite L name of
       Some i \<Rightarrow> usable i
     | None \<Rightarrow> (case tl_openssl L name of
           [iana] \<Rightarrow> (case tl_cipherSuite L iana of None \<Rightarrow> False | Some i \<Rightarrow> usable i)
         | _ \<Rightarrow> False))"

definition validateProfileSpec :: "tlslib \<Rightarrow> bootlib \<Rightarrow> tlsprofilespec \<Rightarrow> string \<Rightarrow> bool \<Rightarrow> goerr + tlsprofilespec" where
  "validateProfileSpec L B profile policy policyRead = (
     if tps_minVersion profile = [] then Inl (Errorf ''TLS profile minimum version must be set'')
     else case tl_version L (tps_minVersion profile) of
       Inl e \<Rightarrow> Inl (Wrap (''invalid minimum TLS version '' @ dquoted (tps_minVersion profile)) e)
     | Inr minVersion \<Rightarrow>
         if minVersion \<ge> VersionTLS13 then Inr profile
         else if tps_ciphers profile = [] then
           (if \<not> policyRead then Inl (Errorf (''TLS profile has no cipher suites for minimum TLS version below 1.3 '' @
              ''because adherence policy could not be read''))
            else if bl_honor B policy then Inl (Errorf (''TLS profile has no cipher suites for minimum TLS version '' @
              ''below 1.3 under adherence policy '' @ dquoted policy))
            else Inr profile)
         else let usable = filter (cipherUsableForTLS12 L) (tps_ciphers profile) in
           if usable = []
           then Inl (Errorf (''no cipher suite usable with minimum TLS version '' @ dquoted (tps_minVersion profile)))
           else if length usable < length (tps_ciphers profile) then Inr (profile\<lparr>tps_ciphers := usable\<rparr>)
           else Inr profile)"

section \<open>The bootstrap\<close>

record tlsBootstrap =
  tb_opts :: "(tls_config \<Rightarrow> tls_config) list"
  tb_profile :: tlsprofilespec
  hasOpenShiftConfigAPI :: bool
  tb_adherence :: string
  adherenceFetched :: bool
  adherencePolicyRead :: bool

definition isTransientAPIError :: "goerr \<Rightarrow> bool" where
  "isTransientAPIError e \<longleftrightarrow> (case err_reason e of None \<Rightarrow> False
     | Some r \<Rightarrow> r = ServiceUnavailable \<or> r = Timeout \<or> r = ServerTimeout \<or> r = TooManyRequests \<or> r = DeadlineExceeded)"

definition fetchTLSAdherence :: "bootlib \<Rightarrow> tlsBootstrap \<Rightarrow> goerr + tlsBootstrap" where
  "fetchTLSAdherence B boot = (case bl_adherence B of
     Inl e \<Rightarrow>
       if IsNoMatchError e then Inr boot
       else if IsNotFound e then Inr boot
       else if isTransientAPIError e then Inr (boot\<lparr>adherenceFetched := True\<rparr>)
       else Inl (Wrap ''reading APIServer TLS adherence policy'' e)
   | Inr adherence \<Rightarrow>
       Inr (boot\<lparr>adherenceFetched := True, tb_adherence := adherence, adherencePolicyRead := True\<rparr>))"

definition zero_boot :: tlsBootstrap where
  "zero_boot = \<lparr>tb_opts = [], tb_profile = \<lparr>tps_ciphers = [], tps_groups = [], tps_minVersion = []\<rparr>,
     hasOpenShiftConfigAPI = False, tb_adherence = [], adherenceFetched = False, adherencePolicyRead = False\<rparr>"

definition hardened_defaults :: "tls_config \<Rightarrow> tls_config" where
  "hardened_defaults c = c\<lparr>MinVersion := VersionTLS12, tc_CipherSuites := odhIntermediateCiphers, tc_NextProtos := odhNextProtos\<rparr>"

definition with_alpn :: "tls_config \<Rightarrow> tls_config" where
  "with_alpn c = c\<lparr>tc_NextProtos := odhNextProtos\<rparr>"

definition boot_profile :: "bootlib \<Rightarrow> goerr + tlsBootstrap" where
  "boot_profile B = (case bl_profile B of
     Inl e \<Rightarrow>
       let defaults = (\<lambda>boot. Inr (boot\<lparr>tb_opts := [hardened_defaults]\<rparr>)) in
       if IsNoMatchError e then defaults zero_boot
       else if IsNotFound e then defaults zero_boot
       else if isTransientAPIError e then defaults (zero_boot\<lparr>hasOpenShiftConfigAPI := True\<rparr>)
       else Inl (Wrap ''reading APIServer TLS profile'' e)
   | Inr profile \<Rightarrow> Inr (zero_boot\<lparr>hasOpenShiftConfigAPI := True, tb_profile := profile\<rparr>))"

definition bootstrapTLS :: "tlslib \<Rightarrow> bootlib \<Rightarrow> goerr + tlsBootstrap" where
  "bootstrapTLS L B = (case boot_profile B of
     Inl e \<Rightarrow> Inl e
   | Inr boot0 \<Rightarrow> (case (if hasOpenShiftConfigAPI boot0 then fetchTLSAdherence B boot0 else Inr boot0) of
       Inl e \<Rightarrow> Inl e
     | Inr boot \<Rightarrow> (case bl_profile B of
         Inl _ \<Rightarrow> Inr boot
       | Inr profile \<Rightarrow> (case validateProfileSpec L B profile (tb_adherence boot) (adherencePolicyRead boot) of
           Inl e \<Rightarrow> Inl (Wrap ''validating TLS profile'' e)
         | Inr validated \<Rightarrow> Inr (boot\<lparr>tb_opts := tb_opts boot @ [bl_config B validated, with_alpn]\<rparr>)))))"

text \<open>The watcher \<open>main\<close> registers: the profile and the policy it compares with.\<close>

definition security_watcher :: "tlsBootstrap \<Rightarrow> (tlsprofilespec \<times> string) option" where
  "security_watcher boot = (if hasOpenShiftConfigAPI boot
     then Some (tb_profile boot, if adherenceFetched boot then tb_adherence boot else []) else None)"

end
