(* ===== verification/TlsProps.thy ===== *)
theory TlsProps
  imports TlsBootstrap
begin

text \<open>
  The properties of the TLS start-up of both controllers: a server that starts offers only
  suites that can be negotiated, unknown postures stop the start, and profile changes restart.
\<close>

section \<open>The notebook controller\<close>

lemma no_rc4_in_secure: "list_all (\<lambda>(n, _). \<not> Contains n ''RC4'') CipherSuites"
  by code_simp

lemma runtime_not_rc4:
  "runtimeCipherIDs i \<Longrightarrow> \<exists>n. (n, i) \<in> set (CipherSuites @ InsecureCipherSuites) \<and> \<not> Contains n ''RC4''"
  using no_rc4_in_secure by (fastforce simp: runtimeCipherIDs_def runtime_suites_def list_ex_iff list_all_iff)

text \<open>A suite the runtime implements, other than RC4, and that a handshake below TLS 1.3 can negotiate.\<close>

definition negotiable :: "uint16 \<Rightarrow> bool" where
  "negotiable i \<longleftrightarrow> (\<exists>n. (n, i) \<in> set (CipherSuites @ InsecureCipherSuites) \<and> \<not> Contains n ''RC4'') \<and> \<not> isTLS13CipherSuite i"

lemma negotiableI: "runtimeCipherIDs i \<Longrightarrow> \<not> isTLS13CipherSuite i \<Longrightarrow> negotiable i"
  using runtime_not_rc4[of i] by (simp add: negotiable_def)

lemma intermediate_runtime: "list_all (\<lambda>i. runtimeCipherIDs i \<and> \<not> isTLS13CipherSuite i) intermediateCiphers"
  by code_simp

lemma intermediate_negotiable: "list_all negotiable intermediateCiphers"
  using intermediate_runtime by (auto simp: list_all_iff intro: negotiableI)

lemma resolveCiphers_negotiable:
  assumes "resolveCiphers names v = Inr cs" "v < VersionTLS13"
  shows "cs \<noteq> [] \<and> list_all negotiable cs"
proof -
  have "negotiable i" if "usable_cipher v n = Some i" for n i
    using that assms(2) by (auto simp: usable_cipher_def intro!: negotiableI split: option.splits if_splits)
  moreover have "cs = List.map_filter (usable_cipher v) names" "cs \<noteq> []"
    using assms(1) by (auto simp: resolveCiphers_def Let_def split: if_splits)
  ultimately show ?thesis by (auto simp: list_all_iff List.map_filter_def)
qed

definition versions :: "uint16 list" where
  "versions = [VersionTLS10, VersionTLS11, VersionTLS12, VersionTLS13]"

definition sound_choice :: "uint16 \<times> uint16 list \<Rightarrow> bool" where
  "sound_choice = (\<lambda>(v, cs). v \<in> set versions \<and>
     (if v < VersionTLS13 then cs \<noteq> [] \<and> list_all negotiable cs else cs = []))"

lemma intermediate_sound: "sound_choice (VersionTLS12, intermediateCiphers)"
  using intermediate_negotiable
  by (simp add: sound_choice_def versions_def tls_versions intermediateCiphers_def)

lemma chosen_sound:
  assumes "map_sum id (\<lambda>cs. (v, cs)) (resolveCiphers names v) = Inr x" "v \<in> set versions" "v < VersionTLS13"
  shows "sound_choice x"
  using assms by (cases "resolveCiphers names v") (auto simp: sound_choice_def dest: resolveCiphers_negotiable)

lemma parseCustomProfile_sound:
  assumes "parseCustomProfile c = Inr x"
  shows "sound_choice x"
proof -
  obtain v where v: "map_of tlsVersionMap (cp_minTLSVersion c) = Some v"
    using assms by (auto simp: parseCustomProfile_def split: option.splits)
  then have "v \<in> set versions"
    by (auto simp: tlsVersionMap_def versions_def split: if_splits)
  with assms v show ?thesis
    by (auto simp: parseCustomProfile_def sound_choice_def not_le dest!: chosen_sound split: if_splits)
qed

lemma parseProfile_sound:
  assumes "parseProfile p = Inr x"
  shows "sound_choice x"
proof -
  have old: "VersionTLS10 \<in> set versions" "VersionTLS10 < VersionTLS13"
    by (simp_all add: tls_versions versions_def)
  have modern: "sound_choice (VersionTLS13, [])"
    by (simp add: sound_choice_def versions_def)
  show ?thesis
    using assms modern intermediate_sound parseCustomProfile_sound chosen_sound[OF _ old]
    by (auto simp: parseProfile_def Let_def split: option.splits if_splits)
qed

definition zero_config :: tls_config where
  "zero_config = \<lparr>MinVersion = 0, tc_CipherSuites = [], tc_NextProtos = []\<rparr>"

definition configured :: "(tls_config \<Rightarrow> tls_config) list \<Rightarrow> tls_config" where
  "configured opts = fold (\<lambda>f c. f c) opts zero_config"

text \<open>
  C27. When the notebook controller starts, its servers have a sound TLS posture: whatever the
  cluster answered, either the start fails or the minimum version is one of TLS 1.0 to 1.3, HTTP/2 is
  offered, and below TLS 1.3 the suites are a non-empty list of suites that the runtime can
  negotiate there, RC4 never among them; a denied read always fails the start.
\<close>

theorem resolved_tls_usable:
  assumes "Resolve dynClient resp = Inr r"
  shows "sound_choice (MinVersion (configured (TLSOpts r)), tc_CipherSuites (configured (TLSOpts r))) \<and>
    tc_NextProtos (configured (TLSOpts r)) = nextProtos \<and>
    (case resp of Inl e \<Rightarrow> IsNoMatchError e \<or> IsNotFound e \<or> transient e | Inr _ \<Rightarrow> APIAvailable r)"
proof -
  have c: "configured [profile_option v cs] = \<lparr>MinVersion = v, tc_CipherSuites = cs, tc_NextProtos = nextProtos\<rparr>"
    "configured [intermediateWithALPN] =
      \<lparr>MinVersion = VersionTLS12, tc_CipherSuites = intermediateCiphers, tc_NextProtos = nextProtos\<rparr>" for v cs
    by (simp_all add: configured_def profile_option_def intermediateWithALPN_def zero_config_def Let_def)
  have r: "resolveFrom resp = Inr r" using assms by (simp add: Resolve_def split: sum.splits)
  show ?thesis
  proof (cases resp)
    case (Inl e)
    with r intermediate_sound show ?thesis
      by (auto simp: resolveFrom_def Let_def c split: if_splits)
  next
    case (Inr obj)
    with r parseProfile_sound show ?thesis
      by (auto simp: resolveFrom_def Let_def c split: sum.splits prod.splits)
  qed
qed

definition cluster_with :: "(string, jvalue) fmap \<Rightarrow> (string, jvalue) fmap" where
  "cluster_with profile = fmupd ''spec'' (JMap (fmupd ''tlsSecurityProfile'' (JMap profile) fmempty)) fmempty"

lemma unset_profile_resolves: "\<not> isl (Resolve (Inr ()) (Inr (cluster_with fmempty)))"
  by (simp add: Resolve_def resolveFrom_def extractTLSProfile_def cluster_with_def unmarshal_profile_def entries_def
      parseProfile_def sorted_list_of_fset.rep_eq)

theorem resolved_tls_usable_witness:
  "let r = projr (Resolve (Inr ()) (Inr (cluster_with fmempty))) in
   sound_choice (MinVersion (configured (TLSOpts r)), tc_CipherSuites (configured (TLSOpts r))) \<and>
    tc_NextProtos (configured (TLSOpts r)) = nextProtos \<and> APIAvailable r"
  using resolved_tls_usable[of "Inr ()" "Inr (cluster_with fmempty)"] unset_profile_resolves
  by (cases "Resolve (Inr ()) (Inr (cluster_with fmempty))") (simp_all add: Let_def)

text \<open>The watcher over the answers it gets: whether the callback ran.\<close>

fun watch :: "(goerr + (string, jvalue) fmap) list \<Rightarrow> ProfileWatcher \<Rightarrow> bool" where
  "watch [] w \<longleftrightarrow> False"
| "watch (a # as) w \<longleftrightarrow> (case ProfileReconcile (Inr ()) a w of (fired, _, w') \<Rightarrow> fired \<or> watch as w')"

definition fetched :: "(goerr + (string, jvalue) fmap) list \<Rightarrow> rawprofile list" where
  "fetched as = List.map_filter (\<lambda>a. case a of Inl _ \<Rightarrow> None | Inr obj \<Rightarrow> Some (raw_profile obj)) as"

lemma watch_iff:
  assumes "has_onProfileChange w"
  shows "watch as w \<longleftrightarrow> list_ex (\<lambda>p. p \<noteq> lastProfile w) (fetched as)"
proof (induction as)
  case (Cons a as)
  then show ?case
    using assms by (cases a) (auto simp: ProfileReconcile_def fetched_def List.map_filter_def)
qed (simp add: fetched_def List.map_filter_def)

text \<open>
  C28. The watcher restarts the controller exactly when it has to: started from an answer of the
  cluster, it runs the callback in a sequence of fetches, failed ones among them, if and only if one
  of the profiles fetched differs from the one the controller runs with; started with the
  hardened defaults because the API was unavailable, it restarts at the first fetch that
  succeeds.
\<close>

theorem restart_iff_profile_changed:
  assumes "Resolve (Inr ()) resp = Inr r" "start_watcher r = Some w"
  shows "watch as w \<longleftrightarrow> (case resp of Inl e \<Rightarrow> fetched as \<noteq> []
     | Inr obj \<Rightarrow> list_ex (\<lambda>p. p \<noteq> raw_profile obj) (fetched as))"
proof -
  have w: "has_onProfileChange w" "lastProfile w = RawProfile r"
    using assms(2) by (auto simp: start_watcher_def NewProfileWatcher_def split: if_splits)
  have "p \<noteq> None" if "p \<in> set (fetched as)" for p
    using that by (auto simp: fetched_def List.map_filter_def raw_profile_def split: sum.splits)
  then have "list_ex (\<lambda>p. p \<noteq> None) (fetched as) \<longleftrightarrow> fetched as \<noteq> []"
    by (cases "fetched as") auto
  with w assms(1) show ?thesis
    by (auto simp: watch_iff Resolve_def resolveFrom_def Let_def split: sum.splits if_splits prod.splits)
qed

theorem restart_iff_profile_changed_witness:
  "let w = NewProfileWatcher None; as = [Inl (ApiErr Timeout), Inr (cluster_with fmempty)] in
   watch as w \<longleftrightarrow> fetched as \<noteq> []"
  unfolding Let_def
  by (rule restart_iff_profile_changed[where resp = "Inl (ApiErr Timeout)", unfolded sum.case,
        where r = "\<lparr>TLSOpts = [intermediateWithALPN], APIAvailable = True, RawProfile = None\<rparr>"])
    (simp_all add: Resolve_def resolveFrom_def start_watcher_def IsNoMatchError_def IsNotFound_def transient_def)

section \<open>The ODH controller\<close>

text \<open>
  The two ODH copies of the cipher check agree: a cipher name is usable at the start of the
  controller exactly when the sidecar gets a flag for it.
\<close>

theorem cipher_checks_agree: "cipherUsableForTLS12 L name \<longleftrightarrow> ianaCipherForTLS12 L name \<noteq> None"
  by (auto simp: cipherUsableForTLS12_def ianaCipherForTLS12_def cipherIDUsableForTLS12_def
      odhRuntimeCipherIDs_def proxyRuntimeCipherIDs_def Let_def split: option.splits list.splits)

text \<open>
  A profile the start accepts is one it can honor: only the unusable ciphers are taken out,
  everything else is kept, validating again changes nothing, and below TLS 1.3 the list of ciphers
  is empty only where the adherence policy was read and lets the profile go unhonored.
\<close>

theorem validated_profile_usable:
  assumes "validateProfileSpec L B profile policy policyRead = Inr spec" "tl_version L (tps_minVersion profile) = Inr v"
  shows "spec\<lparr>tps_ciphers := tps_ciphers profile\<rparr> = profile \<and>
    validateProfileSpec L B spec policy policyRead = Inr spec \<and>
    (if v < VersionTLS13 then tps_ciphers spec = filter (cipherUsableForTLS12 L) (tps_ciphers profile) \<and>
       (tps_ciphers spec = [] \<longleftrightarrow> tps_ciphers profile = [] \<and> policyRead \<and> \<not> bl_honor B policy)
     else spec = profile)"
proof -
  let ?u = "filter (cipherUsableForTLS12 L) (tps_ciphers profile)"
  have all: "?u = tps_ciphers profile" if "\<not> length ?u < length (tps_ciphers profile)"
    using that by (metis filter_id_conv length_filter_less)
  show ?thesis
    using assms all by (auto simp: validateProfileSpec_def Let_def not_le split: if_splits)
qed

definition sample_tlslib :: tlslib where
  "sample_tlslib = \<lparr>tl_version = (\<lambda>v. if v = ''VersionTLS12'' then Inr 0x0303 else Inl (Errorf ''unknown'')),
     tl_cipherSuite = (\<lambda>n. if n = ''TLS_AES_128_GCM_SHA256'' then Some 0x1301
        else if n = ''TLS_ECDHE_RSA_WITH_AES_128_GCM_SHA256'' then Some 0xc02f else None),
     tl_openssl = (\<lambda>n. if n = ''ECDHE-RSA-AES128-GCM-SHA256'' then [''TLS_ECDHE_RSA_WITH_AES_128_GCM_SHA256''] else []),
     tl_profiles = (\<lambda>_. None), tl_fips = False\<rparr>"

lemma sample_usable [simp]:
  "\<not> cipherUsableForTLS12 sample_tlslib ''TLS_AES_128_GCM_SHA256''"
  "cipherUsableForTLS12 sample_tlslib ''ECDHE-RSA-AES128-GCM-SHA256''"
  by code_simp+

lemma sample_version [simp]: "tl_version sample_tlslib ''VersionTLS12'' = Inr 0x0303" "\<not> VersionTLS13 \<le> 0x0303"
  by (simp_all add: sample_tlslib_def tls_versions)

abbreviation sample_profile :: tlsprofilespec where
  "sample_profile \<equiv> \<lparr>tps_ciphers = [''TLS_AES_128_GCM_SHA256'', ''ECDHE-RSA-AES128-GCM-SHA256''], tps_groups = [],
     tps_minVersion = ''VersionTLS12''\<rparr>"

abbreviation sample_bootlib :: bootlib where
  "sample_bootlib \<equiv> \<lparr>bl_profile = Inr sample_profile, bl_adherence = Inr [], bl_honor = (\<lambda>_. True), bl_config = (\<lambda>_ c. c)\<rparr>"

theorem validated_profile_usable_witness:
  "let spec = sample_profile\<lparr>tps_ciphers := [''ECDHE-RSA-AES128-GCM-SHA256'']\<rparr> in
   spec\<lparr>tps_ciphers := tps_ciphers sample_profile\<rparr> = sample_profile \<and>
    validateProfileSpec sample_tlslib sample_bootlib spec [] True = Inr spec"
  using validated_profile_usable[of sample_tlslib sample_bootlib sample_profile "[]" True
      "sample_profile\<lparr>tps_ciphers := [''ECDHE-RSA-AES128-GCM-SHA256'']\<rparr>" "0x0303"]
  by (simp add: validateProfileSpec_def)



end
