(* ===== verification/Conversion.thy ===== *)
theory Conversion
  imports KubeTypes
begin

text \<open>
  The versions of the Notebook type (\<open>notebook-controller/api\<close>) and the conversions between them
  (\<open>api/v1/notebook_conversion.go\<close>, \<open>api/v1alpha1/notebook_conversion.go\<close>). The hub is \<open>v1beta1\<close>,
  the record \<open>notebook\<close>; each of the other two packages declares the types again and has the two conversions
  again. The receiver of a conversion is an argument, of which what the code does not assign stays.
\<close>

section \<open>Version v1\<close>

record v1_condition =
  c1_type :: string
  c1_status :: string
  c1_lastProbeTime :: gotime
  c1_lastTransitionTime :: gotime
  c1_reason :: string
  c1_message :: string

record v1_status =
  s1_conditions :: "v1_condition list"
  s1_readyReplicas :: int32
  s1_containerState :: containerstate

record v1_notebook =
  n1_meta :: objmeta
  n1_podspec :: podspec
  n1_status :: v1_status

definition v1_to_hub_condition :: "v1_condition \<Rightarrow> nbcondition" where
  "v1_to_hub_condition c = \<lparr>nc_type = c1_type c, nc_status = [], nc_lastProbeTime = c1_lastProbeTime c,
     nc_lastTransitionTime = zero_time, nc_reason = c1_reason c, nc_message = c1_message c\<rparr>"

definition v1_ConvertTo :: "v1_notebook \<Rightarrow> notebook \<Rightarrow> notebook" where
  "v1_ConvertTo src dst = dst\<lparr>nb_podspec := n1_podspec src, nb_status := (nb_status dst)\<lparr>
     st_readyReplicas := s1_readyReplicas (n1_status src), st_containerState := s1_containerState (n1_status src),
     st_conditions := map v1_to_hub_condition (s1_conditions (n1_status src))\<rparr>\<rparr>"

definition v1_from_hub_condition :: "nbcondition \<Rightarrow> v1_condition" where
  "v1_from_hub_condition c = \<lparr>c1_type = nc_type c, c1_status = [], c1_lastProbeTime = nc_lastProbeTime c,
     c1_lastTransitionTime = zero_time, c1_reason = nc_reason c, c1_message = nc_message c\<rparr>"

definition v1_ConvertFrom :: "notebook \<Rightarrow> v1_notebook \<Rightarrow> v1_notebook" where
  "v1_ConvertFrom src dst = dst\<lparr>n1_podspec := nb_podspec src, n1_status := (n1_status dst)\<lparr>
     s1_readyReplicas := st_readyReplicas (nb_status src), s1_containerState := st_containerState (nb_status src),
     s1_conditions := map v1_from_hub_condition (st_conditions (nb_status src))\<rparr>\<rparr>"

section \<open>Version v1alpha1\<close>

record v1alpha1_condition =
  ca_type :: string
  ca_status :: string
  ca_lastProbeTime :: gotime
  ca_lastTransitionTime :: gotime
  ca_reason :: string
  ca_message :: string

record v1alpha1_status =
  sa_conditions :: "v1alpha1_condition list"
  sa_readyReplicas :: int32
  sa_containerState :: containerstate

record v1alpha1_notebook =
  na_meta :: objmeta
  na_podspec :: podspec
  na_status :: v1alpha1_status

definition v1alpha1_to_hub_condition :: "v1alpha1_condition \<Rightarrow> nbcondition" where
  "v1alpha1_to_hub_condition c = \<lparr>nc_type = ca_type c, nc_status = [], nc_lastProbeTime = ca_lastProbeTime c,
     nc_lastTransitionTime = zero_time, nc_reason = ca_reason c, nc_message = ca_message c\<rparr>"

definition v1alpha1_ConvertTo :: "v1alpha1_notebook \<Rightarrow> notebook \<Rightarrow> notebook" where
  "v1alpha1_ConvertTo src dst = dst\<lparr>nb_podspec := na_podspec src, nb_status := (nb_status dst)\<lparr>
     st_readyReplicas := sa_readyReplicas (na_status src), st_containerState := sa_containerState (na_status src),
     st_conditions := map v1alpha1_to_hub_condition (sa_conditions (na_status src))\<rparr>\<rparr>"

definition v1alpha1_from_hub_condition :: "nbcondition \<Rightarrow> v1alpha1_condition" where
  "v1alpha1_from_hub_condition c = \<lparr>ca_type = nc_type c, ca_status = [], ca_lastProbeTime = nc_lastProbeTime c,
     ca_lastTransitionTime = zero_time, ca_reason = nc_reason c, ca_message = nc_message c\<rparr>"

definition v1alpha1_ConvertFrom :: "notebook \<Rightarrow> v1alpha1_notebook \<Rightarrow> v1alpha1_notebook" where
  "v1alpha1_ConvertFrom src dst = dst\<lparr>na_podspec := nb_podspec src, na_status := (na_status dst)\<lparr>
     sa_readyReplicas := st_readyReplicas (nb_status src), sa_containerState := st_containerState (nb_status src),
     sa_conditions := map v1alpha1_from_hub_condition (st_conditions (nb_status src))\<rparr>\<rparr>"

section \<open>The contract of a version\<close>

text \<open>What travels: the pod, and of the status everything but the status and transition time of a condition.\<close>

type_synonym travelling = "podspec \<times> int32 \<times> containerstate \<times> (string \<times> gotime \<times> string \<times> string) list"

definition hub_view :: "notebook \<Rightarrow> travelling" where
  "hub_view n = (nb_podspec n, st_readyReplicas (nb_status n), st_containerState (nb_status n),
     map (\<lambda>c. (nc_type c, nc_lastProbeTime c, nc_reason c, nc_message c)) (st_conditions (nb_status n)))"

definition v1_view :: "v1_notebook \<Rightarrow> travelling" where
  "v1_view n = (n1_podspec n, s1_readyReplicas (n1_status n), s1_containerState (n1_status n),
     map (\<lambda>c. (c1_type c, c1_lastProbeTime c, c1_reason c, c1_message c)) (s1_conditions (n1_status n)))"

definition v1alpha1_view :: "v1alpha1_notebook \<Rightarrow> travelling" where
  "v1alpha1_view n = (na_podspec n, sa_readyReplicas (na_status n), sa_containerState (na_status n),
     map (\<lambda>c. (ca_type c, ca_lastProbeTime c, ca_reason c, ca_message c)) (sa_conditions (na_status n)))"

text \<open>The conditions of a converted Notebook have neither status nor transition time.\<close>

definition bare :: "notebook \<Rightarrow> bool" where
  "bare n \<longleftrightarrow> list_all (\<lambda>c. nc_status c = [] \<and> nc_lastTransitionTime c = zero_time) (st_conditions (nb_status n))"

locale hub_version =
  fixes to_hub :: "'v \<Rightarrow> notebook \<Rightarrow> notebook"
    and from_hub :: "notebook \<Rightarrow> 'v \<Rightarrow> 'v"
    and view :: "'v \<Rightarrow> travelling"
    and meta :: "'v \<Rightarrow> objmeta"
  assumes to_view: "hub_view (to_hub v h) = view v"
    and from_view: "view (from_hub h v) = hub_view h"
    and to_meta: "nb_meta (to_hub v h) = nb_meta h"
    and from_meta: "meta (from_hub h v) = meta v"
    and to_bare: "bare (to_hub v h)"
    and from_cong: "hub_view g = hub_view h \<Longrightarrow> from_hub g v = from_hub h v"
    and from_last: "from_hub g (from_hub h v) = from_hub g v"
begin

lemma roundtrip: "view (from_hub (to_hub v h) w) = view v \<and> meta (from_hub (to_hub v h) w) = meta w"
  by (simp add: to_view from_view from_meta)

lemma settles: "from_hub (to_hub (from_hub (to_hub v h) w) h') w' = from_hub (to_hub v h) w'"
  by (rule from_cong) (simp add: to_view from_view)

lemma hub_roundtrip: "hub_view (to_hub (from_hub h v) g) = hub_view h"
  by (simp add: to_view from_view)

end

lemma map_determined:
  assumes "\<And>x y. f x = f y \<Longrightarrow> g x = g y"
  shows "map f xs = map f ys \<Longrightarrow> map g xs = map g ys"
proof (induction xs arbitrary: ys)
  case (Cons x xs)
  then obtain y zs where ys: "ys = y # zs" "f x = f y" "map f xs = map f zs" by (cases ys) auto
  from Cons.IH[OF ys(3)] assms[OF ys(2)] ys(1) show ?case by simp
qed simp

lemma v1_from_determined:
  "hub_view g = hub_view h \<Longrightarrow> map v1_from_hub_condition (st_conditions (nb_status g)) = map v1_from_hub_condition (st_conditions (nb_status h))"
  by (rule map_determined[of "\<lambda>c. (nc_type c, nc_lastProbeTime c, nc_reason c, nc_message c)"])
    (simp_all add: hub_view_def v1_from_hub_condition_def)

lemma v1alpha1_from_determined:
  "hub_view g = hub_view h \<Longrightarrow> map v1alpha1_from_hub_condition (st_conditions (nb_status g)) = map v1alpha1_from_hub_condition (st_conditions (nb_status h))"
  by (rule map_determined[of "\<lambda>c. (nc_type c, nc_lastProbeTime c, nc_reason c, nc_message c)"])
    (simp_all add: hub_view_def v1alpha1_from_hub_condition_def)

interpretation v1: hub_version v1_ConvertTo v1_ConvertFrom v1_view n1_meta
proof unfold_locales
  show "v1_ConvertFrom g v = v1_ConvertFrom h v" if "hub_view g = hub_view h" for g h v
    using that v1_from_determined[OF that] by (simp add: v1_ConvertFrom_def hub_view_def)
qed (simp_all add: v1_ConvertTo_def v1_ConvertFrom_def v1_view_def hub_view_def v1_to_hub_condition_def v1_from_hub_condition_def
    bare_def list_all_iff o_def)

interpretation v1alpha1: hub_version v1alpha1_ConvertTo v1alpha1_ConvertFrom v1alpha1_view na_meta
proof unfold_locales
  show "v1alpha1_ConvertFrom g v = v1alpha1_ConvertFrom h v" if "hub_view g = hub_view h" for g h v
    using that v1alpha1_from_determined[OF that] by (simp add: v1alpha1_ConvertFrom_def hub_view_def)
qed (simp_all add: v1alpha1_ConvertTo_def v1alpha1_ConvertFrom_def v1alpha1_view_def hub_view_def v1alpha1_to_hub_condition_def
    v1alpha1_from_hub_condition_def bare_def list_all_iff o_def)

section \<open>Properties\<close>

text \<open>
  C40. Through the hub from one old version to another, and back: the pod, the ready replicas, the
  container state, and of each condition the type, probe time, reason and message arrive; the metadata
  is the receiver's; the status and the transition time of every condition are lost on the way to the hub, and
  a second round trip changes nothing more.
\<close>

theorem conversion_roundtrip:
  "v1alpha1_view (v1alpha1_ConvertFrom (v1_ConvertTo src hub) dst) = v1_view src \<and>
   v1_view (v1_ConvertFrom (v1alpha1_ConvertTo (v1alpha1_ConvertFrom (v1_ConvertTo src hub) dst) hub') src') = v1_view src \<and>
   na_meta (v1alpha1_ConvertFrom (v1_ConvertTo src hub) dst) = na_meta dst \<and> nb_meta (v1_ConvertTo src hub) = nb_meta hub \<and>
   list_all (\<lambda>c. nc_status c = [] \<and> nc_lastTransitionTime c = zero_time) (st_conditions (nb_status (v1_ConvertTo src hub))) \<and>
   v1_ConvertFrom (v1_ConvertTo (v1_ConvertFrom (v1_ConvertTo src hub) dst') hub') src' = v1_ConvertFrom (v1_ConvertTo src hub) src'"
  using v1.to_bare[of src hub]
  by (simp add: v1.to_view v1.from_view v1alpha1.to_view v1alpha1.from_view v1alpha1.from_meta v1.to_meta v1.settles bare_def)

end
