(* ===== verification/Metrics.thy ===== *)
theory Metrics
  imports NotebookProps
begin

text \<open>
  \<open>notebook-controller/pkg/metrics/metrics.go\<close>: the collector of the notebook controller. The gauge
  \<open>notebook_running\<close> is a map from namespaces to its values; \<open>scrape\<close> sets it from the
  StatefulSets of the cluster when the metrics are collected.
\<close>

type_synonym gauge = "(string, nat) fmap"

definition counted :: "statefulset \<Rightarrow> bool" where
  "counted v \<longleftrightarrow> (case mlookup (sts_tmplLabels v) ''notebook-name'' of
     None \<Rightarrow> False | Some name \<Rightarrow> name = m_name (sts_meta v))"

fun stsCache :: "statefulset list \<Rightarrow> gauge \<Rightarrow> gauge" where
  "stsCache [] cache = cache"
| "stsCache (v # vs) cache = (
     let ns = m_namespace (sts_meta v) in
     stsCache vs (if counted v then fmupd ns ((case fmlookup cache ns of None \<Rightarrow> 0 | Some n \<Rightarrow> n) + 1) cache else cache))"

definition scrape :: "'s env \<Rightarrow> gauge \<Rightarrow> ('s, gauge) handler" where
  "scrape E running = do {
     r \<leftarrow> ListIn E KStatefulSet to_statefulset None None;
     return_h (case r of Inl _ \<Rightarrow> running | Inr stsList \<Rightarrow> running ++\<^sub>f stsCache stsList fmempty)
   }"

text \<open>
  The vectors the collector has, with their labels: the notebook controller's three and, for the
  culler, two more. \<open>Describe\<close> and \<open>Collect\<close> name the ones they pass on; \<open>Collect\<close> scrapes first.
\<close>

record metric_vec =
  mv_name :: string
  mv_help :: string
  mv_labels :: "string list"

record Metrics =
  runningNotebooks :: metric_vec
  NotebookCreation :: metric_vec
  NotebookFailCreation :: metric_vec
  NotebookCullingCount :: metric_vec
  NotebookCullingTimestamp :: metric_vec

definition NewMetrics :: Metrics where
  "NewMetrics = \<lparr>
     runningNotebooks = \<lparr>mv_name = ''notebook_running'', mv_help = ''Current running notebooks in the cluster'',
       mv_labels = [''namespace'']\<rparr>,
     NotebookCreation = \<lparr>mv_name = ''notebook_create_total'', mv_help = ''Total times of creating notebooks'',
       mv_labels = [''namespace'']\<rparr>,
     NotebookFailCreation = \<lparr>mv_name = ''notebook_create_failed_total'',
       mv_help = ''Total failure times of creating notebooks'', mv_labels = [''namespace'']\<rparr>,
     NotebookCullingCount = \<lparr>mv_name = ''notebook_culling_total'', mv_help = ''Total times of culling notebooks'',
       mv_labels = [''namespace'', ''name'']\<rparr>,
     NotebookCullingTimestamp = \<lparr>mv_name = ''last_notebook_culling_timestamp_seconds'',
       mv_help = ''Timestamp of the last notebook culling in seconds'', mv_labels = [''namespace'', ''name'']\<rparr>\<rparr>"

definition Describe :: "Metrics \<Rightarrow> metric_vec list" where
  "Describe m = [runningNotebooks m, NotebookCreation m, NotebookFailCreation m]"

definition Collect :: "'s env \<Rightarrow> Metrics \<Rightarrow> gauge \<Rightarrow> ('s, gauge \<times> metric_vec list) handler" where
  "Collect E m running = do {
     running' \<leftarrow> scrape E running;
     return_h (running', [runningNotebooks m, NotebookCreation m, NotebookFailCreation m])
   }"

definition in_namespace :: "string \<Rightarrow> statefulset list \<Rightarrow> statefulset list" where
  "in_namespace ns vs = filter (\<lambda>v. counted v \<and> m_namespace (sts_meta v) = ns) vs"

lemma stsCache_lookup:
  "fmlookup (stsCache vs cache) ns = (if in_namespace ns vs = [] then fmlookup cache ns
     else Some ((case fmlookup cache ns of None \<Rightarrow> 0 | Some n \<Rightarrow> n) + length (in_namespace ns vs)))"
  by (induction vs arbitrary: cache) (auto simp: in_namespace_def Let_def split: option.splits)

text \<open>
  After a scrape the gauge of a namespace is the number of its StatefulSets that carry a
  Notebook's label and name. A namespace whose last Notebook is gone keeps the value of the scrape
  before, and a stopped Notebook counts: the StatefulSet generated for a Notebook that does not
  set the label itself is counted whether or not it asks for a replica.
\<close>

theorem running_gauge_counts:
  assumes "env_api E (RList KStatefulSet None None) (server w) = (RespList (map OStatefulSet vs), s)"
    and "generateStatefulSet E' nb False = Inr ss" "mlookup (m_labels (nb_meta nb)) ''notebook-name'' = None"
  shows "fmlookup (fst (run_state (scrape E running) w)) ns =
      (if in_namespace ns vs = [] then fmlookup running ns else Some (length (in_namespace ns vs))) \<and> counted ss"
proof -
  have "those (map (to_statefulset \<circ> OStatefulSet) vs) = Some vs"
    by (induction vs) auto
  then have "as_list to_statefulset (RespList (map OStatefulSet vs)) = Inr vs"
    by (simp add: as_list_def)
  then have "fst (run_state (scrape E running) w) = running ++\<^sub>f stsCache vs fmempty"
    using assms(1) by (simp add: scrape_def ListIn_def)
  moreover have "mlookup (sts_tmplLabels ss) ''notebook-name'' = Some (nb_name nb)"
    using generated_facts[OF assms(2)] assms(3) by auto
  moreover have "m_name (sts_meta ss) = nb_name nb"
    using assms(2) by (auto simp: generateStatefulSet_def sts_meta_for_def Let_def split: sum.splits list.splits)
  ultimately show ?thesis
    by (auto simp: stsCache_lookup counted_def fmlookup_dom_iff)
qed

theorem running_gauge_counts_witness:
  "\<exists>ss. generateStatefulSet sample_env stopped_notebook False = Inr ss \<and> counted ss \<and>
    fmlookup (fst (run_state (scrape sample_env (fmupd ''gone'' 1 fmempty)) (sample_world []))) ''gone'' = Some 1"
proof -
  obtain ss where ss: "generateStatefulSet sample_env stopped_notebook False = Inr ss" using stopped_generates by blast
  have "mlookup (m_labels (nb_meta stopped_notebook)) ''notebook-name'' = None"
    by (simp add: stopped_notebook_def map_meta_def with_annotations_def sample_defs)
  with running_gauge_counts[of sample_env "sample_world []" "[]" "[]", OF _ ss, of "fmupd ''gone'' 1 fmempty" "''gone''"] ss
  show ?thesis by (simp add: in_namespace_def)
qed

end
