(* ===== verification/OdhCache.thy ===== *)
theory OdhCache
  imports OdhWatches MemServer
begin

text \<open>
  \<open>odh-notebook-controller/controllers/cache.go\<close>: what the informer cache keeps of ConfigMaps and
  Secrets. The managed fields are not part of the model's metadata; the fields that the model
  keeps opaque go through \<open>without_binary\<close>, which takes the binary data out of them.
\<close>

definition last_applied :: string where [go_consts]:
  "last_applied = ''kubectl.kubernetes.io/last-applied-configuration''"

definition strip_meta :: "objmeta \<Rightarrow> objmeta" where
  "strip_meta m = (if m_annotations m \<noteq> None then with_annotations (mdelete last_applied (m_annotations m)) m else m)"

definition stripConfigMapData :: "(string \<Rightarrow> string) \<Rightarrow> kobj \<Rightarrow> kobj" where
  "stripConfigMapData without_binary i = (case i of
     OConfigMap cm \<Rightarrow>
       let cm1 = (if m_name (cm_meta cm) \<noteq> NotebookControllerConfigMap
             then cm\<lparr>cm_data := None, cm_rest := without_binary (cm_rest cm)\<rparr> else cm)
       in OConfigMap (cm1\<lparr>cm_meta := strip_meta (cm_meta cm1)\<rparr>)
   | _ \<Rightarrow> i)"

definition stripSecretData :: "kobj \<Rightarrow> kobj" where
  "stripSecretData i = (case i of
     OSecret s \<Rightarrow> OSecret (s\<lparr>sec_data := None, sec_meta := strip_meta (sec_meta s)\<rparr>)
   | _ \<Rightarrow> i)"

fun strip_event :: "(string \<Rightarrow> string) \<Rightarrow> configmap_event \<Rightarrow> configmap_event" where
  "strip_event f (CMCreated cm) = CMCreated (the (to_configmap (stripConfigMapData f (OConfigMap cm))))"
| "strip_event f (CMUpdated old new) = CMUpdated (the (to_configmap (stripConfigMapData f (OConfigMap old))))
     (the (to_configmap (stripConfigMapData f (OConfigMap new))))"
| "strip_event f (CMDeleted cm) = CMDeleted (the (to_configmap (stripConfigMapData f (OConfigMap cm))))"

lemma strip_meta_key [simp]: "m_name (strip_meta m) = m_name m" "m_namespace (strip_meta m) = m_namespace m"
  by (simp_all add: strip_meta_def with_annotations_def)

lemma strip_configmap:
  "\<exists>cm'. stripConfigMapData f (OConfigMap cm) = OConfigMap cm' \<and> m_name (cm_meta cm') = m_name (cm_meta cm) \<and>
     m_namespace (cm_meta cm') = m_namespace (cm_meta cm) \<and>
     (m_name (cm_meta cm) = NotebookControllerConfigMap \<longrightarrow> cm_data cm' = cm_data cm)"
  by (auto simp: stripConfigMapData_def Let_def)

text \<open>
  Stripping the cache costs the watch nothing: for every event of a ConfigMap the handler queues
  the same Notebooks, with the same calls, for the stripped objects as for the full ones, since
  the data it compares is the data the cache keeps.
\<close>

theorem stripped_cache_same_requests:
  assumes "case ev of CMUpdated old new \<Rightarrow> obj_key (OConfigMap old) = obj_key (OConfigMap new) | _ \<Rightarrow> True"
  shows "configMapHandler E R (strip_event f ev) = configMapHandler E R ev"
proof -
  define g where "g cm = the (to_configmap (stripConfigMapData f (OConfigMap cm)))" for cm
  have g: "m_name (cm_meta (g cm)) = m_name (cm_meta cm)" "m_namespace (cm_meta (g cm)) = m_namespace (cm_meta cm)"
    "m_name (cm_meta cm) = NotebookControllerConfigMap \<Longrightarrow> cm_data (g cm) = cm_data cm" for cm
    using strip_configmap[of f cm] by (auto simp: g_def)
  then have one: "caBundleRequests E (OConfigMap (g cm)) = caBundleRequests E (OConfigMap cm)"
    "isIngressConfig R (OConfigMap (g cm)) = isIngressConfig R (OConfigMap cm)" for cm
    by (auto simp: caBundleRequests_def isIngressConfig_def)
  have named: "m_name (cm_meta new) = NotebookControllerConfigMap" if "isIngressConfig R (OConfigMap new)" for new
    using that by (simp add: isIngressConfig_def)
  show ?thesis
  proof (cases ev)
    case (CMUpdated old new)
    with assms have "m_name (cm_meta old) = m_name (cm_meta new)" by (simp add: obj_key_def meta_key_def)
    with CMUpdated show ?thesis using named[of new]
      by (simp add: configMapHandler_def g_def[symmetric] one g(3))
  qed (simp_all add: configMapHandler_def g_def[symmetric] one)
qed

theorem stripped_cache_same_requests_witness:
  "let cm = \<lparr>cm_meta = empty_meta\<lparr>m_name := NotebookControllerConfigMap, m_namespace := ''odh''\<rparr>,
       cm_data = mlit [(IngressesKey, ''[]'')], cm_rest = []\<rparr>; old = cm\<lparr>cm_data := None\<rparr>
   in configMapHandler sample_env sample_odh (strip_event (\<lambda>s. s) (CMUpdated old cm)) = configMapHandler sample_env sample_odh (CMUpdated old cm)"
  unfolding Let_def by (rule stripped_cache_same_requests) (simp add: obj_key_def)

end
