(* ===== verification/Startup.thy ===== *)
theory Startup
  imports TlsBootstrap Culling OdhCache
begin

text \<open>
  The two programs as they start: \<open>main\<close> of \<open>notebook-controller/main.go\<close> and of
  \<open>odh-notebook-controller/main.go\<close>, from the command line to the run of the manager, with the
  \<open>SetupWithManager\<close> of the reconcilers. What controller-runtime does with a call is the
  parameter \<open>lib\<close>, which answers each call from all the calls made so far.
\<close>

section \<open>Flags\<close>

text \<open>
  Go's \<open>flag\<close>: a flag is known by its name, is boolean or takes a value, and \<open>Set\<close> may refuse
  the value. \<open>Parse\<close> with \<open>ExitOnError\<close> exits with 2 on an error and with 0 on a request for help;
  it stops at the first argument that is not a flag, or after \<open>--\<close>.
\<close>

type_synonym 'f flagset = "string \<Rightarrow> (bool \<times> (string \<Rightarrow> 'f \<Rightarrow> 'f option)) option"

datatype 'f parsed = Parsed 'f | ExitCode int

definition flag_name :: "string \<Rightarrow> string" where
  "flag_name s = takeWhile (\<lambda>c. c \<noteq> CHR ''='') s"

definition flag_value :: "string \<Rightarrow> string option" where
  "flag_value s = (case dropWhile (\<lambda>c. c \<noteq> CHR ''='') s of [] \<Rightarrow> None | _ # v \<Rightarrow> Some v)"

text \<open>The argument without its one or two dashes.\<close>

definition flag_body :: "string \<Rightarrow> string" where
  "flag_body s = (if s ! 1 = CHR ''-'' then drop 2 s else drop 1 s)"

fun parse_flags :: "'f flagset \<Rightarrow> 'f \<Rightarrow> string list \<Rightarrow> 'f parsed" where
  "parse_flags fs f [] = Parsed f"
| "parse_flags fs f (s # args) = (
     if length s < 2 \<or> hd s \<noteq> CHR ''-'' then Parsed f
     else if s = ''--'' then Parsed f
     else let body = flag_body s in
       if body = [] \<or> hd body = CHR ''-'' \<or> hd body = CHR ''='' then ExitCode 2
       else case fs (flag_name body) of
         None \<Rightarrow> ExitCode (if flag_name body = ''help'' \<or> flag_name body = ''h'' then 0 else 2)
       | Some (True, put) \<Rightarrow>
           (case put (case flag_value body of None \<Rightarrow> ''true'' | Some v \<Rightarrow> v) f of
              None \<Rightarrow> ExitCode 2
            | Some f' \<Rightarrow> parse_flags fs f' args)
       | Some (False, put) \<Rightarrow>
           (case flag_value body of
              Some v \<Rightarrow> (case put v f of None \<Rightarrow> ExitCode 2 | Some f' \<Rightarrow> parse_flags fs f' args)
            | None \<Rightarrow> (case args of
                [] \<Rightarrow> ExitCode 2
              | v # rest \<Rightarrow> (case put v f of None \<Rightarrow> ExitCode 2 | Some f' \<Rightarrow> parse_flags fs f' rest))))"

declare parse_flags.simps(2) [simp del]

text \<open>
  \<open>flag.Int\<close> reads with \<open>strconv.ParseInt(s, 0, 64)\<close>, whose bases and underscores are \<open>parse_int\<close>;
  the flags that zap and controller-runtime register beside the program's own are \<open>extra\<close>: whether
  one is boolean, and what a value makes of zap's development mode, or \<open>None\<close> if it is refused.
\<close>

definition string_flag :: "(string \<Rightarrow> 'f \<Rightarrow> 'f) \<Rightarrow> (bool \<times> (string \<Rightarrow> 'f \<Rightarrow> 'f option)) option" where
  "string_flag put = Some (False, \<lambda>v f. Some (put v f))"

definition bool_flag :: "(bool \<Rightarrow> 'f \<Rightarrow> 'f) \<Rightarrow> (bool \<times> (string \<Rightarrow> 'f \<Rightarrow> 'f option)) option" where
  "bool_flag put = Some (True, \<lambda>v f. map_option (\<lambda>b. put b f) (ParseBool v))"

definition int_flag :: "(string \<Rightarrow> int option) \<Rightarrow> (int \<Rightarrow> 'f \<Rightarrow> 'f) \<Rightarrow>
    (bool \<times> (string \<Rightarrow> 'f \<Rightarrow> 'f option)) option" where
  "int_flag parse_int put = Some (False, \<lambda>v f. map_option (\<lambda>n. put n f) (parse_int v))"

type_synonym zap_flags = "string \<Rightarrow> (bool \<times> (string \<Rightarrow> bool \<Rightarrow> bool option)) option"

definition extra_flag :: "zap_flags \<Rightarrow> ('f \<Rightarrow> bool) \<Rightarrow> (bool \<Rightarrow> 'f \<Rightarrow> 'f) \<Rightarrow> string \<Rightarrow>
    (bool \<times> (string \<Rightarrow> 'f \<Rightarrow> 'f option)) option" where
  "extra_flag extra get put n = map_option (\<lambda>(b, eff). (b, \<lambda>v f. map_option (\<lambda>d. put d f) (eff v (get f)))) (extra n)"

lemmas flag_defs = string_flag_def bool_flag_def int_flag_def extra_flag_def

section \<open>The manager\<close>

record metrics_options =
  mo_BindAddress :: string
  mo_SecureServing :: bool
  mo_authn_authz :: bool
  mo_TLSOpts :: "(tls_config \<Rightarrow> tls_config) list"
  mo_CertDir :: string
  mo_CertName :: string
  mo_KeyName :: string

record webhook_options =
  wo_Port :: int
  wo_CertDir :: string
  wo_TLSOpts :: "(tls_config \<Rightarrow> tls_config) list"

record cache_options =
  ca_transform :: "kobj \<Rightarrow> kobj"
  ca_disableFor :: "kind list"

record manager_options =
  mg_Scheme :: "string list"
  mg_Metrics :: metrics_options
  mg_HealthProbeBindAddress :: string
  mg_LeaderElection :: bool
  mg_LeaderElectionNamespace :: string
  mg_LeaderElectionID :: string
  mg_WebhookServer :: "webhook_options option"
  mg_Cache :: "cache_options option"

definition metrics_server :: "string \<Rightarrow> string \<times> string \<times> string \<Rightarrow> (tls_config \<Rightarrow> tls_config) list \<Rightarrow> metrics_options" where
  "metrics_server addr cert opts = (
     let m = \<lparr>mo_BindAddress = addr, mo_SecureServing = True, mo_authn_authz = True, mo_TLSOpts = opts,
               mo_CertDir = [], mo_CertName = [], mo_KeyName = []\<rparr>
     in case cert of (path, name, key) \<Rightarrow>
          if path \<noteq> [] then m\<lparr>mo_CertDir := path, mo_CertName := name, mo_KeyName := key\<rparr> else m)"

text \<open>\<open>ManagerCacheOptions\<close>: an object goes through the transformation of its type.\<close>

definition ManagerCacheOptions :: "(string \<Rightarrow> string) \<Rightarrow> cache_options" where
  "ManagerCacheOptions without_binary = \<lparr>
     ca_transform = (\<lambda>x. case x of
        OConfigMap _ \<Rightarrow> stripConfigMapData without_binary x
      | OSecret _ \<Rightarrow> stripSecretData x
      | _ \<Rightarrow> x),
     ca_disableFor = [KConfigMap, KSecret]\<rparr>"

text \<open>What a controller watches.\<close>

datatype watch = WFor kind | WOwns kind | WWatches kind | WNamespaces

definition odh_watches :: "watch list" where
  "odh_watches = [WFor KNotebook, WOwns KServiceAccount, WOwns KService, WOwns KSecret, WOwns KConfigMap,
     WOwns KNetworkPolicy, WOwns KRoleBinding, WWatches KHTTPRoute, WWatches KReferenceGrant,
     WWatches KConfigMap, WNamespaces]"

definition notebook_watches :: "'s env \<Rightarrow> watch list" where
  "notebook_watches E = [WFor KNotebook, WOwns KStatefulSet, WOwns KService, WWatches KPod, WWatches KEvent] @
     (if Getenv E ''USE_ISTIO'' = ''true'' then [WOwns KVirtualService] else [])"

section \<open>Calls and exits\<close>

record restcfg =
  rc_Burst :: int
  rc_QPS :: int

datatype lib_call =
    SetLogger bool
  | NewBootstrapClient int
  | NewManager restcfg manager_options
  | SetupNotebookController "watch list"
  | SetupCuller culler
  | SetupOdhController settings "watch list"
  | RegisterMutating string settings
  | RegisterValidating string
  | SetupProfileWatcher ProfileWatcher
  | SetupSecurityWatcher tlsprofilespec string
  | AddHealthzCheck string
  | AddReadyzCheck string
  | Start

text \<open>
  A step of \<open>main\<close> appends to the calls made, and ends the process with an exit code or goes on.
  \<open>must\<close> is a call whose error \<open>main\<close> logs before \<open>os.Exit(1)\<close>; \<open>lib\<close> says which calls fail.
\<close>

type_synonym library = "lib_call list \<Rightarrow> goerr option"
type_synonym 'a startup = "(lib_call list, int + 'a) state"

definition os_Exit :: "int \<Rightarrow> 'a startup" where
  "os_Exit c = State_Monad.return (Inl c)"

definition must :: "library \<Rightarrow> lib_call \<Rightarrow> unit startup" where
  "must lib c = State (\<lambda>cs. (case lib (cs @ [c]) of None \<Rightarrow> Inr () | Some _ \<Rightarrow> Inl 1, cs @ [c]))"

definition and_then :: "'a startup \<Rightarrow> ('a \<Rightarrow> 'b startup) \<Rightarrow> 'b startup" where
  "and_then m f = State_Monad.bind m (\<lambda>r. case r of Inl c \<Rightarrow> State_Monad.return (Inl c) | Inr x \<Rightarrow> f x)"

definition always :: "lib_call \<Rightarrow> unit startup" where
  "always c = State (\<lambda>cs. (Inr (), cs @ [c]))"

definition or_exit :: "goerr + 'a \<Rightarrow> 'a startup" where
  "or_exit r = State_Monad.return (map_sum (\<lambda>_. 1) id r)"

section \<open>The ODH controller\<close>

record odh_flags =
  of_metricsAddr :: string
  of_metricsCertPath :: string
  of_metricsCertName :: string
  of_metricsCertKey :: string
  of_probeAddr :: string
  of_kubeRbacProxyImage :: string
  of_webhookCertDir :: string
  of_webhookPort :: int
  of_enableLeaderElection :: bool
  of_enableDebugLogging :: bool
  of_development :: bool

text \<open>zap's options are a literal that reads \<open>enableDebugLogging\<close> before \<open>flag.Parse\<close> runs.\<close>

definition odh_defaults :: odh_flags where
  "odh_defaults = \<lparr>of_metricsAddr = '':8080'', of_metricsCertPath = [], of_metricsCertName = ''tls.crt'',
     of_metricsCertKey = ''tls.key'', of_probeAddr = '':8081'', of_kubeRbacProxyImage = [],
     of_webhookCertDir = ''/tmp/k8s-webhook-server/serving-certs'', of_webhookPort = 8443,
     of_enableLeaderElection = False, of_enableDebugLogging = False, of_development = False\<rparr>"

definition odh_flagset :: "(string \<Rightarrow> int option) \<Rightarrow> zap_flags \<Rightarrow> odh_flags flagset" where
  "odh_flagset parse_int extra n = (
     if n = ''metrics-bind-address'' then string_flag (\<lambda>v f. f\<lparr>of_metricsAddr := v\<rparr>)
     else if n = ''metrics-cert-path'' then string_flag (\<lambda>v f. f\<lparr>of_metricsCertPath := v\<rparr>)
     else if n = ''metrics-cert-name'' then string_flag (\<lambda>v f. f\<lparr>of_metricsCertName := v\<rparr>)
     else if n = ''metrics-cert-key'' then string_flag (\<lambda>v f. f\<lparr>of_metricsCertKey := v\<rparr>)
     else if n = ''health-probe-bind-address'' then string_flag (\<lambda>v f. f\<lparr>of_probeAddr := v\<rparr>)
     else if n = ''kube-rbac-proxy-image'' then string_flag (\<lambda>v f. f\<lparr>of_kubeRbacProxyImage := v\<rparr>)
     else if n = ''webhook-cert-dir'' then string_flag (\<lambda>v f. f\<lparr>of_webhookCertDir := v\<rparr>)
     else if n = ''webhook-port'' then int_flag parse_int (\<lambda>v f. f\<lparr>of_webhookPort := v\<rparr>)
     else if n = ''leader-elect'' then bool_flag (\<lambda>v f. f\<lparr>of_enableLeaderElection := v\<rparr>)
     else if n = ''debug-log'' then bool_flag (\<lambda>v f. f\<lparr>of_enableDebugLogging := v\<rparr>)
     else extra_flag extra of_development (\<lambda>d f. f\<lparr>of_development := d\<rparr>) n)"

definition odh_scheme :: "string list" where
  "odh_scheme = [''client-go'', ''kubeflow.org/v1'', ''gateway.networking.k8s.io/v1'', ''gateway.networking.k8s.io/v1beta1'',
     ''config.openshift.io/v1'', ''image.openshift.io/v1'', ''datasciencepipelinesapplications.opendatahub.io/v1'',
     ''oauth.openshift.io/v1'', ''route.openshift.io/v1'']"

definition odh_manager :: "(string \<Rightarrow> string) \<Rightarrow> odh_flags \<Rightarrow> tlsBootstrap \<Rightarrow> manager_options" where
  "odh_manager without_binary f boot = \<lparr>
     mg_Scheme = odh_scheme,
     mg_Metrics = metrics_server (of_metricsAddr f)
       (of_metricsCertPath f, of_metricsCertName f, of_metricsCertKey f) (tb_opts boot),
     mg_HealthProbeBindAddress = of_probeAddr f,
     mg_LeaderElection = of_enableLeaderElection f,
     mg_LeaderElectionNamespace = [],
     mg_LeaderElectionID = ''odh-notebook-controller'',
     mg_WebhookServer = Some \<lparr>wo_Port = of_webhookPort f, wo_CertDir = of_webhookCertDir f, wo_TLSOpts = tb_opts boot\<rparr>,
     mg_Cache = Some (ManagerCacheOptions without_binary)\<rparr>"

text \<open>
  What the program finds outside: the API server's configuration (\<open>GetConfigOrDie\<close> exits without
  one), the environment, the namespace file, and what the cluster answers about TLS.
\<close>

record 's outside =
  ou_config :: "restcfg option"
  ou_env :: "'s env"
  ou_namespaceFile :: "string option"
  ou_without_binary :: "string \<Rightarrow> string"
  ou_lib :: library

definition GetConfigOrDie :: "'s outside \<Rightarrow> restcfg startup" where
  "GetConfigOrDie W = (case ou_config W of None \<Rightarrow> os_Exit 1 | Some c \<Rightarrow> State_Monad.return (Inr c))"

definition register_security_watcher :: "library \<Rightarrow> tlsBootstrap \<Rightarrow> unit startup" where
  "register_security_watcher lib boot = (case security_watcher boot of
     None \<Rightarrow> State_Monad.return (Inr ())
   | Some (profile, adh) \<Rightarrow> must lib (SetupSecurityWatcher profile adh))"

text \<open>\<open>main\<close> after the flags; \<open>bootstrapCfg.Timeout\<close> is ten seconds.\<close>

definition odh_start :: "'s outside \<Rightarrow> tlslib \<Rightarrow> bootlib \<Rightarrow> odh_flags \<Rightarrow> unit startup" where
  "odh_start W L B f = (let lib = ou_lib W; img = of_kubeRbacProxyImage f in
     and_then (always (SetLogger (of_development f))) (\<lambda>_.
     if img = [] then os_Exit 1
     else and_then (GetConfigOrDie W) (\<lambda>restCfg.
     and_then (must lib (NewBootstrapClient 10)) (\<lambda>_.
     and_then (or_exit (bootstrapTLS L B)) (\<lambda>boot.
     and_then (must lib (NewManager restCfg (odh_manager (ou_without_binary W) f boot))) (\<lambda>_.
     and_then (or_exit (getControllerNamespace (ou_env W) (ou_namespaceFile W))) (\<lambda>ns.
     and_then (must lib (SetupOdhController (odh_settings (ou_env W) ns img) odh_watches)) (\<lambda>_.
     and_then (always (RegisterMutating ''/mutate-notebook-v1'' (odh_settings (ou_env W) ns img))) (\<lambda>_.
     and_then (always (RegisterValidating ''/validate-notebook-v1'')) (\<lambda>_.
     and_then (must lib (AddHealthzCheck ''healthz'')) (\<lambda>_.
     and_then (must lib (AddReadyzCheck ''readyz'')) (\<lambda>_.
     and_then (register_security_watcher lib boot) (\<lambda>_.
     must lib Start)))))))))))))"

text \<open>The exit code of a run (0 when \<open>main\<close> returns) and the calls it made.\<close>

definition exit_code :: "(int + unit) \<times> lib_call list \<Rightarrow> int \<times> lib_call list" where
  "exit_code r = (case r of (Inl c, cs) \<Rightarrow> (c, cs) | (Inr _, cs) \<Rightarrow> (0, cs))"

definition odh_main :: "'s outside \<Rightarrow> tlslib \<Rightarrow> bootlib \<Rightarrow> (string \<Rightarrow> int option) \<Rightarrow>
    zap_flags \<Rightarrow> string list \<Rightarrow> int \<times> lib_call list" where
  "odh_main W L B parse_int extra args = (case parse_flags (odh_flagset parse_int extra) odh_defaults args of
     ExitCode c \<Rightarrow> (c, [])
   | Parsed f \<Rightarrow> exit_code (run_state (odh_start W L B f) []))"

section \<open>The notebook controller\<close>

record nbc_flags =
  nf_metricsAddr :: string
  nf_probeAddr :: string
  nf_metricsCertPath :: string
  nf_metricsCertName :: string
  nf_metricsCertKey :: string
  nf_leaderElectionNamespace :: string
  nf_enableLeaderElection :: bool
  nf_Burst :: int
  nf_QPS :: int
  nf_development :: bool

definition nbc_defaults :: nbc_flags where
  "nbc_defaults = \<lparr>nf_metricsAddr = '':8443'', nf_probeAddr = '':8081'', nf_metricsCertPath = [],
     nf_metricsCertName = ''tls.crt'', nf_metricsCertKey = ''tls.key'', nf_leaderElectionNamespace = [],
     nf_enableLeaderElection = False, nf_Burst = 0, nf_QPS = 0, nf_development = True\<rparr>"

definition nbc_flagset :: "(string \<Rightarrow> int option) \<Rightarrow> zap_flags \<Rightarrow> nbc_flags flagset" where
  "nbc_flagset parse_int extra n = (
     if n = ''metrics-addr'' then string_flag (\<lambda>v f. f\<lparr>nf_metricsAddr := v\<rparr>)
     else if n = ''probe-addr'' then string_flag (\<lambda>v f. f\<lparr>nf_probeAddr := v\<rparr>)
     else if n = ''metrics-cert-path'' then string_flag (\<lambda>v f. f\<lparr>nf_metricsCertPath := v\<rparr>)
     else if n = ''metrics-cert-name'' then string_flag (\<lambda>v f. f\<lparr>nf_metricsCertName := v\<rparr>)
     else if n = ''metrics-cert-key'' then string_flag (\<lambda>v f. f\<lparr>nf_metricsCertKey := v\<rparr>)
     else if n = ''leader-election-namespace'' then string_flag (\<lambda>v f. f\<lparr>nf_leaderElectionNamespace := v\<rparr>)
     else if n = ''enable-leader-election'' then bool_flag (\<lambda>v f. f\<lparr>nf_enableLeaderElection := v\<rparr>)
     else if n = ''burst'' then int_flag parse_int (\<lambda>v f. f\<lparr>nf_Burst := v\<rparr>)
     else if n = ''qps'' then int_flag parse_int (\<lambda>v f. f\<lparr>nf_QPS := v\<rparr>)
     else extra_flag extra nf_development (\<lambda>d f. f\<lparr>nf_development := d\<rparr>) n)"

definition nbc_scheme :: "string list" where
  "nbc_scheme = [''client-go'', ''kubeflow.org/v1'', ''kubeflow.org/v1alpha1'', ''kubeflow.org/v1beta1'']"

text \<open>\<open>cfg.QPS\<close> is the \<open>float32\<close> of the flag; the integers up to \<open>2 ^ 24\<close> are exact.\<close>

definition client_limits :: "nbc_flags \<Rightarrow> restcfg \<Rightarrow> restcfg" where
  "client_limits f cfg = (
     let c1 = (if nf_Burst f \<noteq> 0 then cfg\<lparr>rc_Burst := nf_Burst f\<rparr> else cfg)
     in if nf_QPS f \<noteq> 0 then c1\<lparr>rc_QPS := nf_QPS f\<rparr> else c1)"

definition nbc_manager :: "nbc_flags \<Rightarrow> tls_result \<Rightarrow> manager_options" where
  "nbc_manager f r = \<lparr>
     mg_Scheme = nbc_scheme,
     mg_Metrics = metrics_server (nf_metricsAddr f)
       (nf_metricsCertPath f, nf_metricsCertName f, nf_metricsCertKey f) (TLSOpts r),
     mg_HealthProbeBindAddress = nf_probeAddr f,
     mg_LeaderElection = nf_enableLeaderElection f,
     mg_LeaderElectionNamespace = nf_leaderElectionNamespace f,
     mg_LeaderElectionID = ''kubeflow-notebook-controller'',
     mg_WebhookServer = None,
     mg_Cache = None\<rparr>"

text \<open>
  \<open>CullingReconciler.SetupWithManager\<close> reads the environment into the package's variables, whose
  values before that are \<open>C\<close>, and returns the error of a bad period. \<open>main\<close> sets the reconciler's
  client, log and scheme, and leaves its \<open>Metrics\<close> nil.
\<close>

definition culler_setup :: "library \<Rightarrow> 's env \<Rightarrow> culler \<Rightarrow> unit startup" where
  "culler_setup lib E C = and_then (or_exit (initGlobalVars E C)) (\<lambda>C'. must lib (SetupCuller C'))"

definition maybe_culler :: "library \<Rightarrow> 's env \<Rightarrow> culler \<Rightarrow> unit startup" where
  "maybe_culler lib E C = (
     if GetEnvDefault E ''ENABLE_CULLING'' DEFAULT_ENABLE_CULLING = ''true'' then culler_setup lib E (C\<lparr>cull_metrics := False\<rparr>)
     else State_Monad.return (Inr ()))"

definition maybe_watcher :: "library \<Rightarrow> tls_result \<Rightarrow> unit startup" where
  "maybe_watcher lib r = (case start_watcher r of
     None \<Rightarrow> State_Monad.return (Inr ())
   | Some w \<Rightarrow> must lib (SetupProfileWatcher w))"

text \<open>\<open>dyn\<close> and \<open>resp\<close>: the dynamic client, and its answer for the \<open>APIServer\<close>.\<close>

definition nbc_start :: "'s outside \<Rightarrow> culler \<Rightarrow> goerr + unit \<Rightarrow> goerr + (string, jvalue) fmap \<Rightarrow> nbc_flags \<Rightarrow> unit startup" where
  "nbc_start W C dyn resp f = (let lib = ou_lib W in
     and_then (always (SetLogger (nf_development f))) (\<lambda>_.
     and_then (GetConfigOrDie W) (\<lambda>cfg0.
     let cfg = client_limits f cfg0 in
     and_then (or_exit (Resolve dyn resp)) (\<lambda>r.
     and_then (must lib (NewManager cfg (nbc_manager f r))) (\<lambda>_.
     and_then (maybe_watcher lib r) (\<lambda>_.
     and_then (must lib (SetupNotebookController (notebook_watches (ou_env W)))) (\<lambda>_.
     and_then (maybe_culler lib (ou_env W) C) (\<lambda>_.
     and_then (must lib (AddHealthzCheck ''healthz'')) (\<lambda>_.
     and_then (must lib (AddReadyzCheck ''readyz'')) (\<lambda>_.
     must lib Start))))))))))"

definition nbc_main :: "'s outside \<Rightarrow> culler \<Rightarrow> goerr + unit \<Rightarrow> goerr + (string, jvalue) fmap \<Rightarrow>
    (string \<Rightarrow> int option) \<Rightarrow> zap_flags \<Rightarrow> string list \<Rightarrow> int \<times> lib_call list" where
  "nbc_main W C dyn resp parse_int extra args = (case parse_flags (nbc_flagset parse_int extra) nbc_defaults args of
     ExitCode c \<Rightarrow> (c, [])
   | Parsed f \<Rightarrow> exit_code (run_state (nbc_start W C dyn resp f) []))"

end
