(* ===== verification/StartupProps.thy ===== *)
theory StartupProps
  imports Startup TlsProps CullingProps
begin

text \<open>
  What the two programs have decided by the time their manager runs: the TLS policy of every
  server, the namespace, the settings, the culler; and that without these they exit before.
\<close>

section \<open>Runs\<close>

lemma run_and_then [simp]:
  "run_state (and_then m f) cs = (case run_state m cs of (Inl c, cs') \<Rightarrow> (Inl c, cs') | (Inr x, cs') \<Rightarrow> run_state (f x) cs')"
  by (auto simp: and_then_def split: prod.splits sum.splits)

lemma run_startup [simp]:
  "run_state (os_Exit c) cs = (Inl c, cs)"
  "run_state (always k) cs = (Inr (), cs @ [k])"
  "run_state (must lib k) cs = (case lib (cs @ [k]) of None \<Rightarrow> Inr () | Some _ \<Rightarrow> Inl 1, cs @ [k])"
  "run_state (or_exit r) cs = (map_sum (\<lambda>_. 1) id r, cs)"
  "run_state (GetConfigOrDie W) cs = (case ou_config W of None \<Rightarrow> Inl 1 | Some c \<Rightarrow> Inr c, cs)"
  by (simp_all add: os_Exit_def always_def must_def or_exit_def GetConfigOrDie_def State_Monad.return_def split: option.split)

text \<open>
  \<open>starts m cs calls\<close>: run after the calls \<open>cs\<close>, \<open>m\<close> makes them \<open>calls\<close>, among which is \<open>Start\<close>. A
  step before \<open>Start\<close> has then succeeded.
\<close>

named_theorems start_rules \<open>steps of a run that gets to \<open>Start\<close>\<close>

definition starts :: "'a startup \<Rightarrow> lib_call list \<Rightarrow> lib_call list \<Rightarrow> bool" where
  "starts m cs calls \<longleftrightarrow> snd (run_state m cs) = calls \<and> Start \<in> set calls"

lemma starts_steps [start_rules]:
  assumes "Start \<notin> set cs"
  shows "k \<noteq> Start \<Longrightarrow> starts (and_then (must lib k) f) cs calls \<longleftrightarrow> lib (cs @ [k]) = None \<and> starts (f ()) (cs @ [k]) calls"
    and "starts (and_then (always k) g) cs calls \<longleftrightarrow> starts (g ()) (cs @ [k]) calls"
    and "starts (and_then (GetConfigOrDie W) i) cs calls \<longleftrightarrow> (\<exists>c. ou_config W = Some c \<and> starts (i c) cs calls)"
    and "starts (and_then (State_Monad.return (Inr x)) j) cs calls \<longleftrightarrow> starts (j x) cs calls"
    and "\<not> starts (os_Exit c) cs calls"
  using assms by (auto simp: starts_def split: option.splits)

lemma starts_or_exit [start_rules]:
  "Start \<notin> set cs \<Longrightarrow> starts (and_then (or_exit r) h) cs calls \<longleftrightarrow> (\<exists>x. r = Inr x \<and> starts (h x) cs calls)"
  by (cases r) (auto simp: starts_def)

lemma starts_assoc [start_rules]: "and_then (and_then m f) g = and_then m (\<lambda>x. and_then (f x) g)"
  by (rule state.expand, rule ext) (auto split: prod.splits sum.splits)

lemma starts_if [start_rules]: "starts (if b then m else n) cs calls \<longleftrightarrow> (b \<and> starts m cs calls) \<or> (\<not> b \<and> starts n cs calls)"
  by simp

lemma starts_Start [start_rules]: "starts (must lib Start) cs calls \<longleftrightarrow> calls = cs @ [Start]"
  by (auto simp: starts_def split: option.splits)

section \<open>The ODH controller\<close>

lemma starts_security_watcher [start_rules]:
  "Start \<notin> set cs \<Longrightarrow> starts (and_then (register_security_watcher lib boot) f) cs calls \<Longrightarrow>
    starts (f ()) (cs @ (case security_watcher boot of None \<Rightarrow> [] | Some (profile, adh) \<Rightarrow> [SetupSecurityWatcher profile adh])) calls"
  by (auto simp: register_security_watcher_def start_rules split: option.splits)

lemma odh_main_starts:
  assumes "odh_main W L B parse_int extra args = (code, calls)" "Start \<in> set calls"
  obtains f where "parse_flags (odh_flagset parse_int extra) odh_defaults args = Parsed f" "starts (odh_start W L B f) [] calls"
  using assms by (auto simp: odh_main_def exit_code_def starts_def split: parsed.splits prod.splits sum.splits)

text \<open>
  C30. The manager of the ODH controller runs only with a TLS policy that was resolved: the calls before
  \<open>Start\<close> are exactly these, the metrics and the webhook server get the options of the bootstrap, the
  metrics are served to authenticated and authorized clients only, the reconciler and the webhook share
  namespace and settings, both webhooks are registered, and the watcher of the security profile is
  registered where the API was there or may come back.
\<close>

theorem odh_runs_with_known_tls:
  assumes "odh_main W L B parse_int extra args = (code, calls)" "Start \<in> set calls"
  shows "\<exists>f cfg boot ns mg. parse_flags (odh_flagset parse_int extra) odh_defaults args = Parsed f \<and>
     of_kubeRbacProxyImage f \<noteq> [] \<and> bootstrapTLS L B = Inr boot \<and>
     getControllerNamespace (ou_env W) (ou_namespaceFile W) = Inr ns \<and>
     mo_TLSOpts (mg_Metrics mg) = tb_opts boot \<and> mo_SecureServing (mg_Metrics mg) \<and> mo_authn_authz (mg_Metrics mg) \<and>
     map_option wo_TLSOpts (mg_WebhookServer mg) = Some (tb_opts boot) \<and>
     (let S = odh_settings (ou_env W) ns (of_kubeRbacProxyImage f) in
      calls = [SetLogger (of_development f), NewBootstrapClient 10, NewManager cfg mg, SetupOdhController S odh_watches,
         RegisterMutating ''/mutate-notebook-v1'' S, RegisterValidating ''/validate-notebook-v1'',
         AddHealthzCheck ''healthz'', AddReadyzCheck ''readyz''] @
        (case security_watcher boot of None \<Rightarrow> [] | Some (profile, adh) \<Rightarrow> [SetupSecurityWatcher profile adh]) @ [Start])"
proof -
  obtain f where f: "parse_flags (odh_flagset parse_int extra) odh_defaults args = Parsed f" "starts (odh_start W L B f) [] calls"
    by (rule odh_main_starts[OF assms])
  then obtain cfg boot ns where "of_kubeRbacProxyImage f \<noteq> []" "bootstrapTLS L B = Inr boot"
    "getControllerNamespace (ou_env W) (ou_namespaceFile W) = Inr ns" "calls = [SetLogger (of_development f), NewBootstrapClient 10,
         NewManager cfg (odh_manager (ou_without_binary W) f boot), SetupOdhController (odh_settings (ou_env W) ns (of_kubeRbacProxyImage f)) odh_watches,
         RegisterMutating ''/mutate-notebook-v1'' (odh_settings (ou_env W) ns (of_kubeRbacProxyImage f)), RegisterValidating ''/validate-notebook-v1'',
         AddHealthzCheck ''healthz'', AddReadyzCheck ''readyz''] @
        (case security_watcher boot of None \<Rightarrow> [] | Some (profile, adh) \<Rightarrow> [SetupSecurityWatcher profile adh]) @ [Start]"
    by (auto simp: odh_start_def start_rules Let_def dest!: starts_security_watcher[rotated])
  then show ?thesis using f(1)
    by (intro exI[of _ f] exI[of _ cfg] exI[of _ boot] exI[of _ ns] exI[of _ "odh_manager (ou_without_binary W) f boot"])
      (simp add: odh_manager_def metrics_server_def Let_def)
qed

abbreviation sample_outside :: "(kobj list) outside" where
  "sample_outside \<equiv> \<lparr>ou_config = Some \<lparr>rc_Burst = 0, rc_QPS = 0\<rparr>, ou_env = sample_env, ou_namespaceFile = Some ''odh'',
     ou_without_binary = (\<lambda>s. s), ou_lib = (\<lambda>_. None)\<rparr>"

abbreviation sample_args :: "string list" where
  "sample_args \<equiv> [''--kube-rbac-proxy-image'', ''proxy:1'', ''--leader-elect'']"

lemma sample_args_parsed:
  "parse_flags (odh_flagset (\<lambda>_. None) (\<lambda>_. None)) odh_defaults sample_args =
    Parsed (odh_defaults\<lparr>of_kubeRbacProxyImage := ''proxy:1'', of_enableLeaderElection := True\<rparr>)"
  by (simp add: parse_flags.simps(2) flag_body_def odh_flagset_def flag_defs flag_name_def flag_value_def ParseBool_def)

lemma sample_boot: "\<exists>boot. bootstrapTLS sample_tlslib sample_bootlib = Inr boot"
  by (simp add: bootstrapTLS_def boot_profile_def fetchTLSAdherence_def zero_boot_def validateProfileSpec_def)

theorem odh_runs_with_known_tls_witness:
  "\<exists>boot mg cfg. bootstrapTLS sample_tlslib sample_bootlib = Inr boot \<and>
     NewManager cfg mg \<in> set (snd (odh_main sample_outside sample_tlslib sample_bootlib (\<lambda>_. None) (\<lambda>_. None) sample_args)) \<and>
     mo_TLSOpts (mg_Metrics mg) = tb_opts boot"
proof -
  let ?r = "odh_main sample_outside sample_tlslib sample_bootlib (\<lambda>_. None) (\<lambda>_. None) sample_args"
  obtain boot where boot: "bootstrapTLS sample_tlslib sample_bootlib = Inr boot" using sample_boot by blast
  have "Start \<in> set (snd ?r)"
    by (simp add: odh_main_def sample_args_parsed exit_code_def odh_start_def Let_def boot getControllerNamespace_def
        register_security_watcher_def split: option.split)
  from odh_runs_with_known_tls[OF surjective_pairing this] obtain f cfg boot' ns mg where
    "bootstrapTLS sample_tlslib sample_bootlib = Inr boot'" "mo_TLSOpts (mg_Metrics mg) = tb_opts boot'"
    "NewManager cfg mg \<in> set (snd ?r)"
    by (elim exE conjE) (simp add: Let_def)
  then show ?thesis by (intro exI conjI)
qed

section \<open>The debug flag\<close>

text \<open>
  Parsing keeps a relation of the flags that every \<open>Set\<close> keeps.
\<close>

definition keeps_flags :: "('f \<Rightarrow> 'f \<Rightarrow> bool) \<Rightarrow> 'f flagset \<Rightarrow> bool" where
  "keeps_flags R fs \<longleftrightarrow> (\<forall>n b put v f g. fs n = Some (b, put) \<longrightarrow> R f g \<longrightarrow> rel_option R (put v f) (put v g))"

lemma parse_flags_rel:
  assumes "keeps_flags R fs"
  shows "R f g \<Longrightarrow> rel_parsed R (parse_flags fs f args) (parse_flags fs g args)"
proof (induction "length args" arbitrary: args f g rule: less_induct)
  case less
  show ?case
  proof (cases args)
    case (Cons s rest)
    let ?body = "flag_body s"
    have put: "rel_parsed R (case put v f of None \<Rightarrow> ExitCode 2 | Some f' \<Rightarrow> parse_flags fs f' args')
        (case put v g of None \<Rightarrow> ExitCode 2 | Some f' \<Rightarrow> parse_flags fs f' args')"
      if "fs (flag_name ?body) = Some (b, put)" "length args' < length args" for b put v args'
    proof -
      have "rel_option R (put v f) (put v g)" using assms that(1) less.prems by (auto simp: keeps_flags_def)
      then show ?thesis using less.hyps[OF that(2)] by (cases "put v f"; cases "put v g") auto
    qed
    show ?thesis
    proof (cases "fs (flag_name ?body)")
      case None
      then show ?thesis using less.prems by (simp add: Cons parse_flags.simps(2) Let_def)
    next
      case (Some bp)
      obtain b p where bp: "bp = (b, p)" by (cases bp)
      have rest: "rel_parsed R (case p v f of None \<Rightarrow> ExitCode 2 | Some f' \<Rightarrow> parse_flags fs f' rest)
          (case p v g of None \<Rightarrow> ExitCode 2 | Some f' \<Rightarrow> parse_flags fs f' rest)" for v
        using Some bp by (intro put) (simp_all add: Cons)
      have tail: "rel_parsed R (case p v f of None \<Rightarrow> ExitCode 2 | Some f' \<Rightarrow> parse_flags fs f' vs)
          (case p v g of None \<Rightarrow> ExitCode 2 | Some f' \<Rightarrow> parse_flags fs f' vs)" if "rest = x # vs" for v x vs
        using Some bp that by (intro put) (simp_all add: Cons)
      show ?thesis
      proof (cases "length s < 2 \<or> hd s \<noteq> CHR ''-'' \<or> s = ''--'' \<or> ?body = [] \<or> hd ?body = CHR ''-'' \<or> hd ?body = CHR ''=''")
        case False
        then show ?thesis
          by (cases b; cases "flag_value ?body")
            (simp_all add: Cons parse_flags.simps(2) Let_def Some bp rest tail split: list.split)
      qed (auto simp: Cons parse_flags.simps(2) Let_def less.prems)
    qed
  qed (simp add: less.prems)
qed

abbreviation same_but_debug :: "odh_flags \<Rightarrow> odh_flags \<Rightarrow> bool" where
  "same_but_debug f g \<equiv> f\<lparr>of_enableDebugLogging := False\<rparr> = g\<lparr>of_enableDebugLogging := False\<rparr>"

lemma odh_flagset_keeps: "keeps_flags same_but_debug (odh_flagset parse_int extra)"
  unfolding keeps_flags_def
proof (intro allI impI)
  fix n b put v and f g :: odh_flags
  assume p: "odh_flagset parse_int extra n = Some (b, put)" and r: "same_but_debug f g"
  then show "rel_option same_but_debug (put v f) (put v g)"
    by (cases f; cases g; cases "ParseBool v"; cases "parse_int v")
      (auto simp: odh_flagset_def flag_defs option.rel_map option.rel_refl split: if_splits option.splits)
qed

lemma odh_start_debug:
  assumes "same_but_debug f g"
  shows "odh_start W L B f = odh_start W L B g"
proof -
  have m: "odh_manager wb f boot = odh_manager wb g boot" for wb boot
    using assms by (cases f; cases g) (simp add: odh_manager_def)
  have "of_development f = of_development g" "of_kubeRbacProxyImage f = of_kubeRbacProxyImage g"
    using assms by (cases f; cases g; simp)+
  with m show ?thesis by (simp add: odh_start_def Let_def)
qed

lemma same_debug_same_run:
  "rel_parsed same_but_debug p q \<Longrightarrow>
    (case p of ExitCode c \<Rightarrow> (c, []) | Parsed f \<Rightarrow> exit_code (run_state (odh_start W L B f) [])) =
    (case q of ExitCode c \<Rightarrow> (c, []) | Parsed f \<Rightarrow> exit_code (run_state (odh_start W L B f) []))"
  by (cases p; cases q; clarsimp; drule odh_start_debug[of _ _ W L B]; simp)

text \<open>
  \<open>--debug-log\<close> changes nothing: zap's options were built before the flags were parsed, so with the flag
  the program makes the same calls, its logger included, and exits the same way.
\<close>

theorem debug_log_ignored:
  "odh_main W L B parse_int extra (''--debug-log'' # args) = odh_main W L B parse_int extra args"
proof -
  let ?p = "parse_flags (odh_flagset parse_int extra)"
  let ?d = "odh_defaults\<lparr>of_enableDebugLogging := True\<rparr>"
  have "?p odh_defaults (''--debug-log'' # args) = ?p ?d args"
    by (simp add: parse_flags.simps(2) flag_body_def odh_flagset_def flag_defs flag_name_def flag_value_def ParseBool_def)
  moreover have "rel_parsed same_but_debug (?p ?d args) (?p odh_defaults args)"
    by (rule parse_flags_rel[OF odh_flagset_keeps]) simp
  ultimately show ?thesis
    unfolding odh_main_def by (simp only: same_debug_same_run)
qed

section \<open>The notebook controller\<close>

lemma nbc_main_starts:
  assumes "nbc_main W C dyn resp parse_int extra args = (code, calls)" "Start \<in> set calls"
  obtains f where "parse_flags (nbc_flagset parse_int extra) nbc_defaults args = Parsed f"
    "starts (nbc_start W C dyn resp f) [] calls"
  using assms by (auto simp: nbc_main_def exit_code_def starts_def split: parsed.splits prod.splits sum.splits)

text \<open>
  C31. The manager of the notebook controller runs the culler exactly where \<open>ENABLE_CULLING\<close> is \<open>true\<close>,
  then with the times of the environment, and never with a period that does not parse: the program exits. The
  culler it runs counts nothing: it has no metrics.
  It runs the watcher of the TLS profile exactly where the API was available, with the profile
  its servers got.
\<close>

theorem culler_runs_where_enabled:
  assumes "nbc_main W C dyn resp parse_int extra args = (code, calls)" "Start \<in> set calls"
  shows "\<exists>r f cfg. Resolve dyn resp = Inr r \<and> NewManager cfg (nbc_manager f r) \<in> set calls \<and>
     (\<forall>C'. SetupCuller C' \<in> set calls \<longleftrightarrow>
        GetEnvDefault (ou_env W) ''ENABLE_CULLING'' DEFAULT_ENABLE_CULLING = ''true'' \<and>
        initGlobalVars (ou_env W) (C\<lparr>cull_metrics := False\<rparr>) = Inr C') \<and>
     (\<forall>C'. SetupCuller C' \<in> set calls \<longrightarrow> \<not> cull_metrics C') \<and>
     (GetEnvDefault (ou_env W) ''ENABLE_CULLING'' DEFAULT_ENABLE_CULLING = ''true'' \<longrightarrow>
        Atoi (GetEnvDefault (ou_env W) ''IDLENESS_CHECK_PERIOD'' DEFAULT_IDLENESS_CHECK_PERIOD) \<noteq> None) \<and>
     (\<forall>w. SetupProfileWatcher w \<in> set calls \<longleftrightarrow> start_watcher r = Some w)"
proof -
  obtain f where "starts (nbc_start W C dyn resp f) [] calls" by (rule nbc_main_starts[OF assms])
  then obtain r cfg where "Resolve dyn resp = Inr r"
    "calls = [SetLogger (nf_development f), NewManager cfg (nbc_manager f r)] @
       (case start_watcher r of None \<Rightarrow> [] | Some w \<Rightarrow> [SetupProfileWatcher w]) @
       [SetupNotebookController (notebook_watches (ou_env W))] @
       (if GetEnvDefault (ou_env W) ''ENABLE_CULLING'' DEFAULT_ENABLE_CULLING = ''true''
        then [SetupCuller (projr (initGlobalVars (ou_env W) (C\<lparr>cull_metrics := False\<rparr>)))] else []) @
       [AddHealthzCheck ''healthz'', AddReadyzCheck ''readyz'', Start]"
    "GetEnvDefault (ou_env W) ''ENABLE_CULLING'' DEFAULT_ENABLE_CULLING = ''true'' \<longrightarrow> (\<exists>C'. initGlobalVars (ou_env W) (C\<lparr>cull_metrics := False\<rparr>) = Inr C')"
    by (auto simp: nbc_start_def start_rules maybe_watcher_def maybe_culler_def culler_setup_def Let_def
        split: option.splits if_splits)
  then show ?thesis
    by (intro exI[of _ r] exI[of _ f] exI[of _ cfg])
      (auto simp: initGlobalVars_def Let_def split: option.splits)
qed

theorem culler_runs_where_enabled_witness:
  "let W = sample_outside\<lparr>ou_env := mem_env [''ENABLE_CULLING'' \<mapsto> ''true''] zero_time\<rparr>;
       calls = snd (nbc_main W sample_culler (Inr ()) (Inl (ApiErr NotFound)) (\<lambda>_. None) (\<lambda>_. None) [])
   in \<exists>C'. initGlobalVars (ou_env W) (sample_culler\<lparr>cull_metrics := False\<rparr>) = Inr C' \<and> SetupCuller C' \<in> set calls"
proof -
  let ?W = "sample_outside\<lparr>ou_env := mem_env [''ENABLE_CULLING'' \<mapsto> ''true''] zero_time\<rparr>"
  let ?r = "nbc_main ?W sample_culler (Inr ()) (Inl (ApiErr NotFound)) (\<lambda>_. None) (\<lambda>_. None) []"
  have "Atoi DEFAULT_IDLENESS_CHECK_PERIOD \<noteq> None" by code_simp
  then have "\<exists>C'. initGlobalVars (ou_env ?W) (sample_culler\<lparr>cull_metrics := False\<rparr>) = Inr C'"
    by (auto simp: initGlobalVars_def GetEnvDefault_def Getenv_def Let_def)
  then obtain C' where C': "initGlobalVars (ou_env ?W) (sample_culler\<lparr>cull_metrics := False\<rparr>) = Inr C'" by blast
  have e: "GetEnvDefault (ou_env ?W) ''ENABLE_CULLING'' DEFAULT_ENABLE_CULLING = ''true''"
    by (simp add: GetEnvDefault_def Getenv_def)
  have "Start \<in> set (snd ?r)"
    using C' by (simp add: nbc_main_def exit_code_def nbc_start_def Let_def Resolve_def resolveFrom_def IsNoMatchError_def
        IsNotFound_def maybe_watcher_def start_watcher_def maybe_culler_def culler_setup_def GetEnvDefault_def Getenv_def)
  from culler_runs_where_enabled[OF surjective_pairing this] have "SetupCuller C' \<in> set (snd ?r)"
    using C' e by (elim exE conjE) blast
  with C' show ?thesis by (auto simp: Let_def)
qed

end
