(* ===== verification/Permissions.thy ===== *)
theory Permissions
  imports LockProps WebhookProps CertProps CullingProps Startup
begin

text \<open>
  What the programs may do: the permissions their source asks for, in the \<open>+kubebuilder:rbac\<close>
  markers from which the cluster roles are generated, and that every request they send is among them.
  The roles of the OpenShift overlays add the cluster configuration.
\<close>

section \<open>Roles\<close>

text \<open>A rule: an API group, resources of it, and what may be done with them.\<close>

type_synonym rule = "string \<times> string list \<times> string list"

definition odh_rules :: "rule list" where
  "odh_rules = [
     (''authentication.k8s.io'', [''tokenreviews''], [''create'']),
     (''authorization.k8s.io'', [''subjectaccessreviews''], [''create'']),
     (''kubeflow.org'', [''notebooks''], [''get'', ''list'', ''watch'', ''patch'', ''update'']),
     (''kubeflow.org'', [''notebooks/status''], [''get'']),
     (''kubeflow.org'', [''notebooks/finalizers''], [''update'', ''patch'']),
     (''gateway.networking.k8s.io'', [''httproutes''], [''get'', ''list'', ''watch'', ''create'', ''update'', ''patch'', ''delete'']),
     (''gateway.networking.k8s.io'', [''referencegrants''], [''get'', ''list'', ''watch'', ''create'', ''update'', ''patch'', ''delete'']),
     ('''', [''services'', ''serviceaccounts'', ''secrets'', ''configmaps''], [''get'', ''list'', ''watch'', ''create'', ''update'', ''patch'']),
     (''networking.k8s.io'', [''networkpolicies''], [''get'', ''list'', ''watch'', ''create'', ''update'', ''patch'', ''delete'']),
     (''networking.k8s.io'', [''networkpolicies/finalizers''], [''update'', ''patch'']),
     (''oauth.openshift.io'', [''oauthclients''], [''get'', ''list'', ''watch'', ''update'', ''patch'', ''delete'']),
     (''rbac.authorization.k8s.io'', [''roles''], [''get'', ''list'', ''watch'', ''create'', ''update'', ''patch'']),
     (''rbac.authorization.k8s.io'', [''rolebindings''], [''get'', ''list'', ''watch'', ''create'', ''update'', ''patch'', ''delete'']),
     (''rbac.authorization.k8s.io'', [''clusterrolebindings''], [''get'', ''list'', ''watch'', ''create'', ''update'', ''patch'', ''delete'']),
     (''route.openshift.io'', [''routes''], [''get'', ''list'', ''watch'']),
     (''image.openshift.io'', [''imagestreams''], [''list'', ''get'', ''watch'']),
     (''datasciencepipelinesapplications.opendatahub.io'', [''datasciencepipelinesapplications''], [''get'', ''list'', ''watch'']),
     (''datasciencepipelinesapplications.opendatahub.io'', [''datasciencepipelinesapplications/api''],
        [''get'', ''create'', ''update'', ''patch'', ''delete'']),
     (''rbac.authorization.k8s.io'', [''clusterroles''], [''get'']),
     (''gateway.networking.k8s.io'', [''gateways''], [''get'', ''list'', ''watch'']),
     ('''', [''events''], [''create'', ''patch'']),
     ('''', [''namespaces''], [''get'', ''list'', ''watch''])]"

text \<open>The role of the OpenShift overlay (\<open>config/overlays/openshift/rbac/tls_clusterrole.yaml\<close>).\<close>

definition odh_openshift_rules :: "rule list" where
  "odh_openshift_rules = [(''config.openshift.io'', [''apiservers'', ''proxies''], [''get'', ''list'', ''watch''])]"

definition notebook_rules :: "rule list" where
  "notebook_rules = [
     (''core'', [''pods''], [''get'', ''list'', ''watch'', ''delete'']),
     (''core'', [''events''], [''get'', ''list'', ''watch'', ''create'', ''patch'']),
     (''core'', [''services''], [''*'']),
     (''apps'', [''statefulsets''], [''*'']),
     (''kubeflow.org'', [''notebooks'', ''notebooks/status'', ''notebooks/finalizers''], [''*'']),
     (''networking.istio.io'', [''virtualservices''], [''*''])]"

section \<open>What a request needs\<close>

fun resource_of :: "kind \<Rightarrow> string \<times> string" where
  "resource_of KNotebook = (''kubeflow.org'', ''notebooks'')"
| "resource_of KStatefulSet = (''apps'', ''statefulsets'')"
| "resource_of KService = ('''', ''services'')"
| "resource_of KPod = ('''', ''pods'')"
| "resource_of KConfigMap = ('''', ''configmaps'')"
| "resource_of KSecret = ('''', ''secrets'')"
| "resource_of KServiceAccount = ('''', ''serviceaccounts'')"
| "resource_of KRoleBinding = (''rbac.authorization.k8s.io'', ''rolebindings'')"
| "resource_of KClusterRoleBinding = (''rbac.authorization.k8s.io'', ''clusterrolebindings'')"
| "resource_of KRole = (''rbac.authorization.k8s.io'', ''roles'')"
| "resource_of KClusterRole = (''rbac.authorization.k8s.io'', ''clusterroles'')"
| "resource_of KNetworkPolicy = (''networking.k8s.io'', ''networkpolicies'')"
| "resource_of KHTTPRoute = (''gateway.networking.k8s.io'', ''httproutes'')"
| "resource_of KReferenceGrant = (''gateway.networking.k8s.io'', ''referencegrants'')"
| "resource_of KEvent = ('''', ''events'')"
| "resource_of KVirtualService = (''networking.istio.io'', ''virtualservices'')"
| "resource_of KOAuthClient = (''oauth.openshift.io'', ''oauthclients'')"
| "resource_of KDeployment = (''apps'', ''deployments'')"
| "resource_of KImageStream = (''image.openshift.io'', ''imagestreams'')"
| "resource_of KProxy = (''config.openshift.io'', ''proxies'')"
| "resource_of KGateway = (''gateway.networking.k8s.io'', ''gateways'')"
| "resource_of KRoute = (''route.openshift.io'', ''routes'')"
| "resource_of KDSPA = (''datasciencepipelinesapplications.opendatahub.io'', ''datasciencepipelinesapplications'')"
| "resource_of KAPIServer = (''config.openshift.io'', ''apiservers'')"

text \<open>\<open>core\<close> in a marker is the group whose name is empty.\<close>

definition group_matches :: "string \<Rightarrow> string \<Rightarrow> bool" where
  "group_matches g name \<longleftrightarrow> (if g = ''core'' then name = [] else g = name)"

definition grants :: "rule list \<Rightarrow> string \<Rightarrow> string \<times> string \<Rightarrow> bool" where
  "grants rules verb r \<longleftrightarrow> list_ex (\<lambda>(g, rs, vs). group_matches g (fst r) \<and> snd r \<in> set rs \<and>
     (verb \<in> set vs \<or> ''*'' \<in> set vs)) rules"

definition may :: "rule list \<Rightarrow> string \<Rightarrow> kind \<Rightarrow> string \<Rightarrow> bool" where
  "may rules verb k subresource = grants rules verb (fst (resource_of k), snd (resource_of k) @ subresource)"

fun granted :: "rule list \<Rightarrow> request \<Rightarrow> bool" where
  "granted rules (RGet k _) = may rules ''get'' k []"
| "granted rules (RList k _ _) = may rules ''list'' k []"
| "granted rules (RCreate x) = may rules ''create'' (obj_kind x) []"
| "granted rules (RUpdate x) = may rules ''update'' (obj_kind x) []"
| "granted rules (RUpdateStatus x) = may rules ''update'' (obj_kind x) ''/status''"
| "granted rules (RDelete k _) = may rules ''delete'' k []"
| "granted rules (RPatchRaw k _ _) = may rules ''patch'' k []"
| "granted rules (RPatchMerge x _) = may rules ''patch'' (obj_kind x) []"

text \<open>An informer lists and watches.\<close>

fun watched_resource :: "watch \<Rightarrow> string \<times> string" where
  "watched_resource (WFor k) = resource_of k"
| "watched_resource (WOwns k) = resource_of k"
| "watched_resource (WWatches k) = resource_of k"
| "watched_resource WNamespaces = ('''', ''namespaces'')"

definition watchable :: "rule list \<Rightarrow> watch \<Rightarrow> bool" where
  "watchable rules x \<longleftrightarrow> grants rules ''list'' (watched_resource x) \<and> grants rules ''watch'' (watched_resource x)"

text \<open>Recording an event creates one, or patches the count of an earlier one.\<close>

fun permitted :: "rule list \<Rightarrow> effect \<Rightarrow> bool" where
  "permitted rules (Call q _) = granted rules q"
| "permitted rules (Emitted _ _ _ _) = (may rules ''create'' KEvent [] \<and> may rules ''patch'' KEvent [])"
| "permitted rules _ = True"

section \<open>The ODH controller\<close>

definition odh_role :: "rule list" where
  "odh_role = odh_rules @ odh_openshift_rules"

lemma odh_may [simp]:
  "may odh_role ''get'' KNotebook []" "may odh_role ''list'' KNotebook []" "may odh_role ''update'' KNotebook []" "may odh_role ''patch'' KNotebook []"
  "may odh_role ''get'' KConfigMap []" "may odh_role ''list'' KConfigMap []" "may odh_role ''create'' KConfigMap []" "may odh_role ''update'' KConfigMap []"
  "may odh_role ''get'' KSecret []" "may odh_role ''create'' KSecret []" "may odh_role ''update'' KSecret []"
  "may odh_role ''get'' KService []" "may odh_role ''create'' KService []"
  "may odh_role ''get'' KServiceAccount []" "may odh_role ''create'' KServiceAccount []"
  "may odh_role ''get'' KRoleBinding []" "may odh_role ''create'' KRoleBinding []" "may odh_role ''update'' KRoleBinding []" "may odh_role ''delete'' KRoleBinding []"
  "may odh_role ''get'' KClusterRoleBinding []" "may odh_role ''create'' KClusterRoleBinding []" "may odh_role ''delete'' KClusterRoleBinding []"
  "may odh_role ''get'' KRole []" "may odh_role ''get'' KClusterRole []"
  "may odh_role ''get'' KNetworkPolicy []" "may odh_role ''create'' KNetworkPolicy []" "may odh_role ''update'' KNetworkPolicy []"
  "may odh_role ''get'' KHTTPRoute []" "may odh_role ''list'' KHTTPRoute []" "may odh_role ''create'' KHTTPRoute []"
  "may odh_role ''update'' KHTTPRoute []" "may odh_role ''delete'' KHTTPRoute []"
  "may odh_role ''get'' KReferenceGrant []" "may odh_role ''create'' KReferenceGrant []" "may odh_role ''update'' KReferenceGrant []" "may odh_role ''delete'' KReferenceGrant []"
  "may odh_role ''get'' KOAuthClient []" "may odh_role ''delete'' KOAuthClient []"
  "may odh_role ''get'' KDSPA []" "may odh_role ''get'' KGateway []" "may odh_role ''list'' KRoute []"
  "may odh_role ''get'' KImageStream []" "may odh_role ''list'' KImageStream []"
  "may odh_role ''get'' KAPIServer []" "may odh_role ''list'' KProxy []"
  "may odh_role ''create'' KEvent []" "may odh_role ''patch'' KEvent []"
  by (simp_all add: may_def grants_def odh_role_def odh_rules_def odh_openshift_rules_def group_matches_def)

abbreviation odh_ok :: "effect \<Rightarrow> bool" where
  "odh_ok \<equiv> permitted odh_role"

text \<open>
  The requests about the objects around a Notebook: all reads, and the writes of objects of other kinds
  that the controller and the webhook make.
\<close>

fun about :: "request \<Rightarrow> bool" where
  "about (RGet k _) \<longleftrightarrow> k \<in> {KConfigMap, KSecret, KService, KServiceAccount, KRoleBinding, KClusterRoleBinding, KRole,
     KClusterRole, KNetworkPolicy, KHTTPRoute, KReferenceGrant, KOAuthClient, KDSPA, KGateway, KImageStream, KAPIServer}"
| "about (RList k _ _) \<longleftrightarrow> k \<in> {KNotebook, KHTTPRoute, KRoute, KImageStream, KProxy}"
| "about (RCreate x) \<longleftrightarrow> obj_kind x \<in> {KConfigMap, KSecret, KService, KServiceAccount, KRoleBinding, KClusterRoleBinding,
     KNetworkPolicy, KHTTPRoute, KReferenceGrant}"
| "about (RUpdate x) \<longleftrightarrow> obj_kind x \<in> {KConfigMap, KSecret, KRoleBinding, KNetworkPolicy, KHTTPRoute, KReferenceGrant}"
| "about (RDelete k _) \<longleftrightarrow> k \<in> {KRoleBinding, KClusterRoleBinding, KHTTPRoute, KReferenceGrant, KOAuthClient}"
| "about _ \<longleftrightarrow> False"

fun around :: "effect \<Rightarrow> bool" where
  "around (Call q _) \<longleftrightarrow> about q"
| "around (Emitted _ _ _ _) \<longleftrightarrow> True"
| "around _ \<longleftrightarrow> False"

lemma around_ok: "emits around m \<Longrightarrow> emits odh_ok m"
proof (erule emits_mono)
  fix e assume "around e"
  then show "odh_ok e" by (cases e) (auto elim!: about.elims)
qed

lemma around_reads:
  "emits around (checkRoleExists E kd n ns)" "emits around (getGatewayInstance E)" "emits around (getDSPAInstance E ns)"
  "emits around (getHostnameForPublicEndpoint E g)" "emits around (loadKubeRbacProxyTLS E L)"
  unfolding checkRoleExists_def get_or_def getGatewayInstance_def getDSPAInstance_def getHostnameForPublicEndpoint_def
    getHostnameFromRoute_def loadKubeRbacProxyTLS_def
  by (intro emit_rules; simp)+

lemma around_elyra: "emits around (extractElyraRuntimeConfigInfo E g d nb)" "emits around (SyncElyraRuntimeConfigSecret E nb)"
  unfolding SyncElyraRuntimeConfigSecret_def sync_elyra_secret_def extractElyraRuntimeConfigInfo_def Let_def
  by (intro emit_rules around_reads; simp)+

lemma around_pipelines: "emits around (reconcile_pipelines E nb)"
  unfolding role_bindings get_or_def create_tolerant_def by (intro emit_rules around_reads around_elyra; simp)

lemma around_route: "emits around (reconcileHTTPRoute E R nb config new)" "emits around (DeleteHTTPRouteForNotebook E R nb)"
  unfolding reconcileHTTPRoute_def notebookIngress_def DeleteHTTPRouteForNotebook_def list_routes_def delete_route_def
    ensure_route_def repair_route_def create_tolerant_def
  by (intro emit_rules; auto split: list.splits intro!: emit_rules)+

lemma around_mlflow: "emits around (ReconcileMLflowIntegration E nb)"
  unfolding ReconcileMLflowIntegration_def CleanupMLflowRoleBinding_def ReconcileMLflowRoleBinding_def Let_def
  by (intro emit_rules around_reads) simp_all

lemma around_delete_routes: "emits around (delete_routes E hs)"
  by (induction hs) (auto intro!: emit_rules)

lemma around_parts:
  "emits around (notebookControllerConfig E R)"
  "emits around (CleanupKubeRbacProxyClusterRoleBinding E nb)"
  "emits around (EnsureConflictingHTTPRouteAbsent E R nb auth)"
  "emits around (deleteOAuthClient E nb)" "emits around (DeleteReferenceGrantIfLastNotebook E nb)"
  unfolding notebookControllerConfig_def CleanupKubeRbacProxyClusterRoleBinding_def
    EnsureConflictingHTTPRouteAbsent_def list_routes_def deleteOAuthClient_def DeleteReferenceGrantIfLastNotebook_def
    isLastNotebookInNamespace_def get_or_def
  by ((intro emit_rules around_delete_routes; simp); fail)+

lemma around_cleanup: "emits around (cleanup_all E R nb)"
  unfolding cleanup_all_def run_cleanup_def Let_def by (intro emit_rules around_parts around_route)

lemma around_images: "emits around (SyncRuntimeImagesConfigMap E ns cns)" "emits around (EnsureNotebookConfigMap E ns nb)"
  unfolding EnsureNotebookConfigMap_def SyncRuntimeImagesConfigMap_def getRuntimeConfigMap_def Let_def
  by (intro emit_rules; simp)+

lemma around_certs: "emits around (CreateNotebookCertConfigMap E R nb)" "emits around (IsConfigMapDeleted E nb)"
proof -
  have scan: "emits around (scan_configmaps E R ns names pool)" for ns names pool
    by (induction names arbitrary: pool) (auto intro!: emit_rules)
  show "emits around (CreateNotebookCertConfigMap E R nb)" "emits around (IsConfigMapDeleted E nb)"
    unfolding CreateNotebookCertConfigMap_def IsConfigMapDeleted_def Let_def
    by (intro emit_rules scan; simp)+
qed

lemma around_objects:
  "emits around (ReconcileNotebookServiceAccount E nb)" "emits around (ReconcileKubeRbacProxyService E nb)"
  "emits around (ReconcileKubeRbacProxyConfigMap E nb)" "emits around (ReconcileKubeRbacProxyClusterRoleBinding E nb)"
  "emits around (ReconcileReferenceGrant E R nb)"
  unfolding ReconcileNotebookServiceAccount_def ReconcileKubeRbacProxyService_def ReconcileKubeRbacProxyConfigMap_def
    ReconcileKubeRbacProxyClusterRoleBinding_def ReconcileReferenceGrant_def Let_def get_or_def create_tolerant_def
  by (intro emit_rules; simp)+

lemma around_policies: "emits around (ReconcileAllNetworkPolicies E R nb)"
  unfolding ReconcileAllNetworkPolicies_def reconcileNetworkPolicy_def create_policy_def
    reconcileExistingNetworkPolicy_def repair_policy_def repair_found_def write_policy_def policy_failed_def
    recordNetworkPolicyEvent_def Let_def
  by (intro emit_rules) (auto intro!: emit_rules)

lemmas around_all = around_reads around_elyra around_pipelines around_route around_mlflow around_parts around_cleanup
  around_images around_certs around_objects around_policies

lemmas odh_ok_around = around_all[THEN around_ok]

lemma odh_ok_tls: "emits odh_ok (reconcileKubeRbacProxyTLS E L nb)"
  unfolding reconcileKubeRbacProxyTLS_def apply_tls_def deferRunningNotebookTLS_def update_and_sync_def
  by (intro emit_rules odh_ok_around) simp_all

lemma odh_ok_certs: "emits odh_ok (reconcile_certs E R nb)"
  unfolding reconcile_certs_def UnsetNotebookCertConfig_def
  by (intro emit_rules odh_ok_around) simp_all

lemma odh_ok_finish: "emits odh_ok (finish_reconcile E nb)"
  unfolding finish_reconcile_def RemoveReconciliationLock_def wait_for_pull_secret_def
  by (intro emit_rules) simp_all

lemma odh_ok_finalizers: "emits odh_ok (update_finalizers E key f)"
  unfolding update_finalizers_def by (intro emit_rules) simp_all

lemma odh_ok_deleted: "emits odh_ok (reconcile_deleted E R nb)"
  unfolding reconcile_deleted_def oauth_cleanup_def removeOAuthClientFinalizer_def
  by (intro emit_rules odh_ok_around odh_ok_finalizers) auto

lemma odh_ok_reconcile: "emits odh_ok (OdhReconcile E R req)"
  unfolding OdhReconcile_def reconcile_objects_def reconcile_auth_def reconcile_plain_def
    ReconcileKubeRbacProxyHTTPRoute_def ReconcileHTTPRoute_def
  by (intro emit_rules odh_ok_around odh_ok_certs odh_ok_tls odh_ok_finish odh_ok_deleted odh_ok_finalizers) simp

lemma odh_ok_image: "emits odh_ok (image_loop E newest sel ns is found nb)"
  by (induction "is" arbitrary: found nb) (auto intro!: emit_rules split: list.split)

lemma odh_ok_handle: "emits odh_ok (Handle E W req)"
  unfolding Handle_def mutate_notebook_def mutate_pod_def injectKubeRbacProxy_def kubeRbacProxyAdmissionConfig_def
    cluster_proxy_stage_def ClusterWideProxyIsEnabled_def SetContainerImageFromRegistry_def CheckAndMountCACertBundle_def
    MountPipelineRuntimeImages_def elyra_stage_def MountElyraRuntimeConfigSecret_def readWorkbenchProbeTimeout_def
    HandleMLflowEnvVars_def getMLflowTrackingURI_def Let_def
  by (intro emit_rules odh_ok_image odh_ok_around; simp)

section \<open>The notebook controller\<close>

lemma notebook_may [simp]:
  "may notebook_rules ''get'' KNotebook []" "may notebook_rules ''update'' KNotebook []" "may notebook_rules ''update'' KNotebook ''/status''"
  "may notebook_rules ''get'' KStatefulSet []" "may notebook_rules ''list'' KStatefulSet []"
  "may notebook_rules ''create'' KStatefulSet []" "may notebook_rules ''update'' KStatefulSet []"
  "may notebook_rules ''get'' KService []" "may notebook_rules ''create'' KService []" "may notebook_rules ''update'' KService []"
  "may notebook_rules ''get'' KPod []" "may notebook_rules ''delete'' KPod []"
  "may notebook_rules ''get'' KEvent []" "may notebook_rules ''create'' KEvent []" "may notebook_rules ''patch'' KEvent []"
  "may notebook_rules ''get'' KVirtualService []" "may notebook_rules ''create'' KVirtualService []" "may notebook_rules ''update'' KVirtualService []"
  by (simp_all add: may_def grants_def notebook_rules_def group_matches_def)

abbreviation nbc_ok :: "effect \<Rightarrow> bool" where
  "nbc_ok \<equiv> permitted notebook_rules"

lemma nbc_ok_conditions: "emits P (mirror_conditions E cs)"
  by (induction cs) (auto simp: PodCondToNotebookCond_def or_now_def intro!: emit_rules)

lemma nbc_ok_parts:
  "emits nbc_ok (reconcileStatefulSet E nb b)" "emits nbc_ok (reconcileService E nb)"
  "emits nbc_ok (reconcileVirtualService E nb)" "emits nbc_ok (updateNotebookStatus E nb sts p)"
  "emits nbc_ok (restart_pod E nb)" "emits nbc_ok (nbNameFromInvolvedObject E ev)"
  unfolding reconcileStatefulSet_def reconcileService_def reconcileVirtualService_def updateNotebookStatus_def
    createNotebookStatus_def restart_pod_def nbNameFromInvolvedObject_def Let_def
  by (intro emit_rules nbc_ok_conditions; simp)+

lemma nbc_ok_reconcile: "emits nbc_ok (Reconcile E req)"
  unfolding Reconcile_def reconcile_notebook_def reemit_event_def
  by (intro emit_rules nbc_ok_parts; simp)

lemma nbc_ok_culling: "emits nbc_ok (CullingReconcile E C req)"
  unfolding CullingReconcile_def after_init_def refresh_body_def remove_body_def init_body_def
    cullingCheckPeriodHasPassed_def getNotebookApiKernels_def getNotebookApiTerminals_def getNotebookResourceResponse_def
    updateTimestampFromKernelsActivity_def updateLastCullingCheckTimestampAnnotation_def createTimestamp_def
    notebookIsIdle_def setStopAnnotation_def initializeAnnotations_def Let_def
  by (intro emit_rules) (auto intro!: emit_rules split: sum.splits)

section \<open>Properties\<close>


text \<open>What was done before stays in the trace.\<close>

lemma keeps_trace_bind:
  assumes "\<And>x. emits P (f x)"
  shows "set (trace (snd (run_state m w))) \<subseteq> set (trace (snd (run_state (State_Monad.bind m f) w)))"
proof -
  obtain x w1 where m: "run_state m w = (x, w1)" by (cases "run_state m w")
  obtain y w2 where f: "run_state (f x) w1 = (y, w2)" by (cases "run_state (f x) w1")
  show ?thesis using emits_trace[OF assms f] m f by auto
qed

lemma keeps_trace_check:
  "(\<And>x. emits P (f x)) \<Longrightarrow> set (trace (snd (run_state m w))) \<subseteq> set (trace (snd (run_state (check m f) w)))"
  unfolding check_def by (rule keeps_trace_bind[where P = P]) (auto split: sum.split intro: emits_return)

definition mutate_pod_tail :: "'s env \<Rightarrow> webhook \<Rightarrow> notebook \<Rightarrow> ('s, notebook) ehandler" where
  "mutate_pod_tail E W nb2 = do {
       _ \<leftarrow> SyncRuntimeImagesConfigMap E (nb_ns nb2) (wh_namespace W);
       check (MountPipelineRuntimeImages E nb2) (\<lambda>nb3.
       check (elyra_stage E nb3) (\<lambda>nb4. do {
         nb5 \<leftarrow> return_h (feast_stage nb4);
         (if wh_mlflowEnabled W
          then do { nb6 \<leftarrow> HandleMLflowEnvVars E (wh_gatewayURL W) nb5; ok nb6 }
          else ok nb5)
       }))
     }"

lemma odh_ok_mutate_tail: "emits odh_ok (mutate_pod_tail E W nb)"
  unfolding mutate_pod_tail_def MountPipelineRuntimeImages_def elyra_stage_def MountElyraRuntimeConfigSecret_def
    HandleMLflowEnvVars_def getMLflowTrackingURI_def Let_def
  by (intro emit_rules odh_ok_around; simp)

text \<open>
  The mutating webhook is registered with \<open>sideEffects=None\<close>, which has the API server call it on dry
  runs too, and yet it writes: admitting a Notebook in a namespace with the bundle
  \<open>odh-trusted-ca-bundle\<close> but no \<open>workbench-trusted-ca-bundle\<close> creates the latter.
\<close>

theorem admission_has_side_effects:
  assumes "rq_object req = Inr nb" "rq_operation req = OpUpdate"
    and "mlookup (nb_annotations nb) LastImageSelectionAnnotation = None"
    and "env_api E (RGet KConfigMap (nb_ns nb, OdhConfigMapName)) (server w) = (RespObj (OConfigMap cm), s1)"
    and "env_api E (RGet KConfigMap (nb_ns nb, WorkbenchTrustedCABundleName)) s1 = (RespErr e, s2)"
  shows "\<exists>resp. Call (RCreate (OConfigMap (workbench_bundle (nb_ns nb) (cm_data cm)))) resp \<in>
     set (trace (snd (run_state (Handle E W req) w)))"
proof -
  let ?b = "OConfigMap (workbench_bundle (nb_ns nb) (cm_data cm))"
  obtain resp s3 where c: "env_api E (RCreate ?b) s2 = (resp, s3)" by (cases "env_api E (RCreate ?b) s2")
  obtain nb' w' where ca: "run_state (CheckAndMountCACertBundle E (wh_envOrder W) nb) w = (nb', w')"
    by (cases "run_state (CheckAndMountCACertBundle E (wh_envOrder W) nb) w")
  have "Call (RCreate ?b) resp \<in> set (trace w')"
    using ca assms(4,5) c by (auto simp: CheckAndMountCACertBundle_def client_defs split: sum.splits)
  moreover have "set (trace w') \<subseteq> set (trace (snd (run_state (mutate_pod E W nb) w)))"
  proof -
    have "mutate_pod E W nb = State_Monad.bind (CheckAndMountCACertBundle E (wh_envOrder W) nb) (mutate_pod_tail E W)"
      by (simp add: mutate_pod_def mutate_pod_tail_def[abs_def] SetContainerImageFromRegistry_def assms(3))
    then show ?thesis using keeps_trace_bind[OF odh_ok_mutate_tail, where m = "CheckAndMountCACertBundle E (wh_envOrder W) nb" and w = w] ca
      by simp
  qed
  moreover have "set (trace (snd (run_state (mutate_pod E W nb) w))) \<subseteq> set (trace (snd (run_state (mutate_notebook E W req nb) w)))"
  proof -
    let ?rest = "\<lambda>nb1. check (if KubeRbacProxyInjectionIsEnabled (nb_meta nb1) then injectKubeRbacProxy E W nb1 else ok nb1) (\<lambda>nb2.
      check (readWorkbenchProbeTimeout E (wh_namespace W)) (\<lambda>probe.
        State_Monad.bind (cluster_proxy_stage E W (probe_stage probe nb2)) (\<lambda>nb3.
          case maybeRestartRunningNotebook W req nb3 of Inl e \<Rightarrow> fail e | Inr r \<Rightarrow> ok (mark_pending r))))"
    have "mutate_notebook E W req nb = check (mutate_pod E W nb) ?rest"
      by (simp add: mutate_notebook_def assms(2))
    moreover have "emits odh_ok (?rest x)" for x
      unfolding injectKubeRbacProxy_def kubeRbacProxyAdmissionConfig_def cluster_proxy_stage_def
        ClusterWideProxyIsEnabled_def readWorkbenchProbeTimeout_def
      by (intro emit_rules odh_ok_around; simp)
    ultimately show ?thesis using keeps_trace_check[where P = odh_ok and f = ?rest] by simp
  qed
  moreover have "trace (snd (run_state (Handle E W req) w)) = trace (snd (run_state (mutate_notebook E W req nb) w))"
    by (simp add: Handle_def assms(1) split: prod.split)
  ultimately show ?thesis by auto
qed

theorem admission_has_side_effects_witness:
  "\<exists>resp. Call (RCreate (OConfigMap (workbench_bundle ''ns'' (cm_data odh_bundle)))) resp \<in>
     set (trace (snd (run_state (Handle sample_env sample_webhook update_request) (sample_world [OConfigMap odh_bundle]))))"
proof -
  have ns: "nb_ns auth_notebook = ''ns''" "mlookup (nb_annotations auth_notebook) LastImageSelectionAnnotation = None"
    by (simp_all add: mlit_def mlookup_def go_consts)
  show ?thesis
    by (rule admission_has_side_effects[of update_request auth_notebook _ "sample_world [OConfigMap odh_bundle]" _ "[OConfigMap odh_bundle]"
          "ApiErr NotFound" "[OConfigMap odh_bundle]", unfolded ns(1)])
      (simp_all add: update_request_def ns odh_bundle_def empty_meta_def same_obj_def obj_key_def meta_key_def mlit_def go_consts)
qed

end
