(* ===== verification/Effort.thy ===== *)
theory Effort
  imports Permissions
begin

text \<open>
  Every run of a handler ends after a bounded number of calls, however the server answers: the retries
  are bounded, and the only loops over what the server sent make one call per object of a list it
  answered with. \<open>sends n m\<close> is the calculus: at most \<open>n\<close> effects, and one more per listed object.
\<close>

section \<open>Counting\<close>

fun listed_of :: "effect \<Rightarrow> nat" where
  "listed_of (Call _ (RespList xs)) = length xs"
| "listed_of _ = 0"

definition listed :: "effect list \<Rightarrow> nat" where
  "listed es = sum_list (map listed_of es)"

lemma listed_simps [simp]:
  "listed [] = 0" "listed (e # es) = listed_of e + listed es" "listed (es @ fs) = listed es + listed fs"
  by (simp_all add: listed_def)

definition sends :: "nat \<Rightarrow> ('s, 'a) handler \<Rightarrow> bool" where
  "sends n m \<longleftrightarrow> does m (\<lambda>_ es. length es \<le> n + listed es)"

named_theorems send_rules \<open>bounds of compound handlers\<close>

lemma sends_le: "sends a m \<Longrightarrow> a \<le> n \<Longrightarrow> sends n m"
  unfolding sends_def by (erule does_mono) simp

lemma sends_run: "sends n m \<Longrightarrow> run_state m w = (r, w') \<Longrightarrow> \<exists>es. trace w' = trace w @ es \<and> length es \<le> n + listed es"
  unfolding sends_def by (rule does_run)

lemma sends_return [send_rules]: "sends 0 (State_Monad.return x)"
  by (simp add: sends_def does_return)

lemma sends_lift [send_rules]: "sends 0 (lift r)"
  by (simp add: sends_def does_lift)

lemma sends_Now [send_rules]: "sends 0 (Now E)"
  by (simp add: sends_def does_Now)

lemma sends_resolve [send_rules]: "sends 0 (resolve_ingress R ns is)"
  by (simp add: sends_def does_resolve_ingress)

lemma sends_bind [send_rules]:
  assumes "sends a m" "\<And>x. sends b (f x)"
  shows "sends (a + b) (State_Monad.bind m f)"
  unfolding sends_def
  by (rule does_bind, rule does_mono[OF assms(1)[unfolded sends_def]],
      rule does_mono[OF assms(2)[unfolded sends_def]]) simp

lemma sends_check_lift [send_rules]: "(\<And>x. sends b (f x)) \<Longrightarrow> sends b (check (lift r) f)"
  by (cases r) (simp_all add: sends_def does_check_lift does_return)

lemma sends_check [send_rules]:
  assumes "sends a m" "\<And>x. sends b (f x)"
  shows "sends (a + b) (check m f)"
  unfolding check_def
  by (rule sends_bind[OF assms(1)]) (auto intro: assms(2) sends_le[OF sends_return] split: sum.split)

lemma sends_call_as: "sends 1 (call_as E p q)"
  by (simp add: sends_def does_call_as)

lemma sends_client [send_rules]:
  "sends 1 (Get E k p key)" "sends 1 (ListIn E k q ns ls)" "sends 1 (Create E p x)" "sends 1 (Update E p x)"
  "sends 1 (StatusUpdate E p x)" "sends 1 (Delete E k key)" "sends 1 (PatchRaw E k p key s)" "sends 1 (PatchMerge E p x y)"
  unfolding client_defs by (rule sends_call_as)+

lemma sends_effects [send_rules]: "sends 1 (emit e)" "sends 1 (http_get E url)"
  by (simp_all add: sends_def does_emit does_http_get)

lemma sends_max: "sends a m \<Longrightarrow> sends (max a b) m" "sends b m \<Longrightarrow> sends (max a b) m"
  by (rule sends_le, assumption, simp)+

lemma sends_if [send_rules]: "sends a m \<Longrightarrow> sends b n \<Longrightarrow> sends (max a b) (if c then m else n)"
  by (simp add: sends_max)

lemma sends_sum [send_rules]:
  "(\<And>e. sends a (f e)) \<Longrightarrow> (\<And>y. sends b (g y)) \<Longrightarrow> sends (max a b) (case x of Inl e \<Rightarrow> f e | Inr y \<Rightarrow> g y)"
  by (simp add: sends_max split: sum.split)

lemma sends_option [send_rules]:
  "sends a f \<Longrightarrow> (\<And>y. sends b (g y)) \<Longrightarrow> sends (max a b) (case x of None \<Rightarrow> f | Some y \<Rightarrow> g y)"
  by (simp add: sends_max split: option.split)

lemma sends_prod [send_rules]: "(\<And>a b. sends n (f a b)) \<Longrightarrow> sends n (case x of (a, b) \<Rightarrow> f a b)"
  by (auto split: prod.split)

lemma sends_let [send_rules]: "(\<And>y. sends n (f y)) \<Longrightarrow> sends n (let y = x in f y)"
  by simp

lemma sends_list_case [send_rules]:
  "sends a f \<Longrightarrow> (\<And>y ys. sends b (g y ys)) \<Longrightarrow> sends (max a b) (case x of [] \<Rightarrow> f | y # ys \<Rightarrow> g y ys)"
  by (simp add: sends_max split: list.split)

lemma sends_tolerant [send_rules]:
  "sends 1 (create_tolerant E p x)" "sends 1 (delete_tolerant E k key)"
  unfolding create_tolerant_def delete_tolerant_def by (rule sends_le, (rule send_rules)+, simp)+

lemma sends_get_or [send_rules]:
  assumes "sends a m" "\<And>x. sends b (f x)"
  shows "sends (1 + max a b) (get_or E k p key m f)"
  unfolding get_or_def by (rule sends_le, (rule send_rules assms)+) simp

lemma sends_pair_case [send_rules]:
  "(\<And>x y. sends a (f x y)) \<Longrightarrow> sends b g \<Longrightarrow>
    sends (max a b) (case l of [] \<Rightarrow> g | [x] \<Rightarrow> g | [x, y] \<Rightarrow> f x y | _ # _ # _ # _ \<Rightarrow> g)"
  by (simp add: sends_max split: list.split)

lemma sends_retry: "sends a m \<Longrightarrow> sends (Suc n * a) (retry_on n p m)"
proof (induction n)
  case (Suc n)
  have "sends (a + max (max (Suc n * a) 0) 0) (retry_on (Suc n) p m)"
    unfolding retry_on.simps by (intro send_rules Suc)
  then show ?case by simp
qed simp

text \<open>\<open>retry.DefaultRetry\<close> of client-go has five steps.\<close>

definition five_steps :: "'s env \<Rightarrow> bool" where
  "five_steps E \<longleftrightarrow> env_steps E ''DefaultRetry'' = 5"

lemma sends_RetryOnConflict: "five_steps E \<Longrightarrow> sends a m \<Longrightarrow> sends (5 * a) (RetryOnConflict E ''DefaultRetry'' m)"
  using sends_retry[of a m 4] by (simp add: RetryOnConflict_def RetryOnError_def five_steps_def)

text \<open>A list of handlers, and a list the server answered with.\<close>

lemma sends_collect: "(\<And>h. h \<in> set hs \<Longrightarrow> sends a h) \<Longrightarrow> sends (length hs * a) (collect_errors hs)"
proof (induction hs)
  case (Cons h hs)
  then have "sends (a + (length hs * a + 0)) (collect_errors (h # hs))"
    unfolding collect_errors.simps by (intro send_rules) auto
  then show ?case by simp
qed (simp add: sends_return)

lemma sends_listed:
  assumes "\<And>xs. sends (n + length xs) (f xs)"
  shows "sends (1 + n) (check (ListIn E k p ns ls) f)"
  unfolding sends_def ListIn_def
proof (rule does_check, rule does_call_as)
  fix resp
  let ?c = "Call (RList k ns ls) resp"
  show "case as_list p resp of Inl e \<Rightarrow> length [?c] \<le> 1 + n + listed [?c]
     | Inr x \<Rightarrow> does (f x) (\<lambda>_ es'. length ([?c] @ es') \<le> 1 + n + listed ([?c] @ es'))"
  proof (cases "as_list p resp")
    case (Inr xs)
    then have "listed_of ?c = length xs"
      by (cases resp) (auto simp: those_Some_map split: option.splits dest: arg_cong[where f = length])
    then show ?thesis unfolding Inr sum.case
      by (intro does_mono[OF assms[unfolded sends_def]]) simp
  qed simp
qed

section \<open>The notebook controller\<close>

lemma sends_conditions: "sends 0 (mirror_conditions E cs)"
proof (induction cs)
  case (Cons c cs)
  show ?case unfolding mirror_conditions.simps PodCondToNotebookCond_def or_now_def
    by (rule sends_le, (rule send_rules Cons.IH)+) simp
qed (simp add: sends_return)

lemma sends_statefulset: "sends 4 (reconcileStatefulSet E nb b)"
  unfolding reconcileStatefulSet_def by (rule sends_le, (rule send_rules)+) simp

lemma sends_service: "sends 2 (reconcileService E nb)"
  unfolding reconcileService_def by (rule sends_le, (rule send_rules)+) simp

lemma sends_virtualservice: "sends 2 (reconcileVirtualService E nb)"
  unfolding reconcileVirtualService_def by (rule sends_le, (rule send_rules)+) simp

lemma sends_status: "sends 1 (updateNotebookStatus E nb found p)"
  unfolding updateNotebookStatus_def createNotebookStatus_def
  by (rule sends_le, (rule send_rules sends_conditions)+) simp

lemma sends_restart: "sends 3 (restart_pod E nb)"
  unfolding restart_pod_def by (rule sends_le, (rule send_rules)+) simp

lemma sends_reemit: "sends 3 (reemit_event E req ev)"
  unfolding reemit_event_def nbNameFromInvolvedObject_def by (rule sends_le, (rule send_rules)+) simp

lemma sends_reconcile: "sends 15 (Reconcile E req)"
  unfolding Reconcile_def reconcile_notebook_def
  by (rule sends_le, (rule send_rules sends_statefulset sends_service sends_virtualservice sends_status sends_restart sends_reemit)+) simp

section \<open>The culler\<close>

lemma sends_refresh: "sends 4 (refresh_body E C req ks ts)"
  unfolding refresh_body_def updateTimestampFromKernelsActivity_def updateLastCullingCheckTimestampAnnotation_def
    createTimestamp_def notebookIsIdle_def setStopAnnotation_def
  by (rule sends_le, (rule send_rules)+) simp

lemma sends_init_remove: "sends 2 (init_body E req)" "sends 2 (remove_body E req)"
  unfolding init_body_def remove_body_def initializeAnnotations_def createTimestamp_def
  by (rule sends_le, (rule send_rules)+, simp)+

lemma sends_culling:
  assumes "five_steps E"
  shows "sends 34 (CullingReconcile E C req)"
proof -
  note r = sends_RetryOnConflict[OF assms]
  show ?thesis
    unfolding CullingReconcile_def after_init_def cullingCheckPeriodHasPassed_def getNotebookApiKernels_def
      getNotebookApiTerminals_def getNotebookResourceResponse_def
    by (rule sends_le, (rule send_rules r[OF sends_refresh] r[OF sends_init_remove(1)] r[OF sends_init_remove(2)])+) simp
qed

section \<open>The ODH controller\<close>

lemma sends_reads:
  "sends 1 (checkRoleExists E kd n ns)" "sends 1 (getGatewayInstance E)" "sends 1 (getDSPAInstance E ns)"
  "sends 1 (getHostnameForPublicEndpoint E g)" "sends 1 (loadKubeRbacProxyTLS E L)" "sends 1 (notebookControllerConfig E R)"
  unfolding checkRoleExists_def getGatewayInstance_def getDSPAInstance_def getHostnameForPublicEndpoint_def
    getHostnameFromRoute_def loadKubeRbacProxyTLS_def notebookControllerConfig_def
  by (rule sends_le, (rule send_rules)+, simp)+

lemma sends_elyra: "sends 6 (SyncElyraRuntimeConfigSecret E nb)"
  unfolding SyncElyraRuntimeConfigSecret_def sync_elyra_secret_def extractElyraRuntimeConfigInfo_def Let_def
  by (rule sends_le, (rule send_rules sends_reads)+) simp

lemma sends_pipelines: "sends 9 (reconcile_pipelines E nb)"
  unfolding reconcile_pipelines_def ReconcileRoleBindings_def reconcileRoleBinding_def Let_def
    ReconcileElyraRuntimeConfigSecret_def
  by (rule sends_le, (rule send_rules sends_reads sends_elyra)+) simp

lemma sends_delete_route: "sends 1 (delete_route E h)"
  unfolding delete_route_def by (rule sends_le, (rule send_rules)+) simp

lemma sends_delete_routes: "sends 1 (DeleteHTTPRouteForNotebook E R nb)"
proof -
  have "sends (0 + length routes) (do {
       es \<leftarrow> collect_errors (map (delete_route E) routes);
       (if es = [] then ok ()
        else fail (Errorf (''failed to delete some HTTPRoutes: '' @ od_errlist R es)))
     })" for routes
  proof -
    have "sends (length (map (delete_route E) routes) * 1) (collect_errors (map (delete_route E) routes))"
      by (rule sends_collect) (use sends_delete_route in auto)
    then have "sends (length routes + max 0 0) (do {
       es \<leftarrow> collect_errors (map (delete_route E) routes);
       (if es = [] then ok () else fail (Errorf (''failed to delete some HTTPRoutes: '' @ od_errlist R es)))
     })" by (intro send_rules) simp_all
    then show ?thesis by simp
  qed
  from sends_listed[OF this] show ?thesis unfolding DeleteHTTPRouteForNotebook_def list_routes_def by simp
qed

lemma sends_conflicting: "sends 1 (EnsureConflictingHTTPRouteAbsent E R nb auth)"
proof -
  have d: "sends (length hs) (delete_routes E hs)" for hs
  proof (induction hs)
    case (Cons h hs)
    have "sends (1 + length hs) (delete_routes E (h # hs))"
      unfolding delete_routes.simps by (rule sends_le, (rule send_rules Cons.IH)+) simp
    then show ?case by simp
  qed (simp add: sends_return)
  have "sends (0 + length routes) (delete_routes E (filter (conflicting_route nb auth) routes))" for routes
    by (rule sends_le[OF d]) simp
  from sends_listed[OF this] show ?thesis
    unfolding EnsureConflictingHTTPRouteAbsent_def list_routes_def by simp
qed

lemma sends_route:
  assumes "five_steps E"
  shows "sends 11 (reconcileHTTPRoute E R nb config new)"
  unfolding reconcileHTTPRoute_def notebookIngress_def ensure_route_def repair_route_def list_routes_def
  by (rule sends_le, (rule send_rules sends_delete_routes sends_RetryOnConflict[OF assms])+) simp

lemma sends_certs: "sends 7 (reconcile_certs E R nb)"
proof -
  have scan: "sends (length names) (scan_configmaps E R ns names pool)" for ns names pool
  proof (induction names arbitrary: pool)
    case (Cons n names)
    have "sends (1 + length names) (scan_configmaps E R ns (n # names) pool)"
      unfolding scan_configmaps.simps by (rule sends_le, (rule send_rules Cons.IH)+) simp
    then show ?case by simp
  qed (simp add: sends_return)
  show ?thesis
    unfolding reconcile_certs_def CreateNotebookCertConfigMap_def IsConfigMapDeleted_def UnsetNotebookCertConfig_def
    by (rule sends_le, (rule send_rules scan)+) simp
qed

lemma sends_objects:
  "sends 2 (ReconcileNotebookServiceAccount E nb)" "sends 2 (ReconcileKubeRbacProxyService E nb)"
  "sends 2 (ReconcileKubeRbacProxyConfigMap E nb)" "sends 2 (ReconcileKubeRbacProxyClusterRoleBinding E nb)"
  "sends 2 (ReconcileReferenceGrant E R nb)" "sends 1 (CleanupKubeRbacProxyClusterRoleBinding E nb)"
  unfolding ReconcileNotebookServiceAccount_def ReconcileKubeRbacProxyService_def ReconcileKubeRbacProxyConfigMap_def
    ReconcileKubeRbacProxyClusterRoleBinding_def ReconcileReferenceGrant_def Let_def CleanupKubeRbacProxyClusterRoleBinding_def
  by (rule sends_le, (rule send_rules)+, simp)+

lemma sends_images: "sends 3 (SyncRuntimeImagesConfigMap E ns cns)" "sends 3 (EnsureNotebookConfigMap E ns nb)"
  unfolding EnsureNotebookConfigMap_def SyncRuntimeImagesConfigMap_def getRuntimeConfigMap_def Let_def
  by (rule sends_le, (rule send_rules)+, simp)+

lemma sends_policies:
  assumes "five_steps E"
  shows "sends 39 (ReconcileAllNetworkPolicies E R nb)"
proof -
  have "sends 13 (reconcileNetworkPolicy E R nb d)" for d
    unfolding reconcileNetworkPolicy_def create_policy_def reconcileExistingNetworkPolicy_def repair_policy_def repair_found_def
      write_policy_def policy_failed_def recordNetworkPolicyEvent_def Let_def
    by (rule sends_le, (rule send_rules sends_RetryOnConflict[OF assms])+) simp
  then have "sends (length (map (reconcileNetworkPolicy E R nb) (desired_policies R nb)) * 13)
      (collect_errors (map (reconcileNetworkPolicy E R nb) (desired_policies R nb)))"
    by (intro sends_collect) auto
  then have c: "sends 39 (collect_errors (map (reconcileNetworkPolicy E R nb) (desired_policies R nb)))"
    by (simp add: desired_policies_def)
  show ?thesis unfolding ReconcileAllNetworkPolicies_def
    by (rule sends_le, (rule send_rules c)+) simp
qed

lemma sends_tls:
  assumes "five_steps E"
  shows "sends 11 (reconcileKubeRbacProxyTLS E L nb)"
  unfolding reconcileKubeRbacProxyTLS_def apply_tls_def deferRunningNotebookTLS_def update_and_sync_def Let_def
  by (rule sends_le, (rule send_rules sends_reads sends_RetryOnConflict[OF assms])+) simp

lemma sends_mlflow: "sends 3 (ReconcileMLflowIntegration E nb)"
  unfolding ReconcileMLflowIntegration_def CleanupMLflowRoleBinding_def ReconcileMLflowRoleBinding_def Let_def
  by (rule sends_le, (rule send_rules sends_reads)+) simp

lemma sends_finish: "sends 4 (finish_reconcile E nb)"
proof -
  have "sends (Suc 2 * 1) (retry_on 2 p (wait_for_pull_secret E nb))" for p
    unfolding wait_for_pull_secret_def by (rule sends_retry, rule sends_le, (rule send_rules)+) simp
  then have "sends 3 (retry_on 2 p (wait_for_pull_secret E nb))" for p by simp
  then show ?thesis unfolding finish_reconcile_def RemoveReconciliationLock_def
    by (intro sends_le[OF sends_check[OF sends_if[OF sends_bind[OF _ sends_check[OF sends_client(7) sends_return]] sends_return] sends_return]])
      auto
qed

lemma sends_finalizers:
  assumes "five_steps E"
  shows "sends 10 (update_finalizers E key f)"
  unfolding update_finalizers_def
  by (rule sends_le, (rule sends_RetryOnConflict[OF assms] send_rules)+) simp

lemma sends_deleted:
  assumes "five_steps E"
  shows "sends 17 (reconcile_deleted E R nb)"
  unfolding reconcile_deleted_def oauth_cleanup_def deleteOAuthClient_def removeOAuthClientFinalizer_def cleanup_all_def
    run_cleanup_def DeleteReferenceGrantIfLastNotebook_def isLastNotebookInNamespace_def
  by (rule sends_le, (rule send_rules sends_delete_routes sends_objects sends_finalizers[OF assms])+) simp

lemma sends_odh:
  assumes "five_steps E"
  shows "sends 100 (OdhReconcile E R req)"
  unfolding OdhReconcile_def reconcile_objects_def reconcile_auth_def reconcile_plain_def
    ReconcileKubeRbacProxyHTTPRoute_def ReconcileHTTPRoute_def
  by (rule sends_le, (rule send_rules sends_reads sends_certs sends_objects sends_images sends_pipelines sends_mlflow sends_finish
      sends_conflicting sends_policies[OF assms] sends_tls[OF assms] sends_route[OF assms]
      sends_deleted[OF assms] sends_finalizers[OF assms])+) simp

section \<open>The mutating webhook\<close>

lemma sends_image: "sends (length is) (image_loop E newest sel ns is found nb)"
proof (induction "is" arbitrary: found nb)
  case Nil
  show ?case by (simp add: sends_return)
next
  case (Cons i "is")
  show ?case
    unfolding image_loop.simps
    by (rule sends_le, (rule send_rules Cons.IH)+) simp
qed

lemma sends_mutate_pod: "sends (16 + length (nb_containers nb)) (mutate_pod E W nb)"
  unfolding mutate_pod_def SetContainerImageFromRegistry_def CheckAndMountCACertBundle_def
    MountPipelineRuntimeImages_def elyra_stage_def MountElyraRuntimeConfigSecret_def HandleMLflowEnvVars_def
    getMLflowTrackingURI_def Let_def
  by (rule sends_le, (rule send_rules sends_image sends_images sends_elyra sends_reads)+) simp

lemma sends_probe: "sends 3 (readWorkbenchProbeTimeout E ns)"
proof -
  have "sends (Suc 2 * 1) (retry_on 2 p (Get E k q key))" for p k q key
    by (rule sends_retry, rule send_rules)
  then have r: "sends 3 (retry_on 2 p (Get E k q key))" for p k q key by simp
  show ?thesis unfolding readWorkbenchProbeTimeout_def
    by (rule sends_le, (rule r send_rules)+) simp
qed

lemma sends_handle:
  assumes "rq_object areq = Inr nb"
  shows "sends (21 + length (nb_containers nb)) (Handle E W areq)"
proof -
  have lock: "length (nb_containers (map_meta f nb)) = length (nb_containers nb)" for f
    by (simp add: nb_containers_def map_meta_def)
  have pod: "sends (16 + length (nb_containers nb)) (mutate_pod E W (if b then map_meta f nb else nb))" for b f
    using sends_mutate_pod[of "if b then map_meta f nb else nb" E W] by (simp add: lock split: if_splits)
  have cfg: "sends 1 (kubeRbacProxyAdmissionConfig E L base)" for L base
    unfolding kubeRbacProxyAdmissionConfig_def by (rule sends_le, (rule send_rules sends_reads)+) simp
  show ?thesis
    unfolding Handle_def mutate_notebook_def injectKubeRbacProxy_def cluster_proxy_stage_def ClusterWideProxyIsEnabled_def
      assms sum.case Let_def
    by (rule sends_le, (rule pod cfg sends_probe send_rules)+) simp
qed

section \<open>Properties\<close>

text \<open>
  C29. Every handler ends, whatever the server answers: with client-go's five attempts at an update, a
  reconciliation of the ODH controller makes at most 100 requests and events, besides one per object of
  the lists it was answered with; a culling run at most 34, of which two ask the notebook server; a
  reconciliation of the notebook controller at most 15; and an admission at most 21 and one per
  container.
\<close>

theorem every_run_bounded:
  assumes "five_steps E" "rq_object areq = Inr nb"
  shows "sends 100 (OdhReconcile E R req) \<and> sends 34 (CullingReconcile E C req) \<and> sends 15 (Reconcile E req) \<and>
    sends (21 + length (nb_containers nb)) (Handle E W areq)"
  using sends_odh[OF assms(1)] sends_culling[OF assms(1)] sends_reconcile sends_handle[OF assms(2)] by blast

theorem every_run_bounded_witness:
  "let E = sample_env\<lparr>env_steps := (\<lambda>_. 5)\<rparr>; w = sample_world [ONotebook sample_notebook] in
   \<exists>es. trace (snd (run_state (OdhReconcile E sample_odh (''ns'', ''nb'')) w)) = [] @ es \<and> length es \<le> 100 + listed es"
proof -
  let ?E = "sample_env\<lparr>env_steps := (\<lambda>_. 5)\<rparr>" and ?w = "sample_world [ONotebook sample_notebook]"
  have "sends 100 (OdhReconcile ?E sample_odh (''ns'', ''nb''))"
    using every_run_bounded[of ?E update_request auth_notebook] by (simp add: five_steps_def update_request_def)
  from sends_run[OF this prod.collapse[symmetric], of ?w] show ?thesis by (simp add: Let_def)
qed

end
