(* ===== verification/Cluster.thy ===== *)
theory Cluster
  imports Permissions Lifecycle
begin

text \<open>
  The controllers together on one Notebook. Its stop annotation is what they talk through: the webhook
  puts the lock there, the ODH controller removes the lock, the culler writes the time of the stop, the
  notebook controller scales to zero while there is anything. A history is the sequence of the versions
  the server stored; between two of them lies a write of a run of one controller, each with the reads
  the run was made from, which may be old.
\<close>

section \<open>Writes of Notebooks\<close>

definition stop_of :: "notebook \<Rightarrow> string option" where
  "stop_of nb = mlookup (nb_annotations nb) StoppedAnnotation"

text \<open>A Notebook the server sent, as the answer to a lookup or a write.\<close>

definition answered :: "effect set \<Rightarrow> notebook \<Rightarrow> bool" where
  "answered A nb \<longleftrightarrow> (\<exists>q. Call q (RespObj (ONotebook nb)) \<in> A)"

text \<open>The same object and version, with a stop annotation that \<open>C\<close> allows.\<close>

definition carries :: "(string option \<Rightarrow> string option \<Rightarrow> bool) \<Rightarrow> notebook \<Rightarrow> notebook \<Rightarrow> bool" where
  "carries C cur n \<longleftrightarrow> nb_key n = nb_key cur \<and> m_resourceVersion (nb_meta n) = m_resourceVersion (nb_meta cur) \<and>
     C (stop_of cur) (stop_of n)"

text \<open>
  The writes of Notebooks, given the effects they rest on: an update carries on a Notebook the server sent, a
  status update changes the status of one, the patch of an object changes no metadata, and the
  other patch is the lock's, for a Notebook the server sent with the lock. None is created or deleted.
\<close>

fun rests :: "(string option \<Rightarrow> string option \<Rightarrow> bool) \<Rightarrow> effect set \<Rightarrow> request \<Rightarrow> bool" where
  "rests C A (RUpdate (ONotebook n)) \<longleftrightarrow> (\<exists>cur. answered A cur \<and> carries C cur n)"
| "rests C A (RUpdateStatus (ONotebook n)) \<longleftrightarrow> (\<exists>cur. answered A cur \<and> n = cur\<lparr>nb_status := nb_status n\<rparr>)"
| "rests C A (RPatchMerge (ONotebook a) (ONotebook b)) \<longleftrightarrow> nb_meta b = nb_meta a"
| "rests C A (RPatchRaw k key body) \<longleftrightarrow> (k = KNotebook \<longrightarrow> body = lock_patch \<and>
     (\<exists>cur. answered A cur \<and> nb_key cur = key \<and> ReconciliationLockIsEnabled (nb_meta cur)))"
| "rests C A (RCreate x) \<longleftrightarrow> obj_kind x \<noteq> KNotebook"
| "rests C A (RDelete k key) \<longleftrightarrow> k \<noteq> KNotebook"
| "rests C A _ \<longleftrightarrow> True"

lemma answered_mono: "answered A nb \<Longrightarrow> A \<subseteq> B \<Longrightarrow> answered B nb"
  unfolding answered_def by blast

lemma rests_keeps: "rests C A q \<Longrightarrow> A \<subseteq> B \<Longrightarrow> rests C B q"
  by (erule rests.elims) (auto intro: answered_mono dest: answered_mono)

lemma rests_weaken: "rests C A q \<Longrightarrow> (\<And>a b. C a b \<Longrightarrow> D a b) \<Longrightarrow> rests D A q"
  by (erule rests.elims) (auto simp: carries_def)

interpretation kept: read_based "rests (=)"
  by unfold_locales (rule rests_keeps)

lemma about_rests:
  assumes "about q"
  shows "rests C A q"
proof (cases q)
  case (RUpdate x)
  with assms show ?thesis by (cases x) auto
qed (use assms in auto)

lemma rests_around: "emits around m \<Longrightarrow> justifies (rests C) A m"
  unfolding justifies_def emits_def
  by (erule does_mono) (fastforce simp: list_all_iff intro: about_rests)

lemma carries_refl: "carries (=) nb nb"
  by (simp add: carries_def)

lemma carries_same:
  "nb_key n = nb_key cur \<Longrightarrow> m_resourceVersion (nb_meta n) = m_resourceVersion (nb_meta cur) \<Longrightarrow>
    m_annotations (nb_meta n) = m_annotations (nb_meta cur) \<Longrightarrow> carries (=) cur n"
  by (simp add: carries_def stop_of_def)

section \<open>The ODH controller\<close>

lemma kept_update:
  assumes "answered A cur" "carries (=) cur n"
  shows "justifies (rests (=)) A (Update E to_notebook (ONotebook n))"
  using assms by (intro kept.client) (auto intro: answered_mono)

lemma kept_update_and_sync:
  assumes "answered A cur" "carries (=) cur n"
  shows "justifies (rests (=)) A (update_and_sync E nb n)"
  unfolding update_and_sync_def by (intro kept.checked kept_update[OF assms] kept.return)

lemma pending_not_stop [simp]: "AnnotationUpdatePending \<noteq> StoppedAnnotation" "StoppedAnnotation \<noteq> AnnotationUpdatePending"
  by (simp_all add: go_consts)

lemma clear_carries: "carries (=) cur n \<Longrightarrow> carries (=) cur (clearTLSUpdatePending n)"
  by (auto simp: carries_def stop_of_def clearTLSUpdatePending_def map_meta_def with_annotations_def mdelete_def mlookup_def
      meta_key_def split: option.splits)

lemma mark_carries:
  "carries (=) cur (map_meta (\<lambda>m. with_annotations (case m_annotations m of
      None \<Rightarrow> mlit [(AnnotationUpdatePending, r)] | Some f \<Rightarrow> Some (fmupd AnnotationUpdatePending r f)) m) cur)"
  by (auto simp: carries_def stop_of_def map_meta_def with_annotations_def mlit_def mlookup_def meta_key_def split: option.splits)

lemma edit_carries: "carries (=) cur (edit_container n f cur)"
  by (rule carries_same) (simp_all add: edit_container_def)

lemma kept_apply_tls: "justifies (rests (=)) A (apply_tls E args nb)"
  unfolding apply_tls_def
proof (rule kept.get_check)
  fix resp cur assume "as_obj to_notebook resp = Inr cur"
  then have resp: "resp = RespObj (ONotebook cur)" by (rule get_notebook_resp)
  let ?A = "insert (Call (RGet KNotebook (nb_key nb)) resp) A"
  have "answered ?A cur" by (auto simp: answered_def resp)
  note W = kept_update_and_sync[OF this]
  show "justifies (rests (=)) ?A (case find (named ContainerNameKubeRbacProxy) (nb_containers cur) of
       None \<Rightarrow> ok nb
     | Some c \<Rightarrow> (let updated = mergeKubeRbacProxyTLSArgs (c_args c) args; argsMatch = (c_args c = updated) in
         if notebookDefersPodTemplateChange cur then deferRunningNotebookTLS E nb cur argsMatch
         else if argsMatch \<and> mget (nb_annotations cur) AnnotationUpdatePending \<noteq> tlsUpdatePendingReason
         then ok (syncReconciledNotebook nb cur)
         else update_and_sync E nb (clearTLSUpdatePending (edit_container ContainerNameKubeRbacProxy (\<lambda>c. c\<lparr>c_args := updated\<rparr>) cur))))"
    unfolding Let_def deferRunningNotebookTLS_def
    by (intro kept.cases kept.return W clear_carries mark_carries edit_carries carries_refl)
qed

lemma kept_tls: "justifies (rests (=)) A (reconcileKubeRbacProxyTLS E L nb)"
  unfolding reconcileKubeRbacProxyTLS_def
  by (intro kept.cases kept.bound kept.return kept.retried_on_conflict kept_apply_tls rests_around around_reads)

lemma unset_keeps_meta: "unset_notebook nb = Inr (nb', b) \<Longrightarrow> nb_meta nb' = nb_meta nb"
  by (auto simp: unset_notebook_def Let_def split: if_splits option.splits sum.splits prod.splits)

lemma kept_certs: "justifies (rests (=)) A (reconcile_certs E R nb)"
proof -
  have unset: "justifies (rests (=)) B (UnsetNotebookCertConfig E nb)" for B
    unfolding UnsetNotebookCertConfig_def
    by (rule kept.checked_lift) (auto intro!: kept.checked kept.client kept.return kept.cases dest: unset_keeps_meta)
  show ?thesis
    unfolding reconcile_certs_def
    by (intro kept.checked kept.bound kept.cases kept.return unset rests_around around_certs)
qed

lemma kept_finish:
  assumes "answered A cur" "nb_key nb = nb_key cur" "stop_of nb = stop_of cur"
  shows "justifies (rests (=)) A (finish_reconcile E nb)"
proof -
  have pull: "emits around (wait_for_pull_secret E nb)"
    unfolding wait_for_pull_secret_def by (intro emit_rules) simp_all
  have "rests (=) (insert c A) (RPatchRaw KNotebook (nb_key nb) lock_patch)" if "ReconciliationLockIsEnabled (nb_meta nb)" for c
    using that assms answered_mono[OF assms(1), of "insert c A"]
    by (auto simp: ReconciliationLockIsEnabled_def stop_of_def mget_def intro!: exI[of _ cur])
  then show ?thesis
    unfolding finish_reconcile_def RemoveReconciliationLock_def
    by (intro kept.checked kept.cases kept.bound kept.retried kept.client kept.return rests_around pull)
qed

text \<open>What the next step is given: a result as well as its effects.\<close>

lemma check_yields: "yields P m \<Longrightarrow> check m f = check m (\<lambda>x. if P x then f x else fail e)"
  by (rule state.expand, rule ext) (auto split: prod.splits sum.splits dest: yieldsD)

context read_based begin

lemma checked_result:
  assumes "justifies J A m" "yields P m" "\<And>x. P x \<Longrightarrow> justifies J A (f x)"
  shows "justifies J A (check m f)"
  unfolding check_yields[OF assms(2), of f "ApiErr NotFound"]
  by (intro checked cases return assms(1,3))

end

text \<open>The Notebook the TLS reconciliation hands on has the key and the stop annotation of the one it got.\<close>

definition same_stop :: "notebook \<Rightarrow> notebook \<Rightarrow> bool" where
  "same_stop nb x \<longleftrightarrow> nb_key x = nb_key nb \<and> stop_of x = stop_of nb"

lemma sync_same_stop: "same_stop nb (syncReconciledNotebook nb cur)"
  by (auto simp: same_stop_def stop_of_def syncReconciledNotebook_def Let_def map_meta_def with_annotations_def
      sync_annotations_def mdelete_def mlit_def mlookup_def meta_key_def split: option.splits)

lemma yields_retry: "yields P m \<Longrightarrow> yields P (retry_on n p m)"
proof (induction n)
  case (Suc n)
  have "yields P (State_Monad.bind m (\<lambda>r. case r of Inl e \<Rightarrow> if p e then retry_on n p m else fail e | Inr x \<Rightarrow> ok x))"
    using Suc by (auto simp: yields_def split: sum.splits prod.splits if_splits) (metis fst_conv)
  then show ?case by simp
qed simp

lemma apply_tls_same_stop: "yields (same_stop nb) (apply_tls E args nb)"
proof -
  have "same_stop nb nb" by (simp add: same_stop_def)
  then show ?thesis
    unfolding apply_tls_def Let_def deferRunningNotebookTLS_def update_and_sync_def
    by (intro yields_check_any yield_rules sync_same_stop)
qed

lemma tls_same_stop: "yields (same_stop nb) (reconcileKubeRbacProxyTLS E L nb)"
proof -
  have "same_stop nb nb" by (simp add: same_stop_def)
  then show ?thesis
    unfolding reconcileKubeRbacProxyTLS_def RetryOnConflict_def RetryOnError_def
    by (intro yield_rules yields_retry apply_tls_same_stop)
qed

lemma mode_same_stop:
  "yields (same_stop nb) (if KubeRbacProxyInjectionIsEnabled (nb_meta nb) then reconcile_auth E R config nb
     else reconcile_plain E R config nb)"
  unfolding reconcile_auth_def reconcile_plain_def
  by (intro yield_rules tls_same_stop) (simp add: same_stop_def)

lemma kept_auth: "justifies (rests (=)) A (reconcile_auth E R config nb)"
  unfolding reconcile_auth_def ReconcileKubeRbacProxyHTTPRoute_def
  by (intro kept.checked kept_tls rests_around around_parts around_objects around_route)

lemma kept_plain: "justifies (rests (=)) A (reconcile_plain E R config nb)"
  unfolding reconcile_plain_def ReconcileHTTPRoute_def
  by (intro kept.checked kept.return rests_around around_parts around_route)

lemma kept_objects:
  assumes "answered A nb"
  shows "justifies (rests (=)) A (reconcile_objects E R nb)"
  unfolding reconcile_objects_def
  by (intro kept.checked kept.checked_result[OF _ mode_same_stop] kept.cases kept.return kept_auth kept_plain kept_certs
      kept_finish[OF assms] rests_around around_parts around_policies around_images around_pipelines around_objects around_mlflow)
    (simp_all add: same_stop_def)

lemma add_finalizers_keeps:
  "m_resourceVersion (fst (add_finalizers fs m)) = m_resourceVersion m \<and> m_annotations (fst (add_finalizers fs m)) = m_annotations m \<and>
    meta_key (fst (add_finalizers fs m)) = meta_key m"
  by (induction fs m rule: add_finalizers.induct) (auto simp: AddFinalizer_def meta_key_def)

lemma kept_finalizers:
  assumes "\<And>m. m_resourceVersion (fst (f m)) = m_resourceVersion m \<and> m_annotations (fst (f m)) = m_annotations m \<and>
    meta_key (fst (f m)) = meta_key m"
  shows "justifies (rests (=)) A (update_finalizers E key f)"
  unfolding update_finalizers_def
proof (intro kept.retried_on_conflict kept.get_check)
  fix resp cur assume "as_obj to_notebook resp = Inr cur"
  then have "answered (insert (Call (RGet KNotebook key) resp) A) cur"
    by (auto simp: answered_def dest: get_notebook_resp)
  then show "justifies (rests (=)) (insert (Call (RGet KNotebook key) resp) A) (case f (nb_meta cur) of (m, modified) \<Rightarrow>
      if modified then check (Update E to_notebook (ONotebook (cur\<lparr>nb_meta := m\<rparr>))) (\<lambda>_. ok ()) else ok ())"
    using assms[of "nb_meta cur"]
    by (cases "f (nb_meta cur)") (auto intro!: kept.cases kept.checked kept_update kept.return carries_same)
qed

text \<open>Deletion: its updates are finalizer updates, and it writes no other Notebook.\<close>

fun updating :: "effect \<Rightarrow> bool" where
  "updating (Call (RUpdate (ONotebook n)) resp) \<longleftrightarrow> True"
| "updating (Call (RGet k key) resp) \<longleftrightarrow> True"
| "updating e \<longleftrightarrow> around e"

lemma around_updating: "emits around m \<Longrightarrow> emits updating m"
proof (erule emits_mono)
  fix e assume "around e"
  then show "updating e" by (cases e rule: updating.cases) simp_all
qed

lemma finalizers_updating: "emits updating (update_finalizers E key f)"
  unfolding update_finalizers_def by (intro emit_rules) simp_all

lemma deleted_updating: "emits updating (reconcile_deleted E R nb)"
  unfolding reconcile_deleted_def oauth_cleanup_def removeOAuthClientFinalizer_def
  by (intro emit_rules around_parts[THEN around_updating] around_cleanup[THEN around_updating] finalizers_updating) simp_all

lemma finalizer_carries:
  assumes "finalizer_write R nb A (RUpdate (ONotebook n))" "answered A nb"
  shows "rests (=) A (RUpdate (ONotebook n))"
proof -
  from assms(1) obtain x where x: "works_on nb A x" "finalizer_update R x A n" by (auto simp: finalizer_write_def)
  then obtain cur fs where cur: "n = cur\<lparr>nb_meta := (nb_meta cur)\<lparr>m_finalizers := filter (\<lambda>g. g \<notin> set fs) (m_finalizers (nb_meta cur))\<rparr>\<rparr>"
    "cur = x \<or> Call (RGet KNotebook (nb_key x)) (RespObj (ONotebook cur)) \<in> A" by (auto simp: finalizer_update_def)
  have "answered A x" using x(1) assms(2) by (auto simp: works_on_def answered_def)
  with cur(2) have "answered A cur" by (auto simp: answered_def)
  moreover have "carries (=) cur n" by (rule carries_same) (simp_all add: cur(1) meta_key_def)
  ultimately show ?thesis by auto
qed

lemma kept_deleted:
  assumes "answered A nb"
  shows "justifies (rests (=)) A (reconcile_deleted E R nb)"
proof -
  have both: "does (reconcile_deleted E R nb) (\<lambda>_ es. (\<forall>q resp. Call q resp \<in> set es \<longrightarrow> is_write q \<longrightarrow>
      finalizer_write R nb (A \<union> set es) q) \<and> list_all updating es)"
    using does_conj[OF reconcile_deleted_writes[of R nb A E, unfolded justifies_def] deleted_updating[of E R nb, unfolded emits_def]] .
  show ?thesis unfolding justifies_def
  proof (rule does_mono[OF both], intro allI impI)
    fix r es q resp
    assume es: "(\<forall>q resp. Call q resp \<in> set es \<longrightarrow> is_write q \<longrightarrow> finalizer_write R nb (A \<union> set es) q) \<and> list_all updating es"
      and q: "Call q resp \<in> set es" "is_write q"
    then have "updating (Call q resp)" "finalizer_write R nb (A \<union> set es) q" by (auto simp: list_all_iff)
    moreover have "answered (A \<union> set es) nb" by (rule answered_mono[OF assms]) simp
    ultimately show "rests (=) (A \<union> set es) q"
      using q(2) by (cases "Call q resp" rule: updating.cases) (auto dest: finalizer_carries intro: about_rests simp del: rests.simps)
  qed
qed

lemma OdhReconcile_rests: "justifies (rests (=)) A (OdhReconcile E R req)"
  unfolding OdhReconcile_def
proof (rule kept.get_bind)
  fix resp
  let ?A = "insert (Call (RGet KNotebook req) resp) A"
  have seen: "answered ?A nb" if "as_obj to_notebook resp = Inr nb" for nb
    using get_notebook_resp[OF that] by (auto simp: answered_def)
  show "justifies (rests (=)) ?A (case as_obj to_notebook resp of Inl e \<Rightarrow> if IsNotFound e then ok Finished else fail e
      | Inr nb \<Rightarrow> if m_deletionTimestamp (nb_meta nb) \<noteq> None then reconcile_deleted E R nb
          else if finalizers_to_add nb \<noteq> []
          then check (update_finalizers E (nb_key nb) (add_finalizers (finalizers_to_add nb))) (\<lambda>_. ok Requeue)
          else reconcile_objects E R nb)"
    by (intro kept.cases kept.checked kept.return kept_deleted seen kept_objects kept_finalizers add_finalizers_keeps)
qed

section \<open>The notebook controller\<close>

lemma rests_plain: "emits (wr (rests (=) {})) m \<Longrightarrow> justifies (rests (=)) A m"
  by (erule justifies_emits) (auto intro: rests_keeps)

lemma plain_parts:
  "emits (wr (rests (=) {})) (reconcileStatefulSet E nb b)" "emits (wr (rests (=) {})) (reconcileService E nb)"
  "emits (wr (rests (=) {})) (reconcileVirtualService E nb)"
  unfolding reconcileStatefulSet_def reconcileService_def reconcileVirtualService_def
  by (intro emit_rules; simp)+

lemma kept_restart:
  assumes "answered A nb"
  shows "justifies (rests (=)) A (restart_pod E nb)"
proof -
  let ?n = "map_meta (with_annotations (mdelete AnnotationNotebookRestart (nb_annotations nb))) nb"
  have "AnnotationNotebookRestart \<noteq> StoppedAnnotation" by (simp add: go_consts)
  then have "carries (=) nb ?n"
    by (simp add: carries_def stop_of_def map_meta_def with_annotations_def mlookup_mdelete meta_key_def)
  with assms show ?thesis
    unfolding restart_pod_def
    by (intro kept.cases kept.bound kept.checked kept.lifted kept.client kept_update kept.return) simp_all
qed

lemma kept_notebook:
  assumes "answered A nb"
  shows "justifies (rests (=)) A (reconcile_notebook E nb)"
proof -
  have status: "justifies (rests (=)) B (check (updateNotebookStatus E nb sts p) (restart_pod E))" if "A \<subseteq> B" for B sts p
  proof -
    have W: "rests (=) (insert c B) (RUpdateStatus (ONotebook (nb\<lparr>nb_status := st\<rparr>)))" for c st
      using answered_mono[OF assms, of "insert c B"] that by (auto intro!: exI[of _ nb])
    have "justifies (rests (=)) B (check (StatusUpdate E to_notebook (ONotebook (nb\<lparr>nb_status := st\<rparr>))) (restart_pod E))" for st
      unfolding StatusUpdate_def
      by (rule kept.write_check[OF W], rule kept_restart) (auto simp: answered_def dest: get_notebook_resp)
    moreover have "emits (wr (rests (=) {})) (createNotebookStatus E nb sts p)"
      unfolding createNotebookStatus_def by (intro emit_rules)
    ultimately show ?thesis
      unfolding updateNotebookStatus_def check_bind by (intro kept.bound[OF rests_plain])
  qed
  show ?thesis
    unfolding reconcile_notebook_def case_prod_beta
    by (intro kept.checked[OF rests_plain] kept.checked kept.bound kept.cases kept.lifted kept.return kept.client status order_refl
        rests_plain plain_parts)
qed

lemma Reconcile_rests: "justifies (rests (=)) A (Reconcile E req)"
  unfolding Reconcile_def
proof (intro kept.bound kept.client)
  fix ev
  have "justifies (rests (=)) A (do {
       r \<leftarrow> Get E KNotebook to_notebook req;
       case r of Inl e \<Rightarrow> lift (ignoreNotFound e)
       | Inr nb \<Rightarrow> if IsDeleting (nb_meta nb) then ok () else reconcile_notebook E nb })"
    by (rule kept.get_bind) (auto intro!: kept.cases kept.lifted kept.return kept_notebook simp: answered_def dest!: get_notebook_resp)
  then show "justifies (rests (=)) A (case ev of
       Inr event \<Rightarrow> reemit_event E req event
     | Inl e \<Rightarrow> if \<not> IsNotFound e then fail e else do {
         r \<leftarrow> Get E KNotebook to_notebook req;
         case r of Inl e \<Rightarrow> lift (ignoreNotFound e)
         | Inr nb \<Rightarrow> if IsDeleting (nb_meta nb) then ok () else reconcile_notebook E nb })"
    by (intro kept.cases kept.return rests_plain[OF reemit_event_writes])
qed

section \<open>The culler\<close>

text \<open>It stops a Notebook that is not stopped, and leaves the time there; any other annotation stays.\<close>

definition culls :: "string option \<Rightarrow> string option \<Rightarrow> bool" where
  "culls a b \<longleftrightarrow> b = a \<or> (a = None \<and> (\<exists>t. b = Some (time_Format t)))"

lemma STOP_is_stop: "STOP_ANNOTATION = StoppedAnnotation"
  by (simp add: STOP_ANNOTATION_def go_consts)

lemma cull_step_culls: "cull_step C m m' \<Longrightarrow> culls (mlookup m STOP_ANNOTATION) (mlookup m' STOP_ANNOTATION)"
  by (auto elim!: cull_step_cases simp: culls_def mlookup_mdelete nonempty_map_lookup activity_star_keeps)

lemma CullingReconcile_rests: "justifies (rests culls) A (CullingReconcile E C req)"
  unfolding justifies_def
proof (rule does_mono[OF CullingReconcile_trace], intro allI impI)
  fix r es q resp
  assume "cull_trace C req es" "Call q resp \<in> set es" "is_write q"
  then obtain nb a where nb: "Call (RGet KNotebook req) (RespObj (ONotebook nb)) \<in> set es"
    "q = RUpdate (ONotebook (set_meta (with_annotations a (nb_meta nb)) nb))" "cull_step C (nb_annotations nb) a"
    unfolding cull_trace_def cull_write_def by blast
  have "carries culls nb (set_meta (with_annotations a (nb_meta nb)) nb)"
    using cull_step_culls[OF nb(3)]
    by (simp add: carries_def stop_of_def set_meta_def with_annotations_def meta_key_def STOP_is_stop)
  moreover have "answered (A \<union> set es) nb" using nb(1) by (auto simp: answered_def)
  ultimately show "rests culls (A \<union> set es) q" unfolding nb(2) by auto
qed

section \<open>Histories\<close>

definition version :: "notebook \<Rightarrow> string" where
  "version nb = m_resourceVersion (nb_meta nb)"

text \<open>
  The API server, of which \<open>srv a q b\<close> says that it accepts the request \<open>q\<close> while \<open>a\<close> is stored and then
  stores \<open>b\<close>. As documented: an update is accepted only if it has the version stored, and what is stored is
  what the mutating webhook returned; the status subresource leaves the metadata; a merge patch leaves
  what it does not name and deletes what it sets to null; other requests leave the Notebook.
\<close>

type_synonym server = "notebook \<Rightarrow> request \<Rightarrow> notebook \<Rightarrow> bool"

definition optimistic :: "'s env \<Rightarrow> webhook \<Rightarrow> server \<Rightarrow> bool" where
  "optimistic E W srv \<longleftrightarrow>
     (\<forall>a n b. srv a (RUpdate (ONotebook n)) b \<longrightarrow> nb_key n = nb_key a \<and> version n = version a \<and>
        (\<exists>nb w w'. run_state (Handle E W \<lparr>rq_operation = OpUpdate, rq_object = Inr n, rq_oldObject = Inr a\<rparr>) w = (Patched nb, w') \<and>
           stop_of b = stop_of nb)) \<and>
     (\<forall>a n b. srv a (RUpdateStatus (ONotebook n)) b \<longrightarrow> stop_of b = stop_of a) \<and>
     (\<forall>a n n' b. srv a (RPatchMerge (ONotebook n) (ONotebook n')) b \<longrightarrow> nb_meta n' = nb_meta n \<longrightarrow> stop_of b = stop_of a) \<and>
     (\<forall>a key b. srv a (RPatchRaw KNotebook key lock_patch) b \<longrightarrow> key = nb_key a \<and> stop_of b = None) \<and>
     (\<forall>a q b. srv a q b \<longrightarrow> (\<exists>n. q = RUpdate (ONotebook n)) \<or> (\<exists>n. q = RUpdateStatus (ONotebook n)) \<or>
        (\<exists>n n'. q = RPatchMerge (ONotebook n) (ONotebook n')) \<or> (\<exists>key body. q = RPatchRaw KNotebook key body) \<or> b = a)"

text \<open>
  A write of some run of a handler; all the run got to see of the Notebook are versions of the history, which
  may be older than the one stored when the write arrives.
\<close>

definition wrote :: "('s, 'a) handler \<Rightarrow> notebook list \<Rightarrow> nsname \<Rightarrow> request \<Rightarrow> bool" where
  "wrote m vs key q \<longleftrightarrow> (\<exists>w r w' es resp. run_state m w = (r, w') \<and> trace w' = trace w @ es \<and> Call q resp \<in> set es \<and>
     is_write q \<and> (\<forall>n. answered (set es) n \<longrightarrow> nb_key n = key \<longrightarrow> n \<in> set vs))"

text \<open>From one version to the next: a controller's write, or anyone's that leaves the stop annotation.\<close>

inductive evolves :: "'s env \<Rightarrow> 's env \<Rightarrow> server \<Rightarrow> notebook list \<Rightarrow> notebook \<Rightarrow> notebook \<Rightarrow> bool" for Eo En srv vs where
  odh: "wrote (OdhReconcile Eo R req) vs (nb_key a) q \<Longrightarrow> srv a q b \<Longrightarrow> evolves Eo En srv vs a b"
| notebook: "wrote (Reconcile En req) vs (nb_key a) q \<Longrightarrow> srv a q b \<Longrightarrow> evolves Eo En srv vs a b"
| culler: "wrote (CullingReconcile En C req) vs (nb_key a) q \<Longrightarrow> srv a q b \<Longrightarrow> evolves Eo En srv vs a b"
| others: "stop_of b = stop_of a \<Longrightarrow> evolves Eo En srv vs a b"

definition history :: "'s env \<Rightarrow> 's env \<Rightarrow> server \<Rightarrow> notebook list \<Rightarrow> bool" where
  "history Eo En srv vs \<longleftrightarrow> vs \<noteq> [] \<and> distinct (map version vs) \<and> (\<forall>v \<in> set vs. nb_key v = nb_key (hd vs)) \<and>
     successively (evolves Eo En srv vs) vs"

text \<open>The lock patch went out for a version with the lock; or the annotation moved as \<open>C\<close> allows.\<close>

definition unlocks :: "notebook list \<Rightarrow> notebook \<Rightarrow> bool" where
  "unlocks vs b \<longleftrightarrow> stop_of b = None \<and> (\<exists>v \<in> set vs. ReconciliationLockIsEnabled (nb_meta v))"

lemma admitted_stop:
  assumes "run_state (Handle E W \<lparr>rq_operation = OpUpdate, rq_object = Inr n, rq_oldObject = Inr a\<rparr>) w = (Patched nb, w')"
  shows "stop_of nb = stop_of n"
proof -
  let ?req = "\<lparr>rq_operation = OpUpdate, rq_object = Inr n, rq_oldObject = Inr a\<rparr>"
  obtain nb3 r where s: "safe_edit (locked ?req n) nb3" and r: "maybeRestartRunningNotebook W ?req nb3 = Inr r" "nb = mark_pending r"
    by (rule Handle_Patched[OF assms admission_request.select_convs(2)]) (rule that; assumption)
  have "nb_meta (fst r) = nb_meta n"
    using r(1) s by (auto simp: maybeRestartRunningNotebook_def locked_def safe_meta split: if_splits sum.splits)
  then show ?thesis by (simp add: stop_of_def r(2) mark_pending_other go_consts)
qed

lemma accepted_stop:
  assumes srv: "optimistic E W srv" "srv a q b" and rests: "rests C A q" and refl: "\<And>x. C x x"
    and seen: "\<And>n. answered A n \<Longrightarrow> nb_key n = nb_key a \<Longrightarrow> n \<in> set vs" and vs: "distinct (map version vs)" "a \<in> set vs"
  shows "C (stop_of a) (stop_of b) \<or> unlocks vs b"
proof -
  consider (update) n where "q = RUpdate (ONotebook n)" | (status) n where "q = RUpdateStatus (ONotebook n)"
    | (merge) n n' where "q = RPatchMerge (ONotebook n) (ONotebook n')" | (patch) key body where "q = RPatchRaw KNotebook key body" | "b = a"
    using srv unfolding optimistic_def by blast
  then show ?thesis
  proof cases
    case update
    with rests obtain cur where cur: "answered A cur" "carries C cur n" by auto
    from update srv obtain nb w w' where n: "nb_key n = nb_key a" "version n = version a" "stop_of b = stop_of nb"
      "run_state (Handle E W \<lparr>rq_operation = OpUpdate, rq_object = Inr n, rq_oldObject = Inr a\<rparr>) w = (Patched nb, w')"
      unfolding optimistic_def by blast
    with cur have "cur \<in> set vs" "version cur = version a" by (auto simp: carries_def version_def intro: seen)
    then have "cur = a" using vs by (auto simp: distinct_map dest: inj_onD)
    then show ?thesis using cur(2) n(3) admitted_stop[OF n(4)] by (simp add: carries_def)
  next
    case patch
    then have "body = lock_patch" and cur: "\<exists>cur. answered A cur \<and> nb_key cur = key \<and> ReconciliationLockIsEnabled (nb_meta cur)"
      using rests by simp_all
    with patch srv have "key = nb_key a" "stop_of b = None" unfolding optimistic_def by blast+
    with cur show ?thesis using seen by (auto simp: unlocks_def)
  next
    case status
    with srv have "stop_of b = stop_of a" unfolding optimistic_def by blast
    with refl show ?thesis by simp
  next
    case merge
    with rests have "nb_meta n' = nb_meta n" by simp
    with merge srv have "stop_of b = stop_of a" unfolding optimistic_def by blast
    with refl show ?thesis by simp
  qed (use refl in simp)
qed

lemma wrote_rests:
  assumes "wrote m vs key q" "justifies (rests C) {} m"
  shows "\<exists>A. rests C A q \<and> (\<forall>n. answered A n \<longrightarrow> nb_key n = key \<longrightarrow> n \<in> set vs)"
proof -
  from assms(1) obtain w r w' es resp where m: "run_state m w = (r, w')" "trace w' = trace w @ es" "Call q resp \<in> set es" "is_write q"
    and seen: "\<forall>n. answered (set es) n \<longrightarrow> nb_key n = key \<longrightarrow> n \<in> set vs"
    unfolding wrote_def by blast
  from justifies_trace[OF assms(2) m] seen show ?thesis by blast
qed

lemma written_stop:
  assumes "optimistic Eo W srv" "srv a q b" "wrote m vs (nb_key a) q" "justifies (rests C) {} m" "\<And>x. C x x"
    and "distinct (map version vs)" "a \<in> set vs"
  shows "C (stop_of a) (stop_of b) \<or> unlocks vs b"
proof -
  obtain A where A: "rests C A q" "\<forall>n. answered A n \<longrightarrow> nb_key n = nb_key a \<longrightarrow> n \<in> set vs"
    using wrote_rests[OF assms(3,4)] by blast
  show ?thesis by (rule accepted_stop[OF assms(1,2) A(1) assms(5) _ assms(6,7)]) (use A(2) in blast)
qed

lemma evolves_stop:
  assumes "evolves Eo En srv vs a b" "optimistic Eo W srv" "distinct (map version vs)" "a \<in> set vs"
  shows "culls (stop_of a) (stop_of b) \<or> unlocks vs b"
proof -
  have culls: "culls x x" for x by (simp add: culls_def)
  show ?thesis
    using assms(1)
  proof cases
    case (culler C req q)
    show ?thesis by (rule written_stop[OF assms(2) culler(2,1) CullingReconcile_rests culls assms(3,4)])
  next
    case (odh R req q)
    have "stop_of a = stop_of b \<or> unlocks vs b"
      by (rule written_stop[OF assms(2) odh(2,1) OdhReconcile_rests refl assms(3,4)])
    with culls show ?thesis by auto
  next
    case (notebook req q)
    have "stop_of a = stop_of b \<or> unlocks vs b"
      by (rule written_stop[OF assms(2) notebook(2,1) Reconcile_rests refl assms(3,4)])
    with culls show ?thesis by auto
  qed (simp add: culls_def)
qed

text \<open>A time is no lock.\<close>

lemma time_is_no_lock: "time_Format t \<noteq> AnnotationValueReconciliationLock"
proof
  assume "time_Format t = AnnotationValueReconciliationLock"
  moreover have "CHR ''T'' \<in> set (time_Format t)" by (simp add: time_Format_def Let_def case_prod_beta)
  ultimately show False by (simp add: go_consts)
qed

lemma locked_iff: "ReconciliationLockIsEnabled (nb_meta v) \<longleftrightarrow> stop_of v = Some AnnotationValueReconciliationLock"
  by (auto simp: ReconciliationLockIsEnabled_def stop_of_def mget_def go_consts split: option.splits)

lemma along_history:
  assumes "successively P vs" "L (hd vs)" "v \<in> set vs"
    and step: "\<And>a b. a \<in> set vs \<Longrightarrow> P a b \<Longrightarrow> L a \<Longrightarrow> L b"
  shows "L v"
proof -
  have "L (vs ! i)" if "i < length vs" for i
    using that
  proof (induction i)
    case 0
    then show ?case using assms(2) by (simp add: hd_conv_nth)
  next
    case (Suc i)
    with assms(1) have "P (vs ! i) (vs ! Suc i)" by (simp add: successively_conv_nth)
    then show ?case by (rule step[rotated]) (use Suc in simp_all)
  qed
  with assms(3) show ?thesis by (auto simp: in_set_conv_nth)
qed

section \<open>Properties\<close>

text \<open>
  C5. What the controllers make of the stop annotation between them, whatever they read and however their
  runs interleave: from one version to the next it stays, or a Notebook that was not stopped is
  stopped at a time the culler took, or it is gone because the ODH controller saw a version with the lock.
\<close>

theorem stop_annotation_moves:
  assumes "history Eo En srv vs" "optimistic Eo W srv" "Suc i < length vs"
  shows "stop_of (vs ! Suc i) = stop_of (vs ! i) \<or>
    stop_of (vs ! i) = None \<and> (\<exists>t. stop_of (vs ! Suc i) = Some (time_Format t)) \<or>
    stop_of (vs ! Suc i) = None \<and> (\<exists>v \<in> set vs. stop_of v = Some AnnotationValueReconciliationLock)"
proof -
  have "evolves Eo En srv vs (vs ! i) (vs ! Suc i)"
    using assms(1,3) by (auto simp: history_def successively_conv_nth)
  from evolves_stop[OF this assms(2)] assms(1,3) show ?thesis
    by (auto simp: history_def culls_def unlocks_def locked_iff)
qed


text \<open>A stopped Notebook, a server that stores status updates, and the reconciliation that sends one.\<close>

abbreviation stopped2 :: notebook where
  "stopped2 \<equiv> map_meta (\<lambda>m. m\<lparr>m_resourceVersion := ''2''\<rparr>) stopped_notebook"

definition status_srv :: server where
  "status_srv a q b \<longleftrightarrow> (\<exists>n. q = RUpdateStatus (ONotebook n) \<and> version n = version a) \<and>
     b = map_meta (\<lambda>m. m\<lparr>m_resourceVersion := ''2''\<rparr>) a"

lemma status_srv_optimistic: "optimistic E W status_srv"
  by (auto simp: optimistic_def status_srv_def stop_of_def map_meta_def)

lemma stopped_stop [simp]: "stop_of stopped_notebook = Some ''2024-01-01T00:00:00Z''"
  by (simp add: stop_of_def stopped_notebook_def map_meta_def with_annotations_def mlit_def)

lemma stopped_trace:
  defines "es \<equiv> trace (snd (run_state (Reconcile locked_env (''ns'', ''nb'')) \<lparr>server = [ONotebook stopped_notebook], trace = []\<rparr>))"
  shows "answered (set es) n \<longleftrightarrow> n = stopped_notebook"
    and "\<exists>st resp. Call (RUpdateStatus (ONotebook (stopped_notebook\<lparr>nb_status := st\<rparr>))) resp \<in> set es"
  unfolding es_def answered_def
  by (auto simp add: core_defs sample_defs go_consts stopped_notebook_def map_meta_def with_annotations_def ex_disj_distrib)

lemma stopped_history: "history sample_env locked_env status_srv [stopped_notebook, stopped2]"
proof -
  let ?w = "\<lparr>server = [ONotebook stopped_notebook], trace = []\<rparr> :: (kobj list) world"
  let ?o = "run_state (Reconcile locked_env (''ns'', ''nb'')) ?w"
  obtain st resp where q: "Call (RUpdateStatus (ONotebook (stopped_notebook\<lparr>nb_status := st\<rparr>))) resp \<in> set (trace (snd ?o))"
    using stopped_trace(2) by blast
  have "wrote (Reconcile locked_env (''ns'', ''nb'')) [stopped_notebook, stopped2] (nb_key stopped_notebook)
      (RUpdateStatus (ONotebook (stopped_notebook\<lparr>nb_status := st\<rparr>)))"
    unfolding wrote_def
    by (rule exI[of _ ?w], rule exI[of _ "fst ?o"], rule exI[of _ "snd ?o"], rule exI[of _ "trace (snd ?o)"], rule exI[of _ resp])
      (use q stopped_trace(1) in simp)
  moreover have "status_srv stopped_notebook (RUpdateStatus (ONotebook (stopped_notebook\<lparr>nb_status := st\<rparr>))) stopped2"
    by (auto simp: status_srv_def version_def)
  ultimately have "evolves sample_env locked_env status_srv [stopped_notebook, stopped2] stopped_notebook stopped2"
    by (rule evolves.notebook)
  moreover have "version stopped_notebook = []" "version stopped2 = ''2''"
    by (simp_all add: version_def stopped_notebook_def map_meta_def with_annotations_def sample_defs)
  ultimately show ?thesis
    by (simp add: history_def) (simp add: map_meta_def meta_key_def)
qed

theorem stop_annotation_moves_witness:
  "stop_of stopped2 = stop_of stopped_notebook \<or> stop_of stopped_notebook = None \<and> (\<exists>t. stop_of stopped2 = Some (time_Format t)) \<or>
     stop_of stopped2 = None \<and> (\<exists>v \<in> {stopped_notebook, stopped2}. stop_of v = Some AnnotationValueReconciliationLock)"
  using stop_annotation_moves[OF stopped_history status_srv_optimistic, of 0] by simp


text \<open>
  The lock patch carries no version, so the server cannot tell that it was made from an old one: a user who
  replaces the lock by a stop of their own while the reconciliation that read the lock is on its way
  loses the stop, and the Notebook starts. A version with the lock, the user's and the one the patch leaves:
\<close>

abbreviation held2 :: notebook where
  "held2 \<equiv> map_meta (\<lambda>m. m\<lparr>m_annotations := mlit [(StoppedAnnotation, ''2024-01-01T00:00:00Z'')], m_resourceVersion := ''2''\<rparr>) locked_notebook"

abbreviation held3 :: notebook where
  "held3 \<equiv> map_meta (\<lambda>m. m\<lparr>m_annotations := mdelete StoppedAnnotation (m_annotations m), m_resourceVersion := ''3''\<rparr>) held2"

definition patch_srv :: server where
  "patch_srv a q b \<longleftrightarrow> q = RPatchRaw KNotebook (nb_key a) lock_patch \<and> b = map_meta (\<lambda>m. m\<lparr>m_annotations :=
     mdelete StoppedAnnotation (m_annotations m), m_resourceVersion := ''3''\<rparr>) a"

lemma lock_patch_loses_stop:
  "hd unlocking = Call (RGet KNotebook (''ns'', ''nb'')) (RespObj (ONotebook locked_notebook)) \<and>
   last unlocking = Call (RPatchRaw KNotebook (nb_key held2) lock_patch) (RespObj (ONotebook locked_notebook)) \<and>
   optimistic E W patch_srv \<and> patch_srv held2 (RPatchRaw KNotebook (nb_key held2) lock_patch) held3 \<and>
   stop_of locked_notebook = Some AnnotationValueReconciliationLock \<and> stop_of held2 = Some ''2024-01-01T00:00:00Z'' \<and>
   stop_of held3 = None"
proof (intro conjI)
  show "hd unlocking = Call (RGet KNotebook (''ns'', ''nb'')) (RespObj (ONotebook locked_notebook))"
  proof -
    let ?c = "Call (RGet KNotebook (''ns'', ''nb'')) (RespObj (ONotebook locked_notebook))"
    let ?w = "\<lparr>server = [ONotebook locked_notebook], trace = [?c]\<rparr> :: (kobj list) world"
    have "unlocking = trace (snd (run_state (reconcile_objects locked_env sample_odh locked_notebook) ?w))"
      by (simp add: OdhReconcile_def client_defs locked_simps finalizers_to_add_def)
    moreover have "answered {?c} locked_notebook" by (auto simp: answered_def)
    then obtain es where "trace (snd (run_state (reconcile_objects locked_env sample_odh locked_notebook) ?w)) = trace ?w @ es"
      using kept_objects[of _ _ locked_env sample_odh, unfolded justifies_def does_def] by blast
    ultimately show ?thesis by simp
  qed
  show "last unlocking = Call (RPatchRaw KNotebook (nb_key held2) lock_patch) (RespObj (ONotebook locked_notebook))"
    using unlocking_last locked_simps(3) by (auto simp: map_meta_def meta_key_def)
  show "optimistic E W patch_srv" by (auto simp: optimistic_def patch_srv_def stop_of_def map_meta_def mlookup_mdelete)
qed (simp_all add: patch_srv_def stop_of_def locked_notebook_def map_meta_def mlit_def mlookup_mdelete)

end
