(* ===== verification/RuntimeProps.thy ===== *)
theory RuntimeProps
  imports RuntimeImages Samples
begin

text \<open>
  The keys of the ConfigMap of runtime images: what \<open>formatKeyName\<close> makes of a display name, and
  when the API server takes it.
\<close>

section \<open>Shape\<close>

abbreviation no_dashes :: "string \<Rightarrow> bool" where
  "no_dashes \<equiv> successively (\<lambda>a b. \<not> (a = CHR ''-'' \<and> b = CHR ''-''))"

abbreviation single_dashes :: "bool \<Rightarrow> string \<Rightarrow> string" where
  "single_dashes \<equiv> dash_runs (\<lambda>c. c = CHR ''-'')"

lemma single_head: "single_dashes True s = c # t \<Longrightarrow> c \<noteq> CHR ''-''"
  by (induction s) (auto split: if_splits)

lemma single_dashes: "no_dashes (single_dashes b s)"
proof (induction s arbitrary: b)
  case (Cons c s)
  have "no_dashes (CHR ''-'' # single_dashes True s)"
    using Cons.IH[of True] single_head[of s] by (cases "single_dashes True s") simp_all
  moreover have "no_dashes (c # single_dashes False s)" if "c \<noteq> CHR ''-''"
    using Cons.IH[of False] that by (cases "single_dashes False s") simp_all
  ultimately show ?case using Cons.IH[of True] by simp
qed simp

lemma no_dashes_sub: "no_dashes (xs @ ys) \<Longrightarrow> no_dashes xs \<and> no_dashes ys"
  by (simp add: successively_append_iff)

lemma TrimDash_sub: "\<exists>a b. s = a @ TrimDash s @ b"
proof -
  let ?d = "\<lambda>c. c = CHR ''-''"
  obtain a where a: "s = a @ dropWhile ?d s" by (metis takeWhile_dropWhile_id)
  obtain b where "rev (dropWhile ?d s) = b @ dropWhile ?d (rev (dropWhile ?d s))" by (metis takeWhile_dropWhile_id)
  then have "dropWhile ?d s = TrimDash s @ rev b" unfolding TrimDash_def by (metis rev_append rev_rev_ident)
  with a show ?thesis by metis
qed

lemma TrimDash_ends: "TrimDash s \<noteq> [] \<Longrightarrow> hd (TrimDash s) \<noteq> CHR ''-'' \<and> last (TrimDash s) \<noteq> CHR ''-''"
proof -
  let ?d = "\<lambda>c. c = CHR ''-''" and ?u = "dropWhile (\<lambda>c. c = CHR ''-'') s"
  assume ne: "TrimDash s \<noteq> []"
  then have "dropWhile ?d (rev ?u) \<noteq> []" by (simp add: TrimDash_def)
  then have l: "last (TrimDash s) \<noteq> CHR ''-''" using hd_dropWhile[of ?d "rev ?u"] by (simp add: TrimDash_def last_rev)
  obtain b where b: "rev ?u = b @ dropWhile ?d (rev ?u)" by (metis takeWhile_dropWhile_id)
  then have "?u = TrimDash s @ rev b" unfolding TrimDash_def by (metis rev_append rev_rev_ident)
  with ne have "hd (TrimDash s) = hd ?u" "?u \<noteq> []" by (metis hd_append2, metis append_is_Nil_conv)
  with l hd_dropWhile[of ?d s] show ?thesis by metis
qed

text \<open>The names \<open>formatKeyName\<close> makes: letters, digits, dots, dashes and underscores, no dash at an end and no two in a row, and the suffix.\<close>

definition key_name :: "string \<Rightarrow> bool" where
  "key_name k \<longleftrightarrow> (\<exists>s. k = s @ ''.json'' \<and> s \<noteq> [] \<and> list_all key_char s \<and> hd s \<noteq> CHR ''-'' \<and> last s \<noteq> CHR ''-'' \<and> no_dashes s)"

lemma formatKeyName_shape: "formatKeyName s = [] \<or> key_name (formatKeyName s)"
proof -
  let ?s1 = "dash_runs (\<lambda>c. \<not> key_char c) False (ToLower s)"
  let ?s2 = "dash_runs (\<lambda>c. c = CHR ''-'') False ?s1"
  let ?t = "TrimDash ?s2"
  obtain a b where ab: "?s2 = a @ ?t @ b" using TrimDash_sub by blast
  have "no_dashes (a @ ?t @ b)" using single_dashes[of False ?s1] ab by simp
  then have d: "no_dashes ?t" using no_dashes_sub by blast
  have f: "formatKeyName s = (if ?t = [] then [] else ?t @ ''.json'')" by (simp add: formatKeyName_def Let_def)
  show ?thesis
  proof (cases "?t = []")
    case False
    then have "list_all key_char ?t" using formatKeyName_chars[of s] f by simp
    with False d TrimDash_ends[of ?s2] f show ?thesis by (auto simp: key_name_def)
  qed (simp add: f)
qed

section \<open>The ConfigMap\<close>

lemma runtime_entries_keys: "(k, v) \<in> set (runtime_entries E streams) \<Longrightarrow> key_name k"
proof -
  assume "(k, v) \<in> set (runtime_entries E streams)"
  then obtain tag where "tag_entry E tag = Some (k, v)" by (auto simp: runtime_entries_def List.map_filter_def split: if_splits)
  then have "\<exists>d. k = formatKeyName d \<and> k \<noteq> []" by (auto simp: tag_entry_def Let_def split: option.splits if_splits)
  then show ?thesis using formatKeyName_shape by blast
qed

lemma fold_upd_keys: "k |\<in>| fmdom (fold (\<lambda>(k, v) m. fmupd k v m) kvs m) \<Longrightarrow> k |\<in>| fmdom m \<or> (\<exists>v. (k, v) \<in> set kvs)"
  by (induction kvs arbitrary: m) (auto, fastforce)

text \<open>What the API server demands of a key: \<open>validation.IsConfigMapKey\<close>.\<close>

definition ConfigMapKey :: "string \<Rightarrow> bool" where
  "ConfigMapKey k \<longleftrightarrow> length k \<le> 253 \<and> k \<noteq> [] \<and> list_all key_char k \<and> k \<noteq> ''.'' \<and> \<not> HasPrefix k ''..''"

text \<open>
  C33. The keys of the ConfigMap of runtime images, whatever the image streams hold: of the shape \<open>key_name\<close>,
  and valid for the API server exactly if they are not longer than it allows and do not begin with two dots.
\<close>

theorem runtime_keys_typed:
  assumes "k |\<in>| fmdom (runtime_data E streams)"
  shows "key_name k \<and> (ConfigMapKey k \<longleftrightarrow> length k \<le> 253 \<and> \<not> HasPrefix k ''..'')"
proof -
  have k: "key_name k"
    using fold_upd_keys[OF assms[unfolded runtime_data_def]] runtime_entries_keys by auto
  then have "k \<noteq> []" "list_all key_char k" "k \<noteq> ''.''" by (auto simp: key_name_def key_char_def append_eq_Cons_conv)
  with k show ?thesis by (auto simp: ConfigMapKey_def)
qed

text \<open>An image stream with one runtime image, in an environment whose JSON library knows its metadata only.\<close>

definition image_metadata :: jvalue where
  "image_metadata = JMap (fmap_of_list [(''display_name'', JStr ''A  B'')])"

abbreviation json_env :: "(kobj list) env" where
  "json_env \<equiv> sample_env\<lparr>env_unmarshal := (\<lambda>s. if s = ''m'' then Some (JList [image_metadata]) else Some image_metadata),
     env_marshal := (\<lambda>_. ''{}'')\<rparr>"

definition image_stream :: imagestream where
  "image_stream = \<lparr>is_meta = empty_meta\<lparr>m_labels := mlit [(''opendatahub.io/runtime-image'', ''true'')]\<rparr>,
     is_specTags = [\<lparr>stag_name = ''1'', stag_annotations = mlit [(''opendatahub.io/runtime-image-metadata'', ''m'')], stag_from = Some ''img''\<rparr>],
     is_statusTags = None\<rparr>"

lemma formatted: "formatKeyName ''A  B'' = ''a-b.json''"
  by code_simp

theorem runtime_keys_typed_witness: "ConfigMapKey ''a-b.json''"
proof -
  have "runtime_data json_env [image_stream] = fmupd ''a-b.json'' ''{}'' fmempty"
    by (simp add: runtime_data_def runtime_entries_def image_stream_def is_runtime_stream_def List.map_filter_def tag_entry_def
        parseRuntimeImageMetadata_def extractDisplayName_def image_metadata_def json_get_def mget_def mlit_def formatted Let_def trueString_def)
  then have "''a-b.json'' |\<in>| fmdom (runtime_data json_env [image_stream])" by simp
  from runtime_keys_typed[OF this] show ?thesis by (simp add: HasPrefix_def)
qed

text \<open>
  A display name that begins with two dots gives a key the API server refuses, and with it the whole
  ConfigMap, so no runtime image at all arrives in the namespace.
\<close>

theorem dotted_name_refused: "formatKeyName ''..x'' = ''..x.json'' \<and> \<not> ConfigMapKey (formatKeyName ''..x'')"
proof -
  have "formatKeyName ''..x'' = ''..x.json''" by code_simp
  then show ?thesis by (simp add: ConfigMapKey_def HasPrefix_def)
qed

end
