(* ===== verification/WatchProps.thy ===== *)
theory WatchProps
  imports OdhWatches MemServer Samples
begin

text \<open>
  What the watches of the ODH controller queue: the Notebooks whose route a change of the ingress
  configuration changes, and the Notebook a route was made for.
\<close>

section \<open>The ingress of a namespace\<close>

text \<open>A resolution that depends on the namespace and the ingresses only, and the ingress it gives.\<close>

definition resolves :: "'s odh \<Rightarrow> (string \<Rightarrow> ingress list \<Rightarrow> goerr + ingress) \<Rightarrow> bool" where
  "resolves R res \<longleftrightarrow> (\<forall>ns is s. od_resolve R ns is s = (res ns is, s))"

definition ingress_of :: "'s env \<Rightarrow> 's odh \<Rightarrow> (string \<Rightarrow> ingress list \<Rightarrow> goerr + ingress) \<Rightarrow> smap \<Rightarrow> string \<Rightarrow> goerr + ingress" where
  "ingress_of E R res config ns = (case configured_ingresses E R config of Inl e \<Rightarrow> Inl e | Inr is \<Rightarrow> res ns is)"

lemma run_notebookIngress:
  assumes "resolves R res"
  shows "run_state (notebookIngress E R ns config) w = (ingress_of E R res config ns, w)"
  using assms by (auto simp: notebookIngress_def ingress_of_def resolves_def split: sum.splits)

text \<open>Only the text under the key of the configuration counts.\<close>

lemma ingress_of_key:
  assumes "mlookup old IngressesKey = mlookup new IngressesKey"
  shows "ingress_of E R res old ns = ingress_of E R res new ns"
proof -
  have "mget old IngressesKey = mget new IngressesKey"
    using assms by (simp add: mget_def)
  moreover have "configured_ingresses E R config = (let data = mget config IngressesKey in
      if data = [] then Inr (with_default E [])
      else (case od_parseIngresses R data of
          Inl e \<Rightarrow> Inl (Wrap ''parse notebook controller ingress config'' (Join [Sentinel ErrInvalidIngresses, e]))
        | Inr is \<Rightarrow> Inr (with_default E is)))" for config
    by (cases config) (simp_all add: configured_ingresses_def with_default_def mget_def)
  ultimately show ?thesis by (simp add: ingress_of_def)
qed

section \<open>A change of the configuration\<close>

definition changed_in :: "'s env \<Rightarrow> 's odh \<Rightarrow> (string \<Rightarrow> ingress list \<Rightarrow> goerr + ingress) \<Rightarrow> smap \<Rightarrow> smap \<Rightarrow> string \<Rightarrow> bool option" where
  "changed_in E R res old new ns = ingress_changed (ingress_of E R res old ns) (ingress_of E R res new ns)"

text \<open>The loop: with a cache of comparisons already made, it keeps the requests of changed namespaces.\<close>

lemma run_changed_requests:
  assumes "resolves R res" "\<And>ns b. fmlookup seen ns = Some b \<Longrightarrow> changed_in E R res old new ns = Some b"
  shows "run_state (changed_requests E R old new seen qs) w =
    (if \<exists>q \<in> set qs. changed_in E R res old new (fst q) = None then None
     else Some (filter (\<lambda>q. changed_in E R res old new (fst q) = Some True) qs), w)"
  using assms(2)
proof (induction qs arbitrary: seen)
  case (Cons q qs)
  show ?case
  proof (cases "fmlookup seen (fst q)")
    case None
    show ?thesis
    proof (cases "changed_in E R res old new (fst q)")
      case (Some b)
      then have "run_state (changed_requests E R old new (fmupd (fst q) b seen) qs) w =
        (if \<exists>q \<in> set qs. changed_in E R res old new (fst q) = None then None
         else Some (filter (\<lambda>q. changed_in E R res old new (fst q) = Some True) qs), w)"
        by (intro Cons.IH) (auto simp: Cons.prems split: if_splits)
      then show ?thesis
        using None Some by (simp add: run_notebookIngress[OF assms(1)] changed_in_def)
    qed (use None in \<open>simp add: run_notebookIngress[OF assms(1)] changed_in_def\<close>)
  next
    case (Some b)
    with Cons.IH[OF Cons.prems] Cons.prems[OF Some] show ?thesis by simp
  qed
qed simp

section \<open>The route a Notebook wants\<close>

definition wanted_route :: "'s env \<Rightarrow> 's odh \<Rightarrow> (string \<Rightarrow> ingress list \<Rightarrow> goerr + ingress) \<Rightarrow> smap \<Rightarrow> notebook \<Rightarrow> httproute option" where
  "wanted_route E R res config nb = (case ingress_of E R res config (nb_ns nb) of
     Inl _ \<Rightarrow> None
   | Inr i \<Rightarrow> Some ((if KubeRbacProxyInjectionIsEnabled (nb_meta nb) then NewNotebookKubeRbacProxyHTTPRoute
        else NewNotebookHTTPRoute) nb (od_namespace R) i))"

lemma changed_in_iff:
  assumes "changed_in E R res old new (nb_ns nb) = Some b"
  shows "b \<longleftrightarrow> wanted_route E R res old nb \<noteq> wanted_route E R res new nb"
  using assms
  by (auto simp: changed_in_def ingress_changed_def wanted_route_def NewNotebookHTTPRoute_def
      NewNotebookKubeRbacProxyHTTPRoute_def route_to_def split: sum.splits if_splits)

text \<open>
  C16. A change of the ingress configuration queues every Notebook that wants another route than before, and,
  unless an ingress could not be compared, no other.
\<close>

theorem ingress_change_requeues:
  assumes "resolves R res" "env_api E (RList KNotebook None None) (server w) = (RespList (map ONotebook nbs), s)"
    and "isIngressConfig R (OConfigMap new)" "nb \<in> set nbs"
  shows "let qs = fst (run_state (configMapHandler E R (CMUpdated old new)) w) in
    (wanted_route E R res (cm_data old) nb \<noteq> wanted_route E R res (cm_data new) nb \<longrightarrow> nb_key nb \<in> set qs) \<and>
    ((\<forall>n \<in> set nbs. changed_in E R res (cm_data old) (cm_data new) (nb_ns n) \<noteq> None) \<and> nb_key nb \<in> set qs \<longrightarrow>
       wanted_route E R res (cm_data old) nb \<noteq> wanted_route E R res (cm_data new) nb)"
proof -
  let ?c = "changed_in E R res (cm_data old) (cm_data new)"
  let ?qs = "fst (run_state (configMapHandler E R (CMUpdated old new)) w)"
  have keys [simp]: "fst (nb_key n) = nb_ns n" for n by (simp add: meta_key_def)
  have "those (map (to_notebook \<circ> ONotebook) nbs) = Some nbs" by (induction nbs) auto
  moreover define X where "X = (if \<exists>q \<in> set (map nb_key nbs). ?c (fst q) = None then None
      else Some (filter (\<lambda>q. ?c (fst q) = Some True) (map nb_key nbs)))"
  moreover have "run_state (changed_requests E R (cm_data old) (cm_data new) fmempty (map nb_key nbs)) v = (X, v)" for v
    unfolding X_def by (rule run_changed_requests[OF assms(1)]) simp
  ultimately have qs: "?qs = (if mlookup (cm_data old) IngressesKey = mlookup (cm_data new) IngressesKey then []
      else case X of None \<Rightarrow> map nb_key nbs | Some rs \<Rightarrow> rs)"
    using assms(2,3)
    by (simp add: configMapHandler_def ingressConfigRequests_def notebookRequests_def ListIn_def as_list_def)
  show ?thesis
  proof (cases "mlookup (cm_data old) IngressesKey = mlookup (cm_data new) IngressesKey")
    case True
    have "wanted_route E R res (cm_data old) nb = wanted_route E R res (cm_data new) nb"
      unfolding wanted_route_def by (simp only: ingress_of_key[OF True])
    with qs True show ?thesis by simp
  next
    case False
    then show ?thesis
    proof (cases "\<exists>n \<in> set nbs. ?c (nb_ns n) = None")
      case True
      with False qs assms(4) show ?thesis by (auto simp: Let_def X_def)
    next
      case all: False
      then obtain b where b: "?c (nb_ns nb) = Some b" using assms(4) by (cases "?c (nb_ns nb)") auto
      have "?qs = filter (\<lambda>q. ?c (fst q) = Some True) (map nb_key nbs)"
        using qs False all by (simp add: X_def)
      then have "nb_key nb \<in> set ?qs \<longleftrightarrow> b" using assms(4) b by auto
      with changed_in_iff[OF b] show ?thesis by (simp add: Let_def)
    qed
  qed
qed

definition moved_config :: configmap where
  "moved_config = \<lparr>cm_meta = empty_meta\<lparr>m_name := NotebookControllerConfigMap, m_namespace := ''odh''\<rparr>,
     cm_data = mlit [(IngressesKey, ''list'')], cm_rest = []\<rparr>"

theorem ingress_change_requeues_witness:
  "let R = sample_odh\<lparr>od_parseIngresses := (\<lambda>_. Inr [sample_ingress]), od_resolve := (\<lambda>_ is s. (Inr (hd is), s))\<rparr> in
   nb_key sample_notebook \<in> set (fst (run_state (configMapHandler sample_env R (CMUpdated (moved_config\<lparr>cm_data := None\<rparr>) moved_config))
     (sample_world [ONotebook sample_notebook])))"
proof -
  let ?R = "sample_odh\<lparr>od_parseIngresses := (\<lambda>_. Inr [sample_ingress]), od_resolve := (\<lambda>_ is s. (Inr (hd is), s))\<rparr>"
    and ?res = "\<lambda>_ is. Inr (hd is)"
  have "wanted_route sample_env ?R ?res None sample_notebook \<noteq> wanted_route sample_env ?R ?res (cm_data moved_config) sample_notebook"
    by (simp add: wanted_route_def ingress_of_def configured_ingresses_def defaultNotebookIngress_def with_default_def moved_config_def
        NewNotebookHTTPRoute_def NewNotebookKubeRbacProxyHTTPRoute_def route_to_def sample_ingress_def mget_def mlit_def go_consts
        nonempty_or_def Getenv_def)
  then show ?thesis
    using ingress_change_requeues[of ?R ?res sample_env "sample_world [ONotebook sample_notebook]" "[sample_notebook]" _ moved_config
        sample_notebook "moved_config\<lparr>cm_data := None\<rparr>"]
    by (simp add: resolves_def isIngressConfig_def moved_config_def mall_def Let_def)
qed

section \<open>The watch of routes\<close>

text \<open>The Notebook a route was made for is the one its watch queues.\<close>

theorem route_watch_finds:
  assumes "nb_name nb \<noteq> []" "nb_ns nb \<noteq> []"
  shows "httpRouteRequests R (OHTTPRoute (NewNotebookHTTPRoute nb (od_namespace R) i)) = [nb_key nb]"
  using assms
  by (simp add: httpRouteRequests_def NewNotebookHTTPRoute_def route_to_def route_meta_def route_labels_def
      meta_key_def mget_def mlit_def Let_def)

end
