(* ===== verification/ProxyRace.thy ===== *)
theory ProxyRace
  imports PodMutation
begin

text \<open>
  The variables of the cluster proxy under concurrent admissions (\<open>notebook_mutating_webhook.go\<close>).
  \<open>ClusterWideProxyIsEnabled\<close> writes them to \<open>proxyEnvVars\<close>, a map of the package that all requests
  share, and \<open>InjectProxyConfigEnvVars\<close> ranges over it; there is no lock. \<open>PodMutation\<close> models
  one request; here each access to the map is a step, and any number of requests take turns.
\<close>

section \<open>Steps\<close>

definition proxy_enabled :: "clusterproxy \<Rightarrow> bool" where
  "proxy_enabled p \<longleftrightarrow> m_name (px_meta p) = ''cluster'' \<and> px_http p \<noteq> [] \<and> px_https p \<noteq> [] \<and> px_noProxy p \<noteq> []"

definition proxy_vars :: "clusterproxy \<Rightarrow> (string \<times> string) list" where
  "proxy_vars p = [(''HTTP_PROXY'', px_http p), (''HTTPS_PROXY'', px_https p), (''NO_PROXY'', px_noProxy p)]"

text \<open>
  Where a request is: before its \<open>List\<close>, with assignments left, in the range loop with the
  entries it has visited, past the injection of these, or past the check that found no proxy.
\<close>

datatype proxy_pc =
    Listing
  | Writing "(string \<times> string) list"
  | Ranging "(string \<times> string) list"
  | Injected "(string \<times> string) list"
  | NoProxy

record shared_vars =
  sh_map :: "(string, string) fmap"
  sh_requests :: "proxy_pc list"
  sh_read :: "clusterproxy list"

definition at_pc :: "shared_vars \<Rightarrow> nat \<Rightarrow> proxy_pc \<Rightarrow> bool" where
  "at_pc s i pc \<longleftrightarrow> i < length (sh_requests s) \<and> sh_requests s ! i = pc"

definition go_to :: "nat \<Rightarrow> proxy_pc \<Rightarrow> shared_vars \<Rightarrow> shared_vars" where
  "go_to i pc s = s\<lparr>sh_requests := (sh_requests s)[i := pc]\<rparr>"

text \<open>
  \<open>sh_read\<close> records the proxies read, for the statements. A range loop visits each key at most
  once, with the value it has then, and ends when it has visited all keys.
\<close>

inductive proxy_step :: "shared_vars \<Rightarrow> shared_vars \<Rightarrow> bool" where
  listed: "\<lbrakk>at_pc s i Listing; proxy_enabled p\<rbrakk> \<Longrightarrow>
     proxy_step s ((go_to i (Writing (proxy_vars p)) s)\<lparr>sh_read := sh_read s @ [p]\<rparr>)"
| disabled: "at_pc s i Listing \<Longrightarrow> proxy_step s (go_to i NoProxy s)"
| assign: "at_pc s i (Writing ((k, v) # kvs)) \<Longrightarrow>
     proxy_step s ((go_to i (Writing kvs) s)\<lparr>sh_map := fmupd k v (sh_map s)\<rparr>)"
| assigned: "at_pc s i (Writing []) \<Longrightarrow> proxy_step s (go_to i (Ranging []) s)"
| visit: "\<lbrakk>at_pc s i (Ranging seen); fmlookup (sh_map s) k = Some v; k \<notin> fst ` set seen\<rbrakk> \<Longrightarrow>
     proxy_step s (go_to i (Ranging (seen @ [(k, v)])) s)"
| visited: "\<lbrakk>at_pc s i (Ranging seen); fset (fmdom (sh_map s)) \<subseteq> fst ` set seen\<rbrakk> \<Longrightarrow>
     proxy_step s (go_to i (Injected seen) s)"

definition idle :: "nat \<Rightarrow> shared_vars" where
  "idle n = \<lparr>sh_map = fmempty, sh_requests = replicate n Listing, sh_read = []\<rparr>"

lemma request_reads:
  "fst (run_state (ClusterWideProxyIsEnabled E) w) = Some kvs \<Longrightarrow> \<exists>p. proxy_enabled p \<and> kvs = proxy_vars p"
  by (auto simp: ClusterWideProxyIsEnabled_def ListIn_def proxy_enabled_def proxy_vars_def find_Some_iff
      split: sum.splits prod.splits)

section \<open>The invariant\<close>

definition var_names :: "string set" where
  "var_names = {''HTTP_PROXY'', ''HTTPS_PROXY'', ''NO_PROXY''}"

lemma proxy_vars_names: "fst ` set (proxy_vars p) = var_names" "distinct (map fst (proxy_vars p))"
  by (auto simp: proxy_vars_def var_names_def)

definition from_reads :: "shared_vars \<Rightarrow> string \<times> string \<Rightarrow> bool" where
  "from_reads s kv \<longleftrightarrow> (\<exists>p \<in> set (sh_read s). kv \<in> set (proxy_vars p))"

fun pc_sound :: "shared_vars \<Rightarrow> proxy_pc \<Rightarrow> bool" where
  "pc_sound s (Writing kvs) \<longleftrightarrow> (\<exists>p \<in> set (sh_read s). \<exists>ys. proxy_vars p = ys @ kvs \<and>
     fst ` set ys \<subseteq> fset (fmdom (sh_map s)))"
| "pc_sound s (Ranging seen) \<longleftrightarrow> var_names \<subseteq> fset (fmdom (sh_map s)) \<and> distinct (map fst seen) \<and>
     list_all (from_reads s) seen"
| "pc_sound s (Injected seen) \<longleftrightarrow> var_names \<subseteq> fst ` set seen \<and> distinct (map fst seen) \<and> list_all (from_reads s) seen"
| "pc_sound s _ \<longleftrightarrow> True"

definition race_sound :: "shared_vars \<Rightarrow> bool" where
  "race_sound s \<longleftrightarrow> (\<forall>k v. fmlookup (sh_map s) k = Some v \<longrightarrow> from_reads s (k, v)) \<and> list_all (pc_sound s) (sh_requests s)"

text \<open>More reads and more keys keep what holds of a request.\<close>

lemma pc_sound_mono:
  assumes "pc_sound s pc" "set (sh_read s) \<subseteq> set (sh_read t)" "fset (fmdom (sh_map s)) \<subseteq> fset (fmdom (sh_map t))"
  shows "pc_sound t pc"
proof -
  have "from_reads t kv" if "from_reads s kv" for kv
    using that assms(2) by (auto simp: from_reads_def)
  with assms show ?thesis
    by (cases pc) (simp_all add: list_all_iff, meson subset_trans subsetD, blast+)
qed

text \<open>One request goes on, and the map and the reads only grow by what is sound.\<close>

lemma race_soundI:
  assumes "race_sound s" "sh_requests t = (sh_requests s)[i := pc]" "pc_sound t pc"
    and "set (sh_read s) \<subseteq> set (sh_read t)" "fset (fmdom (sh_map s)) \<subseteq> fset (fmdom (sh_map t))"
    and "\<And>k v. fmlookup (sh_map t) k = Some v \<Longrightarrow> fmlookup (sh_map s) k = Some v \<or> from_reads t (k, v)"
  shows "race_sound t"
proof -
  have "from_reads t kv" if "from_reads s kv" for kv
    using that assms(4) by (auto simp: from_reads_def)
  with assms(1,6) have "\<forall>k v. fmlookup (sh_map t) k = Some v \<longrightarrow> from_reads t (k, v)"
    unfolding race_sound_def by blast
  moreover have "list_all (pc_sound t) (sh_requests t)"
    using assms(1,2,3) pc_sound_mono[OF _ assms(4,5)] set_update_subset_insert[of "sh_requests s" i pc]
    by (auto simp: race_sound_def list_all_iff)
  ultimately show ?thesis by (simp add: race_sound_def)
qed

lemma sound_at: "race_sound s \<Longrightarrow> at_pc s i pc \<Longrightarrow> pc_sound s pc"
  by (auto simp: race_sound_def at_pc_def list_all_length)

text \<open>A step that moves a request only.\<close>

lemma moved_sound:
  assumes "race_sound s" "pc_sound s pc"
  shows "race_sound (go_to i pc s)"
proof -
  have "pc_sound (go_to i pc s) pc" by (rule pc_sound_mono[OF assms(2)]) (simp_all add: go_to_def)
  then show ?thesis by (rule race_soundI[OF assms(1), of _ i pc, rotated]) (simp_all add: go_to_def)
qed

lemma race_step_sound: "proxy_step s t \<Longrightarrow> race_sound s \<Longrightarrow> race_sound t"
proof (induction rule: proxy_step.induct)
  case (listed s i p)
  let ?t = "(go_to i (Writing (proxy_vars p)) s)\<lparr>sh_read := sh_read s @ [p]\<rparr>"
  have "pc_sound ?t (Writing (proxy_vars p))" by (auto intro: exI[of _ "[]"])
  then show ?case
    by (rule race_soundI[OF listed.prems, of _ i "Writing (proxy_vars p)", rotated]) (simp_all add: go_to_def, blast)
next
  case (assign s i k v kvs)
  from sound_at[OF assign.prems assign.hyps] obtain p ys where p: "p \<in> set (sh_read s)" "proxy_vars p = ys @ (k, v) # kvs"
    "fst ` set ys \<subseteq> fset (fmdom (sh_map s))" by auto
  let ?t = "(go_to i (Writing kvs) s)\<lparr>sh_map := fmupd k v (sh_map s)\<rparr>"
  have "proxy_vars p = (ys @ [(k, v)]) @ kvs" "fst ` set (ys @ [(k, v)]) \<subseteq> fset (fmdom (sh_map ?t))" "p \<in> set (sh_read ?t)"
    using p by (auto simp: go_to_def)
  then have "pc_sound ?t (Writing kvs)" unfolding pc_sound.simps by blast
  moreover have kv: "from_reads ?t (k, v)"
    unfolding from_reads_def using p by (intro bexI[of _ p]) (simp_all add: go_to_def)
  moreover have "fmlookup (sh_map ?t) k' = Some v' \<Longrightarrow> fmlookup (sh_map s) k' = Some v' \<or> from_reads ?t (k', v')" for k' v'
    using kv by (cases "k' = k") (simp_all add: go_to_def)
  ultimately show ?case
    by (intro race_soundI[OF assign.prems, of ?t i "Writing kvs"]) (simp_all add: go_to_def, blast)
next
  case (assigned s i)
  from sound_at[OF assigned.prems assigned.hyps] obtain p where "fst ` set (proxy_vars p) \<subseteq> fset (fmdom (sh_map s))" by auto
  then show ?case by (intro moved_sound[OF assigned.prems]) (simp add: proxy_vars_names)
next
  case (visit s i seen k v)
  from sound_at[OF visit.prems visit.hyps(1)] visit.prems visit.hyps(2,3)
  show ?case by (intro moved_sound[OF visit.prems]) (auto simp: race_sound_def)
next
  case (visited s i seen)
  from sound_at[OF visited.prems visited.hyps(1)] visited.hyps(2)
  show ?case by (intro moved_sound[OF visited.prems]) auto
qed (simp add: moved_sound)

lemma race_reachable_sound:
  assumes "proxy_step\<^sup>*\<^sup>* (idle n) s"
  shows "race_sound s"
  using assms
proof (induction rule: rtranclp_induct)
  case base
  then show ?case by (simp add: race_sound_def idle_def list_all_iff)
qed (rule race_step_sound)

section \<open>What is injected\<close>


section \<open>A schedule\<close>

text \<open>An executable scheduler: which request goes, and what it finds.\<close>

datatype turn = Lists nat clusterproxy | Assigns nat | Visits nat string | Ends nat

fun take_turn :: "turn \<Rightarrow> shared_vars \<Rightarrow> shared_vars option" where
  "take_turn (Lists i p) s = (if at_pc s i Listing \<and> proxy_enabled p
     then Some ((go_to i (Writing (proxy_vars p)) s)\<lparr>sh_read := sh_read s @ [p]\<rparr>) else None)"
| "take_turn (Assigns i) s = (if i < length (sh_requests s) then (case sh_requests s ! i of
       Writing ((k, v) # kvs) \<Rightarrow> Some ((go_to i (Writing kvs) s)\<lparr>sh_map := fmupd k v (sh_map s)\<rparr>)
     | Writing [] \<Rightarrow> Some (go_to i (Ranging []) s)
     | _ \<Rightarrow> None) else None)"
| "take_turn (Visits i k) s = (if i < length (sh_requests s) then (case (sh_requests s ! i, fmlookup (sh_map s) k) of
       (Ranging seen, Some v) \<Rightarrow> if k \<in> fst ` set seen then None else Some (go_to i (Ranging (seen @ [(k, v)])) s)
     | _ \<Rightarrow> None) else None)"
| "take_turn (Ends i) s = (if i < length (sh_requests s) then (case sh_requests s ! i of
       Ranging seen \<Rightarrow> if fset (fmdom (sh_map s)) \<subseteq> fst ` set seen then Some (go_to i (Injected seen) s) else None
     | _ \<Rightarrow> None) else None)"

fun schedule :: "turn list \<Rightarrow> shared_vars \<Rightarrow> shared_vars option" where
  "schedule [] s = Some s"
| "schedule (t # ts) s = (case take_turn t s of None \<Rightarrow> None | Some s' \<Rightarrow> schedule ts s')"

lemma take_turn_step: "take_turn t s = Some s' \<Longrightarrow> proxy_step s s'"
  by (cases t) (auto simp: at_pc_def intro: proxy_step.intros split: if_splits proxy_pc.splits list.splits option.splits)

lemma schedule_reaches: "schedule ts s = Some s' \<Longrightarrow> proxy_step\<^sup>*\<^sup>* s s'"
  by (induction ts arbitrary: s) (auto intro: converse_rtranclp_into_rtranclp take_turn_step split: option.splits)

abbreviation proxy_at :: "string \<Rightarrow> clusterproxy" where
  "proxy_at h \<equiv> \<lparr>px_meta = empty_meta\<lparr>m_name := ''cluster''\<rparr>, px_http = h, px_https = h, px_noProxy = h\<rparr>"

definition first_visits :: "turn list" where
  "first_visits = [Lists 0 (proxy_at ''a''), Assigns 0, Assigns 0, Assigns 0, Assigns 0, Visits 0 ''HTTP_PROXY'',
     Lists 1 (proxy_at ''b'')]"

definition second_writes :: "turn list" where
  "second_writes = [Assigns 1, Assigns 1, Assigns 1, Visits 0 ''HTTPS_PROXY'', Visits 0 ''NO_PROXY'', Ends 0]"

text \<open>
  Without the agreement a Notebook can get variables of two proxies. And one request ranges over
  the map while another is about to write to it, which Go's runtime answers by stopping the process.
\<close>

theorem proxy_vars_mixed:
  "\<exists>s t kvs. proxy_step\<^sup>*\<^sup>* (idle 2) s \<and> at_pc s 0 (Ranging [(''HTTP_PROXY'', ''a'')]) \<and> at_pc s 1 (Writing (proxy_vars (proxy_at ''b''))) \<and>
    proxy_step\<^sup>*\<^sup>* s t \<and> at_pc t 0 (Injected kvs) \<and> (''HTTP_PROXY'', ''a'') \<in> set kvs \<and> (''NO_PROXY'', ''b'') \<in> set kvs"
proof -
  note run = first_visits_def second_writes_def idle_def at_pc_def go_to_def proxy_enabled_def proxy_vars_def numeral_2_eq_2
  obtain s where s: "schedule first_visits (idle 2) = Some s" "at_pc s 0 (Ranging [(''HTTP_PROXY'', ''a'')])"
    "at_pc s 1 (Writing (proxy_vars (proxy_at ''b'')))" "\<exists>t. schedule second_writes s = Some t \<and>
       at_pc t 0 (Injected [(''HTTP_PROXY'', ''a''), (''HTTPS_PROXY'', ''b''), (''NO_PROXY'', ''b'')])"
    by (simp add: run)
  from s(4) obtain t where t: "schedule second_writes s = Some t"
    "at_pc t 0 (Injected [(''HTTP_PROXY'', ''a''), (''HTTPS_PROXY'', ''b''), (''NO_PROXY'', ''b'')])" by blast
  show ?thesis
    by (rule exI[of _ s], rule exI[of _ t], rule exI, intro conjI, rule schedule_reaches[OF s(1)], rule s(2), rule s(3),
        rule schedule_reaches[OF t(1)], rule t(2)) simp_all
qed


end
