(* ===== verification/DeepCopy.thy ===== *)
theory DeepCopy
  imports KubeTypes
begin

text \<open>
  The deep copies of a Notebook (\<open>notebook-controller/api/*/zz_generated.deepcopy.go\<close>, the same text
  for the three versions), which keep the cached object apart from the one a reconciliation changes in
  place. The heap is the list of the allocated cells, an address is a position in it, and a new cell
  goes to its end. A slice is nil or the address of its array. What a struct of Kubernetes' own types
  holds, and the \<open>DeepCopyInto\<close> of these types, are parameters.
\<close>

section \<open>What a deep copy promises\<close>

text \<open>
  \<open>reach x h\<close> are the addresses \<open>x\<close> leads to, and \<open>view x h\<close> is what one sees following them. A
  deep copy allocates only; the copy looks the same and leads to new cells only. Both \<open>reach\<close>
  and \<open>view\<close> depend on the cells reached.
\<close>

definition depends :: "('a \<Rightarrow> 'c list \<Rightarrow> nat set) \<Rightarrow> ('a \<Rightarrow> 'c list \<Rightarrow> 'v) \<Rightarrow> bool" where
  "depends reach view \<longleftrightarrow> (\<forall>x h h'. reach x h \<subseteq> {..<length h} \<and> length h \<le> length h' \<and> (\<forall>a \<in> reach x h. h' ! a = h ! a) \<longrightarrow>
     reach x h' = reach x h \<and> view x h' = view x h)"

definition copies :: "('a \<Rightarrow> 'c list \<Rightarrow> nat set) \<Rightarrow> ('a \<Rightarrow> 'c list \<Rightarrow> 'v) \<Rightarrow> 'a \<Rightarrow> 'c list \<Rightarrow> 'a \<times> 'c list \<Rightarrow> bool" where
  "copies reach view x h r \<longleftrightarrow> (case r of (y, h') \<Rightarrow> (\<exists>ext. h' = h @ ext) \<and> reach y h' \<subseteq> {length h..<length h'} \<and> view y h' = view x h)"

definition deep_copier :: "('a \<Rightarrow> 'c list \<Rightarrow> 'a \<times> 'c list) \<Rightarrow> ('a \<Rightarrow> 'c list \<Rightarrow> nat set) \<Rightarrow> ('a \<Rightarrow> 'c list \<Rightarrow> 'v) \<Rightarrow> bool" where
  "deep_copier copy reach view \<longleftrightarrow> depends reach view \<and>
     (\<forall>x h. reach x h \<subseteq> {..<length h} \<longrightarrow> copies reach view x h (copy x h))"

locale deep_copy =
  fixes copy :: "'a \<Rightarrow> 'c list \<Rightarrow> 'a \<times> 'c list"
    and reach :: "'a \<Rightarrow> 'c list \<Rightarrow> nat set"
    and view :: "'a \<Rightarrow> 'c list \<Rightarrow> 'v"
  assumes deep: "deep_copier copy reach view"
begin

lemma same_cells:
  "reach x h \<subseteq> {..<length h} \<Longrightarrow> length h \<le> length h' \<Longrightarrow> (\<And>a. a \<in> reach x h \<Longrightarrow> h' ! a = h ! a) \<Longrightarrow>
   reach x h' = reach x h \<and> view x h' = view x h"
  using deep unfolding deep_copier_def depends_def by blast

lemma copied:
  assumes "reach x h \<subseteq> {..<length h}" "copy x h = (y, h')"
  obtains ext where "h' = h @ ext" "reach y h' \<subseteq> {length h..<length h'}" "view y h' = view x h"
  using deep assms unfolding deep_copier_def copies_def by fastforce

text \<open>Later allocations and writes to other cells are not seen.\<close>

lemma kept:
  assumes "reach x h \<subseteq> {..<length h}" "a \<notin> reach x h"
  shows "reach x ((h @ ext)[a := c]) = reach x h" "view x ((h @ ext)[a := c]) = view x h"
proof -
  have "(h @ ext)[a := c] ! b = h ! b" if "b \<in> reach x h" for b
    using assms that by (cases "b = a") (auto simp: nth_append nth_list_update)
  then have "reach x ((h @ ext)[a := c]) = reach x h \<and> view x ((h @ ext)[a := c]) = view x h"
    by (intro same_cells[OF assms(1)]) simp_all
  then show "reach x ((h @ ext)[a := c]) = reach x h" "view x ((h @ ext)[a := c]) = view x h" by simp_all
qed

lemma kept_append:
  assumes "reach x h \<subseteq> {..<length h}"
  shows "reach x (h @ ext) = reach x h" "view x (h @ ext) = view x h"
  using kept[OF assms, of "length (h @ ext)" ext] assms by (auto simp: list_update_beyond)

text \<open>A write through one of the two is not seen through the other.\<close>

lemma isolated:
  assumes "reach x h \<subseteq> {..<length h}" "copy x h = (y, h')"
  shows "view y h' = view x h \<and> view x h' = view x h \<and>
    (\<forall>a \<in> reach y h'. view x (h'[a := c]) = view x h) \<and> (\<forall>a \<in> reach x h. view y (h'[a := c]) = view x h)"
proof -
  obtain ext where ext: "h' = h @ ext" "reach y h' \<subseteq> {length h..<length h'}" "view y h' = view x h"
    by (rule copied[OF assms])
  have "view x (h'[a := c]) = view x h" if "a \<in> reach y h'" for a
    using kept(2)[OF assms(1), of a ext c] ext assms(1) that by fastforce
  moreover have "view y (h'[a := c]) = view y h'" if "a \<in> reach x h" for a
    using kept(2)[of y h' a "[]" c] ext assms(1) that by fastforce
  ultimately show ?thesis using ext kept_append(2)[OF assms(1)] by simp
qed

end

section \<open>The copies\<close>

record 'p h_template =
  ht_Spec :: 'p

record 'p h_spec =
  hp_Template :: "'p h_template"

record 's h_status =
  hs_Conditions :: "nat option"
  hs_ReadyReplicas :: int32
  hs_ContainerState :: 's

record ('m, 'p, 's) h_notebook =
  hn_TypeMeta :: "string \<times> string"
  hn_ObjectMeta :: 'm
  hn_Spec :: "'p h_spec"
  hn_Status :: "'s h_status"

record 'l h_list =
  hl_TypeMeta :: "string \<times> string"
  hl_ListMeta :: 'l
  hl_Items :: "nat option"

text \<open>The cells: those of Kubernetes' types, and the arrays of the two slices.\<close>

datatype ('m, 'p, 's, 'f) cell = Foreign 'f | Conditions "nbcondition list" | Items "('m, 'p, 's) h_notebook list"

fun conditions_of :: "('m, 'p, 's, 'f) cell \<Rightarrow> nbcondition list" where
  "conditions_of (Conditions cs) = cs"
| "conditions_of _ = []"

fun items_of :: "('m, 'p, 's, 'f) cell \<Rightarrow> ('m, 'p, 's) h_notebook list" where
  "items_of (Items ns) = ns"
| "items_of _ = []"

text \<open>
  The \<open>DeepCopyInto\<close> of \<open>ObjectMeta\<close>, \<open>PodSpec\<close>, \<open>ContainerState\<close> and \<open>ListMeta\<close>, and the zero value
  \<open>make\<close> fills an array of Notebooks with.
\<close>

record ('m, 'p, 's, 'l, 'f) copylib =
  cl_meta :: "'m \<Rightarrow> ('m, 'p, 's, 'f) cell list \<Rightarrow> 'm \<times> ('m, 'p, 's, 'f) cell list"
  cl_pod :: "'p \<Rightarrow> ('m, 'p, 's, 'f) cell list \<Rightarrow> 'p \<times> ('m, 'p, 's, 'f) cell list"
  cl_state :: "'s \<Rightarrow> ('m, 'p, 's, 'f) cell list \<Rightarrow> 's \<times> ('m, 'p, 's, 'f) cell list"
  cl_list :: "'l \<Rightarrow> ('m, 'p, 's, 'f) cell list \<Rightarrow> 'l \<times> ('m, 'p, 's, 'f) cell list"
  cl_zero :: "('m, 'p, 's) h_notebook"

text \<open>\<open>for i := range *in { (*in)[i].DeepCopyInto(&(*out)[i]) }\<close> with \<open>*out\<close> at \<open>a\<close>.\<close>

fun copy_elements :: "('e \<Rightarrow> 'c list \<Rightarrow> 'e \<times> 'c list) \<Rightarrow> ('e list \<Rightarrow> 'c) \<Rightarrow> 'e \<Rightarrow> nat \<Rightarrow> 'e list \<Rightarrow> 'e list \<Rightarrow> 'c list \<Rightarrow> 'c list" where
  "copy_elements copy array zero a out [] h = h"
| "copy_elements copy array zero a out (x # xs) h = (case copy x h of (y, h1) \<Rightarrow>
     copy_elements copy array zero a (out @ [y]) xs (h1[a := array (out @ [y] @ replicate (length xs) zero)]))"

definition copy_slice ::
  "('e \<Rightarrow> 'c list \<Rightarrow> 'e \<times> 'c list) \<Rightarrow> ('c \<Rightarrow> 'e list) \<Rightarrow> ('e list \<Rightarrow> 'c) \<Rightarrow> 'e \<Rightarrow> nat option \<Rightarrow> 'c list \<Rightarrow> nat option \<times> 'c list" where
  "copy_slice copy elements array zero s h = (case s of
     None \<Rightarrow> (None, h)
   | Some a \<Rightarrow> (let xs = elements (h ! a) in
       (Some (length h), copy_elements copy array zero (length h) [] xs (h @ [array (replicate (length xs) zero)]))))"

text \<open>\<open>metav1.Time\<close> copies the struct.\<close>

definition Time_DeepCopyInto :: "gotime \<Rightarrow> gotime" where
  "Time_DeepCopyInto t = t"

definition NotebookCondition_DeepCopyInto :: "nbcondition \<Rightarrow> 'c list \<Rightarrow> nbcondition \<times> 'c list" where
  "NotebookCondition_DeepCopyInto c h = (c\<lparr>nc_lastProbeTime := Time_DeepCopyInto (nc_lastProbeTime c),
     nc_lastTransitionTime := Time_DeepCopyInto (nc_lastTransitionTime c)\<rparr>, h)"

definition zero_condition :: nbcondition where
  "zero_condition = \<lparr>nc_type = [], nc_status = [], nc_lastProbeTime = zero_time, nc_lastTransitionTime = zero_time,
     nc_reason = [], nc_message = []\<rparr>"

definition NotebookStatus_DeepCopyInto ::
  "('m, 'p, 's, 'l, 'f) copylib \<Rightarrow> 's h_status \<Rightarrow> ('m, 'p, 's, 'f) cell list \<Rightarrow> 's h_status \<times> ('m, 'p, 's, 'f) cell list" where
  "NotebookStatus_DeepCopyInto K x h = (
     case copy_slice NotebookCondition_DeepCopyInto conditions_of Conditions zero_condition (hs_Conditions x) h of (cs, h1) \<Rightarrow>
     case cl_state K (hs_ContainerState x) h1 of (st, h2) \<Rightarrow>
       (x\<lparr>hs_Conditions := cs, hs_ContainerState := st\<rparr>, h2))"

definition NotebookTemplateSpec_DeepCopyInto ::
  "('m, 'p, 's, 'l, 'f) copylib \<Rightarrow> 'p h_template \<Rightarrow> ('m, 'p, 's, 'f) cell list \<Rightarrow> 'p h_template \<times> ('m, 'p, 's, 'f) cell list" where
  "NotebookTemplateSpec_DeepCopyInto K x h = (case cl_pod K (ht_Spec x) h of (p, h1) \<Rightarrow> (x\<lparr>ht_Spec := p\<rparr>, h1))"

definition NotebookSpec_DeepCopyInto ::
  "('m, 'p, 's, 'l, 'f) copylib \<Rightarrow> 'p h_spec \<Rightarrow> ('m, 'p, 's, 'f) cell list \<Rightarrow> 'p h_spec \<times> ('m, 'p, 's, 'f) cell list" where
  "NotebookSpec_DeepCopyInto K x h = (case NotebookTemplateSpec_DeepCopyInto K (hp_Template x) h of (t, h1) \<Rightarrow>
     (x\<lparr>hp_Template := t\<rparr>, h1))"

definition Notebook_DeepCopyInto ::
  "('m, 'p, 's, 'l, 'f) copylib \<Rightarrow> ('m, 'p, 's) h_notebook \<Rightarrow> ('m, 'p, 's, 'f) cell list \<Rightarrow> ('m, 'p, 's) h_notebook \<times> ('m, 'p, 's, 'f) cell list" where
  "Notebook_DeepCopyInto K x h = (
     case cl_meta K (hn_ObjectMeta x) h of (m, h1) \<Rightarrow>
     case NotebookSpec_DeepCopyInto K (hn_Spec x) h1 of (sp, h2) \<Rightarrow>
     case NotebookStatus_DeepCopyInto K (hn_Status x) h2 of (st, h3) \<Rightarrow>
       (x\<lparr>hn_TypeMeta := hn_TypeMeta x, hn_ObjectMeta := m, hn_Spec := sp, hn_Status := st\<rparr>, h3))"

definition NotebookList_DeepCopyInto ::
  "('m, 'p, 's, 'l, 'f) copylib \<Rightarrow> 'l h_list \<Rightarrow> ('m, 'p, 's, 'f) cell list \<Rightarrow> 'l h_list \<times> ('m, 'p, 's, 'f) cell list" where
  "NotebookList_DeepCopyInto K x h = (
     case cl_list K (hl_ListMeta x) h of (m, h1) \<Rightarrow>
     case copy_slice (Notebook_DeepCopyInto K) items_of Items (cl_zero K) (hl_Items x) h1 of (is, h2) \<Rightarrow>
       (x\<lparr>hl_TypeMeta := hl_TypeMeta x, hl_ListMeta := m, hl_Items := is\<rparr>, h2))"

text \<open>\<open>DeepCopy\<close> of a pointer: nil stays nil; \<open>DeepCopyObject\<close> returns the same, as an interface.\<close>

definition copy_pointer :: "('a \<Rightarrow> 'c list \<Rightarrow> 'a \<times> 'c list) \<Rightarrow> 'a option \<Rightarrow> 'c list \<Rightarrow> 'a option \<times> 'c list" where
  "copy_pointer copy p h = (case p of None \<Rightarrow> (None, h) | Some x \<Rightarrow> (case copy x h of (y, h1) \<Rightarrow> (Some y, h1)))"

definition Notebook_DeepCopy where "Notebook_DeepCopy K = copy_pointer (Notebook_DeepCopyInto K)"
definition Notebook_DeepCopyObject where "Notebook_DeepCopyObject K = Notebook_DeepCopy K"
definition NotebookCondition_DeepCopy where "NotebookCondition_DeepCopy = copy_pointer NotebookCondition_DeepCopyInto"
definition NotebookList_DeepCopy where "NotebookList_DeepCopy K = copy_pointer (NotebookList_DeepCopyInto K)"
definition NotebookList_DeepCopyObject where "NotebookList_DeepCopyObject K = NotebookList_DeepCopy K"
definition NotebookSpec_DeepCopy where "NotebookSpec_DeepCopy K = copy_pointer (NotebookSpec_DeepCopyInto K)"
definition NotebookStatus_DeepCopy where "NotebookStatus_DeepCopy K = copy_pointer (NotebookStatus_DeepCopyInto K)"
definition NotebookTemplateSpec_DeepCopy where
  "NotebookTemplateSpec_DeepCopy K = copy_pointer (NotebookTemplateSpec_DeepCopyInto K)"
section \<open>Parts\<close>

lemmas deep_same = deep_copy.same_cells[OF deep_copy.intro]
lemmas deep_copied = deep_copy.copied[OF deep_copy.intro]
lemmas deep_kept = deep_copy.kept[OF deep_copy.intro]
lemmas deep_append = deep_copy.kept_append[OF deep_copy.intro]

lemma dependsI:
  assumes "\<And>x h h'. reach x h \<subseteq> {..<length h} \<Longrightarrow> length h \<le> length h' \<Longrightarrow> (\<And>a. a \<in> reach x h \<Longrightarrow> h' ! a = h ! a) \<Longrightarrow>
    reach x h' = reach x h \<and> view x h' = view x h"
  shows "depends reach view"
  using assms unfolding depends_def by blast

lemma copiesI:
  assumes "copy x h = (y, h @ ext)" "reach y (h @ ext) \<subseteq> {length h..<length (h @ ext)}" "view y (h @ ext) = view x h"
  shows "copies reach view x h (copy x h)"
  using assms by (simp add: copies_def)

text \<open>Nothing on the heap.\<close>

lemma deep_plain: "deep_copier (\<lambda>x h. (x, h)) (\<lambda>_ _. {}) (\<lambda>x _. x)"
  by (simp add: deep_copier_def depends_def copies_def)

text \<open>A struct with one and with two fields that are copied deeply; \<open>rest\<close> are the others.\<close>

lemma deep_field:
  assumes d: "deep_copier c r v" and get: "\<And>a x. f (put a x) = a" and rest: "\<And>a x. rest (put a x) = rest x"
  shows "deep_copier (\<lambda>x h. case c (f x) h of (a, h1) \<Rightarrow> (put a x, h1)) (\<lambda>x h. r (f x) h) (\<lambda>x h. (rest x, v (f x) h))"
  unfolding deep_copier_def
proof (intro conjI allI impI)
  show "depends (\<lambda>x h. r (f x) h) (\<lambda>x h. (rest x, v (f x) h))"
  proof (rule dependsI)
    fix x h and h' :: "'b list"
    assume h: "r (f x) h \<subseteq> {..<length h}" "length h \<le> length h'" "\<And>a. a \<in> r (f x) h \<Longrightarrow> h' ! a = h ! a"
    show "r (f x) h' = r (f x) h \<and> (rest x, v (f x) h') = (rest x, v (f x) h)" using deep_same[OF d h] by simp
  qed
next
  fix x h
  assume x: "r (f x) h \<subseteq> {..<length h}"
  obtain a h1 where a: "c (f x) h = (a, h1)" by (cases "c (f x) h")
  from deep_copied[OF d x a] obtain ext where "h1 = h @ ext" "r a h1 \<subseteq> {length h..<length h1}" "v a h1 = v (f x) h" .
  then show "copies (\<lambda>x h. r (f x) h) (\<lambda>x h. (rest x, v (f x) h)) x h (case c (f x) h of (a, h1) \<Rightarrow> (put a x, h1))"
    using a by (simp add: copies_def get rest)
qed

lemma deep_fields:
  assumes d1: "deep_copier c1 r1 v1" and d2: "deep_copier c2 r2 v2"
    and get: "\<And>a b x. fa (put a b x) = a" "\<And>a b x. fb (put a b x) = b" and rest: "\<And>a b x. rest (put a b x) = rest x"
  shows "deep_copier (\<lambda>x h. case c1 (fa x) h of (a, h1) \<Rightarrow> case c2 (fb x) h1 of (b, h2) \<Rightarrow> (put a b x, h2))
    (\<lambda>x h. r1 (fa x) h \<union> r2 (fb x) h) (\<lambda>x h. (rest x, v1 (fa x) h, v2 (fb x) h))" (is "deep_copier ?c ?r ?v")
  unfolding deep_copier_def
proof (intro conjI allI impI)
  show "depends ?r ?v"
  proof (rule dependsI)
    fix x h and h' :: "'b list"
    assume h: "?r x h \<subseteq> {..<length h}" "length h \<le> length h'" "\<And>a. a \<in> ?r x h \<Longrightarrow> h' ! a = h ! a"
    have "r1 (fa x) h' = r1 (fa x) h \<and> v1 (fa x) h' = v1 (fa x) h" by (rule deep_same[OF d1]) (use h in auto)
    moreover have "r2 (fb x) h' = r2 (fb x) h \<and> v2 (fb x) h' = v2 (fb x) h" by (rule deep_same[OF d2]) (use h in auto)
    ultimately show "?r x h' = ?r x h \<and> ?v x h' = ?v x h" by simp
  qed
next
  fix x h
  assume x: "?r x h \<subseteq> {..<length h}"
  obtain a h1 where a: "c1 (fa x) h = (a, h1)" by (cases "c1 (fa x) h")
  from x have x1: "r1 (fa x) h \<subseteq> {..<length h}" and x2: "r2 (fb x) h \<subseteq> {..<length h}" by auto
  from deep_copied[OF d1 x1 a] obtain e1 where e1: "h1 = h @ e1" "r1 a h1 \<subseteq> {length h..<length h1}" "v1 a h1 = v1 (fa x) h" .
  obtain b h2 where b: "c2 (fb x) h1 = (b, h2)" by (cases "c2 (fb x) h1")
  have "r2 (fb x) h1 \<subseteq> {..<length h1}" using deep_append[OF d2 x2, of e1] x2 e1(1) by auto
  from deep_copied[OF d2 this b] obtain e2 where e2: "h2 = h1 @ e2" "r2 b h2 \<subseteq> {length h1..<length h2}" "v2 b h2 = v2 (fb x) h1" .
  have "r1 a h1 \<subseteq> {..<length h1}" using e1(2) by auto
  then have "r1 a h2 = r1 a h1" "v1 a h2 = v1 a h1" using deep_append[OF d1, of a h1 e2] e2(1) by simp_all
  moreover have "v2 (fb x) h1 = v2 (fb x) h" using deep_append[OF d2 x2, of e1] e1(1) by simp
  ultimately have "?r (put a b x) h2 \<subseteq> {length h..<length h2}" "?v (put a b x) h2 = ?v x h"
    using e1 e2 by (auto simp: get rest)
  then show "copies ?r ?v x h (?c x h)"
    using a b e1(1) e2(1) by (simp add: copies_def)
qed

section \<open>Slices\<close>

definition slice_reach :: "('e \<Rightarrow> 'c list \<Rightarrow> nat set) \<Rightarrow> ('c \<Rightarrow> 'e list) \<Rightarrow> nat option \<Rightarrow> 'c list \<Rightarrow> nat set" where
  "slice_reach r elements s h = (case s of None \<Rightarrow> {} | Some a \<Rightarrow> insert a (\<Union>x \<in> set (elements (h ! a)). r x h))"

definition slice_view :: "('e \<Rightarrow> 'c list \<Rightarrow> 'v) \<Rightarrow> ('c \<Rightarrow> 'e list) \<Rightarrow> nat option \<Rightarrow> 'c list \<Rightarrow> 'v list option" where
  "slice_view v elements s h = map_option (\<lambda>a. map (\<lambda>x. v x h) (elements (h ! a))) s"

text \<open>
  The loop: the array at \<open>a\<close> ends up with copies of the elements, which lead to cells allocated
  by the loop; every cell but \<open>a\<close> is kept.
\<close>

lemma copy_elements_deep:
  assumes "deep_copier copy r v" "a < length h" "\<And>x. x \<in> set xs \<Longrightarrow> r x h \<subseteq> {..<length h} - {a}"
    and "h ! a = array (out @ replicate (length xs) zero)"
  obtains ys ext where "copy_elements copy array zero a out xs h = (h @ ext)[a := array (out @ ys)]"
    "length ys = length xs" "\<And>i. i < length xs \<Longrightarrow> r (ys ! i) ((h @ ext)[a := array (out @ ys)]) \<subseteq> {length h..<length (h @ ext)} \<and>
      v (ys ! i) ((h @ ext)[a := array (out @ ys)]) = v (xs ! i) h"
  using assms(2,3,4)
proof (induction xs arbitrary: out h thesis)
  case Nil
  then have "copy_elements copy array zero a out [] h = (h @ [])[a := array (out @ [])]"
    by (metis append_Nil2 copy_elements.simps(1) list_update_id replicate_0 list.size(3))
  then show ?case by (rule Nil.prems(1)) simp_all
next
  case (Cons x xs)
  obtain y h1 where y: "copy x h = (y, h1)" by (cases "copy x h")
  have x: "r x h \<subseteq> {..<length h}" using Cons.prems(3)[of x] by auto
  from deep_copied[OF assms(1) x y] obtain e where e: "h1 = h @ e" "r y h1 \<subseteq> {length h..<length h1}" "v y h1 = v x h" .
  let ?h2 = "h1[a := array (out @ [y] @ replicate (length xs) zero)]"
  have kept: "r x' ?h2 = r x' h" "v x' ?h2 = v x' h" if "x' \<in> set (x # xs)" for x'
    using deep_kept[OF assms(1), of x' h a e] Cons.prems(3)[OF that] e(1) by auto
  have len: "length h \<le> length ?h2" "a < length ?h2" using e(1) Cons.prems(2) by simp_all
  obtain ys ext where ys: "copy_elements copy array zero a (out @ [y]) xs ?h2 = (?h2 @ ext)[a := array ((out @ [y]) @ ys)]"
    "length ys = length xs" "\<And>i. i < length xs \<Longrightarrow> r (ys ! i) ((?h2 @ ext)[a := array ((out @ [y]) @ ys)]) \<subseteq> {length ?h2..<length (?h2 @ ext)} \<and>
      v (ys ! i) ((?h2 @ ext)[a := array ((out @ [y]) @ ys)]) = v (xs ! i) ?h2"
  proof (rule Cons.IH)
    show "r x' ?h2 \<subseteq> {..<length ?h2} - {a}" if "x' \<in> set xs" for x'
      using kept(1)[of x'] Cons.prems(3)[of x'] that len by auto
    show "?h2 ! a = array ((out @ [y]) @ replicate (length xs) zero)" using len by simp
  qed (use len in simp_all)
  let ?h3 = "(h @ e @ ext)[a := array (out @ y # ys)]"
  have h3: "(?h2 @ ext)[a := array ((out @ [y]) @ ys)] = ?h3"
    using Cons.prems(2) e(1) by (simp add: list_update_append)
  have "r y h1 \<subseteq> {..<length h1}" "a \<notin> r y h1" using e(2) Cons.prems(2) by auto
  from deep_kept[OF assms(1) this, of ext "array (out @ y # ys)"] e have "r y ?h3 \<subseteq> {length h..<length (h @ e)}" "v y ?h3 = v x h"
    by simp_all
  moreover have "r (ys ! i) ?h3 \<subseteq> {length h..<length (h @ e @ ext)} \<and> v (ys ! i) ?h3 = v (xs ! i) h" if "i < length xs" for i
    using ys(3)[OF that] kept(2)[of "xs ! i"] that e(1) unfolding h3 by fastforce
  ultimately have "r ((y # ys) ! i) ?h3 \<subseteq> {length h..<length (h @ e @ ext)} \<and> v ((y # ys) ! i) ?h3 = v ((x # xs) ! i) h"
    if "i < length (x # xs)" for i
    using that by (cases i) auto
  then show ?case
    using ys(1,2) y h3 by (intro Cons.prems(1)[of "e @ ext" "y # ys"]) simp_all
qed

lemma deep_slice:
  assumes d: "deep_copier copy r v" and elements: "\<And>xs. elements (array xs) = xs"
  shows "deep_copier (copy_slice copy elements array zero) (slice_reach r elements) (slice_view v elements)"
  unfolding deep_copier_def
proof (intro conjI allI impI)
  show "depends (slice_reach r elements) (slice_view v elements)"
  proof (rule dependsI)
    fix s and h h' :: "'b list"
    assume h: "slice_reach r elements s h \<subseteq> {..<length h}" "length h \<le> length h'" "\<And>a. a \<in> slice_reach r elements s h \<Longrightarrow> h' ! a = h ! a"
    show "slice_reach r elements s h' = slice_reach r elements s h \<and> slice_view v elements s h' = slice_view v elements s h"
    proof (cases s)
      case (Some a)
      have "r x h' = r x h \<and> v x h' = v x h" if "x \<in> set (elements (h ! a))" for x
        using h that Some by (intro deep_same[OF d]) (auto simp: slice_reach_def)
      moreover have "h' ! a = h ! a" using h(3) Some by (simp add: slice_reach_def)
      ultimately show ?thesis using Some by (simp add: slice_reach_def slice_view_def)
    qed (simp add: slice_reach_def slice_view_def)
  qed
next
  fix s and h :: "'b list"
  assume h: "slice_reach r elements s h \<subseteq> {..<length h}"
  show "copies (slice_reach r elements) (slice_view v elements) s h (copy_slice copy elements array zero s h)"
  proof (cases s)
    case (Some a)
    let ?xs = "elements (h ! a)" and ?n = "length h"
    let ?h0 = "h @ [array (replicate (length ?xs) zero)]"
    have x: "r x h \<subseteq> {..<?n}" if "x \<in> set ?xs" for x using h that Some by (auto simp: slice_reach_def)
    have x0: "r x ?h0 = r x h" "v x ?h0 = v x h" if "x \<in> set ?xs" for x using deep_append[OF d x[OF that]] by simp_all
    obtain ys ext where ys: "copy_elements copy array zero ?n [] ?xs ?h0 = (?h0 @ ext)[?n := array ([] @ ys)]" "length ys = length ?xs"
      "\<And>i. i < length ?xs \<Longrightarrow> r (ys ! i) ((?h0 @ ext)[?n := array ([] @ ys)]) \<subseteq> {length ?h0..<length (?h0 @ ext)} \<and>
         v (ys ! i) ((?h0 @ ext)[?n := array ([] @ ys)]) = v (?xs ! i) ?h0"
    proof (rule copy_elements_deep[OF d, where array = array and zero = zero and out = "[]"])
      show "r x ?h0 \<subseteq> {..<length ?h0} - {?n}" if "x \<in> set ?xs" for x using x[OF that] x0(1)[OF that] by auto
    qed (simp_all add: nth_append)
    have upd: "(?h0 @ ext)[?n := array ([] @ ys)] = h @ array ys # ext" by simp
    have "r y (h @ array ys # ext) \<subseteq> {?n..<length (h @ array ys # ext)}" if "y \<in> set ys" for y
      using that ys(2,3) unfolding upd in_set_conv_nth by fastforce
    moreover have "map (\<lambda>y. v y (h @ array ys # ext)) ys = map (\<lambda>x. v x h) ?xs"
      using ys(2,3) x0(2) unfolding upd by (intro nth_equalityI) auto
    ultimately show ?thesis
      using Some ys(1) upd
      by (fastforce simp: copies_def copy_slice_def slice_reach_def slice_view_def elements Let_def)
  qed (simp add: copies_def copy_slice_def slice_reach_def slice_view_def)
qed

section \<open>The types of the API\<close>

interpretation condition: deep_copy NotebookCondition_DeepCopyInto "\<lambda>_ _. {}" "\<lambda>c _. c"
  by unfold_locales (simp add: deep_copier_def depends_def copies_def NotebookCondition_DeepCopyInto_def Time_DeepCopyInto_def)

definition status_reach where
  "status_reach rs x h = slice_reach (\<lambda>_ _. {}) conditions_of (hs_Conditions x) h \<union> rs (hs_ContainerState x) h"

definition status_view where
  "status_view vs x h = (hs_ReadyReplicas x, slice_view (\<lambda>c _. c) conditions_of (hs_Conditions x) h, vs (hs_ContainerState x) h)"

definition spec_reach where "spec_reach rp x h = rp (ht_Spec (hp_Template x)) h"
definition spec_view where "spec_view vp x h = ((), ((), vp (ht_Spec (hp_Template x)) h))"

definition notebook_reach where
  "notebook_reach rm rp rs x h = rm (hn_ObjectMeta x) h \<union> (spec_reach rp (hn_Spec x) h \<union> status_reach rs (hn_Status x) h)"

definition notebook_view where
  "notebook_view vm vp vs x h = (hn_TypeMeta x, vm (hn_ObjectMeta x) h, (), spec_view vp (hn_Spec x) h, status_view vs (hn_Status x) h)"

text \<open>
  With deep copies of Kubernetes' types, those of the API are deep: the slices get arrays of
  their own, the elements copies.
\<close>

locale api_copies =
  fixes K :: "('m, 'p, 's, 'l, 'f) copylib"
    and rm :: "'m \<Rightarrow> ('m, 'p, 's, 'f) cell list \<Rightarrow> nat set" and vm :: "'m \<Rightarrow> ('m, 'p, 's, 'f) cell list \<Rightarrow> 'vm"
    and rp :: "'p \<Rightarrow> ('m, 'p, 's, 'f) cell list \<Rightarrow> nat set" and vp :: "'p \<Rightarrow> ('m, 'p, 's, 'f) cell list \<Rightarrow> 'vp"
    and rs :: "'s \<Rightarrow> ('m, 'p, 's, 'f) cell list \<Rightarrow> nat set" and vs :: "'s \<Rightarrow> ('m, 'p, 's, 'f) cell list \<Rightarrow> 'vs"
    and rl :: "'l \<Rightarrow> ('m, 'p, 's, 'f) cell list \<Rightarrow> nat set" and vl :: "'l \<Rightarrow> ('m, 'p, 's, 'f) cell list \<Rightarrow> 'vl"
  assumes meta: "deep_copier (cl_meta K) rm vm" and pod: "deep_copier (cl_pod K) rp vp"
    and state: "deep_copier (cl_state K) rs vs" and list: "deep_copier (cl_list K) rl vl"
begin

lemma template: "deep_copier (NotebookTemplateSpec_DeepCopyInto K) (\<lambda>x. rp (ht_Spec x)) (\<lambda>x h. ((), vp (ht_Spec x) h))"
proof -
  have eq: "NotebookTemplateSpec_DeepCopyInto K = (\<lambda>x h. case cl_pod K (ht_Spec x) h of (p, h1) \<Rightarrow> (x\<lparr>ht_Spec := p\<rparr>, h1))"
    by (simp add: fun_eq_iff NotebookTemplateSpec_DeepCopyInto_def)
  show ?thesis unfolding eq by (rule deep_field[OF pod, where put = "\<lambda>p x. x\<lparr>ht_Spec := p\<rparr>"]) simp_all
qed

lemma spec: "deep_copier (NotebookSpec_DeepCopyInto K) (spec_reach rp) (spec_view vp)"
proof -
  have eqs: "NotebookSpec_DeepCopyInto K = (\<lambda>x h. case NotebookTemplateSpec_DeepCopyInto K (hp_Template x) h of (t, h1) \<Rightarrow> (x\<lparr>hp_Template := t\<rparr>, h1))"
    "spec_reach rp = (\<lambda>x h. rp (ht_Spec (hp_Template x)) h)" "spec_view vp = (\<lambda>x h. ((), ((), vp (ht_Spec (hp_Template x)) h)))"
    by (simp_all add: fun_eq_iff NotebookSpec_DeepCopyInto_def spec_reach_def spec_view_def)
  show ?thesis unfolding eqs by (rule deep_field[OF template, where put = "\<lambda>t x. x\<lparr>hp_Template := t\<rparr>"]) simp_all
qed

lemma status: "deep_copier (NotebookStatus_DeepCopyInto K) (status_reach rs) (status_view vs)"
proof -
  have eqs: "NotebookStatus_DeepCopyInto K = (\<lambda>x h.
      case copy_slice NotebookCondition_DeepCopyInto conditions_of Conditions zero_condition (hs_Conditions x) h of (cs, h1) \<Rightarrow>
      case cl_state K (hs_ContainerState x) h1 of (st, h2) \<Rightarrow> (x\<lparr>hs_Conditions := cs, hs_ContainerState := st\<rparr>, h2))"
    "status_reach rs = (\<lambda>x h. slice_reach (\<lambda>_ _. {}) conditions_of (hs_Conditions x) h \<union> rs (hs_ContainerState x) h)"
    "status_view vs = (\<lambda>x h. (hs_ReadyReplicas x, slice_view (\<lambda>c _. c) conditions_of (hs_Conditions x) h, vs (hs_ContainerState x) h))"
    by (simp_all add: fun_eq_iff NotebookStatus_DeepCopyInto_def status_reach_def status_view_def)
  have "deep_copier (copy_slice NotebookCondition_DeepCopyInto conditions_of Conditions zero_condition)
      (slice_reach (\<lambda>_ _. {}) conditions_of :: nat option \<Rightarrow> ('m, 'p, 's, 'f) cell list \<Rightarrow> nat set) (slice_view (\<lambda>c _. c) conditions_of)"
    by (rule deep_slice[OF condition.deep]) simp
  from deep_fields[OF this state, where put = "\<lambda>cs st x. x\<lparr>hs_Conditions := cs, hs_ContainerState := st\<rparr>"
      and fa = hs_Conditions and fb = hs_ContainerState and rest = hs_ReadyReplicas]
  show ?thesis unfolding eqs by simp
qed

lemma notebook: "deep_copier (Notebook_DeepCopyInto K) (notebook_reach rm rp rs) (notebook_view vm vp vs)"
proof -
  let ?both = "\<lambda>q h. case NotebookSpec_DeepCopyInto K (fst q) h of (sp, h1) \<Rightarrow>
      case NotebookStatus_DeepCopyInto K (snd q) h1 of (st, h2) \<Rightarrow> ((sp, st), h2)"
  have both: "deep_copier ?both (\<lambda>q h. spec_reach rp (fst q) h \<union> status_reach rs (snd q) h)
      (\<lambda>q h. ((), spec_view vp (fst q) h, status_view vs (snd q) h))"
    using deep_fields[OF spec status, where put = "\<lambda>a b q. (a, b)" and fa = fst and fb = snd and rest = "\<lambda>_. ()"] by simp
  have eqs: "Notebook_DeepCopyInto K = (\<lambda>x h. case cl_meta K (hn_ObjectMeta x) h of (m, h1) \<Rightarrow>
      case ?both (hn_Spec x, hn_Status x) h1 of (q, h2) \<Rightarrow> (x\<lparr>hn_ObjectMeta := m, hn_Spec := fst q, hn_Status := snd q\<rparr>, h2))"
    "notebook_reach rm rp rs = (\<lambda>x h. rm (hn_ObjectMeta x) h \<union>
      (spec_reach rp (fst (hn_Spec x, hn_Status x)) h \<union> status_reach rs (snd (hn_Spec x, hn_Status x)) h))"
    "notebook_view vm vp vs = (\<lambda>x h. (hn_TypeMeta x, vm (hn_ObjectMeta x) h,
      ((), spec_view vp (fst (hn_Spec x, hn_Status x)) h, status_view vs (snd (hn_Spec x, hn_Status x)) h)))"
    by (simp_all add: fun_eq_iff Notebook_DeepCopyInto_def notebook_reach_def notebook_view_def split: prod.splits)
  show ?thesis
    unfolding eqs
    by (rule deep_fields[OF meta both, where put = "\<lambda>m q x. x\<lparr>hn_ObjectMeta := m, hn_Spec := fst q, hn_Status := snd q\<rparr>"
          and fa = hn_ObjectMeta and fb = "\<lambda>x. (hn_Spec x, hn_Status x)" and rest = hn_TypeMeta]) simp_all
qed

lemma notebook_list: "deep_copier (NotebookList_DeepCopyInto K)
    (\<lambda>x h. rl (hl_ListMeta x) h \<union> slice_reach (notebook_reach rm rp rs) items_of (hl_Items x) h)
    (\<lambda>x h. (hl_TypeMeta x, vl (hl_ListMeta x) h, slice_view (notebook_view vm vp vs) items_of (hl_Items x) h))"
proof -
  have eq: "NotebookList_DeepCopyInto K = (\<lambda>x h. case cl_list K (hl_ListMeta x) h of (m, h1) \<Rightarrow>
      case copy_slice (Notebook_DeepCopyInto K) items_of Items (cl_zero K) (hl_Items x) h1 of (is, h2) \<Rightarrow>
        (x\<lparr>hl_ListMeta := m, hl_Items := is\<rparr>, h2))"
    by (simp add: fun_eq_iff NotebookList_DeepCopyInto_def split: prod.splits)
  have "deep_copier (copy_slice (Notebook_DeepCopyInto K) items_of Items (cl_zero K))
      (slice_reach (notebook_reach rm rp rs) items_of) (slice_view (notebook_view vm vp vs) items_of)"
    by (rule deep_slice[OF notebook]) simp
  from deep_fields[OF list this, where put = "\<lambda>m is x. x\<lparr>hl_ListMeta := m, hl_Items := is\<rparr>"
      and fa = hl_ListMeta and fb = hl_Items and rest = hl_TypeMeta]
  show ?thesis unfolding eq by simp
qed

end

sublocale api_copies \<subseteq> nb: deep_copy "Notebook_DeepCopyInto K" "notebook_reach rm rp rs" "notebook_view vm vp vs"
  by unfold_locales (rule notebook)

sublocale api_copies \<subseteq> nblist: deep_copy "NotebookList_DeepCopyInto K"
    "\<lambda>x h. rl (hl_ListMeta x) h \<union> slice_reach (notebook_reach rm rp rs) items_of (hl_Items x) h"
    "\<lambda>x h. (hl_TypeMeta x, vl (hl_ListMeta x) h, slice_view (notebook_view vm vp vs) items_of (hl_Items x) h)"
  by unfold_locales (rule notebook_list)

section \<open>Isolation\<close>

text \<open>
  C34. A copied Notebook looks like the original, and a write to any cell one of the two leads to
  is not seen through the other: what a reconciliation does to its copy leaves the cached
  object alone.
\<close>

theorem notebook_copy_isolated:
  assumes "deep_copier (cl_meta K) rm vm" "deep_copier (cl_pod K) rp vp" "deep_copier (cl_state K) rs vs"
    and "notebook_reach rm rp rs nb h \<subseteq> {..<length h}" "Notebook_DeepCopy K (Some nb) h = (p, h')"
  shows "\<exists>nb'. p = Some nb' \<and> notebook_view vm vp vs nb' h' = notebook_view vm vp vs nb h \<and>
    notebook_view vm vp vs nb h' = notebook_view vm vp vs nb h \<and>
    (\<forall>c. (\<forall>a \<in> notebook_reach rm rp rs nb' h'. notebook_view vm vp vs nb (h'[a := c]) = notebook_view vm vp vs nb h) \<and>
         (\<forall>a \<in> notebook_reach rm rp rs nb h. notebook_view vm vp vs nb' (h'[a := c]) = notebook_view vm vp vs nb h))"
proof -
  let ?K = "K\<lparr>cl_list := \<lambda>x h. (x, h)\<rparr>"
  have same: "Notebook_DeepCopyInto ?K = Notebook_DeepCopyInto K"
    by (simp add: fun_eq_iff Notebook_DeepCopyInto_def NotebookSpec_DeepCopyInto_def NotebookTemplateSpec_DeepCopyInto_def
        NotebookStatus_DeepCopyInto_def)
  have "api_copies ?K rm vm rp vp rs vs (\<lambda>_ _. {}) (\<lambda>x _. x)"
    using assms(1-3) deep_plain by (intro api_copies.intro) simp_all
  then have d: "deep_copier (Notebook_DeepCopyInto K) (notebook_reach rm rp rs) (notebook_view vm vp vs)"
    using api_copies.notebook same by metis
  obtain nb' where "Notebook_DeepCopyInto K nb h = (nb', h')" "p = Some nb'"
    using assms(5) by (auto simp: Notebook_DeepCopy_def copy_pointer_def split: prod.splits)
  with deep_copy.isolated[OF deep_copy.intro[OF d] assms(4)] show ?thesis by blast
qed

text \<open>
  A small library: each of Kubernetes' types is a pointer to one cell, as the annotations of an
  \<open>ObjectMeta\<close> are, and its copy a new cell with the same content.
\<close>

definition copy_cell :: "nat option \<Rightarrow> 'c list \<Rightarrow> nat option \<times> 'c list" where
  "copy_cell x h = (case x of None \<Rightarrow> (None, h) | Some a \<Rightarrow> (Some (length h), h @ [h ! a]))"

lemma deep_cell: "deep_copier copy_cell (\<lambda>x _. set_option x) (\<lambda>x h. map_option ((!) h) x)"
  by (auto simp: deep_copier_def depends_def copies_def copy_cell_def intro: option.map_cong0 split: option.splits)

abbreviation pointer_notebook :: "nat option \<Rightarrow> nat option \<Rightarrow> (nat option, nat option, nat option) h_notebook" where
  "pointer_notebook m cs \<equiv> \<lparr>hn_TypeMeta = ([], []), hn_ObjectMeta = m, hn_Spec = \<lparr>hp_Template = \<lparr>ht_Spec = None\<rparr>\<rparr>,
     hn_Status = \<lparr>hs_Conditions = cs, hs_ReadyReplicas = 0, hs_ContainerState = None\<rparr>\<rparr>"

definition pointer_copies :: "(nat option, nat option, nat option, nat option, smap) copylib" where
  "pointer_copies = \<lparr>cl_meta = copy_cell, cl_pod = copy_cell, cl_state = copy_cell, cl_list = copy_cell,
     cl_zero = pointer_notebook None None\<rparr>"

interpretation pointers: api_copies pointer_copies "\<lambda>x _. set_option x" "\<lambda>x h. map_option ((!) h) x"
    "\<lambda>x _. set_option x" "\<lambda>x h. map_option ((!) h) x" "\<lambda>x _. set_option x" "\<lambda>x h. map_option ((!) h) x"
    "\<lambda>x _. set_option x" "\<lambda>x h. map_option ((!) h) x"
  by unfold_locales (simp_all add: pointer_copies_def deep_cell)

theorem notebook_copy_isolated_witness:
  "let cached = pointer_notebook (Some 0) (Some 1); h = [Foreign (mlit [(''k'', ''v'')]), Conditions [zero_condition]];
       r = \<lambda>x _. set_option x; v = \<lambda>x h. map_option ((!) h) x
   in \<exists>copy h'. Notebook_DeepCopy pointer_copies (Some cached) h = (Some copy, h') \<and> hn_ObjectMeta copy = Some 2 \<and>
     (\<forall>c. \<forall>a \<in> notebook_reach r r r copy h'. notebook_view v v v cached (h'[a := c]) = notebook_view v v v cached h)"
proof -
  let ?cached = "pointer_notebook (Some 0) (Some 1)" and ?h = "[Foreign (mlit [(''k'', ''v'')]), Conditions [zero_condition]]"
    and ?r = "\<lambda>x _. set_option x" and ?v = "\<lambda>x h. map_option ((!) h) x"
  obtain p h' where p: "Notebook_DeepCopy pointer_copies (Some ?cached) ?h = (p, h')"
    by (cases "Notebook_DeepCopy pointer_copies (Some ?cached) ?h")
  have wf: "notebook_reach ?r ?r ?r ?cached ?h \<subseteq> {..<length ?h}"
    by (simp add: notebook_reach_def spec_reach_def status_reach_def slice_reach_def)
  have lib: "deep_copier (cl_meta pointer_copies) ?r ?v" "deep_copier (cl_pod pointer_copies) ?r ?v" "deep_copier (cl_state pointer_copies) ?r ?v"
    by (simp_all add: pointer_copies_def deep_cell)
  have "\<exists>copy. p = Some copy \<and> hn_ObjectMeta copy = Some 2"
    using p by (auto simp: Notebook_DeepCopy_def copy_pointer_def Notebook_DeepCopyInto_def pointer_copies_def copy_cell_def
        split: prod.splits)
  with notebook_copy_isolated[OF lib wf p] p show ?thesis by (auto simp: Let_def)
qed

end
