(* ===== verification/Spec2Isabelle.thy ===== *)
theory Spec2Isabelle
  imports NotebookProps CullingProps WebhookProps NetworkProps CertProps LockProps OdhWatches
    Lifecycle SidecarTlsProps GrantProps LegacyCuller TlsProps Conversion Metrics OdhCache
    StartupProps Effort Cluster RuntimeProps WatchProps ProxyRace DeepCopy
begin

text \<open>
  The two controllers that run notebook servers on a Kubernetes cluster, and the library they share:

  \<^item> the notebook controller (\<open>components/notebook-controller\<close>) keeps a StatefulSet, a Service and,
    with Istio, a VirtualService for every Notebook, mirrors the pod's state into its status, and
    stops idle Notebooks (the culler);
  \<^item> the ODH notebook controller (\<open>components/odh-notebook-controller\<close>) rewrites and checks Notebooks
    on admission (two webhooks), and keeps around each one its network policies, route, reference
    grant, role bindings, CA bundle, runtime images, Elyra Secret and authentication sidecar;
  \<^item> \<open>components/common/reconcilehelper\<close> brings a stored object to a desired one.

  The parts meet in one object. A Notebook is created with the reconciliation lock, the value
  \<open>odh-notebook-controller-lock\<close> of the stop annotation, which the webhook sets; while that
  annotation is there, whatever its value, the notebook controller asks for no replica; the ODH
  controller takes the lock away once the objects around the Notebook are in place; later the culler
  puts the time it stopped the Notebook in the same annotation, and a user takes it away to start
  again. \<open>Lifecycle\<close> composes the webhooks with the StatefulSet and the culler, \<open>LockProps\<close> the
  lock with what surrounds a Notebook, and \<open>Cluster\<close> lets all controllers write the same Notebook
  in any order, from any stale read.
\<close>

section \<open>How the code is modelled\<close>

text \<open>
  Every Go function is a definition of its name. Go's errors are the datatype \<open>goerr\<close> of \<open>Prelude\<close>,
  with API errors, wrapping, joining and panics; \<open>nil\<close> and empty maps differ (\<open>smap\<close>), writing to a
  \<open>nil\<close> map panics; structs are records, pointers options. Code that talks to the outside is a
  handler over the world of \<open>Kube\<close>, the state of the API server and the trace of calls, events, HTTP
  requests and metrics, in the state monad; \<open>ehandler\<close> adds the error result and \<open>check\<close> is
  \<open>if err != nil { return err }\<close>. The record \<open>env\<close> holds what is not under \<open>src/\<close>: the API server (any
  function of a request and its state to a response and a state, so it may refuse, race or lie), the
  clock, the environment variables, the HTTP client, \<open>encoding/json\<close>. \<open>mem_api\<close> of \<open>Kube\<close> is
  the server that keeps what it is given; witnesses and the theorems on stored objects use it.
  Other libraries are parameters of the records that use them: the admission decoder, \<open>go-cmp\<close> and
  quantities in \<open>webhook\<close>, ingress assignment, PEM and X.509 in \<open>odh\<close>, \<open>library-go\<close>'s crypto tables in \<open>tlslib\<close>,
  controller-runtime's answers in \<open>library\<close>. The order in which Go ranges over a map is a parameter too.

  Statements about a run, whatever the server answers, use one calculus each, with rules for every
  construct, collected under the name given:

  \<^item> \<open>does\<close> (\<open>wp_rules\<close>): result and trace of a run satisfy a relation; \<open>emits\<close> (\<open>emit_rules\<close>): every
    event satisfies a predicate; \<open>yields\<close> (\<open>yield_rules\<close>): every result does;
  \<^item> \<open>triple\<close> (\<open>triple_rules\<close>): pre- and postconditions on the stored objects of \<open>mem_api\<close>;
  \<^item> \<open>justifies\<close> and the locale \<open>read_based\<close>: every write is justified by answers seen before it;
  \<^item> \<open>starts\<close> (\<open>start_rules\<close>): the calls of a program before its manager runs; \<open>sends\<close> (\<open>send_rules\<close>): a
    bound on the number of calls.
\<close>

section \<open>Theories and sources\<close>

text \<open>
  Shared: \<open>Prelude\<close> (errors, maps, slice idioms), \<open>GoStrings\<close> (\<open>strings\<close>, \<open>strconv\<close>), \<open>GoTime\<close> and
  \<open>Rfc3339\<close> (\<open>time\<close>: civil dates, \<open>Duration\<close> at 64 bits, parsing and printing, and their round trip),
  \<open>GoCrypto\<close> (the suites of \<open>crypto/tls\<close>),
  \<open>KubeTypes\<close> (the API types with the fields the code uses), \<open>Kube\<close> (world, client, retries, calculi),
  \<open>MemServer\<close> (triples), \<open>Samples\<close> (objects of the witnesses).

  Library: \<open>ReconcileHelper\<close> is \<open>reconcilehelper/util.go\<close>; the locale \<open>field_copier\<close> has the contract of
  a copier under which a second reconciliation writes nothing, interpreted for Services, Deployments
  and VirtualServices. The StatefulSet copier does not meet it, which is a theorem.

  Notebook controller: \<open>NotebookCore\<close> (\<open>notebook_controller.go\<close>), \<open>Culling\<close> (\<open>culling_controller.go\<close>),
  \<open>LegacyCuller\<close> (\<open>pkg/culler\<close>, whose copies of the culler's functions are proved to agree),
  \<open>Metrics\<close> (\<open>pkg/metrics\<close>), \<open>TlsProfile\<close> (\<open>pkg/tls\<close>), \<open>Conversion\<close> (the types of \<open>api/v1\<close>
  and \<open>api/v1alpha1\<close> and their conversions; locale \<open>hub_version\<close>, interpreted for both),
  \<open>DeepCopy\<close> (the deep copies of \<open>zz_generated.deepcopy.go\<close> over an explicit heap; locales \<open>deep_copy\<close>, the
  promise, and \<open>api_copies\<close>, which gives it for the API's types from those of Kubernetes').

  Webhooks: \<open>PodEdit\<close> and \<open>PodMutation\<close> (the single mutations of \<open>notebook_mutating_webhook.go\<close>,
  \<open>notebook_feast_config.go\<close>, \<open>notebook_probe_timeout.go\<close>; the locales \<open>pod_mutator\<close> and
  \<open>compatible_mutators\<close> say when a mutation settles and when two settle together, interpreted for
  the CA bundle, Feast and the sidecar), \<open>PendingDiff\<close> (\<open>getStructDiff\<close>), \<open>ProxyRace\<close>
  (the package variable that concurrent admissions share, access by access), \<open>Webhook\<close> (both \<open>Handle\<close> methods
  and \<open>notebook_podspec_validation.go\<close>), \<open>Results\<close> (what the mutations leave alone).

  ODH controller: \<open>RuntimeImages\<close> (\<open>notebook_runtime.go\<close>), \<open>ElyraConfig\<close> (\<open>notebook_dspa_secret.go\<close>),
  \<open>Rbac\<close> (\<open>notebook_rbac.go\<close>), \<open>Mlflow\<close> (\<open>notebook_mlflow.go\<close>), \<open>ProxyTls\<close> (\<open>kube_rbac_proxy_tls.go\<close>),
  \<open>OdhBase\<close> (the reconciler's record), \<open>NetworkPolicies\<close> (\<open>notebook_network.go\<close>), \<open>Routes\<close>
  (\<open>notebook_route.go\<close>, \<open>notebook_referencegrant.go\<close>), \<open>ProxyObjects\<close> (\<open>notebook_kube_rbac_auth.go\<close>),
  \<open>TrustedCerts\<close>, \<open>OdhReconciler\<close> and \<open>OdhWatches\<close> (\<open>notebook_controller.go\<close>, \<open>notebook_oauth.go\<close>),
  \<open>OdhCache\<close> (the transformations of \<open>cache.go\<close>).

  Programs: \<open>TlsBootstrap\<close> and \<open>Startup\<close> (both \<open>main.go\<close>, the options of \<open>cache.go\<close>, and what the
  \<open>SetupWithManager\<close> methods register), \<open>Permissions\<close> (the kubebuilder markers and the OpenShift
  overlay's role).

  A theory \<open>XProps\<close> holds the properties of \<open>X\<close>; \<open>AdmissionProps\<close> those of both webhooks, \<open>CertProps\<close>,
  \<open>GrantProps\<close> and \<open>RouteProps\<close> those of the objects they are called after (locale \<open>repairable\<close>: get, create
  if missing, repair if different; interpreted for the grant, the MLflow binding and the Elyra
  Secret); \<open>Lifecycle\<close>, \<open>LockProps\<close>, \<open>Cluster\<close>, \<open>Permissions\<close> and \<open>Effort\<close> span components.
\<close>

section \<open>What is shown\<close>

text \<open>
  \<^item> Lock and stop. A created Notebook waits, locked, with all mutations applied; the lock is
    removed only once the network policies, the grant and the sidecar's objects are there; between two
    stored versions the controllers move the stop annotation only as a machine of three moves does, so a
    stopped Notebook stays stopped under any interleaving. What the update's resource version gives here
    the patch that unlocks does not have: \<open>lock_patch_loses_stop\<close> is the race.
  \<^item> Admission. A running Notebook is not restarted by an update that leaves its pod alone,
    nor by a sequence of them; the validating webhook allows exactly the secure pods, every stored
    Notebook has one, and the mutating webhook never causes a denial; mutations settle.
  \<^item> Concurrent admissions. The proxy variables injected are read ones, and right where all
    requests read the same; \<open>proxy_vars_mixed\<close> is the race otherwise.
  \<^item> Writes. What each reconciler may write, and on what reading: owned objects only, foreign
    policies never, finalizers only after their cleanup, the shared grant only with its last user,
    certificates only from the known ConfigMaps, no route on an unresolvable ingress.
  \<^item> Convergence. After a successful run the policies, the grant, the MLflow binding and others are
    stored as desired; Service reconciliation is idempotent.
  \<^item> Watches. A change of the ingress configuration queues the Notebooks whose route it changes.
  \<^item> Copies. A write through a deep copy of a Notebook is not seen in the cached object.
  \<^item> Culling. Idle Notebooks are stopped and then ask for no replica; busy kernels keep theirs.
  \<^item> TLS. The sidecar, both programs' servers and the watcher: TLS 1.2 or more where the
    profile says so, usable suites only, refusal to start where the policy cannot be read.
  \<^item> Programs. Each request, event and watch is within the roles asked for; each run ends
    after a bounded number of calls; the culler runs exactly where it is enabled.
\<close>

section \<open>Bounds and fuel\<close>

text \<open>
  Loops over slices and maps are structural. Retries count down from the steps of their backoff, which
  are 3 where the source states them, for the pull secret and the probe timeout, and the parameter
  \<open>env_steps\<close> for client-go's \<open>DefaultRetry\<close>, so the model has no fuel of its own. The bounds of \<open>Effort\<close>, with the five
  steps of \<open>DefaultRetry\<close>, are 100 calls for a run of the ODH controller, 15 for the notebook
  controller, 34 for the culler and 21 plus the number of containers for the mutating webhook, and one
  more for each object of a list the server answers with. \<open>Duration\<close> is a 64-bit word of nanoseconds and wraps, at 153722867
  minutes for the culler's idle time. The legacy culler reads at most 1 MiB of an answer. Names of
  StatefulSets are generated for Notebooks whose names are longer than 52, and those of routes where
  they would be longer than 63, as in the source.
\<close>

section \<open>What is not modelled\<close>

text \<open>
  Type registration and the hub marker (no logic of their own);
  logging and tracing; the time between two attempts of a retry; controller-runtime's manager, queue,
  cache and leader election, which are known by the calls made on them; managed fields. \<open>MustParse\<close> of
  quantities, JSON text, PEM, X.509 and the admission patch are parameters.
\<close>

end
